(* ===== verification/Prelude.thy ===== *)
theory Prelude
  imports Main "HOL-Library.List_Lexorder" "HOL-Library.Char_ord"
begin

text \<open>
  Shared vocabulary of the development: the errors the Python code raises as values of a sum type,
  the sequencing of fallible steps, insertion-ordered dictionaries as association lists, and the
  list idioms of the source (\<open>sorted(set(..))\<close>, \<open>dict.fromkeys\<close>, \<open>next(..)\<close>).
\<close>

section \<open>Errors and fallible results\<close>

text \<open>
  \<open>ForgeError c ds\<close> is the source's \<open>ForgeError\<close> with its stable code \<open>c\<close>. The prose of a
  message is not modelled; the data interpolated into it (field names, identities) is \<open>ds\<close>. The
  other constructors are Python's own exceptions, raised where the source does not guard for them.
\<close>

datatype py_error =
    ForgeError string "string list"
  | PyTypeError
  | PyKeyError string
  | PyIndexError
  | PyValueError
  | PyOSError
  | PyStopIteration

type_synonym 'a res = "py_error + 'a"

named_theorems res_simps \<open>sequencing of fallible results\<close>
named_theorems dict_simps \<open>lookups and updates of dictionaries\<close>

primrec and_then :: "'a res \<Rightarrow> ('a \<Rightarrow> 'b res) \<Rightarrow> 'b res" where
  "and_then (Inl e) f = Inl e"
| "and_then (Inr x) f = f x"

definition raise_if :: "bool \<Rightarrow> py_error \<Rightarrow> unit res" where
  "raise_if c e = (if c then Inl e else Inr ())"

primrec is_ok :: "'a res \<Rightarrow> bool" where
  "is_ok (Inl e) = False"
| "is_ok (Inr x) = True"

primrec traverse :: "('a \<Rightarrow> 'b res) \<Rightarrow> 'a list \<Rightarrow> 'b list res" where
  "traverse f [] = Inr []"
| "traverse f (x # xs) = and_then (f x) (\<lambda>y. and_then (traverse f xs) (\<lambda>ys. Inr (y # ys)))"

lemma and_then_Inr_iff [res_simps]: "and_then m f = Inr y \<longleftrightarrow> (\<exists>x. m = Inr x \<and> f x = Inr y)"
  by (cases m) auto

lemma and_then_Inl_iff:
  "and_then m f = Inl e \<longleftrightarrow> m = Inl e \<or> (\<exists>x. m = Inr x \<and> f x = Inl e)"
  by (cases m) auto

lemma raise_if_Inr_iff [res_simps]: "raise_if c e = Inr u \<longleftrightarrow> \<not> c"
  by (simp add: raise_if_def)

lemma raise_if_Inl_iff [res_simps]: "raise_if c e = Inl e' \<longleftrightarrow> c \<and> e' = e"
  by (auto simp add: raise_if_def)

lemma raise_if_False [simp]: "raise_if False e = Inr ()"
  by (simp add: raise_if_def)

lemma raise_if_True [simp]: "raise_if True e = Inl e"
  by (simp add: raise_if_def)

lemma is_ok_iff: "is_ok m \<longleftrightarrow> (\<exists>x. m = Inr x)"
  by (cases m) auto

lemma traverse_map_Inr: "(\<And>x. x \<in> set xs \<Longrightarrow> f x = Inr (g x)) \<Longrightarrow> traverse f xs = Inr (map g xs)"
  by (induction xs) auto

lemma traverse_Inr_length: "traverse f xs = Inr ys \<Longrightarrow> length ys = length xs"
  by (induction xs arbitrary: ys) (auto simp: res_simps)

lemma traverse_Inr_nth:
  "traverse f xs = Inr ys \<Longrightarrow> i < length xs \<Longrightarrow> f (xs ! i) = Inr (ys ! i)"
proof (induction xs arbitrary: ys i)
  case Nil
  then show ?case by simp
next
  case (Cons x xs)
  then show ?case by (cases i) (auto simp: res_simps)
qed

lemma traverse_append:
  "traverse f (xs @ ys) =
     and_then (traverse f xs) (\<lambda>us. and_then (traverse f ys) (\<lambda>vs. Inr (us @ vs)))"
proof (induction xs)
  case Nil
  then show ?case by (cases "traverse f ys") auto
next
  case (Cons x xs)
  then show ?case
    by (cases "f x"; cases "traverse f xs"; cases "traverse f ys") auto
qed

section \<open>Dictionaries in insertion order\<close>

type_synonym 'v dict = "(string \<times> 'v) list"

abbreviation dict_get :: "'v dict \<Rightarrow> string \<Rightarrow> 'v option" where
  "dict_get d k \<equiv> map_of d k"

abbreviation dict_keys :: "'v dict \<Rightarrow> string list" where
  "dict_keys d \<equiv> map fst d"

abbreviation dict_wf :: "'v dict \<Rightarrow> bool" where
  "dict_wf d \<equiv> distinct (dict_keys d)"

text \<open>\<open>d[k] = v\<close> keeps the position of an existing key and appends a new one.\<close>

primrec dict_set :: "string \<Rightarrow> 'v \<Rightarrow> 'v dict \<Rightarrow> 'v dict" where
  "dict_set k v [] = [(k, v)]"
| "dict_set k v (p # d) = (if fst p = k then (k, v) # d else p # dict_set k v d)"

text \<open>\<open>{key: value for key, value in d.items() if key not in ks}\<close>, and \<open>d.pop(k, None)\<close>.\<close>

definition dict_without :: "string list \<Rightarrow> 'v dict \<Rightarrow> 'v dict" where
  "dict_without ks d = filter (\<lambda>p. fst p \<notin> set ks) d"

abbreviation dict_del :: "string \<Rightarrow> 'v dict \<Rightarrow> 'v dict" where
  "dict_del k d \<equiv> dict_without [k] d"

text \<open>Python's \<open>d == e\<close> on dictionaries: equal sizes, and every item of one found in the other.\<close>

definition dict_eq :: "'v dict \<Rightarrow> 'v dict \<Rightarrow> bool" where
  "dict_eq d e \<longleftrightarrow> length d = length e \<and> list_all (\<lambda>p. dict_get e (fst p) = Some (snd p)) d"

lemma dict_get_set [simp, dict_simps]:
  "dict_get (dict_set k v d) k' = (if k' = k then Some v else dict_get d k')"
  by (induction d) auto

lemma keys_dict_set [simp]:
  "dict_keys (dict_set k v d) = (if k \<in> set (dict_keys d) then dict_keys d else dict_keys d @ [k])"
  by (induction d) auto

lemma dict_wf_set [simp, intro]: "dict_wf d \<Longrightarrow> dict_wf (dict_set k v d)"
  by simp

lemma dict_get_without [simp, dict_simps]:
  "dict_get (dict_without ks d) k = (if k \<in> set ks then None else dict_get d k)"
  by (induction d) (auto simp: dict_without_def)

lemma keys_dict_without [simp]:
  "dict_keys (dict_without ks d) = filter (\<lambda>k. k \<notin> set ks) (dict_keys d)"
  by (simp add: dict_without_def filter_map o_def)

lemma dict_wf_without [simp, intro]: "dict_wf d \<Longrightarrow> dict_wf (dict_without ks d)"
  by simp

lemma dict_without_id: "set ks \<inter> set (dict_keys d) = {} \<Longrightarrow> dict_without ks d = d"
  by (force simp: dict_without_def filter_id_conv)

lemma dict_without_append [simp]:
  "dict_without ks (d @ e) = dict_without ks d @ dict_without ks e"
  by (simp add: dict_without_def)

lemma dict_without_Cons [simp]:
  "dict_without ks (p # d) = (if fst p \<in> set ks then dict_without ks d else p # dict_without ks d)"
  by (simp add: dict_without_def)

lemma dict_without_Nil [simp]: "dict_without ks [] = []"
  by (simp add: dict_without_def)

lemma dict_set_fresh: "k \<notin> set (dict_keys d) \<Longrightarrow> dict_set k v d = d @ [(k, v)]"
  by (induction d) auto

lemma dict_get_None_iff: "dict_get d k = None \<longleftrightarrow> k \<notin> set (dict_keys d)"
  by (simp add: map_of_eq_None_iff)

lemma dict_eq_refl [simp]: "dict_wf d \<Longrightarrow> dict_eq d d"
  by (auto simp: dict_eq_def list_all_iff)

lemma dict_eq_map_le:
  assumes eq: "dict_eq d e"
  shows "map_of d \<subseteq>\<^sub>m map_of e"
  unfolding map_le_def
proof
  fix k
  assume "k \<in> dom (map_of d)"
  then obtain v where v: "map_of d k = Some v" by auto
  then have "(k, v) \<in> set d" by (rule map_of_SomeD)
  with eq v show "map_of d k = map_of e k" by (auto simp: dict_eq_def list_all_iff)
qed

lemma card_dom_map_of: "dict_wf d \<Longrightarrow> card (dom (map_of d)) = length d"
  by (metis distinct_card dom_map_of_conv_image_fst length_map set_map)

lemma dict_eq_map_of:
  assumes "dict_wf d" "dict_wf e" "dict_eq d e"
  shows "map_of d = map_of e"
proof (rule map_le_antisym)
  from assms(3) show le: "map_of d \<subseteq>\<^sub>m map_of e" by (rule dict_eq_map_le)
  have "card (dom (map_of d)) = card (dom (map_of e))"
    using assms by (simp add: card_dom_map_of dict_eq_def)
  then have "dom (map_of d) = dom (map_of e)"
    by (intro card_subset_eq finite_dom_map_of map_le_implies_dom_le le)
  with le show "map_of e \<subseteq>\<^sub>m map_of d" by (simp add: map_le_def)
qed

section \<open>List idioms of the source\<close>

text \<open>\<open>sorted(set(xs))\<close>, \<open>tuple(dict.fromkeys(xs))\<close>, and \<open>next((x for x in xs if p x), None)\<close>.\<close>

definition sorted_set :: "string list \<Rightarrow> string list" where
  "sorted_set xs = sort (remdups xs)"

definition fromkeys :: "'a list \<Rightarrow> 'a list" where
  "fromkeys xs = rev (remdups (rev xs))"

lemma set_sorted_set [simp]: "set (sorted_set xs) = set xs"
  by (simp add: sorted_set_def)

lemma sorted_set_Nil [simp]: "sorted_set [] = []"
  by (simp add: sorted_set_def)

lemma sorted_set_Nil_iff [simp]: "sorted_set xs = [] \<longleftrightarrow> xs = []"
  by (metis set_empty2 set_sorted_set)

lemma sorted_sorted_set [simp]: "sorted (sorted_set xs)"
  by (simp add: sorted_set_def)

lemma distinct_sorted_set [simp]: "distinct (sorted_set xs)"
  by (simp add: sorted_set_def)

lemma set_fromkeys [simp]: "set (fromkeys xs) = set xs"
  by (simp add: fromkeys_def)

lemma distinct_fromkeys [simp]: "distinct (fromkeys xs)"
  by (simp add: fromkeys_def)

lemma fromkeys_id: "distinct xs \<Longrightarrow> fromkeys xs = xs"
  by (simp add: fromkeys_def distinct_remdups_id)

lemma fromkeys_Nil_iff [simp]: "fromkeys xs = [] \<longleftrightarrow> xs = []"
  by (metis set_empty2 set_fromkeys)

lemma find_None_iff_all: "List.find P xs = None \<longleftrightarrow> list_all (\<lambda>x. \<not> P x) xs"
  by (auto simp: find_None_iff list_all_iff)

lemma find_append:
  "List.find P (xs @ ys) = (case List.find P xs of None \<Rightarrow> List.find P ys | Some x \<Rightarrow> Some x)"
  by (induction xs) auto

section \<open>Text\<close>

text \<open>
  A Python \<open>str\<close> is modelled by the bytes of its UTF-8 encoding. Code points are the bytes that
  are not continuation bytes, so \<open>py_len\<close> is Python's \<open>len\<close>.
\<close>

definition is_continuation :: "char \<Rightarrow> bool" where
  "is_continuation c \<longleftrightarrow> (128 :: nat) \<le> of_char c \<and> of_char c < (192 :: nat)"

definition py_len :: "string \<Rightarrow> nat" where
  "py_len s = length (filter (\<lambda>c. \<not> is_continuation c) s)"

fun join :: "string \<Rightarrow> string list \<Rightarrow> string" where
  "join sep [] = []"
| "join sep [x] = x"
| "join sep (x # y # ys) = x @ sep @ join sep (y # ys)"

definition starts_with :: "string \<Rightarrow> string \<Rightarrow> bool" where
  "starts_with p s \<longleftrightarrow> take (length p) s = p"

lemma starts_with_append [simp]: "starts_with p (p @ s)"
  by (simp add: starts_with_def)

text \<open>Decimal rendering of integers.\<close>

definition digit_char :: "nat \<Rightarrow> char" where
  "digit_char n = char_of (48 + n)"

fun nat_digits :: "nat \<Rightarrow> string" where
  "nat_digits n = (if n < 10 then [digit_char n] else nat_digits (n div 10) @ [digit_char (n mod 10)])"

declare nat_digits.simps [simp del]

definition int_str :: "int \<Rightarrow> string" where
  "int_str i = (if i < 0 then CHR ''-'' # nat_digits (nat (- i)) else nat_digits (nat i))"

end
