(* ===== verification/Json.thy ===== *)
theory Json
  imports Prelude
begin

text \<open>
  JSON values as the records and the ledger hold them (\<open>records.py\<close>: \<open>JsonValue\<close>,
  \<open>FrozenJsonValue\<close>, \<open>_freeze_json\<close>, \<open>_thaw_json\<close>, \<open>_as_json_value\<close>, \<open>json_object\<close>), and Forge's
  own deterministic encoding (\<open>serialization.py\<close>: \<open>canonical_bytes\<close>, \<open>reject_duplicate_keys\<close>).
  A finite float is represented by the text of its shortest decimal form, which is what Python
  writes for it; a non-finite one exists only in the unnormalised objects of \<open>pyobj\<close>.
\<close>

section \<open>Values\<close>

datatype json =
    JNull
  | JBool bool
  | JInt int
  | JFloat string
  | JStr string
  | JArr "json list"
  | JObj "(string \<times> json) list"

datatype fjson =
    FNull
  | FBool bool
  | FInt int
  | FFloat string
  | FStr string
  | FTuple "fjson list"
  | FMap "(string \<times> fjson) list"

datatype pykey = KStr string | KOther

datatype pyobj =
    PNone
  | PBool bool
  | PInt int
  | PFloat string
  | PNonFinite
  | PStr string
  | PSeq "pyobj list"
  | PMap "(pykey \<times> pyobj) list"
  | POther

type_synonym obj = "json dict"
type_synonym fobj = "fjson dict"

lemma size_in_pairs [termination_simp]:
  "(k, v) \<in> set kvs \<Longrightarrow> size v < Suc (size_list (size_prod (\<lambda>_. 0) size) kvs)"
  by (induction kvs) auto

lemma size_in_pairs' [termination_simp]:
  "(k, v) \<in> set kvs \<Longrightarrow> size v < size_list (size_prod (\<lambda>_. 0) size) kvs"
  by (induction kvs) auto

fun freeze_json :: "json \<Rightarrow> fjson" where
  "freeze_json JNull = FNull"
| "freeze_json (JBool b) = FBool b"
| "freeze_json (JInt i) = FInt i"
| "freeze_json (JFloat f) = FFloat f"
| "freeze_json (JStr s) = FStr s"
| "freeze_json (JArr xs) = FTuple (map freeze_json xs)"
| "freeze_json (JObj kvs) = FMap (map (\<lambda>(k, v). (k, freeze_json v)) kvs)"

fun thaw_json :: "fjson \<Rightarrow> json" where
  "thaw_json FNull = JNull"
| "thaw_json (FBool b) = JBool b"
| "thaw_json (FInt i) = JInt i"
| "thaw_json (FFloat f) = JFloat f"
| "thaw_json (FStr s) = JStr s"
| "thaw_json (FTuple xs) = JArr (map thaw_json xs)"
| "thaw_json (FMap kvs) = JObj (map (\<lambda>(k, v). (k, thaw_json v)) kvs)"

lemma thaw_freeze_json [simp]: "thaw_json (freeze_json v) = v"
  by (induction v rule: freeze_json.induct) (auto intro!: map_idI)

lemma freeze_thaw_json [simp]: "freeze_json (thaw_json v) = v"
  by (induction v rule: thaw_json.induct) (auto intro!: map_idI)

definition freeze_fields :: "obj \<Rightarrow> fobj" where
  "freeze_fields d = map (\<lambda>(k, v). (k, freeze_json v)) d"

definition thaw_fields :: "fobj \<Rightarrow> obj" where
  "thaw_fields d = map (\<lambda>(k, v). (k, thaw_json v)) d"

lemma keys_freeze_fields [simp]: "dict_keys (freeze_fields d) = dict_keys d"
  by (induction d) (auto simp: freeze_fields_def)

lemma keys_thaw_fields [simp]: "dict_keys (thaw_fields d) = dict_keys d"
  by (induction d) (auto simp: thaw_fields_def)

lemma thaw_freeze_fields [simp]: "thaw_fields (freeze_fields d) = d"
  by (induction d) (auto simp: thaw_fields_def freeze_fields_def)

lemma freeze_thaw_fields [simp]: "freeze_fields (thaw_fields d) = d"
  by (induction d) (auto simp: thaw_fields_def freeze_fields_def)

lemma get_freeze_fields [simp, dict_simps]:
  "dict_get (freeze_fields d) k = map_option freeze_json (dict_get d k)"
  by (induction d) (auto simp: freeze_fields_def)

lemma get_thaw_fields [simp, dict_simps]:
  "dict_get (thaw_fields d) k = map_option thaw_json (dict_get d k)"
  by (induction d) (auto simp: thaw_fields_def)

section \<open>Normalisation at the record boundary\<close>

text \<open>
  \<open>_as_json_value\<close>: children are visited in order and the first offending one raises; the datum of
  the error is the path. \<open>PSeq\<close> covers lists and tuples, \<open>PMap\<close> every \<open>Mapping\<close>.
\<close>

fun as_json_value :: "pyobj \<Rightarrow> string \<Rightarrow> nat \<Rightarrow> json res"
and as_json_list :: "pyobj list \<Rightarrow> string \<Rightarrow> nat \<Rightarrow> nat \<Rightarrow> json list res"
and as_json_items :: "(pykey \<times> pyobj) list \<Rightarrow> string \<Rightarrow> nat \<Rightarrow> obj res" where
  "as_json_value v path depth =
     (if 64 < depth then Inl (ForgeError ''RECORD_MALFORMED'' [path])
      else (case v of
          PNone \<Rightarrow> Inr JNull
        | PBool b \<Rightarrow> Inr (JBool b)
        | PStr s \<Rightarrow> Inr (JStr s)
        | PInt i \<Rightarrow> Inr (JInt i)
        | PFloat f \<Rightarrow> Inr (JFloat f)
        | PNonFinite \<Rightarrow> Inl (ForgeError ''RECORD_MALFORMED'' [path])
        | PSeq xs \<Rightarrow> and_then (as_json_list xs path 0 (depth + 1)) (\<lambda>ys. Inr (JArr ys))
        | PMap kvs \<Rightarrow> and_then (as_json_items kvs path (depth + 1)) (\<lambda>d. Inr (JObj d))
        | POther \<Rightarrow> Inl (ForgeError ''RECORD_MALFORMED'' [path])))"
| "as_json_list [] path i depth = Inr []"
| "as_json_list (x # xs) path i depth =
     and_then (as_json_value x (path @ ''['' @ nat_digits i @ '']'') depth)
       (\<lambda>y. and_then (as_json_list xs path (i + 1) depth) (\<lambda>ys. Inr (y # ys)))"
| "as_json_items [] path depth = Inr []"
| "as_json_items ((KOther, x) # kvs) path depth = Inl (ForgeError ''RECORD_MALFORMED'' [path])"
| "as_json_items ((KStr k, x) # kvs) path depth =
     and_then (as_json_value x (path @ ''.'' @ k) depth)
       (\<lambda>y. and_then (as_json_items kvs path depth) (\<lambda>d. Inr ((k, y) # d)))"

declare as_json_value.simps [simp del]

definition json_object :: "pyobj \<Rightarrow> string \<Rightarrow> obj res" where
  "json_object v label =
     and_then (as_json_value v label 0)
       (\<lambda>j. case j of JObj d \<Rightarrow> Inr d | _ \<Rightarrow> Inl (ForgeError ''RECORD_MALFORMED'' [label]))"

text \<open>A JSON value seen as the Python object it is.\<close>

fun py_of_json :: "json \<Rightarrow> pyobj" where
  "py_of_json JNull = PNone"
| "py_of_json (JBool b) = PBool b"
| "py_of_json (JInt i) = PInt i"
| "py_of_json (JFloat f) = PFloat f"
| "py_of_json (JStr s) = PStr s"
| "py_of_json (JArr xs) = PSeq (map py_of_json xs)"
| "py_of_json (JObj kvs) = PMap (map (\<lambda>(k, v). (KStr k, py_of_json v)) kvs)"

text \<open>Nesting depth as \<open>_as_json_value\<close> counts it: a scalar has depth 0.\<close>

fun json_depth :: "json \<Rightarrow> nat" where
  "json_depth (JArr xs) = (if xs = [] then 0 else Suc (foldr max (map json_depth xs) 0))"
| "json_depth (JObj kvs) = (if kvs = [] then 0 else Suc (foldr max (map (\<lambda>(k, v). json_depth v) kvs) 0))"
| "json_depth _ = 0"

lemma foldr_max_le_iff: "foldr max ns (0 :: nat) \<le> m \<longleftrightarrow> (\<forall>n \<in> set ns. n \<le> m)"
  by (induction ns) auto

lemma json_depth_item [simp]: "x \<in> set xs \<Longrightarrow> json_depth x < json_depth (JArr xs)"
  using foldr_max_le_iff [of "map json_depth xs" "foldr max (map json_depth xs) 0"]
  by (auto simp: less_Suc_eq_le)

lemma json_depth_member [simp]: "(k, x) \<in> set kvs \<Longrightarrow> json_depth x < json_depth (JObj kvs)"
  using foldr_max_le_iff
    [of "map (\<lambda>(k, v). json_depth v) kvs" "foldr max (map (\<lambda>(k, v). json_depth v) kvs) 0"]
  by (force simp: less_Suc_eq_le)

lemma as_json_list_embed:
  "(\<And>x path. x \<in> set xs \<Longrightarrow> as_json_value (py_of_json x) path depth = Inr x)
   \<Longrightarrow> as_json_list (map py_of_json xs) path i depth = Inr xs"
  by (induction xs arbitrary: i) auto

lemma as_json_items_embed:
  "(\<And>p path. p \<in> set kvs \<Longrightarrow> as_json_value (py_of_json (snd p)) path depth = Inr (snd p))
   \<Longrightarrow> as_json_items (map (\<lambda>(k, v). (KStr k, py_of_json v)) kvs) path depth = Inr kvs"
proof (induction kvs)
  case (Cons p kvs)
  from Cons.prems have "as_json_value (py_of_json (snd p)) q depth = Inr (snd p)" for q by simp
  with Cons show ?case by (cases p) simp
qed simp

text \<open>A JSON value within the nesting limit passes the boundary unchanged.\<close>

lemma as_json_value_embed:
  "depth + json_depth v \<le> 64 \<Longrightarrow> as_json_value (py_of_json v) path depth = Inr v"
proof (induction v arbitrary: path depth rule: py_of_json.induct)
  case (6 xs)
  have "as_json_list (map py_of_json xs) path 0 (depth + 1) = Inr xs"
  proof (rule as_json_list_embed)
    fix x path
    assume x: "x \<in> set xs"
    then have "json_depth x < json_depth (JArr xs)" by (rule json_depth_item)
    with "6.prems" have "depth + 1 + json_depth x \<le> 64" by linarith
    then show "as_json_value (py_of_json x) path (depth + 1) = Inr x"
      by (rule "6.IH" [OF x])
  qed
  with "6.prems" show ?case by (simp add: as_json_value.simps)
next
  case (7 kvs)
  have "as_json_items (map (\<lambda>(k, v). (KStr k, py_of_json v)) kvs) path (depth + 1) = Inr kvs"
  proof (rule as_json_items_embed)
    fix p path
    assume p: "p \<in> set kvs"
    then have "json_depth (snd p) < json_depth (JObj kvs)"
      by (intro json_depth_member [of "fst p"]) simp
    with "7.prems" have "depth + 1 + json_depth (snd p) \<le> 64" by linarith
    then show "as_json_value (py_of_json (snd p)) path (depth + 1) = Inr (snd p)"
      using "7.IH" [OF p, of "fst p" "snd p"] by simp
  qed
  with "7.prems" show ?case by (simp add: as_json_value.simps)
qed (simp_all add: as_json_value.simps)

text \<open>Conversely, whatever the boundary lets through is within the limit.\<close>

lemma foldr_max_bound:
  assumes "ns \<noteq> []" "\<forall>n \<in> set ns. Suc (d + n) \<le> m"
  shows "Suc (d + foldr max ns 0) \<le> m"
proof -
  from assms have "Suc d \<le> m" by (metis add_leE list.set_intros(1) neq_Nil_conv add_Suc)
  moreover from assms(2) have "foldr max ns 0 \<le> m - Suc d"
    by (subst foldr_max_le_iff) auto
  ultimately show ?thesis by simp
qed

lemma json_depth_arr_le:
  "d \<le> m \<Longrightarrow> \<forall>x \<in> set xs. Suc (d + json_depth x) \<le> m \<Longrightarrow> d + json_depth (JArr xs) \<le> m"
  using foldr_max_bound [of "map json_depth xs" d m] by simp

lemma json_depth_obj_le:
  "d \<le> m \<Longrightarrow> \<forall>p \<in> set kvs. Suc (d + json_depth (snd p)) \<le> m \<Longrightarrow> d + json_depth (JObj kvs) \<le> m"
  using foldr_max_bound [of "map (\<lambda>(k, v). json_depth v) kvs" d m] by (auto simp: split_def)

lemma as_json_value_depth:
  "as_json_value v path depth = Inr j \<Longrightarrow> depth + json_depth j \<le> 64"
  "as_json_list vs path i depth = Inr js \<Longrightarrow> \<forall>j \<in> set js. depth + json_depth j \<le> 64"
  "as_json_items kvs path depth = Inr d \<Longrightarrow> \<forall>p \<in> set d. depth + json_depth (snd p) \<le> 64"
proof (induction v path depth and vs path i depth and kvs path depth arbitrary: j and js and d
    rule: as_json_value_as_json_list_as_json_items.induct)
  case (1 v path depth)
  show ?case
  proof (cases v)
    case (PSeq xs)
    with "1.prems" obtain js where js: "as_json_list xs path 0 (depth + 1) = Inr js"
      and j: "j = JArr js" and le: "depth \<le> 64"
      by (auto simp: as_json_value.simps res_simps split: if_splits)
    from "1.IH"(1) [OF _ PSeq js] le have "\<forall>j \<in> set js. depth + 1 + json_depth j \<le> 64" by simp
    with j le show ?thesis using json_depth_arr_le [of depth 64 js] by simp
  next
    case (PMap kvs)
    with "1.prems" obtain d where d: "as_json_items kvs path (depth + 1) = Inr d"
      and j: "j = JObj d" and le: "depth \<le> 64"
      by (auto simp: as_json_value.simps res_simps split: if_splits)
    from "1.IH"(2) [OF _ PMap d] le have "\<forall>p \<in> set d. depth + 1 + json_depth (snd p) \<le> 64" by simp
    with j le show ?thesis using json_depth_obj_le [of depth 64 d] by simp
  qed (use 1 in \<open>auto simp: as_json_value.simps split: if_splits\<close>)
qed (fastforce simp: res_simps)+

end
