(* ===== verification/RecordTables.thy ===== *)
theory RecordTables
  imports Json
begin

text \<open>
  The vocabulary of \<open>records.py\<close>: the record types, the \<open>RecordSpec\<close> of each type
  (\<open>RECORD_SPECS\<close>), the trusted storage contexts, and the required text and object fields.
  A \<open>frozenset\<close> is the list of its members; only membership in it is used.
\<close>

section \<open>Record types\<close>

datatype record_type =
    EPOCH
  | CANDIDATE
  | PROVIDER_PROBE
  | WORKFLOW_ACTION
  | EXECUTION_RECEIPT_BINDING
  | EXECUTION_ASSURANCE
  | WORKFLOW_RESULT
  | VERIFIER_ACTION
  | VERIFIER_RESULT
  | CANDIDATE_DISPOSITION
  | FREEZE
  | FINAL_EVALUATION
  | RECONCILIATION
  | BUNDLE
  | COMPILER_EXPERIMENT
  | COMPILER_CANDIDATE
  | CONCEPT_EVALUATION
  | LEDGER_ENTRY

primrec rt_value :: "record_type \<Rightarrow> string" where
  "rt_value EPOCH = ''epoch''"
| "rt_value CANDIDATE = ''candidate''"
| "rt_value PROVIDER_PROBE = ''provider_probe''"
| "rt_value WORKFLOW_ACTION = ''workflow_action''"
| "rt_value EXECUTION_RECEIPT_BINDING = ''execution_receipt_binding''"
| "rt_value EXECUTION_ASSURANCE = ''execution_assurance''"
| "rt_value WORKFLOW_RESULT = ''workflow_result''"
| "rt_value VERIFIER_ACTION = ''verifier_action''"
| "rt_value VERIFIER_RESULT = ''verifier_result''"
| "rt_value CANDIDATE_DISPOSITION = ''candidate_disposition''"
| "rt_value FREEZE = ''freeze''"
| "rt_value FINAL_EVALUATION = ''final_evaluation''"
| "rt_value RECONCILIATION = ''reconciliation''"
| "rt_value BUNDLE = ''bundle''"
| "rt_value COMPILER_EXPERIMENT = ''compiler_experiment''"
| "rt_value COMPILER_CANDIDATE = ''compiler_candidate''"
| "rt_value CONCEPT_EVALUATION = ''concept_evaluation''"
| "rt_value LEDGER_ENTRY = ''ledger_entry''"

definition record_types :: "record_type list" where
  "record_types =
     [EPOCH, CANDIDATE, PROVIDER_PROBE, WORKFLOW_ACTION, EXECUTION_RECEIPT_BINDING,
      EXECUTION_ASSURANCE, WORKFLOW_RESULT, VERIFIER_ACTION, VERIFIER_RESULT,
      CANDIDATE_DISPOSITION, FREEZE, FINAL_EVALUATION, RECONCILIATION, BUNDLE,
      COMPILER_EXPERIMENT, COMPILER_CANDIDATE, CONCEPT_EVALUATION, LEDGER_ENTRY]"

text \<open>\<open>RecordType(value)\<close>, as \<open>_record_type\<close> resolves a type given by its text.\<close>

definition record_type_of :: "string \<Rightarrow> record_type res" where
  "record_type_of value =
     (case List.find (\<lambda>t. rt_value t = value) record_types of
        None \<Rightarrow> Inl (ForgeError ''RECORD_TYPE_UNKNOWN'' [value])
      | Some t \<Rightarrow> Inr t)"

section \<open>Record specifications\<close>

record record_spec =
  rs_required :: "string list"
  rs_optional :: "string list"
  rs_identity_field :: "string option"
  rs_identity_prefix :: "string option"
  rs_identity_exclusions :: "string list"
  rs_status_field :: "string option"

definition default_spec :: record_spec where
  "default_spec = \<lparr>rs_required = [], rs_optional = [''extensions''], rs_identity_field = None,
     rs_identity_prefix = None, rs_identity_exclusions = [], rs_status_field = None\<rparr>"

definition rs_allowed :: "record_spec \<Rightarrow> string list" where
  "rs_allowed spec = rs_required spec @ rs_optional spec"

definition WORKFLOW_RESULT_FIELDS :: "string list" where
  "WORKFLOW_RESULT_FIELDS =
     [''candidate_identity'', ''subject_type'', ''provider_or_evaluator_identity'', ''method'',
      ''workflow'', ''category'', ''scope'', ''environment'', ''duration_seconds'', ''status'',
      ''witnesses_or_counterexamples'', ''limitations'', ''unsupported_constructs'',
      ''stderr_diagnostic'', ''returncode'', ''recorded_at'', ''protocol_request_identity'',
      ''output_identity'']"

definition LEGACY_CANDIDATE_SUBJECT_RECORDS :: "record_type list" where
  "LEGACY_CANDIDATE_SUBJECT_RECORDS = [WORKFLOW_RESULT, FINAL_EVALUATION, BUNDLE]"

definition spec_epoch :: record_spec where
  "spec_epoch = default_spec\<lparr>
     rs_required :=
       [''baseline_identity'', ''generator_identity'', ''evaluator_identity'',
        ''contract_identity'', ''objective_identity'', ''visible_partition_identities'',
        ''authority_identities'', ''declared_authority_overlap'', ''parent_epoch'',
        ''created_at'', ''epoch_id''],
     rs_identity_field := Some ''epoch_id'',
     rs_identity_prefix := Some ''epoch:''\<rparr>"

definition spec_candidate :: record_spec where
  "spec_candidate = default_spec\<lparr>
     rs_required :=
       [''candidate_id'', ''parent_candidate'', ''changed_files'', ''declared_hypothesis'',
        ''generator_identity'', ''generator_configuration_identity'', ''source_epoch'',
        ''registered_at'', ''current_file_identities'', ''useful_benefit_objective'',
        ''objective_identity'', ''supersedes'']\<rparr>"

definition spec_provider_probe :: record_spec where
  "spec_provider_probe = default_spec\<lparr>
     rs_required :=
       [''provider_id'', ''name'', ''declared_identity'', ''declared_version'', ''command'',
        ''transport'', ''required'', ''declared_capabilities'', ''supported_constructs'',
        ''unsupported_constructs'', ''limitations'', ''expected_executable_identity'',
        ''descriptor'', ''availability'', ''status'', ''probe_kind'', ''provider_identity'',
        ''executable'', ''executable_identity'', ''probed_capabilities'', ''recorded_at'',
        ''output_identity''],
     rs_optional :=
       [''protocol_statuses'', ''cancellation'', ''health_checks'', ''duration_seconds'',
        ''stderr_diagnostic'', ''returncode'', ''error_code'', ''extensions''],
     rs_identity_field := Some ''output_identity'',
     rs_identity_prefix := Some ''forge-json-sha256-v1:'',
     rs_status_field := Some ''status''\<rparr>"

definition spec_workflow_action :: record_spec where
  "spec_workflow_action = default_spec\<lparr>
     rs_required :=
       [''workflow'', ''candidate_identity'', ''mode'', ''protocol_request_identity'',
        ''requested_at'', ''action_id''],
     rs_identity_field := Some ''action_id'',
     rs_identity_prefix := Some ''workflow-action:''\<rparr>"

definition spec_execution_receipt_binding :: record_spec where
  "spec_execution_receipt_binding = default_spec\<lparr>
     rs_required :=
       [''project_identity'', ''epoch_identity'', ''candidate_identity'', ''action_kind'',
        ''action_identity'', ''result_identity'', ''request_identity'',
        ''workflow_or_verifier'', ''runner_identity'', ''runner_kind'', ''runner_version'',
        ''worker_identity'', ''host_identity'', ''os_family'', ''architecture'',
        ''executable_identity'', ''image_identity'', ''environment_identity'',
        ''execution_scope'', ''termination_category'', ''receipt_schema_version'',
        ''receipt_identity'', ''receipt_completeness'', ''status'', ''established_properties'',
        ''mncs_receipt'', ''recorded_at'', ''binding_id''],
     rs_identity_field := Some ''binding_id'',
     rs_identity_prefix := Some ''execution-receipt-binding:'',
     rs_identity_exclusions := [''mncs_receipt''],
     rs_status_field := Some ''status''\<rparr>"

definition spec_workflow_result :: record_spec where
  "spec_workflow_result = default_spec\<lparr>
     rs_required :=
       WORKFLOW_RESULT_FIELDS,
     rs_identity_field := Some ''output_identity'',
     rs_identity_prefix := Some ''forge-json-sha256-v1:'',
     rs_status_field := Some ''status''\<rparr>"

definition spec_verifier_action :: record_spec where
  "spec_verifier_action = default_spec\<lparr>
     rs_required :=
       [''verifier_id'', ''verifier_version'', ''verifier_identity'', ''provider_id'',
        ''provider_configuration_identity'', ''method'', ''mode'', ''epoch_identity'',
        ''candidate_identity'', ''candidate_parent_identity'', ''freeze_identity'',
        ''supersedes_output_identity'', ''scope'', ''changed_paths'', ''source_region'',
        ''input_identities'', ''configuration_identity'', ''policy_identity'',
        ''environment_identity'', ''requested_at'', ''protocol_request_identity'',
        ''action_id''],
     rs_identity_field := Some ''action_id'',
     rs_identity_prefix := Some ''verifier-action:'',
     rs_identity_exclusions := [''protocol_request_identity'']\<rparr>"

definition spec_verifier_result :: record_spec where
  "spec_verifier_result = default_spec\<lparr>
     rs_required :=
       [''action_id'', ''verifier_id'', ''verifier_version'', ''verifier_identity'', ''claim'',
        ''category'', ''provider_id'', ''provider_configuration_identity'',
        ''provider_executable_identity'', ''provider_identity'',
        ''provider_response_identity'', ''method'', ''mode'', ''evidence_class'',
        ''independent_evaluation'', ''iterative_development_overlap'', ''epoch_identity'',
        ''candidate_identity'', ''candidate_parent_identity'', ''freeze_identity'',
        ''supersedes_output_identity'', ''input_identities'', ''configuration_identity'',
        ''policy_identity'', ''environment_identity'', ''status'', ''summary'', ''witnesses'',
        ''assumptions'', ''limitations'', ''unsupported_constructs'', ''dependency_envelope'',
        ''duration_seconds'', ''stderr_diagnostic'', ''returncode'', ''operational_error'',
        ''disclosure'', ''recorded_at'', ''output_identity''],
     rs_identity_field := Some ''output_identity'',
     rs_identity_prefix := Some ''forge-json-sha256-v1:'',
     rs_status_field := Some ''status''\<rparr>"

definition spec_candidate_disposition :: record_spec where
  "spec_candidate_disposition = default_spec\<lparr>
     rs_required :=
       [''candidate_identity'', ''disposition'', ''reason'', ''selection_rule'',
        ''selection_policy_identity'', ''evidence_status'', ''recorded_at'', ''disposition_id''],
     rs_identity_field := Some ''disposition_id'',
     rs_identity_prefix := Some ''disposition:'',
     rs_status_field := Some ''evidence_status''\<rparr>"

definition spec_freeze :: record_spec where
  "spec_freeze = default_spec\<lparr>
     rs_required :=
       [''candidate_identity'', ''contract_identity'', ''reference_identity'',
        ''evaluator_identity'', ''acceptance_policy_identity'', ''protected_identity'',
        ''selection_record'', ''environment'', ''required_evidence_plan'',
        ''required_evidence_plan_identity'', ''frozen_path_sets'', ''frozen_at'', ''freeze_id''],
     rs_identity_field := Some ''freeze_id'',
     rs_identity_prefix := Some ''freeze:''\<rparr>"

definition spec_final_evaluation :: record_spec where
  "spec_final_evaluation = default_spec\<lparr>
     rs_required :=
       WORKFLOW_RESULT_FIELDS,
     rs_identity_field := Some ''output_identity'',
     rs_identity_prefix := Some ''forge-json-sha256-v1:'',
     rs_status_field := Some ''status''\<rparr>"

definition spec_reconciliation :: record_spec where
  "spec_reconciliation = default_spec\<lparr>
     rs_required :=
       [''candidate_identity'', ''required_gate_aggregation'', ''categories'',
        ''conflicting_evidence'', ''stale_identities'', ''claim_limitations'',
        ''unresolved_blockers'', ''dominance'', ''normative_logic_delegated''],
     rs_status_field := Some ''required_gate_aggregation''\<rparr>"

definition spec_bundle :: record_spec where
  "spec_bundle = default_spec\<lparr>
     rs_required :=
       WORKFLOW_RESULT_FIELDS,
     rs_identity_field := Some ''output_identity'',
     rs_identity_prefix := Some ''forge-json-sha256-v1:'',
     rs_status_field := Some ''status''\<rparr>"

definition spec_compiler_experiment :: record_spec where
  "spec_compiler_experiment = default_spec\<lparr>
     rs_required :=
       [''language_contract_id'', ''language_record_identity'', ''run_identity'',
        ''compiler_identity'', ''pipeline_identity'', ''compilation_status'',
        ''language_record'', ''observation'', ''recorded_at'', ''interpretation'',
        ''assurance_status'', ''conformance_status'', ''experiment_id''],
     rs_identity_field := Some ''experiment_id'',
     rs_identity_prefix := Some ''compiler-experiment:'',
     rs_identity_exclusions := [''recorded_at'']\<rparr>"

definition spec_compiler_candidate :: record_spec where
  "spec_compiler_candidate = default_spec\<lparr>
     rs_required :=
       [''baseline_artifact_identity'', ''candidate_artifact_identity'',
        ''generator_identity'', ''declared_transformation'', ''claimed_relation'',
        ''expected_benefit'', ''protected_properties'', ''target_envelope'',
        ''required_validation'', ''semantic_status'', ''benchmark_observation'',
        ''validation'', ''policy_disposition'', ''isolated'', ''generator_certified'',
        ''interpretation'', ''assurance_status'', ''conformance_status'', ''recorded_at'',
        ''candidate_id''],
     rs_identity_field := Some ''candidate_id'',
     rs_identity_prefix := Some ''compiler-candidate:'',
     rs_identity_exclusions := [''recorded_at'']\<rparr>"

definition spec_concept_evaluation :: record_spec where
  "spec_concept_evaluation = default_spec\<lparr>
     rs_required :=
       [''concept_experiment_id'', ''candidate_identity'', ''language_profile'',
        ''compiler_identity'', ''backend_identity'', ''execution_identities'',
        ''verifier_identity'', ''verifier_version'', ''obligation'', ''evidence_identities'',
        ''status'', ''unresolved_obligations'', ''generator_identity'',
        ''evaluator_policy_identity'', ''generator_certified'', ''evaluation_material'',
        ''stable_id'', ''content_digest'', ''interpretation'', ''assurance_status'',
        ''conformance_status'', ''recorded_at'', ''evaluation_id''],
     rs_identity_field := Some ''evaluation_id'',
     rs_identity_prefix := Some ''concept-evaluation:'',
     rs_identity_exclusions := [''recorded_at'']\<rparr>"

definition spec_execution_assurance :: record_spec where
  "spec_execution_assurance = default_spec\<lparr>
     rs_required :=
       [''project_identity'', ''candidate_identity'', ''binding_identity'', ''action_kind'',
        ''action_identity'', ''requested_properties'', ''unmet_properties'', ''reasons'',
        ''assurance_status'', ''policy_identity'', ''assessed_at'', ''assessment_id''],
     rs_identity_field := Some ''assessment_id'',
     rs_identity_prefix := Some ''execution-assurance:'',
     rs_status_field := Some ''assurance_status''\<rparr>"

primrec record_specs :: "record_type \<Rightarrow> record_spec option" where
  "record_specs EPOCH = Some spec_epoch"
| "record_specs CANDIDATE = Some spec_candidate"
| "record_specs PROVIDER_PROBE = Some spec_provider_probe"
| "record_specs WORKFLOW_ACTION = Some spec_workflow_action"
| "record_specs EXECUTION_RECEIPT_BINDING = Some spec_execution_receipt_binding"
| "record_specs EXECUTION_ASSURANCE = Some spec_execution_assurance"
| "record_specs WORKFLOW_RESULT = Some spec_workflow_result"
| "record_specs VERIFIER_ACTION = Some spec_verifier_action"
| "record_specs VERIFIER_RESULT = Some spec_verifier_result"
| "record_specs CANDIDATE_DISPOSITION = Some spec_candidate_disposition"
| "record_specs FREEZE = Some spec_freeze"
| "record_specs FINAL_EVALUATION = Some spec_final_evaluation"
| "record_specs RECONCILIATION = Some spec_reconciliation"
| "record_specs BUNDLE = Some spec_bundle"
| "record_specs COMPILER_EXPERIMENT = Some spec_compiler_experiment"
| "record_specs COMPILER_CANDIDATE = Some spec_compiler_candidate"
| "record_specs CONCEPT_EVALUATION = Some spec_concept_evaluation"
| "record_specs LEDGER_ENTRY = None"

section \<open>Storage contexts\<close>

definition LEDGER_REQUIRED :: "string list" where
  "LEDGER_REQUIRED =
     [''sequence'', ''timestamp'', ''kind'', ''previous_hash'', ''payload'', ''entry_hash'']"

definition LEDGER_KIND_TYPES :: "record_type dict" where
  "LEDGER_KIND_TYPES =
     [(''epoch'', EPOCH),
      (''candidate'', CANDIDATE),
      (''provider_probe'', PROVIDER_PROBE),
      (''workflow_action'', WORKFLOW_ACTION),
      (''execution_receipt_binding'', EXECUTION_RECEIPT_BINDING),
      (''execution_assurance'', EXECUTION_ASSURANCE),
      (''result'', WORKFLOW_RESULT),
      (''verifier_action'', VERIFIER_ACTION),
      (''verifier_result'', VERIFIER_RESULT),
      (''disposition'', CANDIDATE_DISPOSITION),
      (''freeze'', FREEZE),
      (''evaluation'', FINAL_EVALUATION),
      (''bundle'', BUNDLE),
      (''compiler_experiment'', COMPILER_EXPERIMENT),
      (''compiler_candidate'', COMPILER_CANDIDATE),
      (''concept_evaluation'', CONCEPT_EVALUATION)]"

definition RECORD_GROUP_TYPES :: "record_type dict" where
  "RECORD_GROUP_TYPES =
     [(''epochs'', EPOCH),
      (''candidates'', CANDIDATE),
      (''provider-probes'', PROVIDER_PROBE),
      (''workflow-actions'', WORKFLOW_ACTION),
      (''execution-receipt-bindings'', EXECUTION_RECEIPT_BINDING),
      (''assessments'', EXECUTION_ASSURANCE),
      (''results'', WORKFLOW_RESULT),
      (''verifier-actions'', VERIFIER_ACTION),
      (''verifier-results'', VERIFIER_RESULT),
      (''dispositions'', CANDIDATE_DISPOSITION),
      (''freezes'', FREEZE),
      (''evaluations'', FINAL_EVALUATION),
      (''bundles'', BUNDLE),
      (''compiler-experiments'', COMPILER_EXPERIMENT),
      (''concept-evaluations'', CONCEPT_EVALUATION),
      (''compiler-candidates'', COMPILER_CANDIDATE)]"

record persisted_context =
  prc_group :: string
  prc_ledger_kind :: string
  prc_record_type :: record_type
  prc_identity_field :: string

definition PERSISTED_RECORD_CONTEXTS :: "persisted_context dict" where
  "PERSISTED_RECORD_CONTEXTS =
     [(''epoch'', \<lparr>prc_group = ''epochs'', prc_ledger_kind = ''epoch'', prc_record_type = EPOCH,
         prc_identity_field = ''epoch_id''\<rparr>),
      (''candidate'', \<lparr>prc_group = ''candidates'', prc_ledger_kind = ''candidate'', prc_record_type = CANDIDATE,
         prc_identity_field = ''candidate_id''\<rparr>),
      (''provider_probe'', \<lparr>prc_group = ''provider-probes'', prc_ledger_kind = ''provider_probe'', prc_record_type = PROVIDER_PROBE,
         prc_identity_field = ''output_identity''\<rparr>),
      (''workflow_action'', \<lparr>prc_group = ''workflow-actions'', prc_ledger_kind = ''workflow_action'', prc_record_type = WORKFLOW_ACTION,
         prc_identity_field = ''action_id''\<rparr>),
      (''execution_receipt_binding'', \<lparr>prc_group = ''execution-receipt-bindings'', prc_ledger_kind = ''execution_receipt_binding'', prc_record_type = EXECUTION_RECEIPT_BINDING,
         prc_identity_field = ''binding_id''\<rparr>),
      (''execution_assurance'', \<lparr>prc_group = ''assessments'', prc_ledger_kind = ''execution_assurance'', prc_record_type = EXECUTION_ASSURANCE,
         prc_identity_field = ''assessment_id''\<rparr>),
      (''result'', \<lparr>prc_group = ''results'', prc_ledger_kind = ''result'', prc_record_type = WORKFLOW_RESULT,
         prc_identity_field = ''output_identity''\<rparr>),
      (''verifier_action'', \<lparr>prc_group = ''verifier-actions'', prc_ledger_kind = ''verifier_action'', prc_record_type = VERIFIER_ACTION,
         prc_identity_field = ''action_id''\<rparr>),
      (''verifier_result'', \<lparr>prc_group = ''verifier-results'', prc_ledger_kind = ''verifier_result'', prc_record_type = VERIFIER_RESULT,
         prc_identity_field = ''output_identity''\<rparr>),
      (''disposition'', \<lparr>prc_group = ''dispositions'', prc_ledger_kind = ''disposition'', prc_record_type = CANDIDATE_DISPOSITION,
         prc_identity_field = ''disposition_id''\<rparr>),
      (''freeze'', \<lparr>prc_group = ''freezes'', prc_ledger_kind = ''freeze'', prc_record_type = FREEZE,
         prc_identity_field = ''freeze_id''\<rparr>),
      (''evaluation'', \<lparr>prc_group = ''evaluations'', prc_ledger_kind = ''evaluation'', prc_record_type = FINAL_EVALUATION,
         prc_identity_field = ''output_identity''\<rparr>),
      (''bundle'', \<lparr>prc_group = ''bundles'', prc_ledger_kind = ''bundle'', prc_record_type = BUNDLE,
         prc_identity_field = ''output_identity''\<rparr>),
      (''compiler_experiment'', \<lparr>prc_group = ''compiler-experiments'', prc_ledger_kind = ''compiler_experiment'', prc_record_type = COMPILER_EXPERIMENT,
         prc_identity_field = ''experiment_id''\<rparr>),
      (''compiler_candidate'', \<lparr>prc_group = ''compiler-candidates'', prc_ledger_kind = ''compiler_candidate'', prc_record_type = COMPILER_CANDIDATE,
         prc_identity_field = ''candidate_id''\<rparr>),
      (''concept_evaluation'', \<lparr>prc_group = ''concept-evaluations'', prc_ledger_kind = ''concept_evaluation'', prc_record_type = CONCEPT_EVALUATION,
         prc_identity_field = ''evaluation_id''\<rparr>)]"

definition persisted_record_context :: "string \<Rightarrow> string \<Rightarrow> persisted_context res" where
  "persisted_record_context record_group ledger_kind =
     (case dict_get PERSISTED_RECORD_CONTEXTS ledger_kind of
        None \<Rightarrow> Inl (ForgeError ''RECORD_CONTEXT'' [ledger_kind])
      | Some context \<Rightarrow>
          if prc_group context \<noteq> record_group
          then Inl (ForgeError ''RECORD_CONTEXT'' [ledger_kind, prc_group context, record_group])
          else Inr context)"

text \<open>\<open>re.sub(r"[^A-Za-z0-9._-]", "_", identity)\<close> replaces code points, not bytes.\<close>

definition is_safe_char :: "char \<Rightarrow> bool" where
  "is_safe_char c \<longleftrightarrow>
     c \<in> set ''ABCDEFGHIJKLMNOPQRSTUVWXYZabcdefghijklmnopqrstuvwxyz0123456789._-''"

definition safe_record_identity :: "string \<Rightarrow> string res" where
  "safe_record_identity identity =
     (if identity = [] \<or> identity = ''.'' \<or> identity = ''..''
      then Inl (ForgeError ''RECORD_IDENTITY'' [])
      else let safe_identity =
             map (\<lambda>c. if is_safe_char c then c else CHR ''_'')
               (filter (\<lambda>c. \<not> is_continuation c) identity)
        in if safe_identity = [] then Inl (ForgeError ''RECORD_IDENTITY'' [])
           else Inr safe_identity)"

definition immutable_record_path :: "string \<Rightarrow> string \<Rightarrow> string \<Rightarrow> string res" where
  "immutable_record_path state_dir record_group identity =
     and_then (safe_record_identity identity)
       (\<lambda>safe. Inr (state_dir @ ''/records/'' @ record_group @ ''/'' @ safe @ ''.json''))"

section \<open>Required field types\<close>

definition strings_epoch :: "string list" where
  "strings_epoch =
     [''baseline_identity'', ''generator_identity'', ''evaluator_identity'',
      ''contract_identity'', ''objective_identity'', ''created_at'', ''epoch_id'']"

definition strings_candidate :: "string list" where
  "strings_candidate =
     [''candidate_id'', ''declared_hypothesis'', ''generator_identity'',
      ''generator_configuration_identity'', ''source_epoch'', ''registered_at'',
      ''useful_benefit_objective'', ''objective_identity'']"

definition strings_provider_probe :: "string list" where
  "strings_provider_probe =
     [''provider_id'', ''name'', ''transport'', ''availability'', ''status'', ''probe_kind'',
      ''recorded_at'', ''output_identity'']"

definition strings_workflow_action :: "string list" where
  "strings_workflow_action =
     [''workflow'', ''candidate_identity'', ''mode'', ''requested_at'', ''action_id'']"

definition strings_execution_receipt_binding :: "string list" where
  "strings_execution_receipt_binding =
     [''project_identity'', ''candidate_identity'', ''action_kind'', ''action_identity'',
      ''workflow_or_verifier'', ''runner_identity'', ''runner_kind'', ''runner_version'',
      ''os_family'', ''architecture'', ''environment_identity'', ''execution_scope'',
      ''termination_category'', ''receipt_completeness'', ''status'', ''recorded_at'',
      ''binding_id'']"

definition strings_execution_assurance :: "string list" where
  "strings_execution_assurance =
     [''project_identity'', ''candidate_identity'', ''binding_identity'', ''action_kind'',
      ''action_identity'', ''assurance_status'', ''assessed_at'', ''assessment_id'']"

definition strings_workflow_result :: "string list" where
  "strings_workflow_result =
     [''candidate_identity'', ''subject_type'', ''method'', ''workflow'', ''category'',
      ''scope'', ''status'', ''recorded_at'', ''output_identity'']"

definition strings_verifier_action :: "string list" where
  "strings_verifier_action =
     [''verifier_id'', ''verifier_version'', ''verifier_identity'', ''provider_id'',
      ''provider_configuration_identity'', ''method'', ''mode'', ''epoch_identity'',
      ''candidate_identity'', ''scope'', ''configuration_identity'', ''policy_identity'',
      ''environment_identity'', ''requested_at'', ''protocol_request_identity'', ''action_id'']"

definition strings_verifier_result :: "string list" where
  "strings_verifier_result =
     [''action_id'', ''verifier_id'', ''verifier_version'', ''verifier_identity'', ''claim'',
      ''category'', ''provider_id'', ''provider_configuration_identity'', ''method'', ''mode'',
      ''evidence_class'', ''epoch_identity'', ''candidate_identity'',
      ''configuration_identity'', ''policy_identity'', ''environment_identity'', ''status'',
      ''summary'', ''disclosure'', ''recorded_at'', ''output_identity'']"

definition strings_candidate_disposition :: "string list" where
  "strings_candidate_disposition =
     [''candidate_identity'', ''disposition'', ''reason'', ''selection_rule'',
      ''selection_policy_identity'', ''evidence_status'', ''recorded_at'', ''disposition_id'']"

definition strings_freeze :: "string list" where
  "strings_freeze =
     [''candidate_identity'', ''contract_identity'', ''reference_identity'',
      ''evaluator_identity'', ''acceptance_policy_identity'', ''protected_identity'',
      ''selection_record'', ''environment'', ''required_evidence_plan'',
      ''required_evidence_plan_identity'', ''frozen_at'', ''freeze_id'']"

definition strings_final_evaluation :: "string list" where
  "strings_final_evaluation =
     [''candidate_identity'', ''subject_type'', ''method'', ''workflow'', ''category'',
      ''scope'', ''status'', ''recorded_at'', ''output_identity'']"

definition strings_reconciliation :: "string list" where
  "strings_reconciliation =
     [''required_gate_aggregation'', ''dominance'', ''normative_logic_delegated'']"

definition strings_bundle :: "string list" where
  "strings_bundle =
     [''candidate_identity'', ''subject_type'', ''method'', ''workflow'', ''category'',
      ''scope'', ''status'', ''recorded_at'', ''output_identity'']"

definition strings_compiler_experiment :: "string list" where
  "strings_compiler_experiment =
     [''language_contract_id'', ''language_record_identity'', ''run_identity'',
      ''compiler_identity'', ''pipeline_identity'', ''compilation_status'', ''recorded_at'',
      ''interpretation'', ''experiment_id'']"

definition strings_compiler_candidate :: "string list" where
  "strings_compiler_candidate =
     [''baseline_artifact_identity'', ''candidate_artifact_identity'', ''generator_identity'',
      ''declared_transformation'', ''claimed_relation'', ''expected_benefit'',
      ''target_envelope'', ''required_validation'', ''semantic_status'',
      ''policy_disposition'', ''interpretation'', ''recorded_at'', ''candidate_id'']"

definition strings_concept_evaluation :: "string list" where
  "strings_concept_evaluation =
     [''concept_experiment_id'', ''candidate_identity'', ''language_profile'',
      ''compiler_identity'', ''backend_identity'', ''verifier_identity'', ''verifier_version'',
      ''obligation'', ''stable_id'', ''content_digest'', ''recorded_at'', ''interpretation'',
      ''evaluation_id'']"

primrec required_string_fields :: "record_type \<Rightarrow> string list" where
  "required_string_fields EPOCH = strings_epoch"
| "required_string_fields CANDIDATE = strings_candidate"
| "required_string_fields PROVIDER_PROBE = strings_provider_probe"
| "required_string_fields WORKFLOW_ACTION = strings_workflow_action"
| "required_string_fields EXECUTION_RECEIPT_BINDING = strings_execution_receipt_binding"
| "required_string_fields EXECUTION_ASSURANCE = strings_execution_assurance"
| "required_string_fields WORKFLOW_RESULT = strings_workflow_result"
| "required_string_fields VERIFIER_ACTION = strings_verifier_action"
| "required_string_fields VERIFIER_RESULT = strings_verifier_result"
| "required_string_fields CANDIDATE_DISPOSITION = strings_candidate_disposition"
| "required_string_fields FREEZE = strings_freeze"
| "required_string_fields FINAL_EVALUATION = strings_final_evaluation"
| "required_string_fields RECONCILIATION = strings_reconciliation"
| "required_string_fields BUNDLE = strings_bundle"
| "required_string_fields COMPILER_EXPERIMENT = strings_compiler_experiment"
| "required_string_fields COMPILER_CANDIDATE = strings_compiler_candidate"
| "required_string_fields CONCEPT_EVALUATION = strings_concept_evaluation"
| "required_string_fields LEDGER_ENTRY = []"

primrec required_object_fields :: "record_type \<Rightarrow> string list" where
  "required_object_fields EPOCH = [''visible_partition_identities'', ''authority_identities'']"
| "required_object_fields CANDIDATE = [''current_file_identities'']"
| "required_object_fields PROVIDER_PROBE = []"
| "required_object_fields WORKFLOW_ACTION = []"
| "required_object_fields EXECUTION_RECEIPT_BINDING = [''established_properties'']"
| "required_object_fields EXECUTION_ASSURANCE = []"
| "required_object_fields WORKFLOW_RESULT = [''environment'']"
| "required_object_fields VERIFIER_ACTION = [''input_identities'']"
| "required_object_fields VERIFIER_RESULT = [''input_identities'', ''dependency_envelope'']"
| "required_object_fields CANDIDATE_DISPOSITION = []"
| "required_object_fields FREEZE = [''frozen_path_sets'']"
| "required_object_fields FINAL_EVALUATION = [''environment'']"
| "required_object_fields RECONCILIATION = [''categories'']"
| "required_object_fields BUNDLE = [''environment'']"
| "required_object_fields COMPILER_EXPERIMENT = [''language_record'', ''observation'']"
| "required_object_fields COMPILER_CANDIDATE = []"
| "required_object_fields CONCEPT_EVALUATION = [''evaluation_material'']"
| "required_object_fields LEDGER_ENTRY = []"

section \<open>Consistency of the tables\<close>

lemma record_type_of_value [simp]: "record_type_of (rt_value t) = Inr t"
  by (cases t) (simp_all add: record_type_of_def record_types_def)

lemma record_type_of_Inr: "record_type_of v = Inr t \<Longrightarrow> rt_value t = v"
  by (auto simp: record_type_of_def find_Some_iff split: option.splits)

lemma rt_value_inject [simp]: "rt_value t = rt_value u \<longleftrightarrow> t = u"
  by (metis record_type_of_value sum.inject(2))

text \<open>A storage context agrees with the ledger-kind and group tables and with the record's schema.\<close>

definition context_consistent :: "string \<times> persisted_context \<Rightarrow> bool" where
  "context_consistent kc =
     (let context = snd kc; t = prc_record_type context in
       prc_ledger_kind context = fst kc
       \<and> dict_get LEDGER_KIND_TYPES (fst kc) = Some t
       \<and> dict_get RECORD_GROUP_TYPES (prc_group context) = Some t
       \<and> (case record_specs t of None \<Rightarrow> False
           | Some spec \<Rightarrow> prc_identity_field context \<in> set (rs_required spec))
       \<and> prc_identity_field context \<in> set (required_string_fields t))"

lemma persisted_contexts_consistent: "list_all context_consistent PERSISTED_RECORD_CONTEXTS"
  by code_simp

lemma persisted_kinds: "dict_keys PERSISTED_RECORD_CONTEXTS = dict_keys LEDGER_KIND_TYPES"
  by code_simp

lemma persisted_record_context_Inr:
  assumes "persisted_record_context record_group kind = Inr context"
  shows "prc_group context = record_group" "context_consistent (kind, context)"
  using assms persisted_contexts_consistent
  by (auto simp: persisted_record_context_def list_all_iff split: option.splits if_splits
      dest!: map_of_SomeD)

lemma safe_record_identity_Inr:
  assumes "safe_record_identity identity = Inr safe"
  shows "safe \<noteq> []" "list_all is_safe_char safe" "length safe = py_len identity"
proof -
  from assms have safe: "safe = map (\<lambda>c. if is_safe_char c then c else CHR ''_'')
      (filter (\<lambda>c. \<not> is_continuation c) identity)" and ne: "safe \<noteq> []"
    by (auto simp: safe_record_identity_def Let_def split: if_splits)
  from ne show "safe \<noteq> []" .
  from safe show "list_all is_safe_char safe"
    by (auto simp: list_all_iff is_safe_char_def)
  from safe show "length safe = py_len identity" by (simp add: py_len_def)
qed

end
