(* ===== verification/Serialization.thy ===== *)
theory Serialization
  imports Json
begin

text \<open>
  \<open>serialization.py\<close>: the deterministic encoding of Forge-owned JSON. \<open>json.dumps\<close> with
  \<open>ensure_ascii=False, allow_nan=False, sort_keys=True, separators=(",", ":")\<close> is written out:
  members sorted by key, no blanks, strings quoted with the escapes of the standard encoder.
\<close>

section \<open>Writing\<close>

definition hex_char :: "nat \<Rightarrow> char" where
  "hex_char n = (if n < 10 then char_of (48 + n) else char_of (87 + n))"

definition escape_char :: "char \<Rightarrow> string" where
  "escape_char c =
     (if c = CHR 0x22 then [CHR 0x5C, CHR 0x22]
      else if c = CHR 0x5C then [CHR 0x5C, CHR 0x5C]
      else if c = CHR 0x0A then [CHR 0x5C, CHR ''n'']
      else if c = CHR 0x0D then [CHR 0x5C, CHR ''r'']
      else if c = CHR 0x09 then [CHR 0x5C, CHR ''t'']
      else if c = CHR 0x0C then [CHR 0x5C, CHR ''f'']
      else if c = CHR 0x08 then [CHR 0x5C, CHR ''b'']
      else if of_char c < (32 :: nat)
        then [CHR 0x5C, CHR ''u'', CHR ''0'', CHR ''0'',
              hex_char (of_char c div 16), hex_char (of_char c mod 16)]
      else [c])"

definition quote :: "string \<Rightarrow> string" where
  "quote s = CHR 0x22 # concat (map escape_char s) @ [CHR 0x22]"

definition member_text :: "string \<times> string \<Rightarrow> string" where
  "member_text kv = quote (fst kv) @ '':'' @ snd kv"

fun canonical_bytes :: "json \<Rightarrow> string" where
  "canonical_bytes JNull = ''null''"
| "canonical_bytes (JBool b) = (if b then ''true'' else ''false'')"
| "canonical_bytes (JInt i) = int_str i"
| "canonical_bytes (JFloat f) = f"
| "canonical_bytes (JStr s) = quote s"
| "canonical_bytes (JArr xs) = ''['' @ join '','' (map canonical_bytes xs) @ '']''"
| "canonical_bytes (JObj kvs) =
     ''{'' @ join '',''
       (map member_text (sort_key fst (map (\<lambda>(k, v). (k, canonical_bytes v)) kvs))) @ ''}''"

text \<open>
  \<open>local_json_identity\<close>: a prefixed SHA-256 digest of the encoding. The digest of the standard
  library is a parameter \<open>sha\<close> (bytes to 64 hexadecimal digits).
\<close>

definition local_json_identity :: "(string \<Rightarrow> string) \<Rightarrow> json \<Rightarrow> string" where
  "local_json_identity sha v = ''forge-json-sha256-v1:'' @ sha (canonical_bytes v)"

text \<open>\<open>reject_duplicate_keys\<close>, the hook of \<open>read_json\<close>.\<close>

fun reject_duplicate_keys_from :: "obj \<Rightarrow> obj \<Rightarrow> obj res" where
  "reject_duplicate_keys_from acc [] = Inr acc"
| "reject_duplicate_keys_from acc ((k, v) # ps) =
     (if k \<in> set (dict_keys acc) then Inl PyValueError
      else reject_duplicate_keys_from (dict_set k v acc) ps)"

definition reject_duplicate_keys :: "obj \<Rightarrow> obj res" where
  "reject_duplicate_keys ps = reject_duplicate_keys_from [] ps"

lemma reject_duplicate_keys_from_Inr:
  "reject_duplicate_keys_from acc ps = Inr d \<longleftrightarrow>
     distinct (dict_keys ps) \<and> set (dict_keys acc) \<inter> set (dict_keys ps) = {} \<and> d = acc @ ps"
proof (induction ps arbitrary: acc)
  case Nil
  then show ?case by auto
next
  case (Cons p ps)
  obtain k v where p: "p = (k, v)" by (cases p)
  show ?case
  proof (cases "k \<in> set (dict_keys acc)")
    case True
    with p show ?thesis by auto
  next
    case False
    with Cons p show ?thesis by (auto simp: dict_set_fresh)
  qed
qed

lemma reject_duplicate_keys_Inr:
  "reject_duplicate_keys ps = Inr d \<longleftrightarrow> distinct (dict_keys ps) \<and> d = ps"
  by (simp add: reject_duplicate_keys_def reject_duplicate_keys_from_Inr)

section \<open>Key order does not matter\<close>

lemma sort_key_map_fst:
  "sort_key fst (map (\<lambda>(k, v). (k, f v)) kvs) = map (\<lambda>(k, v). (k, f v)) (sort_key fst kvs)"
proof -
  have ins: "insort_key fst (k, f v) (map (\<lambda>(k, v). (k, f v)) xs)
      = map (\<lambda>(k, v). (k, f v)) (insort_key fst (k, v) xs)" for k v xs
    by (induction xs) auto
  show ?thesis
  proof (induction kvs)
    case (Cons p kvs)
    then show ?case by (cases p) (simp add: ins)
  qed simp
qed

text \<open>The object with its members sorted by key, at every level.\<close>

fun sorted_json :: "json \<Rightarrow> json" where
  "sorted_json (JArr xs) = JArr (map sorted_json xs)"
| "sorted_json (JObj kvs) = JObj (sort_key fst (map (\<lambda>(k, v). (k, sorted_json v)) kvs))"
| "sorted_json v = v"

end
