(* ===== verification/Records.thy ===== *)
theory Records
  imports RecordTables Serialization
begin

text \<open>
  The frozen record model of \<open>records.py\<close>: \<open>ForgeRecord\<close>, its mapping interface and its codecs, and
  the reading of JSON objects that the validators share.
\<close>

section \<open>Checks in sequence\<close>

text \<open>The statements of a validator, in order; the first one that raises decides.\<close>

primrec run_checks :: "unit res list \<Rightarrow> unit res" where
  "run_checks [] = Inr ()"
| "run_checks (c # cs) = and_then c (\<lambda>_. run_checks cs)"

lemma run_checks_Inr [res_simps]: "run_checks cs = Inr u \<longleftrightarrow> (\<forall>c \<in> set cs. c = Inr ())"
  by (induction cs) (auto simp: res_simps)

lemma run_checks_append:
  "run_checks (cs @ ds) = and_then (run_checks cs) (\<lambda>_. run_checks ds)"
proof (induction cs)
  case (Cons c cs)
  then show ?case by (cases c) auto
qed simp

section \<open>Reading JSON objects\<close>

text \<open>\<open>d.get(k)\<close>: a missing key and a null both read as \<open>None\<close>.\<close>

definition obj_get :: "obj \<Rightarrow> string \<Rightarrow> json" where
  "obj_get d k = (case dict_get d k of None \<Rightarrow> JNull | Some v \<Rightarrow> v)"

text \<open>
  \<open>v in {...}\<close> over a set of texts: looking a list or an object up in a set raises \<open>TypeError\<close>
  (unhashable), every other value is compared.
\<close>

definition in_texts :: "json \<Rightarrow> string list \<Rightarrow> bool res" where
  "in_texts v ts =
     (case v of
        JArr xs \<Rightarrow> Inl PyTypeError
      | JObj d \<Rightarrow> Inl PyTypeError
      | JStr s \<Rightarrow> Inr (s \<in> set ts)
      | _ \<Rightarrow> Inr False)"

definition require_in :: "json \<Rightarrow> string list \<Rightarrow> py_error \<Rightarrow> unit res" where
  "require_in v ts e = and_then (in_texts v ts) (\<lambda>ok. raise_if (\<not> ok) e)"

lemma require_in_Inr [res_simps]: "require_in v ts e = Inr u \<longleftrightarrow> (\<exists>s. v = JStr s \<and> s \<in> set ts)"
  by (cases v) (auto simp: require_in_def in_texts_def res_simps)

fun is_text :: "json \<Rightarrow> bool" where
  "is_text (JStr s) = (s \<noteq> [])"
| "is_text _ = False"

fun is_obj :: "json \<Rightarrow> bool" where
  "is_obj (JObj d) = True"
| "is_obj _ = False"

lemma is_text_iff: "is_text v \<longleftrightarrow> (\<exists>s. v = JStr s \<and> s \<noteq> [])"
  by (cases v) auto

lemma is_obj_iff: "is_obj v \<longleftrightarrow> (\<exists>d. v = JObj d)"
  by (cases v) auto

text \<open>A list whose items are all text, as its texts.\<close>

fun text_items :: "json list \<Rightarrow> string list option" where
  "text_items [] = Some []"
| "text_items (JStr s # xs) = map_option (Cons s) (text_items xs)"
| "text_items (x # xs) = None"

fun text_list :: "json \<Rightarrow> string list option" where
  "text_list (JArr xs) = text_items xs"
| "text_list _ = None"

lemma text_items_Some: "text_items xs = Some ss \<longleftrightarrow> xs = map JStr ss"
  by (induction xs arbitrary: ss rule: text_items.induct) (auto simp: map_eq_Cons_conv Cons_eq_map_conv)

lemma text_list_Some: "text_list v = Some ss \<longleftrightarrow> v = JArr (map JStr ss)"
  by (cases v) (auto simp: text_items_Some)

text \<open>
  Python's \<open>==\<close> on JSON values: booleans are the integers 0 and 1, an integer equals the float
  written with \<open>.0\<close>, both zeros are equal, objects compare without regard to order. (Integers of
  \<open>10 ^ 16\<close> and more, whose float is written with an exponent, are never equal to a float here.)
\<close>

fun num_text :: "json \<Rightarrow> string option" where
  "num_text (JBool b) = Some (int_str (of_bool b) @ ''.0'')"
| "num_text (JInt i) = Some (int_str i @ ''.0'')"
| "num_text (JFloat f) = Some (if f = ''-0.0'' then ''0.0'' else f)"
| "num_text _ = None"

fun json_eq :: "json \<Rightarrow> json \<Rightarrow> bool" where
  "json_eq JNull w = (w = JNull)"
| "json_eq (JStr s) w = (w = JStr s)"
| "json_eq (JArr xs) w =
     (case w of JArr ys \<Rightarrow> list_all2 json_eq xs ys | _ \<Rightarrow> False)"
| "json_eq (JObj d) w =
     (case w of
        JObj e \<Rightarrow> length d = length e
          \<and> list_all (\<lambda>(k, v). case dict_get e k of None \<Rightarrow> False | Some x \<Rightarrow> json_eq v x) d
      | _ \<Rightarrow> False)"
| "json_eq v w = (num_text w = num_text v)"

section \<open>Records\<close>

record forge_record =
  fr_type :: record_type
  fr_schema :: string
  fr_fields :: fobj
  fr_source :: string

definition CURRENT_SCHEMA_VERSION :: string where
  "CURRENT_SCHEMA_VERSION = ''1''"

definition LEGACY_SCHEMA_VERSION :: string where
  "LEGACY_SCHEMA_VERSION = ''0.1-unversioned''"

text \<open>\<open>ForgeRecord.__getitem__\<close>, with \<open>None\<close> for the \<open>KeyError\<close> of a missing field.\<close>

definition rec_get :: "forge_record \<Rightarrow> string \<Rightarrow> fjson option" where
  "rec_get r key =
     (if key = ''record_type'' then Some (FStr (rt_value (fr_type r)))
      else if key = ''schema_version'' then Some (FStr (fr_schema r))
      else dict_get (fr_fields r) key)"

text \<open>\<open>Mapping.get\<close>: \<open>None\<close> where the key is missing.\<close>

definition rec_value :: "forge_record \<Rightarrow> string \<Rightarrow> fjson" where
  "rec_value r key = (case rec_get r key of None \<Rightarrow> FNull | Some v \<Rightarrow> v)"

definition rec_keys :: "forge_record \<Rightarrow> string list" where
  "rec_keys r = ''record_type'' # ''schema_version'' # dict_keys (fr_fields r)"

text \<open>\<open>d.update(e)\<close>.\<close>

definition dict_update :: "'v dict \<Rightarrow> 'v dict \<Rightarrow> 'v dict" where
  "dict_update d e = foldl (\<lambda>acc p. dict_set (fst p) (snd p) acc) d e"

definition rec_to_json :: "forge_record \<Rightarrow> obj" where
  "rec_to_json r =
     dict_update [(''record_type'', JStr (rt_value (fr_type r))), (''schema_version'', JStr (fr_schema r))]
       (thaw_fields (fr_fields r))"

definition text_value :: "fobj \<Rightarrow> string option \<Rightarrow> string option" where
  "text_value d f =
     (case f of None \<Rightarrow> None
      | Some k \<Rightarrow> (case dict_get d k of Some (FStr s) \<Rightarrow> Some s | _ \<Rightarrow> None))"

definition rec_status :: "forge_record \<Rightarrow> string option" where
  "rec_status r =
     (case record_specs (fr_type r) of None \<Rightarrow> None
      | Some spec \<Rightarrow> text_value (fr_fields r) (rs_status_field spec))"

definition rec_identity :: "forge_record \<Rightarrow> string option" where
  "rec_identity r =
     (case record_specs (fr_type r) of None \<Rightarrow> None
      | Some spec \<Rightarrow> text_value (fr_fields r) (rs_identity_field spec))"

lemma dict_update_append:
  "dict_wf e \<Longrightarrow> set (dict_keys d) \<inter> set (dict_keys e) = {} \<Longrightarrow> dict_update d e = d @ e"
proof (induction e arbitrary: d)
  case Nil
  then show ?case by (simp add: dict_update_def)
next
  case (Cons p e)
  then have "dict_set (fst p) (snd p) d = d @ [p]" by (simp add: dict_set_fresh)
  moreover have "dict_update (d @ [p]) e = (d @ [p]) @ e" using Cons by (intro Cons.IH) auto
  ultimately show ?case by (simp add: dict_update_def)
qed

end
