(* ===== verification/RecordValidation.thy ===== *)
theory RecordValidation
  imports Records
begin

text \<open>
  The validation of a record's fields: \<open>_validate_fields\<close> of \<open>records.py\<close> with the status, receipt
  and assurance rules it calls. Each definition lists the source's checks in order.
\<close>

section \<open>What is assumed of the digests\<close>

text \<open>
  SHA-256 (\<open>hashlib\<close>) and the JCS encoder of the \<open>rfc8785\<close> package are parameters: \<open>cr_sha\<close> maps
  bytes to the hexadecimal digest, \<open>cr_jcs\<close> encodes a value or raises.
\<close>

record crypto =
  cr_sha :: "string \<Rightarrow> string"
  cr_jcs :: "json \<Rightarrow> string res"

section \<open>Shared checks\<close>

definition STATUS_VALUES :: "string list" where
  "STATUS_VALUES = [''PASS'', ''FAIL'', ''UNKNOWN'']"

definition spec_of :: "record_type \<Rightarrow> record_spec res" where
  "spec_of t =
     (case record_specs t of None \<Rightarrow> Inl (PyKeyError (rt_value t)) | Some spec \<Rightarrow> Inr spec)"

definition status_is_valid :: "record_type \<Rightarrow> obj \<Rightarrow> unit res" where
  "status_is_valid t fs = and_then (spec_of t) (\<lambda>spec.
     case rs_status_field spec of
       None \<Rightarrow> Inr ()
     | Some f \<Rightarrow>
         require_in (obj_get fs f) STATUS_VALUES (ForgeError ''RECORD_STATUS'' [rt_value t, f]))"

definition malformed :: py_error where
  "malformed = ForgeError ''RECORD_MALFORMED'' []"

definition authority :: py_error where
  "authority = ForgeError ''RECORD_AUTHORITY'' []"

section \<open>Execution assurance\<close>

definition RECEIPT_COMPLETENESS :: "string list" where
  "RECEIPT_COMPLETENESS = [''complete'', ''incomplete'', ''malformed'', ''unsupported'', ''unavailable'']"

definition RECEIPT_ACTION_KINDS :: "string list" where
  "RECEIPT_ACTION_KINDS = [''workflow_action'', ''verifier_action'']"

definition ESTABLISHED_PROPERTY_STATES :: "string list" where
  "ESTABLISHED_PROPERTY_STATES = [''established'', ''not-established'', ''unknown'']"

definition ESTABLISHED_PROPERTY_KEYS :: "string list" where
  "ESTABLISHED_PROPERTY_KEYS =
     [''execution_completed'', ''local_result_validity'', ''runner_capability'',
      ''filesystem_isolation'', ''network_isolation'', ''containerization'',
      ''same_operator_execution'', ''external_anchoring'', ''witnessing'', ''protected_custody'',
      ''evaluator_independence'', ''governance_certification'']"

definition ASSURANCE_REQUEST_PROPERTIES :: "string list" where
  "ASSURANCE_REQUEST_PROPERTIES =
     [''runner_capability'', ''filesystem_isolation'', ''network_isolation'', ''containerization'',
      ''same_operator_execution'']"

text \<open>A list of texts; the flag asks for each of them to be non-empty.\<close>

definition texts_or :: "bool \<Rightarrow> py_error \<Rightarrow> json \<Rightarrow> string list res" where
  "texts_or nonempty e v =
     (case text_list v of
        None \<Rightarrow> Inl e
      | Some ss \<Rightarrow> if nonempty \<and> [] \<in> set ss then Inl e else Inr ss)"

definition validate_execution_assurance :: "obj \<Rightarrow> unit res" where
  "validate_execution_assurance fs =
     and_then (require_in (obj_get fs ''action_kind'') RECEIPT_ACTION_KINDS malformed) (\<lambda>_.
     and_then (texts_or True malformed (obj_get fs ''requested_properties'')) (\<lambda>requested.
     and_then (raise_if (requested = [] \<or> \<not> distinct requested) malformed) (\<lambda>_.
     let outside = filter (\<lambda>p. p \<notin> set ASSURANCE_REQUEST_PROPERTIES) (sorted_set requested) in
     and_then (raise_if (outside \<noteq> []) (ForgeError ''RECORD_AUTHORITY'' outside)) (\<lambda>_.
     and_then (texts_or False malformed (obj_get fs ''unmet_properties'')) (\<lambda>unmet.
     and_then (raise_if (\<not> set unmet \<subseteq> set requested) malformed) (\<lambda>_.
     and_then (texts_or True malformed (obj_get fs ''reasons'')) (\<lambda>reasons.
     let status = obj_get fs ''assurance_status'' in
     and_then (raise_if (status = JStr ''PASS'' \<and> (unmet \<noteq> [] \<or> reasons \<noteq> [])) authority) (\<lambda>_.
     raise_if (status = JStr ''FAIL'' \<and> reasons = []) malformed))))))))"

section \<open>Execution receipts\<close>

definition receipt_projection :: "obj \<Rightarrow> json" where
  "receipt_projection receipt = JObj (dict_del ''receipt_identity'' receipt)"

definition validate_complete_receipt :: "crypto \<Rightarrow> obj \<Rightarrow> unit res" where
  "validate_complete_receipt cr fs =
     (case obj_get fs ''mncs_receipt'' of
        JObj receipt \<Rightarrow>
          (case obj_get fs ''receipt_identity'' of
             JStr receipt_identity \<Rightarrow>
               and_then (raise_if (receipt_identity = []) malformed) (\<lambda>_.
               and_then (cr_jcs cr (receipt_projection receipt)) (\<lambda>bytes.
               and_then (raise_if (obj_get receipt ''receipt_identity'' \<noteq> JStr receipt_identity
                   \<or> cr_sha cr bytes \<noteq> receipt_identity) (ForgeError ''RECORD_IDENTITY'' [])) (\<lambda>_.
               and_then (raise_if (obj_get receipt ''record_type'' \<noteq> JStr ''mncs-execution-receipt'')
                   malformed) (\<lambda>_.
               raise_if (\<not> json_eq (obj_get fs ''receipt_schema_version'')
                   (obj_get receipt ''schema_version'')) malformed))))
           | _ \<Rightarrow> Inl malformed)
      | _ \<Rightarrow> Inl malformed)"

definition property_state_invalid :: "string \<times> json \<Rightarrow> string list res" where
  "property_state_invalid kv =
     and_then (in_texts (snd kv) ESTABLISHED_PROPERTY_STATES) (\<lambda>ok. Inr (if ok then [] else [fst kv]))"

definition validate_established_properties :: "json \<Rightarrow> unit res" where
  "validate_established_properties v =
     (case v of
        JObj properties \<Rightarrow>
          and_then (raise_if (set (dict_keys properties) \<noteq> set ESTABLISHED_PROPERTY_KEYS) malformed) (\<lambda>_.
          and_then (traverse property_state_invalid properties) (\<lambda>bad.
          raise_if (concat bad \<noteq> []) (ForgeError ''RECORD_MALFORMED'' (sort (concat bad)))))
      | _ \<Rightarrow> Inl malformed)"

definition validate_execution_receipt_binding :: "crypto \<Rightarrow> obj \<Rightarrow> unit res" where
  "validate_execution_receipt_binding cr fs =
     (let completeness = obj_get fs ''receipt_completeness'';
          without_envelope = completeness \<in> {JStr ''incomplete'', JStr ''unavailable''} in
      run_checks
        [require_in (obj_get fs ''action_kind'') RECEIPT_ACTION_KINDS malformed,
         require_in completeness RECEIPT_COMPLETENESS malformed,
         validate_established_properties (obj_get fs ''established_properties''),
         raise_if (obj_get fs ''status'' = JStr ''PASS'') authority,
         (if completeness = JStr ''complete'' then validate_complete_receipt cr fs else Inr ()),
         raise_if (without_envelope \<and> obj_get fs ''mncs_receipt'' \<noteq> JNull) malformed,
         raise_if (without_envelope \<and> obj_get fs ''receipt_identity'' \<noteq> JNull) malformed])"

section \<open>Compiler and concept records\<close>

definition claims_assurance :: "obj \<Rightarrow> bool" where
  "claims_assurance fs \<longleftrightarrow>
     obj_get fs ''assurance_status'' \<noteq> JNull \<or> obj_get fs ''conformance_status'' \<noteq> JNull"

definition validate_compiler_experiment :: "obj \<Rightarrow> unit res" where
  "validate_compiler_experiment fs = run_checks
     [require_in (obj_get fs ''language_contract_id'')
        [''mncs:language:compilation-study-result:0.1'', ''mncs:language:experiment-result:0.1'']
        (ForgeError ''RECORD_CONTRACT'' []),
      raise_if (obj_get fs ''interpretation'' \<noteq> JStr ''observation_only_not_assurance_or_conformance'')
        authority,
      raise_if (claims_assurance fs) authority]"

definition validate_compiler_candidate :: "obj \<Rightarrow> unit res" where
  "validate_compiler_candidate fs = run_checks
     [raise_if (obj_get fs ''interpretation'' \<noteq> JStr ''search_observation_not_language_correctness'')
        authority,
      raise_if (claims_assurance fs) authority,
      raise_if (obj_get fs ''isolated'' \<noteq> JBool True
        \<or> obj_get fs ''generator_certified'' \<noteq> JBool False) authority,
      raise_if (json_eq (obj_get fs ''baseline_artifact_identity'')
        (obj_get fs ''candidate_artifact_identity'')) (ForgeError ''COMPILER_CANDIDATE_NOT_ISOLATED'' []),
      require_in (obj_get fs ''semantic_status'') (''UNVALIDATED'' # STATUS_VALUES)
        (ForgeError ''RECORD_STATUS'' []),
      require_in (obj_get fs ''policy_disposition'') [''accept'', ''reject'', ''retain_unresolved'']
        malformed]"

definition CONCEPT_EVALUATION_INTERPRETATION :: string where
  "CONCEPT_EVALUATION_INTERPRETATION = ''bounded_forge_evaluation_not_mncs_conformance''"

definition digest_matches :: "json \<Rightarrow> json \<Rightarrow> unit res" where
  "digest_matches digest stable_id =
     (case digest of
        JStr s \<Rightarrow>
          and_then (raise_if (\<not> starts_with ''sha256:'' s \<or> py_len s \<noteq> 71)
            (ForgeError ''RECORD_IDENTITY'' [])) (\<lambda>_.
          raise_if (stable_id \<noteq> JStr (''mncs-forge://evaluation/'' @ drop 7 s))
            (ForgeError ''RECORD_IDENTITY'' []))
      | _ \<Rightarrow> Inl (ForgeError ''RECORD_IDENTITY'' []))"

definition validate_concept_evaluation :: "obj \<Rightarrow> unit res" where
  "validate_concept_evaluation fs =
     (case obj_get fs ''evaluation_material'' of
        JObj material \<Rightarrow> run_checks
          [raise_if (obj_get material ''schema_version'' \<noteq> JStr ''mncs-forge.concept-evaluation.v0.1'')
             (ForgeError ''RECORD_CONTRACT'' []),
           require_in (obj_get fs ''status'') STATUS_VALUES (ForgeError ''RECORD_STATUS'' []),
           raise_if (obj_get fs ''interpretation'' \<noteq> JStr CONCEPT_EVALUATION_INTERPRETATION
             \<or> claims_assurance fs) authority,
           raise_if (obj_get fs ''generator_certified'' \<noteq> JBool False) authority,
           digest_matches (obj_get fs ''content_digest'') (obj_get fs ''stable_id'')]
      | _ \<Rightarrow> Inl malformed)"

section \<open>All fields of a record\<close>

definition invalid_texts :: "record_type \<Rightarrow> obj \<Rightarrow> string list" where
  "invalid_texts t fs = sort (filter (\<lambda>f. \<not> is_text (obj_get fs f)) (required_string_fields t))"

definition invalid_objects :: "record_type \<Rightarrow> obj \<Rightarrow> string list" where
  "invalid_objects t fs = sort (filter (\<lambda>f. \<not> is_obj (obj_get fs f)) (required_object_fields t))"

definition validate_fields :: "crypto \<Rightarrow> record_type \<Rightarrow> obj \<Rightarrow> unit res" where
  "validate_fields cr t fs = and_then (spec_of t) (\<lambda>spec.
     let missing = sort (filter (\<lambda>f. f \<notin> set (dict_keys fs)) (rs_required spec));
         unknown = sort (filter (\<lambda>f. f \<notin> set (rs_allowed spec)) (dict_keys fs));
         mode = obj_get fs ''mode'' in
     run_checks
       [raise_if (missing \<noteq> []) (ForgeError ''RECORD_MISSING_FIELD'' (rt_value t # missing)),
        raise_if (unknown \<noteq> []) (ForgeError ''RECORD_UNKNOWN_FIELD'' (rt_value t # unknown)),
        raise_if (obj_get fs ''extensions'' \<noteq> JNull \<and> \<not> is_obj (obj_get fs ''extensions'')) malformed,
        raise_if (invalid_texts t fs \<noteq> [])
          (ForgeError ''RECORD_MALFORMED'' (rt_value t # invalid_texts t fs)),
        raise_if (invalid_objects t fs \<noteq> [])
          (ForgeError ''RECORD_MALFORMED'' (rt_value t # invalid_objects t fs)),
        (if mode \<noteq> JNull then require_in mode [''development'', ''evaluator'']
          (ForgeError ''RECORD_MALFORMED'' [rt_value t]) else Inr ()),
        status_is_valid t fs,
        (if t = CANDIDATE_DISPOSITION
         then require_in (obj_get fs ''disposition'') [''selected'', ''rejected''] malformed else Inr ()),
        raise_if (t = VERIFIER_RESULT \<and> obj_get fs ''independent_evaluation'' \<noteq> JBool False) authority,
        (if t = EXECUTION_RECEIPT_BINDING then validate_execution_receipt_binding cr fs else Inr ()),
        (if t = EXECUTION_ASSURANCE then validate_execution_assurance fs else Inr ()),
        (if t = COMPILER_EXPERIMENT then validate_compiler_experiment fs else Inr ()),
        (if t = COMPILER_CANDIDATE then validate_compiler_candidate fs else Inr ()),
        (if t = CONCEPT_EVALUATION then validate_concept_evaluation fs else Inr ())])"

section \<open>What validation guarantees\<close>

lemma spec_of_Inr [res_simps]: "spec_of t = Inr spec \<longleftrightarrow> record_specs t = Some spec"
  by (auto simp: spec_of_def split: option.splits)

lemma filter_Nil_iff: "filter P xs = [] \<longleftrightarrow> (\<forall>x \<in> set xs. \<not> P x)"
  by (simp add: filter_empty_conv)

lemma sort_Nil_iff [simp]: "sort xs = [] \<longleftrightarrow> xs = []"
  by (metis set_empty2 set_sort)

lemmas validation_simps = validate_fields_def invalid_texts_def invalid_objects_def Let_def
  res_simps filter_Nil_iff

lemma validate_fields_keys:
  assumes "validate_fields cr t fs = Inr u"
  obtains spec where "record_specs t = Some spec"
    "set (rs_required spec) \<subseteq> set (dict_keys fs)"
    "set (dict_keys fs) \<subseteq> set (rs_allowed spec)"
  using assms by (auto simp: validation_simps)

lemma validate_fields_text:
  assumes "validate_fields cr t fs = Inr u" "f \<in> set (required_string_fields t)"
  obtains s where "dict_get fs f = Some (JStr s)" "s \<noteq> []"
proof -
  from assms have "is_text (obj_get fs f)" by (auto simp: validation_simps)
  then show thesis by (auto simp: is_text_iff obj_get_def split: option.splits intro: that)
qed

lemma validate_fields_object:
  assumes "validate_fields cr t fs = Inr u" "f \<in> set (required_object_fields t)"
  obtains d where "dict_get fs f = Some (JObj d)"
proof -
  from assms have "is_obj (obj_get fs f)" by (auto simp: validation_simps)
  then show thesis by (auto simp: is_obj_iff obj_get_def split: option.splits intro: that)
qed

lemma validate_fields_status:
  assumes "validate_fields cr t fs = Inr u" "record_specs t = Some spec" "rs_status_field spec = Some f"
  obtains s where "dict_get fs f = Some (JStr s)" "s \<in> set STATUS_VALUES"
proof -
  from assms obtain s where "obj_get fs f = JStr s" "s \<in> set STATUS_VALUES"
    by (auto simp: validation_simps status_is_valid_def)
  then show thesis by (auto simp: obj_get_def split: option.splits intro: that)
qed

lemma validate_fields_disposition:
  assumes "validate_fields cr CANDIDATE_DISPOSITION fs = Inr u"
  obtains s where "dict_get fs ''disposition'' = Some (JStr s)" "s \<in> {''selected'', ''rejected''}"
proof -
  from assms obtain s where "obj_get fs ''disposition'' = JStr s" "s \<in> {''selected'', ''rejected''}"
    by (auto simp: validation_simps)
  then show thesis by (auto simp: obj_get_def split: option.splits intro: that)
qed

end
