(* ===== verification/RecordIdentity.thy ===== *)
theory RecordIdentity
  imports RecordValidation
begin

text \<open>
  Self-identity, construction, parsing and migration of records (\<open>records.py\<close>): \<open>new_record\<close>, the
  identity projections, \<open>MigrationRegistry\<close> behind \<open>parse_record\<close>, and \<open>normalize_ledger_entry\<close>.
\<close>

section \<open>Identities\<close>

definition after_first_colon :: "string \<Rightarrow> string" where
  "after_first_colon s = drop 1 (dropWhile (\<lambda>c. c \<noteq> CHR '':'') s)"

definition no_identity :: "record_type \<Rightarrow> py_error" where
  "no_identity t = ForgeError ''RECORD_IDENTITY'' [rt_value t]"

definition identity_excluded :: "record_spec \<Rightarrow> string \<Rightarrow> string list" where
  "identity_excluded spec f = f # rs_identity_exclusions spec"

fun project_fields :: "string list \<Rightarrow> obj \<Rightarrow> pyobj dict \<Rightarrow> obj res" where
  "project_fields excl acc [] = Inr acc"
| "project_fields excl acc ((k, v) # fs) =
     (if k \<in> set excl then project_fields excl acc fs
      else and_then (as_json_value v (''identity.'' @ k) 0)
             (\<lambda>j. project_fields excl (dict_set k j acc) fs))"

definition identity_projection :: "record_type \<Rightarrow> pyobj dict \<Rightarrow> obj res" where
  "identity_projection t fs = and_then (spec_of t) (\<lambda>spec.
     case rs_identity_field spec of
       None \<Rightarrow> Inl (no_identity t)
     | Some f \<Rightarrow> project_fields (identity_excluded spec f)
         [(''record_type'', JStr (rt_value t)), (''schema_version'', JStr CURRENT_SCHEMA_VERSION)] fs)"

definition derive_record_identity :: "crypto \<Rightarrow> record_type \<Rightarrow> pyobj dict \<Rightarrow> string res" where
  "derive_record_identity cr t fs = and_then (spec_of t) (\<lambda>spec.
     case rs_identity_prefix spec of
       None \<Rightarrow> Inl (no_identity t)
     | Some prefix \<Rightarrow> and_then (identity_projection t fs) (\<lambda>projection.
         Inr (prefix @ after_first_colon (local_json_identity (cr_sha cr) (JObj projection)))))"

text \<open>A normalised object as the mapping handed to the identity functions.\<close>

definition py_fields :: "obj \<Rightarrow> pyobj dict" where
  "py_fields fs = map (\<lambda>(k, v). (k, py_of_json v)) fs"

definition restore_unknowns :: "obj \<Rightarrow> obj" where
  "restore_unknowns projection =
     (case dict_get projection ''extensions'' of
        Some (JObj extensions) \<Rightarrow>
          (case dict_get extensions ''legacy_unknown_fields'' of
             Some (JObj restored) \<Rightarrow>
               (let remaining = dict_del ''legacy_unknown_fields'' extensions in
                dict_update
                  (if remaining \<noteq> [] then dict_set ''extensions'' (JObj remaining) projection
                   else dict_del ''extensions'' projection) restored)
           | _ \<Rightarrow> projection)
      | _ \<Rightarrow> projection)"

definition legacy_projection :: "record_spec \<Rightarrow> string \<Rightarrow> obj \<Rightarrow> bool \<Rightarrow> obj" where
  "legacy_projection spec f fs restore =
     (let projection = dict_without (identity_excluded spec f) fs in
      if restore then restore_unknowns projection else projection)"

definition legacy_identity :: "crypto \<Rightarrow> record_type \<Rightarrow> obj \<Rightarrow> bool \<Rightarrow> string res" where
  "legacy_identity cr t fs restore = and_then (spec_of t) (\<lambda>spec.
     case (rs_identity_field spec, rs_identity_prefix spec) of
       (Some f, Some prefix) \<Rightarrow>
         Inr (prefix @ after_first_colon
           (local_json_identity (cr_sha cr) (JObj (legacy_projection spec f fs restore))))
     | _ \<Rightarrow> Inl (no_identity t))"

section \<open>Construction and parsing\<close>

definition model :: "record_type \<Rightarrow> obj \<Rightarrow> string \<Rightarrow> forge_record" where
  "model t fs source = \<lparr>fr_type = t, fr_schema = source, fr_fields = freeze_fields fs, fr_source = source\<rparr>"

definition record_label :: string where
  "record_label = ''record''"

definition has_key :: "(pykey \<times> pyobj) list \<Rightarrow> string \<Rightarrow> bool" where
  "has_key raw k \<longleftrightarrow> KStr k \<in> set (map fst raw)"

text \<open>The identity field of a new record: filled in when missing or null, otherwise checked.\<close>

definition with_identity :: "crypto \<Rightarrow> record_type \<Rightarrow> obj \<Rightarrow> obj res" where
  "with_identity cr t fs = and_then (spec_of t) (\<lambda>spec.
     case rs_identity_field spec of
       None \<Rightarrow> Inr fs
     | Some f \<Rightarrow> and_then (derive_record_identity cr t (py_fields fs)) (\<lambda>expected.
         if obj_get fs f = JNull then Inr (dict_set f (JStr expected) fs)
         else if obj_get fs f \<noteq> JStr expected then Inl (no_identity t)
         else Inr fs))"

definition new_record :: "crypto \<Rightarrow> record_type \<Rightarrow> (pykey \<times> pyobj) list \<Rightarrow> forge_record res" where
  "new_record cr t raw =
     and_then (raise_if (has_key raw ''record_type'' \<or> has_key raw ''schema_version'')
       (ForgeError ''RECORD_METADATA_SPOOF'' [])) (\<lambda>_.
     and_then (json_object (PMap raw) record_label) (\<lambda>normalized.
     and_then (with_identity cr t normalized) (\<lambda>fs.
     and_then (validate_fields cr t fs) (\<lambda>_. Inr (model t fs CURRENT_SCHEMA_VERSION)))))"

definition in_legacy_subjects :: "record_type \<Rightarrow> bool" where
  "in_legacy_subjects t \<longleftrightarrow> t \<in> set LEGACY_CANDIDATE_SUBJECT_RECORDS"

definition legacy_identity_matches :: "crypto \<Rightarrow> record_type \<Rightarrow> string \<Rightarrow> obj \<Rightarrow> bool \<Rightarrow> bool res" where
  "legacy_identity_matches cr t f fs restore =
     and_then (legacy_identity cr t fs restore) (\<lambda>expected.
     if obj_get fs f = JStr expected then Inr True
     else if in_legacy_subjects t \<and> obj_get fs ''subject_type'' = JStr ''candidate''
     then and_then (legacy_identity cr t (dict_del ''subject_type'' fs) restore)
            (\<lambda>e. Inr (obj_get fs f = JStr e))
     else Inr False)"

definition preserve_unknowns :: "record_spec \<Rightarrow> obj \<Rightarrow> obj res" where
  "preserve_unknowns spec fs =
     (let unknown = sort (filter (\<lambda>k. k \<notin> set (rs_allowed spec)) (dict_keys fs)) in
      if unknown = [] then Inr fs
      else
        (let preserved = map (\<lambda>k. (k, obj_get fs k)) unknown;
             known = dict_without unknown fs;
             existing = obj_get known ''extensions'' in
         and_then (raise_if (existing \<noteq> JNull \<and> \<not> is_obj existing) malformed) (\<lambda>_.
         let extensions = (case existing of JObj d \<Rightarrow> d | _ \<Rightarrow> []) in
         and_then (raise_if (''legacy_unknown_fields'' \<in> set (dict_keys extensions))
           (ForgeError ''RECORD_EXTENSION_CONFLICT'' [])) (\<lambda>_.
         Inr (dict_set ''extensions''
           (JObj (dict_set ''legacy_unknown_fields'' (JObj preserved) extensions)) known)))))"

definition default_subject :: "record_type \<Rightarrow> obj \<Rightarrow> obj" where
  "default_subject t fs =
     (if in_legacy_subjects t \<and> ''subject_type'' \<notin> set (dict_keys fs)
      then dict_set ''subject_type'' (JStr ''candidate'') fs else fs)"

definition migrate_legacy :: "crypto \<Rightarrow> record_type \<Rightarrow> obj \<Rightarrow> bool \<Rightarrow> forge_record res" where
  "migrate_legacy cr t fs restore = and_then (spec_of t) (\<lambda>spec.
     and_then (case rs_identity_field spec of
         None \<Rightarrow> Inr True
       | Some f \<Rightarrow> legacy_identity_matches cr t f fs restore) (\<lambda>matches.
     and_then (raise_if (\<not> matches) (no_identity t)) (\<lambda>_.
     and_then (preserve_unknowns spec (default_subject t fs)) (\<lambda>migrated.
     and_then (validate_fields cr t migrated) (\<lambda>_.
     Inr (model t migrated LEGACY_SCHEMA_VERSION))))))"

definition check_current_identity :: "crypto \<Rightarrow> record_type \<Rightarrow> obj \<Rightarrow> unit res" where
  "check_current_identity cr t fs = and_then (spec_of t) (\<lambda>spec.
     case rs_identity_field spec of
       None \<Rightarrow> Inr ()
     | Some f \<Rightarrow> and_then (derive_record_identity cr t (py_fields fs)) (\<lambda>expected.
         raise_if (obj_get fs f \<noteq> JStr expected) (no_identity t)))"

definition metadata_keys :: "string list" where
  "metadata_keys = [''record_type'', ''schema_version'']"

definition parse_record :: "crypto \<Rightarrow> pyobj \<Rightarrow> record_type \<Rightarrow> forge_record res" where
  "parse_record cr raw expected =
     and_then (json_object raw record_label) (\<lambda>data.
     let declared_type = obj_get data ''record_type'';
         declared_version = obj_get data ''schema_version'';
         fs = dict_without metadata_keys data in
     if declared_type = JNull \<and> declared_version = JNull then migrate_legacy cr expected fs False
     else if declared_type = JNull \<or> declared_version = JNull
     then Inl (ForgeError ''RECORD_METADATA'' [])
     else if declared_type \<noteq> JStr (rt_value expected)
     then Inl (ForgeError ''RECORD_TYPE_MISMATCH'' [rt_value expected])
     else if declared_version = JStr LEGACY_SCHEMA_VERSION then migrate_legacy cr expected fs True
     else if declared_version \<noteq> JStr CURRENT_SCHEMA_VERSION
     then Inl (ForgeError ''UNSUPPORTED_RECORD_VERSION'' [rt_value expected])
     else and_then (validate_fields cr expected fs) (\<lambda>_.
          and_then (check_current_identity cr expected fs) (\<lambda>_.
          Inr (model expected fs CURRENT_SCHEMA_VERSION))))"

section \<open>Normalised fields\<close>

definition bounded_fields :: "obj \<Rightarrow> bool" where
  "bounded_fields fs \<longleftrightarrow> list_all (\<lambda>p. json_depth (snd p) \<le> 63) fs"

lemma json_object_PMap:
  "json_object (PMap raw) label = Inr d \<longleftrightarrow> as_json_items raw label 1 = Inr d"
  by (cases "as_json_items raw label 1") (auto simp: json_object_def as_json_value.simps)

lemma json_object_Inr:
  assumes "json_object raw label = Inr d"
  obtains kvs where "raw = PMap kvs" "as_json_items kvs label 1 = Inr d"
proof -
  from assms obtain j where j: "as_json_value raw label 0 = Inr j"
    and "(case j of JObj d \<Rightarrow> Inr d | _ \<Rightarrow> Inl (ForgeError ''RECORD_MALFORMED'' [label])) = Inr d"
    by (auto simp: json_object_def res_simps)
  then have "j = JObj d" by (cases j) auto
  with j show thesis
    by (cases raw) (auto simp: as_json_value.simps res_simps intro: that)
qed

lemma json_object_bounded:
  assumes "json_object raw label = Inr d"
  shows "bounded_fields d"
proof -
  from assms obtain kvs where "as_json_items kvs label 1 = Inr d" by (rule json_object_Inr)
  then have "\<forall>p \<in> set d. 1 + json_depth (snd p) \<le> 64" by (rule as_json_value_depth(3))
  then show ?thesis by (auto simp: bounded_fields_def list_all_iff)
qed

lemma as_json_items_keys:
  "as_json_items kvs path depth = Inr d \<Longrightarrow> map fst kvs = map KStr (dict_keys d)"
proof (induction kvs arbitrary: d)
  case (Cons p kvs)
  obtain k v where p: "p = (k, v)" by (cases p)
  with Cons show ?case by (cases k) (auto simp: res_simps)
qed simp

lemma json_object_keys:
  "json_object (PMap raw) label = Inr d \<Longrightarrow> map fst raw = map KStr (dict_keys d)"
  by (auto simp: json_object_PMap dest: as_json_items_keys)

lemma json_object_embed:
  assumes "bounded_fields d"
  shows "json_object (py_of_json (JObj d)) label = Inr d"
proof -
  have "as_json_items (map (\<lambda>(k, v). (KStr k, py_of_json v)) d) label 1 = Inr d"
  proof (rule as_json_items_embed)
    fix p path
    assume "p \<in> set d"
    with assms have "1 + json_depth (snd p) \<le> 64" by (auto simp: bounded_fields_def list_all_iff)
    then show "as_json_value (py_of_json (snd p)) path 1 = Inr (snd p)" by (rule as_json_value_embed)
  qed
  then show ?thesis by (simp add: json_object_PMap)
qed

lemma bounded_fields_set:
  "bounded_fields fs \<Longrightarrow> json_depth v \<le> 63 \<Longrightarrow> bounded_fields (dict_set k v fs)"
  by (induction fs) (auto simp: bounded_fields_def)

lemma bounded_fields_without: "bounded_fields fs \<Longrightarrow> bounded_fields (dict_without ks fs)"
  by (auto simp: bounded_fields_def list_all_iff dict_without_def)

section \<open>The identity projection\<close>

lemma project_fields_normal:
  assumes "bounded_fields fs"
  shows "project_fields excl acc (py_fields fs) = Inr (dict_update acc (dict_without excl fs))"
  using assms
proof (induction fs arbitrary: acc)
  case Nil
  then show ?case by (simp add: py_fields_def dict_update_def)
next
  case (Cons p fs)
  then have "as_json_value (py_of_json (snd p)) (''identity.'' @ fst p) 0 = Inr (snd p)"
    by (intro as_json_value_embed) (simp add: bounded_fields_def)
  moreover have "bounded_fields fs" using Cons.prems by (simp add: bounded_fields_def)
  ultimately show ?case
    using Cons.IH by (auto simp: py_fields_def dict_update_def split_def)
qed

definition current_projection :: "record_type \<Rightarrow> obj \<Rightarrow> obj" where
  "current_projection t kept =
     dict_update [(''record_type'', JStr (rt_value t)), (''schema_version'', JStr CURRENT_SCHEMA_VERSION)] kept"

lemma derive_record_identity_normal:
  assumes "bounded_fields fs" "record_specs t = Some spec"
    "rs_identity_field spec = Some f" "rs_identity_prefix spec = Some prefix"
  shows "derive_record_identity cr t (py_fields fs) =
    Inr (prefix @ after_first_colon (local_json_identity (cr_sha cr)
      (JObj (current_projection t (dict_without (identity_excluded spec f) fs)))))"
  using assms
  by (simp add: derive_record_identity_def identity_projection_def spec_of_def
      project_fields_normal current_projection_def)

lemma derive_record_identity_cong:
  assumes "bounded_fields fs" "bounded_fields gs" "record_specs t = Some spec"
    "rs_identity_field spec = Some f"
    "dict_without (identity_excluded spec f) fs = dict_without (identity_excluded spec f) gs"
  shows "derive_record_identity cr t (py_fields fs) = derive_record_identity cr t (py_fields gs)"
  using assms
  by (simp add: derive_record_identity_def identity_projection_def spec_of_def
      project_fields_normal split: option.splits)

text \<open>Writing an excluded field, the identity field in particular, leaves the identity alone.\<close>

lemma dict_without_set: "k \<in> set ks \<Longrightarrow> dict_without ks (dict_set k v d) = dict_without ks d"
  by (induction d) auto

lemma derive_record_identity_set:
  assumes "bounded_fields fs" "json_depth v \<le> 63" "record_specs t = Some spec"
    "rs_identity_field spec = Some f" "k \<in> set (identity_excluded spec f)"
  shows "derive_record_identity cr t (py_fields (dict_set k v fs))
    = derive_record_identity cr t (py_fields fs)"
  using assms by (intro derive_record_identity_cong bounded_fields_set dict_without_set) auto

section \<open>Construction and parsing agree\<close>

lemma with_identity_Inr:
  assumes "with_identity cr t fs = Inr gs" "bounded_fields fs"
  shows "check_current_identity cr t gs = Inr ()"
    "bounded_fields gs"
    "dict_keys gs = dict_keys fs \<or> (\<exists>f. dict_keys gs = dict_keys fs @ [f] \<and> f \<notin> set (dict_keys fs))"
proof -
  from assms obtain spec where spec: "record_specs t = Some spec"
    by (auto simp: with_identity_def res_simps)
  show "check_current_identity cr t gs = Inr ()"
  proof (cases "rs_identity_field spec")
    case None
    with spec show ?thesis by (simp add: check_current_identity_def spec_of_def)
  next
    case (Some f)
    have "derive_record_identity cr t (py_fields (dict_set f (JStr e) fs))
        = derive_record_identity cr t (py_fields fs)" for e
      by (rule derive_record_identity_set [OF assms(2) _ spec Some]) (simp_all add: identity_excluded_def)
    moreover from Some spec assms(1) obtain e where "derive_record_identity cr t (py_fields fs) = Inr e"
      and "gs = dict_set f (JStr e) fs \<or> gs = fs \<and> obj_get fs f = JStr e"
      by (auto simp: with_identity_def spec_of_def and_then_Inr_iff split: if_splits)
    ultimately show ?thesis
      using Some spec by (auto simp: check_current_identity_def spec_of_def obj_get_def)
  qed
  have gs: "gs = fs \<or> (\<exists>f e. gs = dict_set f (JStr e) fs)"
    using assms(1) spec
    by (cases "rs_identity_field spec")
      (auto simp: with_identity_def spec_of_def and_then_Inr_iff split: if_splits)
  with assms(2) show "bounded_fields gs" by (auto simp: bounded_fields_set)
  from gs show "dict_keys gs = dict_keys fs
      \<or> (\<exists>f. dict_keys gs = dict_keys fs @ [f] \<and> f \<notin> set (dict_keys fs))"
  proof
    assume "\<exists>f e. gs = dict_set f (JStr e) fs"
    then obtain f e where "gs = dict_set f (JStr e) fs" by blast
    then show ?thesis by (cases "f \<in> set (dict_keys fs)") (simp_all del: set_map)
  qed simp
qed

lemma metadata_not_required: "list_all (\<lambda>t. case record_specs t of None \<Rightarrow> True
    | Some spec \<Rightarrow> list_all (\<lambda>k. k \<notin> set (rs_allowed spec)) metadata_keys) record_types"
  by code_simp

lemma all_record_types: "t \<in> set record_types"
  by (cases t) (simp_all add: record_types_def)

lemma validated_no_metadata:
  assumes "validate_fields cr t fs = Inr u"
  shows "set metadata_keys \<inter> set (dict_keys fs) = {}"
proof -
  from assms obtain spec where "record_specs t = Some spec" "set (dict_keys fs) \<subseteq> set (rs_allowed spec)"
    by (rule validate_fields_keys)
  with metadata_not_required all_record_types [of t] show ?thesis
    by (fastforce simp: list_all_iff)
qed

lemma rec_to_json_model:
  assumes "dict_wf fs" "set metadata_keys \<inter> set (dict_keys fs) = {}"
  shows "rec_to_json (model t fs source) =
    (''record_type'', JStr (rt_value t)) # (''schema_version'', JStr source) # fs"
  using assms by (simp add: rec_to_json_def model_def dict_update_append metadata_keys_def)

lemma bounded_rec_to_json:
  "bounded_fields fs \<Longrightarrow>
    bounded_fields ((''record_type'', JStr a) # (''schema_version'', JStr b) # fs)"
  by (simp add: bounded_fields_def)

lemma parse_record_metadata:
  assumes "bounded_fields fs" "set metadata_keys \<inter> set (dict_keys fs) = {}"
  shows "parse_record cr (py_of_json (JObj ((''record_type'', JStr (rt_value t)) #
      (''schema_version'', JStr v) # fs))) t =
    (if v = LEGACY_SCHEMA_VERSION then migrate_legacy cr t fs True
     else if v \<noteq> CURRENT_SCHEMA_VERSION then Inl (ForgeError ''UNSUPPORTED_RECORD_VERSION'' [rt_value t])
     else and_then (validate_fields cr t fs) (\<lambda>_.
          and_then (check_current_identity cr t fs) (\<lambda>_. Inr (model t fs CURRENT_SCHEMA_VERSION))))"
proof -
  let ?data = "(''record_type'', JStr (rt_value t)) # (''schema_version'', JStr v) # fs"
  have data: "json_object (py_of_json (JObj ?data)) record_label = Inr ?data"
    using assms(1) by (intro json_object_embed bounded_rec_to_json)
  have "dict_without metadata_keys ?data = fs"
    using assms(2) by (simp add: metadata_keys_def dict_without_id)
  with data show ?thesis
    by (simp add: parse_record_def obj_get_def del: py_of_json.simps)
qed

lemma new_record_Inr:
  assumes "new_record cr t raw = Inr r" "distinct (map fst raw)"
  obtains fs where "r = model t fs CURRENT_SCHEMA_VERSION" "validate_fields cr t fs = Inr ()"
    "check_current_identity cr t fs = Inr ()" "bounded_fields fs" "dict_wf fs"
proof -
  from assms(1) obtain d fs where d: "json_object (PMap raw) record_label = Inr d"
    and fs: "with_identity cr t d = Inr fs" and v: "validate_fields cr t fs = Inr ()"
    and r: "r = model t fs CURRENT_SCHEMA_VERSION"
    by (auto simp: new_record_def res_simps)
  note bounded = json_object_bounded [OF d]
  from json_object_keys [OF d] assms(2) have "distinct (map KStr (dict_keys d))" by simp
  then have "dict_wf d" by (simp only: distinct_map)
  with with_identity_Inr(3) [OF fs bounded] have "dict_wf fs" by auto
  with r v with_identity_Inr(1,2) [OF fs bounded] show thesis by (intro that)
qed

lemma new_record_parses:
  assumes "new_record cr t raw = Inr r" "distinct (map fst raw)"
  shows "parse_record cr (py_of_json (JObj (rec_to_json r))) t = Inr r"
proof -
  from assms obtain fs where r: "r = model t fs CURRENT_SCHEMA_VERSION"
    and v: "validate_fields cr t fs = Inr ()" "check_current_identity cr t fs = Inr ()"
    and fs: "bounded_fields fs" "dict_wf fs"
    by (rule new_record_Inr)
  note no_meta = validated_no_metadata [OF v(1)]
  have "rec_to_json r = (''record_type'', JStr (rt_value t)) # (''schema_version'', JStr CURRENT_SCHEMA_VERSION) # fs"
    unfolding r by (rule rec_to_json_model [OF fs(2) no_meta])
  with v parse_record_metadata [OF fs(1) no_meta, of cr t CURRENT_SCHEMA_VERSION] r
  show ?thesis
    by (simp add: CURRENT_SCHEMA_VERSION_def LEGACY_SCHEMA_VERSION_def del: py_of_json.simps)
qed

end
