(* ===== verification/FrozenValues.thy ===== *)
theory FrozenValues
  imports Records
begin

text \<open>
  Python's operations on the frozen values a record holds: truth, equality, \<open>str\<close> and the
  conversions of identities the lifecycle code applies to them.
\<close>

section \<open>Truth and equality\<close>

fun truthy :: "fjson \<Rightarrow> bool" where
  "truthy FNull = False"
| "truthy (FBool b) = b"
| "truthy (FInt i) = (i \<noteq> 0)"
| "truthy (FFloat f) = (f \<notin> {''0.0'', ''-0.0''})"
| "truthy (FStr s) = (s \<noteq> [])"
| "truthy (FTuple xs) = (xs \<noteq> [])"
| "truthy (FMap d) = (d \<noteq> [])"

definition feq :: "fjson \<Rightarrow> fjson \<Rightarrow> bool" where
  "feq v w = json_eq (thaw_json v) (thaw_json w)"

lemma feq_text [simp]: "feq (FStr s) w \<longleftrightarrow> w = FStr s" "feq v (FStr s) \<longleftrightarrow> v = FStr s"
  by (cases w; auto simp: feq_def) (cases v; auto simp: feq_def)

lemma feq_null [simp]: "feq FNull w \<longleftrightarrow> w = FNull" "feq v FNull \<longleftrightarrow> v = FNull"
  by (cases w; auto simp: feq_def) (cases v; auto simp: feq_def)

text \<open>A Python \<open>str | None\<close> compared with a value.\<close>

definition opt_text :: "string option \<Rightarrow> fjson" where
  "opt_text o' = (case o' of None \<Rightarrow> FNull | Some s \<Rightarrow> FStr s)"

text \<open>\<open>dict(authority) == identities\<close> for a frozen object and a dictionary of texts.\<close>

definition text_map_eq :: "fjson \<Rightarrow> string dict \<Rightarrow> bool" where
  "text_map_eq v d =
     (case v of
        FMap m \<Rightarrow> length m = length d \<and> list_all (\<lambda>(k, s). dict_get m k = Some (FStr s)) d
      | _ \<Rightarrow> False)"

section \<open>Text\<close>

text \<open>
  \<open>repr\<close> of a text, with every character outside ASCII taken as printable; \<open>str\<close> of any other
  value is its \<open>repr\<close>. A frozen object is a \<open>mappingproxy\<close>.
\<close>

definition repr_char :: "char \<Rightarrow> char \<Rightarrow> string" where
  "repr_char q c =
     (if c = q \<or> c = CHR 0x5C then [CHR 0x5C, c]
      else if c = CHR 0x0A then [CHR 0x5C, CHR ''n'']
      else if c = CHR 0x0D then [CHR 0x5C, CHR ''r'']
      else if c = CHR 0x09 then [CHR 0x5C, CHR ''t'']
      else if of_char c < (32 :: nat) \<or> c = CHR 0x7F
        then [CHR 0x5C, CHR ''x'', hex_char (of_char c div 16), hex_char (of_char c mod 16)]
      else [c])"

definition repr_text :: "string \<Rightarrow> string" where
  "repr_text s =
     (let q = (if CHR 0x27 \<in> set s \<and> CHR 0x22 \<notin> set s then CHR 0x22 else CHR 0x27) in
      q # concat (map (repr_char q) s) @ [q])"

fun py_repr :: "fjson \<Rightarrow> string" where
  "py_repr FNull = ''None''"
| "py_repr (FBool b) = (if b then ''True'' else ''False'')"
| "py_repr (FInt i) = int_str i"
| "py_repr (FFloat f) = f"
| "py_repr (FStr s) = repr_text s"
| "py_repr (FTuple xs) =
     ''('' @ join '', '' (map py_repr xs) @ (if length xs = 1 then '',)'' else '')'')"
| "py_repr (FMap d) =
     ''mappingproxy({'' @ join '', '' (map (\<lambda>(k, v). repr_text k @ '': '' @ py_repr v) d) @ ''})''"

definition py_str :: "fjson \<Rightarrow> string" where
  "py_str v = (case v of FStr s \<Rightarrow> s | _ \<Rightarrow> py_repr v)"

lemma py_str_text [simp]: "py_str (FStr s) = s"
  by (simp add: py_str_def)

text \<open>\<open>str(value or default)\<close>.\<close>

definition str_or :: "string \<Rightarrow> fjson \<Rightarrow> string" where
  "str_or dflt v = (if truthy v then py_str v else dflt)"

text \<open>\<open>str(record[key])\<close>, used on the text fields that validation requires.\<close>

definition rec_str :: "forge_record \<Rightarrow> string \<Rightarrow> string" where
  "rec_str r key = py_str (rec_value r key)"

text \<open>A text read as a sequence of texts, \<open>sorted(str(item) for item in items)\<close>.\<close>

definition sorted_strs :: "fjson list \<Rightarrow> string list" where
  "sorted_strs xs = sort (map py_str xs)"

definition map_get :: "fjson \<Rightarrow> string \<Rightarrow> fjson" where
  "map_get v k = (case v of FMap d \<Rightarrow> (case dict_get d k of None \<Rightarrow> FNull | Some x \<Rightarrow> x) | _ \<Rightarrow> FNull)"

section \<open>Digests written in identities\<close>

definition hex_value :: "char \<Rightarrow> nat option" where
  "hex_value c =
     (let n = of_char c :: nat in
      if 48 \<le> n \<and> n \<le> 57 then Some (n - 48)
      else if 97 \<le> n \<and> n \<le> 102 then Some (n - 87)
      else if 65 \<le> n \<and> n \<le> 70 then Some (n - 55)
      else None)"

text \<open>\<open>bytes.fromhex\<close>: pairs of digits, with blanks allowed between the pairs.\<close>

fun fromhex :: "string \<Rightarrow> string option" where
  "fromhex [] = Some []"
| "fromhex (c # cs) =
     (if c \<in> {CHR '' '', CHR 0x09, CHR 0x0A, CHR 0x0B, CHR 0x0C, CHR 0x0D} then fromhex cs
      else (case cs of
          [] \<Rightarrow> None
        | d # ds \<Rightarrow>
            (case (hex_value c, hex_value d) of
               (Some h, Some l) \<Rightarrow> map_option (Cons (char_of (16 * h + l))) (fromhex ds)
             | _ \<Rightarrow> None)))"

text \<open>\<open>identity.rsplit(":", 1)[-1]\<close>.\<close>

definition after_last_colon :: "string \<Rightarrow> string" where
  "after_last_colon s = rev (takeWhile (\<lambda>c. c \<noteq> CHR '':'') (rev s))"

definition zero_digest :: string where
  "zero_digest = replicate 32 (CHR 0x00)"

lemma after_last_colon_no_colon: "CHR '':'' \<notin> set (after_last_colon s)"
  by (auto simp: after_last_colon_def dest: set_takeWhileD)

lemma fromhex_length: "fromhex s = Some bs \<Longrightarrow> 2 * length bs \<le> length s"
  by (induction s arbitrary: bs rule: fromhex.induct) (fastforce split: if_splits list.splits option.splits)+

end
