(* ===== verification/LedgerEntries.thy ===== *)
theory LedgerEntries
  imports RecordIdentity FrozenValues
begin

text \<open>
  The typed ledger entry of \<open>records.py\<close> (\<open>LedgerEntry\<close>, \<open>normalize_ledger_entry\<close>): the envelope
  that gives a record its place in the append-only history.
\<close>

record ledger_entry =
  le_sequence :: int
  le_timestamp :: string
  le_kind :: string
  le_previous_hash :: string
  le_payload :: forge_record
  le_entry_hash :: string
  le_schema :: string
  le_source :: string

definition entry_to_json :: "ledger_entry \<Rightarrow> obj" where
  "entry_to_json e =
     [(''record_type'', JStr (rt_value LEDGER_ENTRY)),
      (''schema_version'', JStr (le_schema e)),
      (''sequence'', JInt (le_sequence e)),
      (''timestamp'', JStr (le_timestamp e)),
      (''kind'', JStr (le_kind e)),
      (''previous_hash'', JStr (le_previous_hash e)),
      (''payload'', JObj (rec_to_json (le_payload e))),
      (''entry_hash'', JStr (le_entry_hash e))]"

text \<open>The schema a raw entry declares: legacy when both metadata members are missing or null.\<close>

definition entry_source :: "json \<Rightarrow> json \<Rightarrow> string res" where
  "entry_source declared_type declared_version =
     (if declared_type = JNull \<and> declared_version = JNull then Inr LEGACY_SCHEMA_VERSION
      else if declared_type \<noteq> JStr (rt_value LEDGER_ENTRY)
      then Inl (ForgeError ''RECORD_TYPE_MISMATCH'' [])
      else if declared_version = JStr LEGACY_SCHEMA_VERSION then Inr LEGACY_SCHEMA_VERSION
      else if declared_version \<noteq> JStr CURRENT_SCHEMA_VERSION
      then Inl (ForgeError ''UNSUPPORTED_RECORD_VERSION'' [])
      else Inr CURRENT_SCHEMA_VERSION)"

definition json_text :: "json \<Rightarrow> string option" where
  "json_text v = (case v of JStr s \<Rightarrow> Some s | _ \<Rightarrow> None)"

definition json_int :: "json \<Rightarrow> int option" where
  "json_int v = (case v of JInt i \<Rightarrow> Some i | _ \<Rightarrow> None)"

definition json_members :: "json \<Rightarrow> obj option" where
  "json_members v = (case v of JObj d \<Rightarrow> Some d | _ \<Rightarrow> None)"

definition typed :: "'a option \<Rightarrow> 'a res" where
  "typed o' = (case o' of None \<Rightarrow> Inl malformed | Some x \<Rightarrow> Inr x)"

lemma typed_Inr [res_simps]: "typed o' = Inr x \<longleftrightarrow> o' = Some x"
  by (simp add: typed_def split: option.splits)

definition kind_type :: "string \<Rightarrow> record_type res" where
  "kind_type kind =
     (case dict_get LEDGER_KIND_TYPES kind of
        None \<Rightarrow> Inl (ForgeError ''RECORD_CONTEXT'' [kind])
      | Some t \<Rightarrow> Inr t)"

lemma kind_type_Inr [res_simps]: "kind_type kind = Inr t \<longleftrightarrow> dict_get LEDGER_KIND_TYPES kind = Some t"
  by (simp add: kind_type_def split: option.splits)

definition entry_of_members :: "crypto \<Rightarrow> string \<Rightarrow> obj \<Rightarrow> ledger_entry res" where
  "entry_of_members cr source d =
     and_then (typed (json_int (obj_get d ''sequence''))) (\<lambda>sequence.
     and_then (typed (json_text (obj_get d ''timestamp''))) (\<lambda>timestamp.
     and_then (typed (json_text (obj_get d ''kind''))) (\<lambda>kind.
     and_then (typed (json_text (obj_get d ''previous_hash''))) (\<lambda>previous_hash.
     and_then (typed (json_text (obj_get d ''entry_hash''))) (\<lambda>entry_hash.
     and_then (typed (json_members (obj_get d ''payload''))) (\<lambda>payload.
     and_then (kind_type kind) (\<lambda>t.
     and_then (parse_record cr (py_of_json (JObj payload)) t) (\<lambda>r.
     Inr \<lparr>le_sequence = sequence, le_timestamp = timestamp, le_kind = kind,
          le_previous_hash = previous_hash, le_payload = r, le_entry_hash = entry_hash,
          le_schema = source, le_source = source\<rparr>))))))))"

definition normalize_ledger_entry :: "crypto \<Rightarrow> pyobj \<Rightarrow> ledger_entry res" where
  "normalize_ledger_entry cr raw =
     and_then (json_object raw ''ledger_entry'') (\<lambda>data.
     and_then (entry_source (obj_get data ''record_type'') (obj_get data ''schema_version'')) (\<lambda>source.
     let d = dict_without metadata_keys data;
         missing = sort (filter (\<lambda>k. k \<notin> set (dict_keys d)) LEDGER_REQUIRED);
         unknown = sort (filter (\<lambda>k. k \<notin> set LEDGER_REQUIRED) (dict_keys d)) in
     and_then (raise_if (missing \<noteq> []) (ForgeError ''RECORD_MISSING_FIELD'' missing)) (\<lambda>_.
     and_then (raise_if (unknown \<noteq> []) (ForgeError ''RECORD_UNKNOWN_FIELD'' unknown)) (\<lambda>_.
     entry_of_members cr source d))))"

section \<open>Validated records\<close>

text \<open>
  Every record of the program is built by \<open>new_record\<close> or \<open>parse_record\<close>, so it carries fields that
  passed \<open>_validate_fields\<close>.
\<close>

definition valid_record :: "crypto \<Rightarrow> forge_record \<Rightarrow> bool" where
  "valid_record cr r \<longleftrightarrow> validate_fields cr (fr_type r) (thaw_fields (fr_fields r)) = Inr ()"

lemma valid_model [simp]: "valid_record cr (model t fs source) \<longleftrightarrow> validate_fields cr t fs = Inr ()"
  by (simp add: valid_record_def model_def)

lemma migrate_legacy_valid:
  "migrate_legacy cr t fs restore = Inr r \<Longrightarrow> valid_record cr r \<and> fr_type r = t"
  by (auto simp: migrate_legacy_def model_def valid_record_def res_simps)

lemma parse_record_valid:
  assumes "parse_record cr raw t = Inr r"
  shows "valid_record cr r" "fr_type r = t"
  using assms
  by (auto simp: parse_record_def Let_def res_simps dest: migrate_legacy_valid split: if_splits)
    (simp_all add: model_def)

lemma new_record_valid:
  assumes "new_record cr t raw = Inr r"
  shows "valid_record cr r" "fr_type r = t"
  using assms by (auto simp: new_record_def res_simps model_def valid_record_def)

lemma entry_of_members_payload:
  assumes "entry_of_members cr source d = Inr e"
  shows "valid_record cr (le_payload e)"
    "dict_get LEDGER_KIND_TYPES (le_kind e) = Some (fr_type (le_payload e))"
  using assms
  by (auto simp: entry_of_members_def res_simps simp del: py_of_json.simps dest: parse_record_valid)

lemma normalize_ledger_entry_payload:
  assumes "normalize_ledger_entry cr raw = Inr e"
  shows "valid_record cr (le_payload e)"
    "dict_get LEDGER_KIND_TYPES (le_kind e) = Some (fr_type (le_payload e))"
proof -
  from assms obtain source d where "entry_of_members cr source d = Inr e"
    by (auto simp: normalize_ledger_entry_def Let_def and_then_Inr_iff)
  then show "valid_record cr (le_payload e)"
    and "dict_get LEDGER_KIND_TYPES (le_kind e) = Some (fr_type (le_payload e))"
    by (rule entry_of_members_payload)+
qed

text \<open>The accessors of the lifecycle code find a text wherever validation requires one.\<close>

lemma valid_record_text:
  assumes "valid_record cr r" "f \<in> set (required_string_fields (fr_type r))" "f \<notin> set metadata_keys"
  obtains s where "rec_value r f = FStr s" "rec_str r f = s" "s \<noteq> []"
proof -
  from assms(1,2) obtain s where s: "dict_get (thaw_fields (fr_fields r)) f = Some (JStr s)" "s \<noteq> []"
    unfolding valid_record_def by (rule validate_fields_text)
  then obtain v where "dict_get (fr_fields r) f = Some v" "thaw_json v = JStr s" by auto
  then have "dict_get (fr_fields r) f = Some (FStr s)" by (cases v) auto
  with assms(3) s(2) show thesis
    by (intro that) (auto simp: rec_value_def rec_get_def rec_str_def metadata_keys_def)
qed

end
