(* ===== verification/LifecycleTypes.thy ===== *)
theory LifecycleTypes
  imports LedgerEntries
begin

text \<open>
  The data of \<open>state_machine.py\<close>: stages, blockers, evidence readiness, the projection, and what
  \<open>ForgeStateMachine\<close> is constructed from. The history is a list of typed ledger entries.
\<close>

section \<open>Stages and blockers\<close>

datatype lifecycle_stage =
    NO_EPOCH
  | EPOCH_ACTIVE
  | CANDIDATE_REGISTERED
  | EVIDENCE_INCOMPLETE
  | CANDIDATE_READY
  | CANDIDATE_SELECTED
  | CANDIDATE_REJECTED
  | CANDIDATE_FROZEN
  | EVALUATION_COMPLETE
  | BUNDLE_COMPLETE
  | AMBIGUOUS_HISTORY

primrec stage_value :: "lifecycle_stage \<Rightarrow> string" where
  "stage_value NO_EPOCH = ''no_epoch''"
| "stage_value EPOCH_ACTIVE = ''epoch_active''"
| "stage_value CANDIDATE_REGISTERED = ''candidate_registered''"
| "stage_value EVIDENCE_INCOMPLETE = ''evidence_incomplete''"
| "stage_value CANDIDATE_READY = ''candidate_ready''"
| "stage_value CANDIDATE_SELECTED = ''candidate_selected''"
| "stage_value CANDIDATE_REJECTED = ''candidate_rejected''"
| "stage_value CANDIDATE_FROZEN = ''candidate_frozen''"
| "stage_value EVALUATION_COMPLETE = ''evaluation_complete''"
| "stage_value BUNDLE_COMPLETE = ''bundle_complete''"
| "stage_value AMBIGUOUS_HISTORY = ''ambiguous_history''"

record blocker =
  bl_code :: string
  bl_data :: "string list"

definition blocker :: "string \<Rightarrow> string list \<Rightarrow> blocker" where
  "blocker c ds = \<lparr>bl_code = c, bl_data = ds\<rparr>"

lemma blocker_code [simp]: "bl_code (blocker c ds) = c" "bl_data (blocker c ds) = ds"
  by (simp_all add: blocker_def)

definition blocker_error :: "blocker \<Rightarrow> py_error" where
  "blocker_error b = ForgeError (bl_code b) (bl_data b)"

section \<open>Evidence readiness\<close>

record readiness =
  er_required :: "string list"
  er_present :: "string list"
  er_missing :: "string list"
  er_unknown :: "string list"
  er_failed :: "string list"
  er_stale :: "string list"
  er_noncomparable :: "string list"
  er_records :: "string list dict"
  er_ready :: bool
  er_status :: string
  er_policy_identity :: string
  er_policy_error :: "string option"

definition readiness_blocker :: "readiness \<Rightarrow> blocker option" where
  "readiness_blocker r =
     (case er_policy_error r of
        Some e \<Rightarrow> Some (blocker ''EVIDENCE_PLAN_INVALID'' [e])
      | None \<Rightarrow>
          if er_failed r \<noteq> [] then Some (blocker ''EVIDENCE_FAILED'' (er_failed r))
          else if er_missing r \<noteq> [] then Some (blocker ''EVIDENCE_INCOMPLETE'' (er_missing r))
          else if er_unknown r \<noteq> [] then Some (blocker ''EVIDENCE_UNKNOWN'' (er_unknown r))
          else if er_stale r \<noteq> [] then Some (blocker ''EVIDENCE_STALE'' (er_stale r))
          else if er_noncomparable r \<noteq> []
          then Some (blocker ''EVIDENCE_NOT_COMPARABLE'' (er_noncomparable r))
          else None)"

lemma readiness_blocker_None:
  "readiness_blocker r = None \<longleftrightarrow>
     er_policy_error r = None \<and> er_failed r = [] \<and> er_missing r = [] \<and> er_unknown r = []
     \<and> er_stale r = [] \<and> er_noncomparable r = []"
  by (auto simp: readiness_blocker_def split: option.splits)

section \<open>The native adapter\<close>

text \<open>
  \<open>NativeForgeAdapter\<close> asks the external MNCS runtime; its answers are a parameter. Its two
  projections may be missing from an adapter (\<open>getattr(.., None)\<close>).
\<close>

record requirement_input =
  rq_records :: "forge_record list"
  rq_freshness :: string
  rq_comparable :: bool
  rq_environment_match :: bool
  rq_policy_match :: bool
  rq_authority_match :: bool

record native_requirement =
  nr_identity :: string
  nr_classification :: string
  nr_observed_count :: nat
  nr_stale :: bool
  nr_noncomparable :: bool

record native_readiness =
  nd_requirements :: "native_requirement list"
  nd_status :: string
  nd_ready :: bool
  nd_valid :: bool

datatype native_event =
    EpochStarted string fjson
  | CandidateRegistered string string fjson
  | EvidenceObserved string string
  | CandidateSelected string
  | CandidateRejected string
  | CandidateFrozen string
  | EvaluationRecorded string string

record native_lifecycle =
  nl_stage :: string
  nl_active_epoch :: string
  nl_parent_epoch :: string
  nl_current_candidate :: string
  nl_parent_candidate :: string
  nl_disposition :: string
  nl_freshness :: string
  nl_lineage_ok :: bool

record native_preflight =
  np_next_stage :: string
  np_status :: string
  np_reason :: int

record bundle_request =
  bq_requested :: "string option"
  bq_current :: "string option"
  bq_present :: bool
  bq_matches :: bool
  bq_fresh :: bool
  bq_selected :: bool
  bq_frozen :: bool
  bq_freeze_current :: bool
  bq_mode :: string
  bq_request_valid :: bool
  bq_evidence_status :: string
  bq_evidence_ready :: bool

record native_bundle =
  nb_ready :: bool
  nb_reason :: string
  nb_valid :: bool

record native_adapter =
  na_readiness :: "(requirement_input dict \<Rightarrow> bool \<Rightarrow> bool \<Rightarrow> native_readiness res) option"
  na_lifecycle :: "(native_event list \<Rightarrow> string \<Rightarrow> nat \<Rightarrow> bool \<Rightarrow> native_lifecycle res) option"
  na_preflight :: "string \<Rightarrow> string \<Rightarrow> string \<Rightarrow> native_preflight res"
  na_bundle :: "bundle_request \<Rightarrow> native_bundle res"

section \<open>The machine\<close>

text \<open>The attributes the constructor sets before projecting.\<close>

record machine_input =
  mi_sha :: "string \<Rightarrow> string"
  mi_mode :: string
  mi_history :: "ledger_entry list"
  mi_current_candidate :: string
  mi_current_authority :: "string dict"
  mi_freeze_bindings :: "string dict"
  mi_policy_identity :: string
  mi_required :: "string list"
  mi_policy_error :: "string option"
  mi_freshness :: "string dict"
  mi_comparability :: "bool option dict"
  mi_environment_keys :: "string list dict"
  mi_environment_identities :: "string dict"
  mi_policy_identities :: "string dict"
  mi_native :: "native_adapter option"

record projection =
  pr_stage :: lifecycle_stage
  pr_active_epoch :: "forge_record option"
  pr_epoch_status :: string
  pr_superseded :: "string list"
  pr_candidate :: "forge_record option"
  pr_candidate_status :: string
  pr_freshness :: string
  pr_lineage :: "string list"
  pr_evidence :: readiness
  pr_disposition :: "forge_record option"
  pr_disposition_status :: string
  pr_freeze :: "forge_record option"
  pr_freeze_status :: string
  pr_evaluations :: "forge_record list"
  pr_evaluation_status :: string
  pr_reconciliation_status :: string
  pr_bundles :: "forge_record list"
  pr_bundle_status :: string
  pr_limitations :: "blocker list"

text \<open>
  A constructed machine: its inputs, its projection, and the flag that inspection clears while it
  probes the transitions.
\<close>

record machine =
  ma_input :: machine_input
  ma_projection :: projection
  ma_preflight :: bool

section \<open>Reading the history\<close>

abbreviation history_records :: "machine_input \<Rightarrow> forge_record list" where
  "history_records inp \<equiv> map le_payload (mi_history inp)"

definition of_type :: "record_type \<Rightarrow> forge_record list \<Rightarrow> forge_record list" where
  "of_type t rs = filter (\<lambda>r. fr_type r = t) rs"

definition records_of :: "machine_input \<Rightarrow> record_type \<Rightarrow> forge_record list" where
  "records_of inp t = of_type t (history_records inp)"

text \<open>The records with their position in the history, \<open>_records\<close>.\<close>

definition indexed_records :: "machine_input \<Rightarrow> record_type \<Rightarrow> (nat \<times> forge_record) list" where
  "indexed_records inp t =
     filter (\<lambda>(i, r). fr_type r = t) (enumerate 0 (history_records inp))"

definition record_identity_text :: "forge_record \<Rightarrow> string" where
  "record_identity_text r =
     (case rec_identity r of
        Some (c # cs) \<Rightarrow> c # cs
      | _ \<Rightarrow> rt_value (fr_type r) @ '':without-identity'')"

lemma snd_indexed_records: "map snd (indexed_records inp t) = records_of inp t"
proof -
  have "map snd (filter (\<lambda>(i, r). fr_type r = t) (enumerate n rs)) = filter (\<lambda>r. fr_type r = t) rs"
    for n rs by (induction rs arbitrary: n) auto
  then show ?thesis by (simp add: indexed_records_def records_of_def of_type_def)
qed

lemma of_type_append [simp]: "of_type t (rs @ ss) = of_type t rs @ of_type t ss"
  by (simp add: of_type_def)

lemma of_type_single [simp]: "of_type t [r] = (if fr_type r = t then [r] else [])"
  by (simp add: of_type_def)

lemma of_type_Nil [simp]: "of_type t [] = []"
  by (simp add: of_type_def)

lemma in_of_type [simp]: "r \<in> set (of_type t rs) \<longleftrightarrow> r \<in> set rs \<and> fr_type r = t"
  by (auto simp: of_type_def)

end
