(* ===== verification/EvidenceReadiness.thy ===== *)
theory EvidenceReadiness
  imports LifecycleTypes
begin

text \<open>
  Readiness of the required evidence (\<open>_compat_evidence_readiness\<close>, \<open>_evidence_readiness\<close> of
  \<open>state_machine.py\<close>). The loop over the requirements collects names into lists that are then
  sorted without repetition, so each list is the requirements that satisfy one condition.
\<close>

section \<open>Evidence of a candidate\<close>

text \<open>
  The records that count for a requirement: the candidate's own workflow results and development
  verifier results. A missing candidate (only on the native path) has none.
\<close>

definition workflow_evidence :: "string \<Rightarrow> forge_record \<Rightarrow> bool" where
  "workflow_evidence cid r \<longleftrightarrow>
     feq (rec_value r ''candidate_identity'') (FStr cid)
     \<and> \<not> feq (rec_value r ''subject_type'') (FStr ''project'')"

definition verifier_evidence :: "string \<Rightarrow> forge_record \<Rightarrow> bool" where
  "verifier_evidence cid r \<longleftrightarrow>
     feq (rec_value r ''candidate_identity'') (FStr cid)
     \<and> feq (rec_value r ''mode'') (FStr ''development'')"

definition evidence_matches :: "machine_input \<Rightarrow> string option \<Rightarrow> string \<Rightarrow> forge_record list" where
  "evidence_matches inp cid req =
     (case cid of
        None \<Rightarrow> []
      | Some c \<Rightarrow>
          filter (\<lambda>r. workflow_evidence c r \<and> rec_str r ''workflow'' = req)
            (records_of inp WORKFLOW_RESULT)
          @ filter (\<lambda>r. verifier_evidence c r \<and> rec_str r ''verifier_id'' = req)
            (records_of inp VERIFIER_RESULT))"

definition verifier_candidate_current :: "machine_input \<Rightarrow> forge_record \<Rightarrow> bool" where
  "verifier_candidate_current inp r \<longleftrightarrow>
     fr_type r = VERIFIER_RESULT
     \<and> feq (map_get (rec_value r ''input_identities'') ''candidate_identity'') (FStr (mi_current_candidate inp))"

definition observed_freshness :: "machine_input \<Rightarrow> string option \<Rightarrow> forge_record \<Rightarrow> string" where
  "observed_freshness inp cid r =
     (case dict_get (mi_freshness inp) (record_identity_text r) of
        Some f \<Rightarrow> f
      | None \<Rightarrow>
          if cid = Some (mi_current_candidate inp)
             \<and> (fr_type r = WORKFLOW_RESULT \<or> verifier_candidate_current inp r)
          then ''CURRENT'' else ''UNKNOWN'')"

definition observed_comparable :: "machine_input \<Rightarrow> forge_record \<Rightarrow> bool" where
  "observed_comparable inp r \<longleftrightarrow>
     (case dict_get (mi_comparability inp) (record_identity_text r) of
        None \<Rightarrow> True | Some c \<Rightarrow> c = Some True)"

text \<open>\<open>recorded_keys\<close> is a sequence of keys equal, in sorted order, to the configured ones.\<close>

definition keys_match :: "fjson \<Rightarrow> string list \<Rightarrow> bool" where
  "keys_match recorded expected \<longleftrightarrow>
     (case recorded of FTuple xs \<Rightarrow> sorted_strs xs = expected | _ \<Rightarrow> False)"

definition workflow_environment_match :: "machine_input \<Rightarrow> string \<Rightarrow> forge_record \<Rightarrow> bool" where
  "workflow_environment_match inp req r \<longleftrightarrow>
     (case dict_get (mi_environment_keys inp) req of
        None \<Rightarrow> True
      | Some expected \<Rightarrow> keys_match (map_get (rec_value r ''environment'') ''allowlisted_keys'') expected)"

definition bound_to :: "string dict \<Rightarrow> string \<Rightarrow> forge_record \<Rightarrow> string \<Rightarrow> bool" where
  "bound_to expected req r field \<longleftrightarrow>
     (case dict_get expected req of None \<Rightarrow> True | Some v \<Rightarrow> feq (rec_value r field) (FStr v))"

definition environment_match :: "machine_input \<Rightarrow> string \<Rightarrow> forge_record \<Rightarrow> bool" where
  "environment_match inp req r \<longleftrightarrow>
     (if fr_type r = WORKFLOW_RESULT then workflow_environment_match inp req r
      else if fr_type r = VERIFIER_RESULT
      then bound_to (mi_environment_identities inp) req r ''environment_identity''
      else True)"

definition policy_match :: "machine_input \<Rightarrow> string \<Rightarrow> forge_record \<Rightarrow> bool" where
  "policy_match inp req r \<longleftrightarrow>
     (fr_type r = VERIFIER_RESULT
        \<longrightarrow> bound_to (mi_policy_identities inp) req r ''policy_identity'')"

text \<open>The most recent epoch record the candidate names, and its authority against the current one.\<close>

definition candidate_epoch :: "machine_input \<Rightarrow> forge_record \<Rightarrow> forge_record option" where
  "candidate_epoch inp candidate =
     List.find (\<lambda>r. feq (rec_value r ''epoch_id'') (rec_value candidate ''source_epoch''))
       (rev (records_of inp EPOCH))"

definition authority_match :: "machine_input \<Rightarrow> forge_record option \<Rightarrow> bool" where
  "authority_match inp candidate \<longleftrightarrow>
     (case candidate of
        None \<Rightarrow> True
      | Some c \<Rightarrow>
          (case candidate_epoch inp c of
             None \<Rightarrow> True
           | Some epoch \<Rightarrow> mi_current_authority inp \<noteq> []
               \<longrightarrow> text_map_eq (rec_value epoch ''authority_identities'') (mi_current_authority inp)))"

section \<open>The compatibility projection\<close>

definition status_text :: "forge_record \<Rightarrow> string" where
  "status_text r = (case rec_status r of Some (c # cs) \<Rightarrow> c # cs | _ \<Rightarrow> ''UNKNOWN'')"

definition statuses :: "machine_input \<Rightarrow> string option \<Rightarrow> string \<Rightarrow> string list" where
  "statuses inp cid req = map status_text (evidence_matches inp cid req)"

definition requirement_missing :: "machine_input \<Rightarrow> string option \<Rightarrow> string \<Rightarrow> bool" where
  "requirement_missing inp cid req \<longleftrightarrow> evidence_matches inp cid req = []"

definition requirement_failed :: "machine_input \<Rightarrow> string option \<Rightarrow> string \<Rightarrow> bool" where
  "requirement_failed inp cid req \<longleftrightarrow> ''FAIL'' \<in> set (statuses inp cid req)"

definition requirement_unknown :: "machine_input \<Rightarrow> string option \<Rightarrow> string \<Rightarrow> bool" where
  "requirement_unknown inp cid req \<longleftrightarrow>
     \<not> requirement_failed inp cid req \<and> ''UNKNOWN'' \<in> set (statuses inp cid req)"

definition requirement_stale :: "machine_input \<Rightarrow> string option \<Rightarrow> string \<Rightarrow> bool" where
  "requirement_stale inp cid req \<longleftrightarrow>
     (\<exists>r \<in> set (evidence_matches inp cid req). observed_freshness inp cid r = ''STALE'')"

definition record_noncomparable :: "machine_input \<Rightarrow> string option \<Rightarrow> string \<Rightarrow> forge_record \<Rightarrow> bool" where
  "record_noncomparable inp cid req r \<longleftrightarrow>
     observed_freshness inp cid r \<notin> {''STALE'', ''CURRENT''}
     \<or> \<not> observed_comparable inp r
     \<or> \<not> environment_match inp req r
     \<or> \<not> policy_match inp req r"

definition requirement_noncomparable ::
    "machine_input \<Rightarrow> forge_record option \<Rightarrow> string option \<Rightarrow> string \<Rightarrow> bool" where
  "requirement_noncomparable inp candidate cid req \<longleftrightarrow>
     (\<exists>r \<in> set (evidence_matches inp cid req). record_noncomparable inp cid req r)
     \<or> \<not> requirement_missing inp cid req \<and> \<not> authority_match inp candidate"

definition requirements_of :: "machine_input \<Rightarrow> string list option \<Rightarrow> string list" where
  "requirements_of inp required =
     (case required of None \<Rightarrow> mi_required inp | Some rs \<Rightarrow> fromkeys rs)"

definition policy_error_of :: "machine_input \<Rightarrow> string list option \<Rightarrow> string option" where
  "policy_error_of inp required = (case required of None \<Rightarrow> mi_policy_error inp | Some rs \<Rightarrow> None)"

definition candidate_id_of :: "forge_record option \<Rightarrow> string option" where
  "candidate_id_of candidate = map_option (\<lambda>c. rec_str c ''candidate_id'') candidate"

definition evidence_identities ::
    "machine_input \<Rightarrow> string option \<Rightarrow> string list \<Rightarrow> string list dict" where
  "evidence_identities inp cid reqs =
     map (\<lambda>req. (req, map record_identity_text (evidence_matches inp cid req))) reqs"

definition select_requirements :: "(string \<Rightarrow> bool) \<Rightarrow> string list \<Rightarrow> string list" where
  "select_requirements P reqs = sorted_set (filter P reqs)"

definition no_candidate_readiness :: "machine_input \<Rightarrow> string list option \<Rightarrow> readiness" where
  "no_candidate_readiness inp required =
     \<lparr>er_required = requirements_of inp required, er_present = [],
      er_missing = requirements_of inp required, er_unknown = [], er_failed = [], er_stale = [],
      er_noncomparable = [], er_records = [], er_ready = False, er_status = ''UNKNOWN'',
      er_policy_identity = mi_policy_identity inp, er_policy_error = policy_error_of inp required\<rparr>"

definition text_truthy :: "string option \<Rightarrow> bool" where
  "text_truthy o' = (case o' of None \<Rightarrow> False | Some s \<Rightarrow> s \<noteq> [])"

definition compat_evidence_readiness ::
    "machine_input \<Rightarrow> forge_record option \<Rightarrow> string list option \<Rightarrow> readiness" where
  "compat_evidence_readiness inp candidate required =
     (case candidate of
        None \<Rightarrow> no_candidate_readiness inp required
      | Some c \<Rightarrow>
          (let reqs = requirements_of inp required;
               policy_error = policy_error_of inp required;
               cid = candidate_id_of candidate;
               missing = select_requirements (requirement_missing inp cid) reqs;
               unknown = select_requirements (requirement_unknown inp cid) reqs;
               failed = select_requirements (requirement_failed inp cid) reqs;
               stale = select_requirements (requirement_stale inp cid) reqs;
               noncomparable = select_requirements (requirement_noncomparable inp candidate cid) reqs;
               ready = (\<not> text_truthy policy_error \<and> missing = [] \<and> unknown = [] \<and> failed = []
                        \<and> stale = [] \<and> noncomparable = []) in
           \<lparr>er_required = reqs,
            er_present = sort (filter (\<lambda>req. \<not> requirement_missing inp cid req) reqs),
            er_missing = missing, er_unknown = unknown, er_failed = failed, er_stale = stale,
            er_noncomparable = noncomparable,
            er_records = evidence_identities inp cid reqs,
            er_ready = ready,
            er_status = (if failed \<noteq> [] then ''FAIL'' else if ready then ''PASS'' else ''UNKNOWN''),
            er_policy_identity = mi_policy_identity inp,
            er_policy_error = policy_error\<rparr>))"

section \<open>The native projection\<close>

definition combined_freshness :: "machine_input \<Rightarrow> string option \<Rightarrow> forge_record list \<Rightarrow> string" where
  "combined_freshness inp cid rs =
     (if \<exists>r \<in> set rs. observed_freshness inp cid r = ''STALE'' then ''STALE''
      else if \<exists>r \<in> set rs. observed_freshness inp cid r \<noteq> ''CURRENT'' then ''UNKNOWN''
      else ''CURRENT'')"

definition requirement_input_of ::
    "machine_input \<Rightarrow> forge_record option \<Rightarrow> string \<Rightarrow> requirement_input" where
  "requirement_input_of inp candidate req =
     (let cid = candidate_id_of candidate; rs = evidence_matches inp cid req in
      \<lparr>rq_records = rs,
       rq_freshness = combined_freshness inp cid rs,
       rq_comparable = list_all (observed_comparable inp) rs,
       rq_environment_match = list_all (environment_match inp req) rs,
       rq_policy_match = list_all (policy_match inp req) rs,
       rq_authority_match = authority_match inp candidate\<rparr>)"

text \<open>\<open>NativeForgeAdapter.readiness_requirement_identity\<close>.\<close>

definition readiness_requirement_identity :: "machine_input \<Rightarrow> string \<Rightarrow> string res" where
  "readiness_requirement_identity inp req =
     (if req = [] then Inl (ForgeError ''NATIVE_READINESS_UNKNOWN'' [])
      else (case fromhex (mi_sha inp (''mncs-forge.readiness.requirement.v1'' @ [CHR 0x00] @ req)) of
          None \<Rightarrow> Inl PyValueError
        | Some digest \<Rightarrow> Inr digest))"

definition READINESS_CLASSES :: "string list" where
  "READINESS_CLASSES = [''Present'', ''Missing'', ''Unknown'', ''Failed'', ''Stale'', ''NonComparable'']"

definition projected_requirement ::
    "machine_input \<Rightarrow> native_requirement list \<Rightarrow> string \<Rightarrow> (string \<times> native_requirement) res" where
  "projected_requirement inp projected req =
     and_then (readiness_requirement_identity inp req) (\<lambda>identity.
     case List.find (\<lambda>p. nr_identity p = identity) projected of
       None \<Rightarrow> Inl (ForgeError ''NATIVE_READINESS_MISMATCH'' [req])
     | Some p \<Rightarrow>
         if nr_classification p \<in> set READINESS_CLASSES then Inr (req, p)
         else Inl (ForgeError ''NATIVE_READINESS_UNKNOWN'' []))"

definition classified :: "(native_requirement \<Rightarrow> bool) \<Rightarrow> (string \<times> native_requirement) list \<Rightarrow> string list" where
  "classified P rps = sorted_set (map fst (filter (\<lambda>rp. P (snd rp)) rps))"

definition is_class :: "string \<Rightarrow> native_requirement \<Rightarrow> bool" where
  "is_class c p \<longleftrightarrow> nr_classification p = c"

definition native_evidence_readiness ::
    "machine_input \<Rightarrow> (requirement_input dict \<Rightarrow> bool \<Rightarrow> bool \<Rightarrow> native_readiness res)
     \<Rightarrow> forge_record option \<Rightarrow> string list option \<Rightarrow> readiness res" where
  "native_evidence_readiness inp project_native candidate required =
     (let reqs = requirements_of inp required;
          policy_error = policy_error_of inp required;
          cid = candidate_id_of candidate;
          normalized = map (\<lambda>req. (req, requirement_input_of inp candidate req)) reqs in
      and_then (project_native normalized (candidate \<noteq> None) (policy_error = None)) (\<lambda>native.
      let projected = nd_requirements native in
      and_then (raise_if (\<not> nd_valid native \<or> length projected \<noteq> length reqs)
        (ForgeError ''NATIVE_READINESS_UNKNOWN'' [])) (\<lambda>_.
      and_then (raise_if (\<not> distinct (map nr_identity projected))
        (ForgeError ''NATIVE_READINESS_MISMATCH'' [])) (\<lambda>_.
      and_then (traverse (projected_requirement inp projected) reqs) (\<lambda>rps.
      Inr \<lparr>er_required = reqs,
           er_present = classified (\<lambda>p. 0 < nr_observed_count p) rps,
           er_missing = classified (is_class ''Missing'') rps,
           er_unknown = classified (is_class ''Unknown'') rps,
           er_failed = classified (is_class ''Failed'') rps,
           er_stale = classified (\<lambda>p. is_class ''Stale'' p \<or> nr_stale p) rps,
           er_noncomparable = classified (\<lambda>p. is_class ''NonComparable'' p \<or> nr_noncomparable p) rps,
           er_records = (if candidate \<noteq> None then evidence_identities inp cid reqs else []),
           er_ready = nd_ready native,
           er_status = nd_status native,
           er_policy_identity = mi_policy_identity inp,
           er_policy_error = policy_error\<rparr>)))))"

definition evidence_readiness ::
    "machine_input \<Rightarrow> forge_record option \<Rightarrow> string list option \<Rightarrow> readiness res" where
  "evidence_readiness inp candidate required =
     (case mi_native inp of
        None \<Rightarrow> Inr (compat_evidence_readiness inp candidate required)
      | Some native \<Rightarrow>
          (case na_readiness native of
             None \<Rightarrow> Inr (compat_evidence_readiness inp candidate required)
           | Some project_native \<Rightarrow> native_evidence_readiness inp project_native candidate required))"

section \<open>What readiness means\<close>

lemma set_select_requirements [simp]: "set (select_requirements P reqs) = {x \<in> set reqs. P x}"
  by (simp add: select_requirements_def)

lemma select_requirements_Nil: "select_requirements P reqs = [] \<longleftrightarrow> (\<forall>x \<in> set reqs. \<not> P x)"
  by (simp add: select_requirements_def filter_empty_conv)

text \<open>A piece of evidence that is beyond reproach for a requirement.\<close>

definition sound_evidence ::
    "machine_input \<Rightarrow> string option \<Rightarrow> string \<Rightarrow> forge_record \<Rightarrow> bool" where
  "sound_evidence inp cid req r \<longleftrightarrow>
     status_text r \<notin> {''FAIL'', ''UNKNOWN''}
     \<and> observed_freshness inp cid r = ''CURRENT''
     \<and> observed_comparable inp r
     \<and> environment_match inp req r
     \<and> policy_match inp req r"

definition requirement_satisfied :: "machine_input \<Rightarrow> forge_record option \<Rightarrow> string \<Rightarrow> bool" where
  "requirement_satisfied inp candidate req \<longleftrightarrow>
     (let cid = candidate_id_of candidate in
      evidence_matches inp cid req \<noteq> []
      \<and> (\<forall>r \<in> set (evidence_matches inp cid req). sound_evidence inp cid req r)
      \<and> authority_match inp candidate)"

lemma requirement_satisfied_iff:
  "requirement_satisfied inp candidate req \<longleftrightarrow>
     \<not> requirement_missing inp (candidate_id_of candidate) req
     \<and> \<not> requirement_failed inp (candidate_id_of candidate) req
     \<and> \<not> requirement_unknown inp (candidate_id_of candidate) req
     \<and> \<not> requirement_stale inp (candidate_id_of candidate) req
     \<and> \<not> requirement_noncomparable inp candidate (candidate_id_of candidate) req"
  by (auto simp: requirement_satisfied_def requirement_missing_def requirement_failed_def
      requirement_unknown_def requirement_stale_def requirement_noncomparable_def
      record_noncomparable_def sound_evidence_def statuses_def Let_def image_iff)

lemma compat_ready_iff:
  "er_ready (compat_evidence_readiness inp (Some c) required) \<longleftrightarrow>
     \<not> text_truthy (policy_error_of inp required)
     \<and> (\<forall>req \<in> set (requirements_of inp required). requirement_satisfied inp (Some c) req)"
  by (auto simp: compat_evidence_readiness_def Let_def select_requirements_Nil requirement_satisfied_iff)

lemma compat_blocker_None_iff:
  "readiness_blocker (compat_evidence_readiness inp (Some c) required) = None \<longleftrightarrow>
     policy_error_of inp required = None
     \<and> (\<forall>req \<in> set (requirements_of inp required). requirement_satisfied inp (Some c) req)"
  by (auto simp: readiness_blocker_None compat_evidence_readiness_def Let_def select_requirements_Nil
      requirement_satisfied_iff)

lemma no_candidate_blocker:
  "readiness_blocker (no_candidate_readiness inp required) = None \<longleftrightarrow>
     policy_error_of inp required = None \<and> requirements_of inp required = []"
  by (auto simp: readiness_blocker_None no_candidate_readiness_def)

lemma compat_status:
  "er_status (compat_evidence_readiness inp candidate required) =
     (if er_failed (compat_evidence_readiness inp candidate required) \<noteq> [] then ''FAIL''
      else if er_ready (compat_evidence_readiness inp candidate required) then ''PASS'' else ''UNKNOWN'')"
  by (simp add: compat_evidence_readiness_def no_candidate_readiness_def Let_def split: option.splits)

lemma set_requirements_of [simp]:
  "set (requirements_of inp required) = set (case required of None \<Rightarrow> mi_required inp | Some rs \<Rightarrow> rs)"
  by (simp add: requirements_of_def split: option.splits)

lemma compat_failed_iff:
  "er_failed (compat_evidence_readiness inp (Some c) required) \<noteq> [] \<longleftrightarrow>
     (\<exists>req \<in> set (requirements_of inp required).
        \<exists>e \<in> set (evidence_matches inp (candidate_id_of (Some c)) req). status_text e = ''FAIL'')"
  by (simp add: compat_evidence_readiness_def Let_def select_requirements_Nil requirement_failed_def
      statuses_def image_iff eq_commute [of "''FAIL''"])

lemma compat_ready_not_failed:
  "er_ready (compat_evidence_readiness inp (Some c) required)
   \<Longrightarrow> er_failed (compat_evidence_readiness inp (Some c) required) = []"
  by (simp add: compat_evidence_readiness_def Let_def)

end
