(* ===== verification/Projection.thy ===== *)
theory Projection
  imports EvidenceReadiness
begin

text \<open>
  The lifecycle projection of \<open>state_machine.py\<close>: epochs (\<open>_epoch_projection\<close>), candidates
  (\<open>_candidate_projection\<close>), the stage (\<open>_project\<close>), and the correction by the native adapter
  (\<open>_apply_native_projection\<close>). Each part returns the limitations it appends.
\<close>

section \<open>Epochs\<close>

text \<open>
  Parents must follow each other: the first record names no parent, each later one names its
  predecessor, and no identity occurs twice. The scan is shared in shape by epochs and candidates.
\<close>

definition parent_follows :: "string option \<Rightarrow> fjson \<Rightarrow> bool" where
  "parent_follows previous parent \<longleftrightarrow> feq parent (opt_text previous)"

fun epoch_chain :: "string option \<Rightarrow> string list \<Rightarrow> forge_record list \<Rightarrow> bool" where
  "epoch_chain previous known [] = True"
| "epoch_chain previous known (r # rs) =
     (let epoch_id = rec_str r ''epoch_id'' in
      epoch_id \<notin> set known
      \<and> parent_follows previous (rec_value r ''parent_epoch'')
      \<and> epoch_chain (Some epoch_id) (epoch_id # known) rs)"

definition last_of :: "'a list \<Rightarrow> 'a option" where
  "last_of xs = (if xs = [] then None else Some (last xs))"

definition epoch_projection ::
    "machine_input \<Rightarrow> forge_record option \<times> string \<times> string list \<times> blocker list" where
  "epoch_projection inp =
     (let epochs = records_of inp EPOCH in
      if epochs = [] then (None, ''absent'', [], [])
      else
        (let coherent = epoch_chain None [] epochs in
         (last_of epochs,
          if coherent then ''active'' else ''ambiguous'',
          map (\<lambda>r. rec_str r ''epoch_id'') (butlast epochs),
          if coherent then [] else [blocker ''EPOCH_LINEAGE_CONFLICT'' []])))"

section \<open>Candidates\<close>

text \<open>\<open>known.get(key)\<close>: the dictionary keeps the last record of an identity.\<close>

definition known_candidate :: "forge_record list \<Rightarrow> string \<Rightarrow> forge_record option" where
  "known_candidate candidates key =
     List.find (\<lambda>r. rec_str r ''candidate_id'' = key) (rev candidates)"

definition candidate_parent :: "forge_record list \<Rightarrow> forge_record \<Rightarrow> forge_record option" where
  "candidate_parent candidates r =
     (let parent = rec_value r ''parent_candidate'' in
      if parent = FNull then None else known_candidate candidates (py_str parent))"

definition parent_in_epoch :: "forge_record list \<Rightarrow> string \<Rightarrow> forge_record \<Rightarrow> bool" where
  "parent_in_epoch candidates epoch_id r \<longleftrightarrow>
     (rec_value r ''parent_candidate'' \<noteq> FNull \<longrightarrow>
       (case candidate_parent candidates r of
          None \<Rightarrow> False
        | Some p \<Rightarrow> feq (rec_value p ''source_epoch'') (FStr epoch_id)))"

fun candidate_chain :: "forge_record list \<Rightarrow> string \<Rightarrow> string option \<Rightarrow> forge_record list \<Rightarrow> bool" where
  "candidate_chain candidates epoch_id previous [] = True"
| "candidate_chain candidates epoch_id previous (r # rs) =
     (let candidate_id = rec_str r ''candidate_id''; parent = rec_value r ''parent_candidate'' in
      \<not> feq parent (FStr candidate_id)
      \<and> parent_follows previous parent
      \<and> parent_in_epoch candidates epoch_id r
      \<and> candidate_chain candidates epoch_id (Some candidate_id) rs)"

text \<open>
  The walk from the current candidate to its ancestors. It stops at an identity seen before, which
  the flag reports; \<open>seen\<close> is the lineage so far, youngest first at its end.
\<close>

function lineage_walk :: "forge_record list \<Rightarrow> string list \<Rightarrow> forge_record \<Rightarrow> string list \<times> bool" where
  "lineage_walk candidates seen cursor =
     (let candidate_id = rec_str cursor ''candidate_id'' in
      if candidate_id \<in> set seen then (seen, True)
      else (case candidate_parent candidates cursor of
          None \<Rightarrow> (seen @ [candidate_id], False)
        | Some p \<Rightarrow> lineage_walk candidates (seen @ [candidate_id]) p))"
  by pat_completeness auto

lemma known_candidate_Some:
  "known_candidate candidates key = Some r \<Longrightarrow> r \<in> set candidates \<and> rec_str r ''candidate_id'' = key"
  by (auto simp: known_candidate_def find_Some_iff)
    (metis length_rev nth_mem set_rev)

lemma candidate_parent_Some:
  "candidate_parent candidates r = Some p \<Longrightarrow> p \<in> set candidates"
  by (auto simp: candidate_parent_def Let_def dest: known_candidate_Some split: if_splits)

abbreviation candidate_ids :: "forge_record list \<Rightarrow> string set" where
  "candidate_ids candidates \<equiv> (\<lambda>r. rec_str r ''candidate_id'') ` set candidates"

termination lineage_walk
proof (relation "measure (\<lambda>(candidates, seen, cursor).
    card (insert (rec_str cursor ''candidate_id'') (candidate_ids candidates) - set seen))")
  fix candidates :: "forge_record list" and seen cursor candidate_id p
  assume id: "candidate_id = rec_str cursor ''candidate_id''" and new: "candidate_id \<notin> set seen"
    and "candidate_parent candidates cursor = Some p"
  then have "rec_str p ''candidate_id'' \<in> candidate_ids candidates"
    using candidate_parent_Some by blast
  with id new have "insert (rec_str p ''candidate_id'') (candidate_ids candidates) - set (seen @ [candidate_id])
      \<subset> insert (rec_str cursor ''candidate_id'') (candidate_ids candidates) - set seen"
    by auto
  then show "((candidates, seen @ [candidate_id], p), candidates, seen, cursor)
      \<in> measure (\<lambda>(candidates, seen, cursor).
        card (insert (rec_str cursor ''candidate_id'') (candidate_ids candidates) - set seen))"
    by (simp add: psubset_card_mono)
qed simp

declare lineage_walk.simps [simp del]

definition superseded_candidate_after ::
    "machine_input \<Rightarrow> string \<Rightarrow> bool res" where
  "superseded_candidate_after inp epoch_id =
     (case List.find (\<lambda>(i, r). feq (rec_value r ''epoch_id'') (FStr epoch_id)) (indexed_records inp EPOCH) of
        None \<Rightarrow> Inl PyStopIteration
      | Some (active_index, _) \<Rightarrow>
          Inr (list_ex (\<lambda>(i, r). active_index < i \<and> \<not> feq (rec_value r ''source_epoch'') (FStr epoch_id))
            (indexed_records inp CANDIDATE)))"

definition lineage_conflict :: blocker where
  "lineage_conflict = blocker ''CANDIDATE_LINEAGE_CONFLICT'' []"

record candidate_view =
  cv_current :: "forge_record option"
  cv_status :: string
  cv_freshness :: string
  cv_lineage :: "string list"
  cv_limitations :: "blocker list"

definition no_candidate_view :: "blocker list \<Rightarrow> candidate_view" where
  "no_candidate_view ls =
     \<lparr>cv_current = None, cv_status = ''absent'', cv_freshness = ''UNKNOWN'', cv_lineage = [],
      cv_limitations = ls\<rparr>"

definition candidate_projection :: "machine_input \<Rightarrow> forge_record option \<Rightarrow> candidate_view res" where
  "candidate_projection inp active_epoch =
     (case active_epoch of
        None \<Rightarrow> Inr (no_candidate_view [])
      | Some epoch \<Rightarrow>
          (let epoch_id = rec_str epoch ''epoch_id'';
               candidates = records_of inp CANDIDATE;
               active = filter (\<lambda>r. feq (rec_value r ''source_epoch'') (FStr epoch_id)) candidates in
           and_then (superseded_candidate_after inp epoch_id) (\<lambda>superseded.
           let coherent = candidate_chain candidates epoch_id None active;
               limits = (if superseded then [blocker ''EPOCH_SUPERSEDED'' []] else [])
                 @ (if coherent then [] else [lineage_conflict]) in
           case last_of active of
             None \<Rightarrow> Inr (no_candidate_view limits)
           | Some current \<Rightarrow>
               (let (lineage, cyclic) = lineage_walk candidates [] current in
                Inr \<lparr>cv_current = Some current,
                     cv_status = (if coherent \<and> \<not> cyclic then ''current'' else ''ambiguous''),
                     cv_freshness =
                       (if feq (rec_value current ''candidate_id'') (FStr (mi_current_candidate inp))
                        then ''CURRENT'' else ''STALE''),
                     cv_lineage = rev lineage,
                     cv_limitations = limits @ (if cyclic then [lineage_conflict] else [])\<rparr>))))"

section \<open>Disposition, freeze and later records\<close>

definition for_candidate :: "machine_input \<Rightarrow> record_type \<Rightarrow> string option \<Rightarrow> forge_record list" where
  "for_candidate inp t cid =
     filter (\<lambda>r. feq (rec_value r ''candidate_identity'') (opt_text cid)) (records_of inp t)"

text \<open>\<open>xs[-1] if len(xs) == 1 else None\<close>.\<close>

definition only :: "'a list \<Rightarrow> 'a option" where
  "only xs = (case xs of [x] \<Rightarrow> Some x | _ \<Rightarrow> None)"

definition freeze_drift :: "machine_input \<Rightarrow> forge_record \<Rightarrow> string list" where
  "freeze_drift inp freeze =
     sort (map fst (filter (\<lambda>(name, current). \<not> feq (rec_value freeze name) (FStr current))
       (mi_freeze_bindings inp)))"

definition disposition_status_of :: "forge_record list \<Rightarrow> string" where
  "disposition_status_of ds =
     (if 1 < length ds then ''conflict''
      else (case only ds of None \<Rightarrow> ''undisposed'' | Some d \<Rightarrow> rec_str d ''disposition''))"

definition freeze_status_of :: "machine_input \<Rightarrow> forge_record list \<Rightarrow> string" where
  "freeze_status_of inp fs =
     (if 1 < length fs then ''conflict''
      else (case only fs of
          None \<Rightarrow> ''absent''
        | Some f \<Rightarrow> if freeze_drift inp f = [] then ''current'' else ''drifted''))"

definition AMBIGUITY_CODES :: "string list" where
  "AMBIGUITY_CODES =
     [''EPOCH_LINEAGE_CONFLICT'', ''EPOCH_SUPERSEDED'', ''CANDIDATE_LINEAGE_CONFLICT'',
      ''CANDIDATE_DISPOSITION_CONFLICT'', ''FREEZE_CONFLICT'']"

definition ambiguous_limitations :: "blocker list \<Rightarrow> bool" where
  "ambiguous_limitations ls \<longleftrightarrow> list_ex (\<lambda>b. bl_code b \<in> set AMBIGUITY_CODES) ls"

definition stage_of ::
    "blocker list \<Rightarrow> forge_record option \<Rightarrow> forge_record option \<Rightarrow> forge_record list
     \<Rightarrow> forge_record list \<Rightarrow> forge_record option \<Rightarrow> string \<Rightarrow> readiness \<Rightarrow> lifecycle_stage" where
  "stage_of limits epoch candidate bundles evaluations freeze disposition_status evidence =
     (if ambiguous_limitations limits then AMBIGUOUS_HISTORY
      else if epoch = None then NO_EPOCH
      else if candidate = None then EPOCH_ACTIVE
      else if bundles \<noteq> [] then BUNDLE_COMPLETE
      else if evaluations \<noteq> [] then EVALUATION_COMPLETE
      else if freeze \<noteq> None then CANDIDATE_FROZEN
      else if disposition_status = ''selected'' then CANDIDATE_SELECTED
      else if disposition_status = ''rejected'' then CANDIDATE_REJECTED
      else if er_ready evidence then CANDIDATE_READY
      else if er_present evidence \<noteq> [] then EVIDENCE_INCOMPLETE
      else CANDIDATE_REGISTERED)"

definition reconciliation_status_of :: "lifecycle_stage \<Rightarrow> string" where
  "reconciliation_status_of stage =
     (if stage = AMBIGUOUS_HISTORY then ''unknown'' else ''derived_on_request'')"

definition completion :: "'a list \<Rightarrow> string" where
  "completion xs = (if xs \<noteq> [] then ''complete'' else ''not_started'')"

text \<open>The limitations of \<open>_project\<close>, in the order they are appended.\<close>

definition projection_limitations ::
    "blocker list \<Rightarrow> blocker list \<Rightarrow> readiness \<Rightarrow> forge_record list \<Rightarrow> forge_record list \<Rightarrow> blocker list" where
  "projection_limitations epoch_limits candidate_limits evidence dispositions freezes =
     epoch_limits @ candidate_limits
     @ (if er_present evidence \<noteq> [] then [blocker ''EVIDENCE_COMPARABILITY_LIMITED'' []] else [])
     @ (if 1 < length dispositions then [blocker ''CANDIDATE_DISPOSITION_CONFLICT'' []] else [])
     @ (if 1 < length freezes then [blocker ''FREEZE_CONFLICT'' []] else [])"

definition compat_projection :: "machine_input \<Rightarrow> projection res" where
  "compat_projection inp =
     (let (active_epoch, epoch_status, superseded, epoch_limits) = epoch_projection inp in
      and_then (candidate_projection inp active_epoch) (\<lambda>view.
      let candidate = cv_current view; cid = candidate_id_of candidate in
      and_then (evidence_readiness inp candidate None) (\<lambda>evidence.
      let dispositions = for_candidate inp CANDIDATE_DISPOSITION cid;
          freezes = for_candidate inp FREEZE cid;
          evaluations = for_candidate inp FINAL_EVALUATION cid;
          bundles = for_candidate inp BUNDLE cid;
          limits = projection_limitations epoch_limits (cv_limitations view) evidence dispositions freezes;
          stage = stage_of limits active_epoch candidate bundles evaluations (only freezes)
            (disposition_status_of dispositions) evidence in
      Inr \<lparr>pr_stage = stage, pr_active_epoch = active_epoch, pr_epoch_status = epoch_status,
           pr_superseded = superseded, pr_candidate = candidate, pr_candidate_status = cv_status view,
           pr_freshness = cv_freshness view, pr_lineage = cv_lineage view, pr_evidence = evidence,
           pr_disposition = only dispositions,
           pr_disposition_status = disposition_status_of dispositions,
           pr_freeze = only freezes, pr_freeze_status = freeze_status_of inp freezes,
           pr_evaluations = evaluations, pr_evaluation_status = completion evaluations,
           pr_reconciliation_status = reconciliation_status_of stage,
           pr_bundles = bundles, pr_bundle_status = completion bundles,
           pr_limitations = limits\<rparr>)))"

end
