(* ===== verification/NativeLifecycle.thy ===== *)
theory NativeLifecycle
  imports Projection
begin

text \<open>
  The correction of the projection by the native adapter (\<open>_native_history_events\<close>,
  \<open>_identity_digest\<close>, \<open>_apply_native_projection\<close>) and the construction of a machine.
\<close>

section \<open>History events\<close>

definition evidence_event :: "forge_record \<Rightarrow> native_event" where
  "evidence_event r =
     EvidenceObserved (rec_str r ''candidate_identity'') (str_or ''UNKNOWN'' (rec_value r ''status''))"

definition names_required :: "machine_input \<Rightarrow> fjson \<Rightarrow> bool" where
  "names_required inp v \<longleftrightarrow> list_ex (\<lambda>s. feq v (FStr s)) (mi_required inp)"

definition disposition_event :: "forge_record \<Rightarrow> native_event list" where
  "disposition_event r =
     (let d = str_or [] (rec_value r ''disposition''); c = rec_str r ''candidate_identity'' in
      if d = ''selected'' then [CandidateSelected c]
      else if d = ''rejected'' then [CandidateRejected c]
      else [])"

definition history_event :: "machine_input \<Rightarrow> forge_record \<Rightarrow> native_event list" where
  "history_event inp r =
     (let t = fr_type r; has_candidate = (rec_value r ''candidate_identity'' \<noteq> FNull) in
      if t = EPOCH then [EpochStarted (rec_str r ''epoch_id'') (rec_value r ''parent_epoch'')]
      else if t = CANDIDATE
      then [CandidateRegistered (rec_str r ''source_epoch'') (rec_str r ''candidate_id'')
              (rec_value r ''parent_candidate'')]
      else if t = WORKFLOW_RESULT
      then (if has_candidate \<and> \<not> feq (rec_value r ''subject_type'') (FStr ''project'')
               \<and> names_required inp (rec_value r ''workflow'')
            then [evidence_event r] else [])
      else if t = VERIFIER_RESULT
      then (if has_candidate \<and> feq (rec_value r ''mode'') (FStr ''development'')
               \<and> names_required inp (rec_value r ''verifier_id'')
            then [evidence_event r] else [])
      else if t = CANDIDATE_DISPOSITION then disposition_event r
      else if t = FREEZE then [CandidateFrozen (rec_str r ''candidate_identity'')]
      else if t = FINAL_EVALUATION \<and> has_candidate
      then [EvaluationRecorded (rec_str r ''candidate_identity'')
              (str_or ''UNKNOWN'' (rec_value r ''status''))]
      else [])"

definition native_history_events :: "machine_input \<Rightarrow> native_event list" where
  "native_history_events inp = concat (map (history_event inp) (history_records inp))"

section \<open>Identity digests\<close>

definition not_a_digest :: "string \<Rightarrow> py_error" where
  "not_a_digest context = ForgeError ''NATIVE_LIFECYCLE_UNKNOWN'' [context]"

definition identity_digest :: "fjson \<Rightarrow> string \<Rightarrow> string res" where
  "identity_digest identity ctxt =
     (if identity = FNull \<or> identity = FStr [] then Inr zero_digest
      else (case identity of
          FStr s \<Rightarrow>
            (case fromhex (after_last_colon s) of
               None \<Rightarrow> Inl (not_a_digest ctxt)
             | Some digest \<Rightarrow> if length digest \<noteq> 32 then Inl (not_a_digest ctxt) else Inr digest)
        | _ \<Rightarrow> Inl (not_a_digest ctxt)))"

text \<open>Raise unless the native digest is the digest of the identity.\<close>

definition require_digest :: "string \<Rightarrow> fjson \<Rightarrow> string \<Rightarrow> unit res" where
  "require_digest observed identity ctxt =
     and_then (identity_digest identity ctxt) (\<lambda>expected.
     raise_if (observed \<noteq> expected) (ForgeError ''NATIVE_LIFECYCLE_MISMATCH'' [ctxt]))"

definition require_record_digest ::
    "string \<Rightarrow> forge_record option \<Rightarrow> (forge_record \<Rightarrow> fjson) \<Rightarrow> string \<Rightarrow> unit res" where
  "require_record_digest observed r field ctxt =
     (case r of None \<Rightarrow> Inr () | Some x \<Rightarrow> require_digest observed (field x) ctxt)"

definition require_parent_digest ::
    "string \<Rightarrow> forge_record option \<Rightarrow> (forge_record \<Rightarrow> fjson) \<Rightarrow> string \<Rightarrow> unit res" where
  "require_parent_digest observed r field ctxt =
     (if observed = zero_digest then Inr () else require_record_digest observed r field ctxt)"

section \<open>Reading native names\<close>

definition lookup_name :: "'a dict \<Rightarrow> string \<Rightarrow> 'a res" where
  "lookup_name table name =
     (case dict_get table name of None \<Rightarrow> Inl (PyKeyError name) | Some v \<Rightarrow> Inr v)"

definition NATIVE_STAGES :: "lifecycle_stage dict" where
  "NATIVE_STAGES =
     [(''NoEpoch'', NO_EPOCH), (''EpochActive'', EPOCH_ACTIVE),
      (''CandidateRegistered'', CANDIDATE_REGISTERED), (''EvidenceIncomplete'', EVIDENCE_INCOMPLETE),
      (''CandidateReady'', CANDIDATE_READY), (''CandidateSelected'', CANDIDATE_SELECTED),
      (''CandidateRejected'', CANDIDATE_REJECTED), (''CandidateFrozen'', CANDIDATE_FROZEN),
      (''EvaluationComplete'', EVALUATION_COMPLETE), (''AmbiguousHistory'', AMBIGUOUS_HISTORY),
      (''BundleComplete'', BUNDLE_COMPLETE)]"

definition NATIVE_FRESHNESS :: "string dict" where
  "NATIVE_FRESHNESS =
     [(''NotApplicable'', ''NOT_APPLICABLE''), (''Current'', ''CURRENT''), (''Stale'', ''STALE''),
      (''Unknown'', ''UNKNOWN'')]"

definition NATIVE_DISPOSITIONS :: "string dict" where
  "NATIVE_DISPOSITIONS =
     [(''Undisposed'', ''undisposed''), (''Selected'', ''selected''), (''Rejected'', ''rejected''),
      (''Conflict'', ''conflict'')]"

text \<open>\<open>str.upper\<close> on ASCII.\<close>

definition upper_char :: "char \<Rightarrow> char" where
  "upper_char c =
     (let n = of_char c :: nat in if 97 \<le> n \<and> n \<le> 122 then char_of (n - 32) else c)"

definition upper :: "string \<Rightarrow> string" where
  "upper s = map upper_char s"

section \<open>The corrected projection\<close>

definition native_lineage_conflict :: "projection \<Rightarrow> native_lifecycle \<Rightarrow> projection" where
  "native_lineage_conflict p native =
     p\<lparr>pr_stage := AMBIGUOUS_HISTORY,
       pr_candidate_status := ''ambiguous'',
       pr_freshness := upper (nl_freshness native),
       pr_limitations :=
         (if list_ex (\<lambda>b. bl_code b = ''NATIVE_LINEAGE_CONFLICT'') (pr_limitations p)
          then pr_limitations p
          else pr_limitations p @ [blocker ''NATIVE_LINEAGE_CONFLICT'' []]),
       pr_reconciliation_status := ''unknown''\<rparr>"

definition native_replacement :: "projection \<Rightarrow> native_lifecycle \<Rightarrow> projection res" where
  "native_replacement p native =
     and_then (lookup_name NATIVE_STAGES (nl_stage native)) (\<lambda>stage.
     and_then (lookup_name NATIVE_FRESHNESS (nl_freshness native)) (\<lambda>freshness.
     and_then (lookup_name NATIVE_DISPOSITIONS (nl_disposition native)) (\<lambda>disposition.
     Inr (p\<lparr>pr_stage := stage,
            pr_candidate_status :=
              (if stage \<noteq> AMBIGUOUS_HISTORY then pr_candidate_status p else ''ambiguous''),
            pr_freshness := freshness,
            pr_disposition_status := disposition,
            pr_reconciliation_status :=
              (if stage = AMBIGUOUS_HISTORY then ''unknown'' else pr_reconciliation_status p)\<rparr>))))"

definition apply_native_projection :: "machine_input \<Rightarrow> projection \<Rightarrow> projection res" where
  "apply_native_projection inp p =
     (case mi_native inp of
        None \<Rightarrow> Inr p
      | Some adapter \<Rightarrow>
          (case na_lifecycle adapter of
             None \<Rightarrow> Inr p
           | Some project_native \<Rightarrow>
               and_then (project_native (native_history_events inp) (mi_current_candidate inp)
                 (length (mi_required inp)) (pr_bundles p \<noteq> [])) (\<lambda>native.
               and_then (require_record_digest (nl_active_epoch native) (pr_active_epoch p)
                 (\<lambda>r. FStr (rec_str r ''epoch_id'')) ''native active epoch'') (\<lambda>_.
               and_then (require_record_digest (nl_current_candidate native) (pr_candidate p)
                 (\<lambda>r. FStr (rec_str r ''candidate_id'')) ''native current candidate'') (\<lambda>_.
               and_then (require_parent_digest (nl_parent_epoch native) (pr_active_epoch p)
                 (\<lambda>r. rec_value r ''parent_epoch'') ''native parent epoch'') (\<lambda>_.
               and_then (require_parent_digest (nl_parent_candidate native) (pr_candidate p)
                 (\<lambda>r. rec_value r ''parent_candidate'') ''native parent candidate'') (\<lambda>_.
               if \<not> nl_lineage_ok native then Inr (native_lineage_conflict p native)
               else native_replacement p native)))))))"

definition project :: "machine_input \<Rightarrow> projection res" where
  "project inp = and_then (compat_projection inp) (apply_native_projection inp)"

text \<open>
  \<open>ForgeStateMachine(..)\<close>: the mode is checked, requirements lose repetitions, the environment keys
  are sorted, and the projection is computed once.
\<close>

definition normalized_input :: "machine_input \<Rightarrow> machine_input" where
  "normalized_input inp =
     inp\<lparr>mi_required := fromkeys (mi_required inp),
         mi_environment_keys := map (\<lambda>(name, ks). (name, sort ks)) (mi_environment_keys inp)\<rparr>"

definition make_machine :: "machine_input \<Rightarrow> machine res" where
  "make_machine inp =
     and_then (raise_if (mi_mode inp \<notin> {''development'', ''evaluator''}) (ForgeError ''INVALID_MODE'' [])) (\<lambda>_.
     and_then (project (normalized_input inp)) (\<lambda>p.
     Inr \<lparr>ma_input = normalized_input inp, ma_projection = p, ma_preflight = True\<rparr>))"

section \<open>Facts about projections\<close>

lemma make_machine_Inr:
  assumes "make_machine inp = Inr m"
  shows "project (ma_input m) = Inr (ma_projection m)" "ma_preflight m"
    "mi_mode (ma_input m) \<in> {''development'', ''evaluator''}"
    "mi_native (ma_input m) = mi_native inp" "mi_history (ma_input m) = mi_history inp"
  using assms by (auto simp: make_machine_def res_simps normalized_input_def)

text \<open>Without an adapter the projection is the compatibility one.\<close>

lemma project_compat: "mi_native inp = None \<Longrightarrow> project inp = compat_projection inp"
  by (cases "compat_projection inp") (simp_all add: project_def apply_native_projection_def)

end
