(* ===== verification/Authorization.thy ===== *)
theory Authorization
  imports NativeLifecycle
begin

text \<open>
  The transition authorizers of \<open>ForgeStateMachine\<close>. Each is the source's method: its guards in
  order, the first failing one raising, and the native preflight where the method asks for it.
\<close>

section \<open>Shared guards\<close>

definition require_mode :: "machine \<Rightarrow> string \<Rightarrow> unit res" where
  "require_mode m expected =
     raise_if (mi_mode (ma_input m) \<noteq> expected)
       (ForgeError ''MODE_FORBIDDEN'' [expected, mi_mode (ma_input m)])"

text \<open>\<open>limitations[0]\<close> raises \<open>IndexError\<close> on an ambiguous projection without limitations.\<close>

definition require_unambiguous :: "machine \<Rightarrow> unit res" where
  "require_unambiguous m =
     (if pr_stage (ma_projection m) = AMBIGUOUS_HISTORY
      then (case pr_limitations (ma_projection m) of
          [] \<Rightarrow> Inl PyIndexError
        | b # bs \<Rightarrow> Inl (blocker_error b))
      else Inr ())"

definition candidate_record :: "machine \<Rightarrow> string \<Rightarrow> forge_record option" where
  "candidate_record m candidate_id =
     List.find (\<lambda>r. feq (rec_value r ''candidate_id'') (FStr candidate_id))
       (rev (records_of (ma_input m) CANDIDATE))"

definition require_candidate :: "machine \<Rightarrow> string option \<Rightarrow> forge_record res" where
  "require_candidate m candidate_id =
     (case pr_candidate (ma_projection m) of
        None \<Rightarrow> Inl (ForgeError ''NO_CANDIDATE'' [])
      | Some candidate \<Rightarrow>
          and_then
            (case candidate_id of
               None \<Rightarrow> Inr ()
             | Some cid \<Rightarrow>
                 if feq (rec_value candidate ''candidate_id'') (FStr cid) then Inr ()
                 else if candidate_record m cid \<noteq> None
                 then Inl (ForgeError ''CANDIDATE_NOT_CURRENT'' [])
                 else Inl (ForgeError ''RECORD_NOT_FOUND'' [cid])) (\<lambda>_.
          and_then (raise_if (pr_freshness (ma_projection m) \<noteq> ''CURRENT'')
            (ForgeError ''STALE_CANDIDATE'' [])) (\<lambda>_. Inr candidate)))"

definition PREFLIGHT_STAGES :: "(lifecycle_stage \<times> string) list" where
  "PREFLIGHT_STAGES =
     [(NO_EPOCH, ''NoEpoch''), (EPOCH_ACTIVE, ''EpochActive''),
      (CANDIDATE_REGISTERED, ''CandidateRegistered''), (EVIDENCE_INCOMPLETE, ''EvidenceIncomplete''),
      (CANDIDATE_READY, ''CandidateReady''), (CANDIDATE_SELECTED, ''CandidateSelected''),
      (CANDIDATE_REJECTED, ''CandidateRejected''), (CANDIDATE_FROZEN, ''CandidateFrozen''),
      (EVALUATION_COMPLETE, ''EvaluationComplete''), (AMBIGUOUS_HISTORY, ''AmbiguousHistory'')]"

definition native_transition ::
    "machine \<Rightarrow> string \<Rightarrow> string \<Rightarrow> string \<Rightarrow> int \<Rightarrow> string \<Rightarrow> unit res" where
  "native_transition m operation next_stage status reason evidence =
     (case mi_native (ma_input m) of
        None \<Rightarrow> Inr ()
      | Some adapter \<Rightarrow>
          if \<not> ma_preflight m then Inr ()
          else (case map_of PREFLIGHT_STAGES (pr_stage (ma_projection m)) of
              None \<Rightarrow> Inr ()
            | Some stage \<Rightarrow>
                (case na_preflight adapter stage operation evidence of
                   Inl (ForgeError c ds) \<Rightarrow> Inl (ForgeError ''NATIVE_LIFECYCLE_UNKNOWN'' ds)
                 | Inl e \<Rightarrow> Inl e
                 | Inr observed \<Rightarrow>
                     raise_if (np_next_stage observed \<noteq> next_stage \<or> np_status observed \<noteq> status
                         \<or> np_reason observed \<noteq> reason)
                       (ForgeError ''NATIVE_LIFECYCLE_MISMATCH'' [stage, operation]))))"

section \<open>Epochs and candidates\<close>

definition authorize_epoch_begin :: "machine \<Rightarrow> string option \<Rightarrow> unit res" where
  "authorize_epoch_begin m parent_epoch =
     and_then (require_mode m ''development'') (\<lambda>_.
     and_then (require_unambiguous m) (\<lambda>_.
     case pr_active_epoch (ma_projection m) of
       None \<Rightarrow>
         and_then (raise_if (parent_epoch \<noteq> None) (ForgeError ''EPOCH_PARENT_INVALID'' [])) (\<lambda>_.
         native_transition m ''BeginEpoch'' ''EpochActive'' ''PASS'' 0 ''UNKNOWN'')
     | Some active \<Rightarrow>
         (case parent_epoch of
            None \<Rightarrow> Inl (ForgeError ''EPOCH_PARENT_REQUIRED'' [])
          | Some parent \<Rightarrow>
              and_then (raise_if (parent \<in> set (pr_superseded (ma_projection m)))
                (ForgeError ''EPOCH_SUPERSEDED'' [])) (\<lambda>_.
              raise_if (parent \<noteq> rec_str active ''epoch_id'') (ForgeError ''EPOCH_PARENT_INVALID'' [])))))"

definition unknown_parent :: "machine \<Rightarrow> string \<Rightarrow> py_error" where
  "unknown_parent m parent =
     (if candidate_record m parent = None then ForgeError ''CANDIDATE_PARENT_INVALID'' []
      else ForgeError ''CANDIDATE_LINEAGE_CONFLICT'' [])"

definition check_candidate_parent :: "machine \<Rightarrow> string option \<Rightarrow> string \<Rightarrow> unit res" where
  "check_candidate_parent m parent_candidate proposed =
     (case pr_candidate (ma_projection m) of
        None \<Rightarrow>
          (case parent_candidate of
             Some parent \<Rightarrow> Inl (unknown_parent m parent)
           | None \<Rightarrow> native_transition m ''RegisterCandidate'' ''CandidateRegistered'' ''UNKNOWN'' 0 ''UNKNOWN'')
      | Some current \<Rightarrow>
          (case parent_candidate of
             None \<Rightarrow> Inl (ForgeError ''CANDIDATE_PARENT_REQUIRED'' [])
           | Some parent \<Rightarrow>
               and_then (raise_if (parent = proposed) (ForgeError ''CANDIDATE_PARENT_INVALID'' [])) (\<lambda>_.
               raise_if (parent \<noteq> rec_str current ''candidate_id'') (unknown_parent m parent))))"

definition is_fmap :: "fjson \<Rightarrow> bool" where
  "is_fmap v = (case v of FMap d \<Rightarrow> True | _ \<Rightarrow> False)"

definition authorize_candidate_register ::
    "machine \<Rightarrow> string option \<Rightarrow> string \<Rightarrow> string option \<Rightarrow> forge_record res" where
  "authorize_candidate_register m parent_candidate proposed epoch_identity =
     and_then (require_mode m ''development'') (\<lambda>_.
     and_then (require_unambiguous m) (\<lambda>_.
     case pr_active_epoch (ma_projection m) of
       None \<Rightarrow> Inl (ForgeError ''NO_ACTIVE_EPOCH'' [])
     | Some epoch \<Rightarrow>
         (let authority = rec_value epoch ''authority_identities'' in
          and_then (raise_if (\<exists>e \<in> set_option epoch_identity. e \<in> set (pr_superseded (ma_projection m)))
            (ForgeError ''EPOCH_SUPERSEDED'' [])) (\<lambda>_.
          and_then (raise_if (epoch_identity \<notin> {None, Some (rec_str epoch ''epoch_id'')})
            (ForgeError ''EPOCH_PARENT_INVALID'' [])) (\<lambda>_.
          and_then (raise_if (\<not> is_fmap authority) (ForgeError ''EPOCH_LINEAGE_CONFLICT'' [])) (\<lambda>_.
          and_then (raise_if (\<not> text_map_eq authority (mi_current_authority (ma_input m)))
            (ForgeError ''STALE_BASELINE'' [])) (\<lambda>_.
          and_then (raise_if (pr_freeze (ma_projection m) \<noteq> None) (ForgeError ''EPOCH_FROZEN'' [])) (\<lambda>_.
          and_then (check_candidate_parent m parent_candidate proposed) (\<lambda>_. Inr epoch)))))))))"

section \<open>Development work\<close>

definition authorize_development_work ::
    "machine \<Rightarrow> string option \<Rightarrow> bool \<Rightarrow> forge_record option res" where
  "authorize_development_work m candidate_id project_scoped =
     and_then (require_mode m ''development'') (\<lambda>_.
     if project_scoped
     then and_then (raise_if (candidate_id \<noteq> None) (ForgeError ''WORKFLOW_SUBJECT'' [])) (\<lambda>_. Inr None)
     else and_then (require_unambiguous m) (\<lambda>_.
          and_then (raise_if (pr_freeze (ma_projection m) \<noteq> None) (ForgeError ''EPOCH_FROZEN'' [])) (\<lambda>_.
          and_then (require_candidate m candidate_id) (\<lambda>c. Inr (Some c)))))"

definition compared_candidate :: "machine \<Rightarrow> string \<Rightarrow> string \<Rightarrow> unit res" where
  "compared_candidate m active_id candidate_id =
     (case candidate_record m candidate_id of
        None \<Rightarrow> Inl (ForgeError ''RECORD_NOT_FOUND'' [candidate_id])
      | Some c \<Rightarrow> raise_if (\<not> feq (rec_value c ''source_epoch'') (FStr active_id))
          (ForgeError ''CANDIDATE_LINEAGE_CONFLICT'' []))"

definition authorize_candidate_comparison :: "machine \<Rightarrow> string list \<Rightarrow> unit res" where
  "authorize_candidate_comparison m compared =
     and_then (require_mode m ''development'') (\<lambda>_.
     and_then (require_unambiguous m) (\<lambda>_.
     case pr_active_epoch (ma_projection m) of
       None \<Rightarrow> Inl (ForgeError ''NO_ACTIVE_EPOCH'' [])
     | Some active \<Rightarrow>
         run_checks (map (compared_candidate m (rec_str active ''epoch_id'')) compared)))"

definition raise_blocker :: "readiness \<Rightarrow> unit res" where
  "raise_blocker r = (case readiness_blocker r of None \<Rightarrow> Inr () | Some b \<Rightarrow> Inl (blocker_error b))"

definition authorize_candidate_disposition ::
    "machine \<Rightarrow> string \<Rightarrow> string \<Rightarrow> (forge_record \<times> readiness) res" where
  "authorize_candidate_disposition m candidate_id disposition =
     and_then (require_mode m ''development'') (\<lambda>_.
     and_then (require_unambiguous m) (\<lambda>_.
     and_then (raise_if (disposition \<notin> {''selected'', ''rejected''}) (ForgeError ''INVALID_DISPOSITION'' [])) (\<lambda>_.
     and_then (require_candidate m (Some candidate_id)) (\<lambda>candidate.
     let p = ma_projection m; evidence = pr_evidence p in
     and_then (raise_if (pr_disposition_status p \<noteq> ''undisposed'')
       (ForgeError ''CANDIDATE_ALREADY_DISPOSED'' [pr_disposition_status p])) (\<lambda>_.
     and_then
       (if disposition = ''selected''
        then and_then (raise_blocker evidence) (\<lambda>_.
             native_transition m ''SelectCandidate'' ''CandidateSelected'' ''PASS'' 0 ''PASS'')
        else native_transition m ''RejectCandidate'' ''CandidateRejected'' ''FAIL'' 9 (er_status evidence)) (\<lambda>_.
     Inr (candidate, evidence)))))))"

section \<open>Freeze and evaluation\<close>

definition check_selection_binding :: "machine \<Rightarrow> forge_record \<Rightarrow> unit res" where
  "check_selection_binding m disposition = run_checks
     [raise_if (\<not> feq (rec_value disposition ''selection_policy_identity'')
         (FStr (mi_policy_identity (ma_input m)))) (ForgeError ''FREEZE_SELECTION_STALE'' []),
      raise_if (\<not> feq (rec_value disposition ''evidence_status'') (FStr ''PASS''))
        (ForgeError ''FREEZE_SELECTION_STALE'' [])]"

text \<open>The disposition of the projection when it selects the candidate.\<close>

definition selected_disposition :: "machine \<Rightarrow> forge_record res" where
  "selected_disposition m =
     (case pr_disposition (ma_projection m) of
        None \<Rightarrow> Inl (ForgeError ''FREEZE_NOT_SELECTED'' [])
      | Some d \<Rightarrow>
          if pr_disposition_status (ma_projection m) \<noteq> ''selected''
          then Inl (ForgeError ''FREEZE_NOT_SELECTED'' []) else Inr d)"

definition check_evidence_plan :: "machine \<Rightarrow> forge_record \<Rightarrow> string list option \<Rightarrow> unit res" where
  "check_evidence_plan m candidate plan =
     (case plan of
        Some (req # reqs) \<Rightarrow>
          and_then (evidence_readiness (ma_input m) (Some candidate) (Some (req # reqs))) raise_blocker
      | _ \<Rightarrow> Inl (ForgeError ''FREEZE_EVIDENCE_PLAN_INVALID'' []))"

definition authorize_candidate_freeze ::
    "machine \<Rightarrow> string \<Rightarrow> string list option \<Rightarrow> (forge_record \<times> forge_record) res" where
  "authorize_candidate_freeze m candidate_id plan =
     and_then (require_mode m ''development'') (\<lambda>_.
     and_then (require_unambiguous m) (\<lambda>_.
     and_then (require_candidate m (Some candidate_id)) (\<lambda>candidate.
     let p = ma_projection m in
     case pr_active_epoch p of
       None \<Rightarrow> Inl (ForgeError ''NO_ACTIVE_EPOCH'' [])
     | Some epoch \<Rightarrow>
         and_then (raise_if (\<not> text_map_eq (rec_value epoch ''authority_identities'')
           (mi_current_authority (ma_input m))) (ForgeError ''FREEZE_AUTHORITY_STALE'' [])) (\<lambda>_.
         and_then (raise_if (pr_disposition_status p = ''rejected'') (ForgeError ''CANDIDATE_REJECTED'' [])) (\<lambda>_.
         and_then (selected_disposition m) (\<lambda>disposition.
         and_then (raise_if (pr_freeze p \<noteq> None) (ForgeError ''FREEZE_ALREADY_EXISTS'' [])) (\<lambda>_.
         and_then (raise_blocker (pr_evidence p)) (\<lambda>_.
         and_then (check_selection_binding m disposition) (\<lambda>_.
         and_then (check_evidence_plan m candidate plan) (\<lambda>_.
         and_then (native_transition m ''FreezeCandidate'' ''CandidateFrozen'' ''PASS'' 0 ''PASS'') (\<lambda>_.
         Inr (candidate, disposition))))))))))))"

definition authorize_evaluator_entry ::
    "machine \<Rightarrow> string option \<Rightarrow> (forge_record \<times> forge_record) res" where
  "authorize_evaluator_entry m candidate_id =
     and_then (require_mode m ''evaluator'') (\<lambda>_.
     and_then (require_unambiguous m) (\<lambda>_.
     case pr_freeze (ma_projection m) of
       None \<Rightarrow> Inl (ForgeError ''NO_FREEZE'' [])
     | Some freeze \<Rightarrow>
         and_then (raise_if (\<exists>c \<in> set_option candidate_id. \<not> feq (rec_value freeze ''candidate_identity'') (FStr c))
           (ForgeError ''EVALUATOR_CANDIDATE_MISMATCH'' [])) (\<lambda>_.
         and_then (raise_if (freeze_drift (ma_input m) freeze \<noteq> [])
           (ForgeError ''FREEZE_DRIFT'' (freeze_drift (ma_input m) freeze))) (\<lambda>_.
         and_then (require_candidate m (Some (rec_str freeze ''candidate_identity''))) (\<lambda>candidate.
         and_then (selected_disposition m) (\<lambda>disposition.
         and_then (raise_if (\<not> feq (rec_value freeze ''selection_record'')
             (rec_value disposition ''disposition_id'')) (ForgeError ''FREEZE_SELECTION_STALE'' [])) (\<lambda>_.
         Inr (freeze, candidate))))))))"

section \<open>Reconciliation and bundles\<close>

definition authorize_reconciliation :: "machine \<Rightarrow> string option \<Rightarrow> string option res" where
  "authorize_reconciliation m candidate_id =
     and_then (require_unambiguous m) (\<lambda>_.
     case candidate_id of
       None \<Rightarrow> Inr (candidate_id_of (pr_candidate (ma_projection m)))
     | Some cid \<Rightarrow>
         if candidate_record m cid = None then Inl (ForgeError ''RECORD_NOT_FOUND'' [cid])
         else Inr (Some cid))"

definition bundle_request_of :: "machine \<Rightarrow> string option \<Rightarrow> bool \<Rightarrow> bundle_request" where
  "bundle_request_of m candidate_id request_valid =
     (let p = ma_projection m; current = candidate_id_of (pr_candidate p) in
      \<lparr>bq_requested = candidate_id, bq_current = current, bq_present = (pr_candidate p \<noteq> None),
       bq_matches = (candidate_id = None \<or> candidate_id = current),
       bq_fresh = (pr_candidate p \<noteq> None \<and> pr_freshness p = ''CURRENT''),
       bq_selected = (pr_disposition p \<noteq> None \<and> pr_disposition_status p = ''selected''),
       bq_frozen = (pr_freeze p \<noteq> None),
       bq_freeze_current = (pr_freeze_status p = ''current''),
       bq_mode = mi_mode (ma_input m), bq_request_valid = request_valid,
       bq_evidence_status = er_status (pr_evidence p), bq_evidence_ready = er_ready (pr_evidence p)\<rparr>)"

definition bundle_rejection :: "machine \<Rightarrow> string option \<Rightarrow> string \<Rightarrow> py_error" where
  "bundle_rejection m candidate_id reason =
     (let known = (\<forall>c \<in> set_option candidate_id. candidate_record m c \<noteq> None) in
      if reason = ''InvalidRequest'' then ForgeError ''WORKFLOW_CATEGORY'' []
      else if reason = ''NoCandidate'' then ForgeError ''NO_CANDIDATE'' []
      else if reason = ''CandidateMismatch''
      then (if mi_mode (ma_input m) = ''evaluator'' then ForgeError ''EVALUATOR_CANDIDATE_MISMATCH'' []
            else if known then ForgeError ''CANDIDATE_NOT_CURRENT'' []
            else ForgeError ''RECORD_NOT_FOUND'' (case candidate_id of None \<Rightarrow> [] | Some c \<Rightarrow> [c]))
      else if reason = ''CandidateStale'' then ForgeError ''STALE_CANDIDATE'' []
      else if reason = ''FreezeMissing'' then ForgeError ''NO_FREEZE'' []
      else if reason = ''SelectionMissing'' then ForgeError ''FREEZE_NOT_SELECTED'' []
      else if reason = ''FreezeStale'' then ForgeError ''FREEZE_DRIFT'' []
      else ForgeError ''NATIVE_BUNDLE_UNKNOWN'' [reason])"

definition authorize_bundle_native ::
    "machine \<Rightarrow> native_adapter \<Rightarrow> string option \<Rightarrow> bool \<Rightarrow> forge_record res" where
  "authorize_bundle_native m adapter candidate_id request_valid =
     and_then (raise_if (mi_mode (ma_input m) \<notin> {''development'', ''evaluator''})
       (ForgeError ''INVALID_MODE'' [])) (\<lambda>_.
     and_then (na_bundle adapter (bundle_request_of m candidate_id request_valid)) (\<lambda>result.
     and_then (raise_if (\<not> nb_valid result) (ForgeError ''NATIVE_BUNDLE_UNKNOWN'' [])) (\<lambda>_.
     if nb_ready result
     then (case pr_candidate (ma_projection m) of
         None \<Rightarrow> Inl (ForgeError ''NATIVE_BUNDLE_UNKNOWN'' [])
       | Some candidate \<Rightarrow> Inr candidate)
     else Inl (bundle_rejection m candidate_id (nb_reason result)))))"

definition authorize_bundle :: "machine \<Rightarrow> string option \<Rightarrow> bool \<Rightarrow> forge_record res" where
  "authorize_bundle m candidate_id request_valid =
     and_then (require_unambiguous m) (\<lambda>_.
     case mi_native (ma_input m) of
       Some adapter \<Rightarrow> authorize_bundle_native m adapter candidate_id request_valid
     | None \<Rightarrow>
         if mi_mode (ma_input m) = ''evaluator''
         then and_then (authorize_evaluator_entry m candidate_id) (\<lambda>fc. Inr (snd fc))
         else and_then (require_mode m ''development'') (\<lambda>_. require_candidate m candidate_id))"

section \<open>Terminal verifier results\<close>

definition results_of_action :: "ledger_entry list \<Rightarrow> string \<Rightarrow> forge_record list" where
  "results_of_action history action_id =
     filter (\<lambda>r. fr_type r = VERIFIER_RESULT \<and> feq (rec_value r ''action_id'') (FStr action_id))
       (map le_payload history)"

definition action_mismatches :: "forge_record \<Rightarrow> string \<Rightarrow> string option \<Rightarrow> string \<Rightarrow> string list" where
  "action_mismatches action candidate_id freeze_id mode =
     map fst (filter (\<lambda>(name, v). \<not> feq (rec_value action name) v)
       [(''candidate_identity'', FStr candidate_id), (''freeze_identity'', opt_text freeze_id),
        (''mode'', FStr mode)])"

definition terminal_result_for_recorded_action ::
    "forge_record \<Rightarrow> ledger_entry list \<Rightarrow> string \<Rightarrow> string \<Rightarrow> string option \<Rightarrow> string \<Rightarrow> forge_record res" where
  "terminal_result_for_recorded_action action existing action_id candidate_id freeze_id mode =
     and_then (raise_if (\<not> feq (rec_value action ''action_id'') (FStr action_id))
       (ForgeError ''ACTION_BINDING_MISMATCH'' [])) (\<lambda>_.
     and_then (raise_if (results_of_action existing action_id \<noteq> [])
       (ForgeError ''ACTION_ALREADY_TERMINATED'' [])) (\<lambda>_.
     let mismatched = action_mismatches action candidate_id freeze_id mode in
     and_then (raise_if (mismatched \<noteq> []) (ForgeError ''ACTION_BINDING_MISMATCH'' (sort mismatched))) (\<lambda>_.
     Inr action)))"

definition authorize_terminal_result ::
    "ledger_entry list \<Rightarrow> string \<Rightarrow> string \<Rightarrow> string option \<Rightarrow> string \<Rightarrow> forge_record res" where
  "authorize_terminal_result history action_id candidate_id freeze_id mode =
     (let actions = filter (\<lambda>r. fr_type r = VERIFIER_ACTION \<and> feq (rec_value r ''action_id'') (FStr action_id))
        (map le_payload history) in
      case last_of actions of
        None \<Rightarrow> Inl (ForgeError ''ACTION_NOT_RECORDED'' [])
      | Some action \<Rightarrow>
          terminal_result_for_recorded_action action
            (filter (\<lambda>e. fr_type (le_payload e) = VERIFIER_RESULT) history)
            action_id candidate_id freeze_id mode)"

end
