(* ===== verification/TransitionFacts.thy ===== *)
theory TransitionFacts
  imports Authorization
begin

text \<open>
  What an authorized transition has established. The guard every transition shares is an interface,
  interpreted for each authorizer; the facts specific to one authorizer are elimination lemmas.
\<close>

section \<open>The shared guards\<close>

lemma last_of_Some: "last_of xs = Some x \<Longrightarrow> x \<in> set xs"
  by (auto simp: last_of_def split: if_splits)

lemma require_mode_Inr [res_simps]: "require_mode m expected = Inr u \<longleftrightarrow> mi_mode (ma_input m) = expected"
  by (auto simp: require_mode_def res_simps)

lemma require_unambiguous_Inr [res_simps]:
  "require_unambiguous m = Inr u \<longleftrightarrow> pr_stage (ma_projection m) \<noteq> AMBIGUOUS_HISTORY"
  by (simp add: require_unambiguous_def split: list.splits)

lemma raise_blocker_Inr [res_simps]: "raise_blocker r = Inr u \<longleftrightarrow> readiness_blocker r = None"
  by (simp add: raise_blocker_def split: option.splits)

lemma selected_disposition_Inr [res_simps]:
  "selected_disposition m = Inr d \<longleftrightarrow>
     pr_disposition (ma_projection m) = Some d \<and> pr_disposition_status (ma_projection m) = ''selected''"
  by (auto simp: selected_disposition_def split: option.splits)

definition names_candidate :: "forge_record \<Rightarrow> string option \<Rightarrow> bool" where
  "names_candidate r cid \<longleftrightarrow> (\<forall>c \<in> set_option cid. rec_value r ''candidate_id'' = FStr c)"

lemma require_candidate_Inr [res_simps]:
  "require_candidate m cid = Inr c \<longleftrightarrow>
     pr_candidate (ma_projection m) = Some c \<and> names_candidate c cid
     \<and> pr_freshness (ma_projection m) = ''CURRENT''"
  by (auto simp: require_candidate_def names_candidate_def res_simps split: option.splits if_splits)

lemma names_candidate_str: "names_candidate r (Some cid) \<Longrightarrow> rec_str r ''candidate_id'' = cid"
  by (simp add: names_candidate_def rec_str_def)

section \<open>The guard interface\<close>

text \<open>
  An operation that is available in some modes only, and never on an ambiguous history.
\<close>

locale guarded_operation =
  fixes authorize :: "machine \<Rightarrow> 'q \<Rightarrow> 'a res" and modes :: "string set"
  assumes mode_required: "authorize m q = Inr x \<Longrightarrow> mi_mode (ma_input m) \<in> modes"
    and unambiguous_required: "authorize m q = Inr x \<Longrightarrow> pr_stage (ma_projection m) \<noteq> AMBIGUOUS_HISTORY"
begin

lemma forbidden_mode: "mi_mode (ma_input m) \<notin> modes \<Longrightarrow> \<not> is_ok (authorize m q)"
  using mode_required by (auto simp: is_ok_iff)

lemma blocked_when_ambiguous: "pr_stage (ma_projection m) = AMBIGUOUS_HISTORY \<Longrightarrow> \<not> is_ok (authorize m q)"
  using unambiguous_required by (auto simp: is_ok_iff)

lemma ok_guards:
  "is_ok (authorize m q) \<Longrightarrow>
    mi_mode (ma_input m) \<in> modes \<and> pr_stage (ma_projection m) \<noteq> AMBIGUOUS_HISTORY"
  using mode_required unambiguous_required by (auto simp: is_ok_iff)

end

text \<open>Operations of a single mode; two of different modes are never available on one machine.\<close>

locale single_mode_operation = guarded_operation authorize "{mode}"
  for authorize :: "machine \<Rightarrow> 'q \<Rightarrow> 'a res" and mode :: string
begin

lemma mode_exact: "is_ok (authorize m q) \<Longrightarrow> mi_mode (ma_input m) = mode"
  using ok_guards by blast

end

definition begin_request :: "machine \<Rightarrow> string option \<Rightarrow> unit res" where
  "begin_request m q = authorize_epoch_begin m q"

definition register_request :: "machine \<Rightarrow> string option \<times> string \<times> string option \<Rightarrow> forge_record res" where
  "register_request m q = authorize_candidate_register m (fst q) (fst (snd q)) (snd (snd q))"

definition candidate_work_request :: "machine \<Rightarrow> string option \<Rightarrow> forge_record option res" where
  "candidate_work_request m q = authorize_development_work m q False"

definition disposition_request :: "machine \<Rightarrow> string \<times> string \<Rightarrow> (forge_record \<times> readiness) res" where
  "disposition_request m q = authorize_candidate_disposition m (fst q) (snd q)"

definition freeze_request :: "machine \<Rightarrow> string \<times> string list option \<Rightarrow> (forge_record \<times> forge_record) res" where
  "freeze_request m q = authorize_candidate_freeze m (fst q) (snd q)"

lemmas guard_simps = Let_def and_then_Inr_iff require_mode_Inr require_unambiguous_Inr

interpretation begin_op: single_mode_operation begin_request "''development''"
  by unfold_locales (auto simp: begin_request_def authorize_epoch_begin_def guard_simps)

interpretation register_op: single_mode_operation register_request "''development''"
  by unfold_locales (auto simp: register_request_def authorize_candidate_register_def guard_simps)

interpretation work_op: single_mode_operation candidate_work_request "''development''"
  by unfold_locales (auto simp: candidate_work_request_def authorize_development_work_def guard_simps)

interpretation compare_op: single_mode_operation authorize_candidate_comparison "''development''"
  by unfold_locales (auto simp: authorize_candidate_comparison_def guard_simps)

interpretation disposition_op: single_mode_operation disposition_request "''development''"
  by unfold_locales (auto simp: disposition_request_def authorize_candidate_disposition_def guard_simps)

interpretation freeze_op: single_mode_operation freeze_request "''development''"
  by unfold_locales (auto simp: freeze_request_def authorize_candidate_freeze_def guard_simps)

interpretation evaluator_op: single_mode_operation authorize_evaluator_entry "''evaluator''"
  by unfold_locales (auto simp: authorize_evaluator_entry_def guard_simps)

interpretation reconcile_op: guarded_operation authorize_reconciliation UNIV
  by unfold_locales (auto simp: authorize_reconciliation_def guard_simps)

definition bundle_operation :: "machine \<Rightarrow> string option \<times> bool \<Rightarrow> forge_record res" where
  "bundle_operation m q = authorize_bundle m (fst q) (snd q)"

interpretation bundle_op: guarded_operation bundle_operation "{''development'', ''evaluator''}"
  by unfold_locales
    (auto simp: bundle_operation_def authorize_bundle_def authorize_bundle_native_def
      authorize_evaluator_entry_def guard_simps res_simps split: option.splits if_splits)

section \<open>What each authorization establishes\<close>

lemma epoch_begin_Inr:
  assumes "authorize_epoch_begin m parent = Inr u"
  shows "parent = map_option (\<lambda>e. rec_str e ''epoch_id'') (pr_active_epoch (ma_projection m))"
  using assms by (auto simp: authorize_epoch_begin_def guard_simps res_simps split: option.splits)

lemma candidate_register_Inr:
  assumes "authorize_candidate_register m parent proposed eid = Inr epoch"
  shows "pr_active_epoch (ma_projection m) = Some epoch"
    "parent = candidate_id_of (pr_candidate (ma_projection m))"
    "parent \<noteq> Some proposed"
    "text_map_eq (rec_value epoch ''authority_identities'') (mi_current_authority (ma_input m))"
    "pr_freeze (ma_projection m) = None"
  using assms
  by (auto simp: authorize_candidate_register_def check_candidate_parent_def candidate_id_of_def
      guard_simps res_simps split: option.splits if_splits)

lemma candidate_disposition_Inr:
  assumes "authorize_candidate_disposition m cid disposition = Inr (candidate, evidence)"
  shows "pr_candidate (ma_projection m) = Some candidate"
    "names_candidate candidate (Some cid)"
    "pr_freshness (ma_projection m) = ''CURRENT''"
    "evidence = pr_evidence (ma_projection m)"
    "pr_disposition_status (ma_projection m) = ''undisposed''"
    "disposition = ''selected'' \<Longrightarrow> readiness_blocker evidence = None"
    "disposition \<in> {''selected'', ''rejected''}"
  using assms
  by (auto simp: authorize_candidate_disposition_def guard_simps res_simps split: if_splits)

lemma candidate_freeze_Inr:
  assumes "authorize_candidate_freeze m cid plan = Inr (candidate, disposition)"
  shows "pr_candidate (ma_projection m) = Some candidate"
    "names_candidate candidate (Some cid)"
    "pr_freshness (ma_projection m) = ''CURRENT''"
    "pr_disposition (ma_projection m) = Some disposition"
    "pr_disposition_status (ma_projection m) = ''selected''"
    "pr_freeze (ma_projection m) = None"
    "readiness_blocker (pr_evidence (ma_projection m)) = None"
    "check_selection_binding m disposition = Inr ()"
    "check_evidence_plan m candidate plan = Inr ()"
    "\<exists>epoch. pr_active_epoch (ma_projection m) = Some epoch
      \<and> text_map_eq (rec_value epoch ''authority_identities'') (mi_current_authority (ma_input m))"
  using assms
  by (auto simp: authorize_candidate_freeze_def guard_simps res_simps split: option.splits)

lemma evaluator_entry_Inr:
  assumes "authorize_evaluator_entry m cid = Inr (freeze, candidate)"
  obtains disposition where
    "pr_freeze (ma_projection m) = Some freeze"
    "freeze_drift (ma_input m) freeze = []"
    "pr_candidate (ma_projection m) = Some candidate"
    "names_candidate candidate (Some (rec_str freeze ''candidate_identity''))"
    "pr_freshness (ma_projection m) = ''CURRENT''"
    "pr_disposition (ma_projection m) = Some disposition"
    "pr_disposition_status (ma_projection m) = ''selected''"
    "feq (rec_value freeze ''selection_record'') (rec_value disposition ''disposition_id'')"
    "\<And>c. cid = Some c \<Longrightarrow> rec_value freeze ''candidate_identity'' = FStr c"
  using assms
  by (auto simp: authorize_evaluator_entry_def guard_simps res_simps split: option.splits intro: that)

lemma freeze_drift_Nil:
  "freeze_drift inp freeze = [] \<longleftrightarrow>
     (\<forall>(name, current) \<in> set (mi_freeze_bindings inp). rec_value freeze name = FStr current)"
  by (auto simp: freeze_drift_def filter_empty_conv)

section \<open>Terminal results\<close>

definition binds_action :: "forge_record \<Rightarrow> string \<Rightarrow> string \<Rightarrow> string option \<Rightarrow> string \<Rightarrow> bool" where
  "binds_action action action_id candidate_id freeze_id mode \<longleftrightarrow>
     rec_value action ''action_id'' = FStr action_id
     \<and> rec_value action ''candidate_identity'' = FStr candidate_id
     \<and> feq (rec_value action ''freeze_identity'') (opt_text freeze_id)
     \<and> rec_value action ''mode'' = FStr mode"

lemma terminal_for_recorded_Inr:
  "terminal_result_for_recorded_action action existing aid cid fid mode = Inr r \<longleftrightarrow>
     r = action \<and> binds_action action aid cid fid mode \<and> results_of_action existing aid = []"
  by (auto simp: terminal_result_for_recorded_action_def guard_simps res_simps binds_action_def
      action_mismatches_def filter_empty_conv)

lemma results_of_action_filtered:
  "results_of_action (filter (\<lambda>e. fr_type (le_payload e) = VERIFIER_RESULT) history) aid
   = results_of_action history aid"
  by (induction history) (auto simp: results_of_action_def)

lemma terminal_result_Inr:
  assumes "authorize_terminal_result history aid cid fid mode = Inr action"
  shows "action \<in> set (map le_payload history)" "fr_type action = VERIFIER_ACTION"
    "binds_action action aid cid fid mode" "results_of_action history aid = []"
proof -
  let ?actions = "filter (\<lambda>r. fr_type r = VERIFIER_ACTION \<and> feq (rec_value r ''action_id'') (FStr aid))
    (map le_payload history)"
  from assms obtain a where a: "last_of ?actions = Some a"
    and t: "terminal_result_for_recorded_action a
      (filter (\<lambda>e. fr_type (le_payload e) = VERIFIER_RESULT) history) aid cid fid mode = Inr action"
    by (auto simp: authorize_terminal_result_def Let_def split: option.splits)
  from t have t': "action = a" "binds_action a aid cid fid mode" "results_of_action history aid = []"
    by (simp_all add: terminal_for_recorded_Inr results_of_action_filtered)
  from a have "a \<in> set ?actions" by (rule last_of_Some)
  then have "a \<in> set (map le_payload history) \<and> fr_type a = VERIFIER_ACTION" unfolding set_filter by blast
  with t' show "action \<in> set (map le_payload history)" "fr_type action = VERIFIER_ACTION"
    "binds_action action aid cid fid mode" "results_of_action history aid = []" by simp_all
qed

lemma terminal_result_repeated:
  assumes "results_of_action history aid \<noteq> []"
  shows "\<not> is_ok (authorize_terminal_result history aid cid fid mode)"
  using assms terminal_result_Inr(4) by (auto simp: is_ok_iff)

end
