(* ===== verification/ProjectionFacts.thy ===== *)
theory ProjectionFacts
  imports TransitionFacts
begin

text \<open>
  The parts of a projection computed without a native adapter, and what the disposition, freeze and
  evaluation authorizers say about the history behind it.
\<close>

section \<open>The parts of a projection\<close>

text \<open>A machine built without an adapter.\<close>

definition compat_machine :: "machine \<Rightarrow> bool" where
  "compat_machine m \<longleftrightarrow>
     mi_native (ma_input m) = None \<and> project (ma_input m) = Inr (ma_projection m)
     \<and> mi_mode (ma_input m) \<in> {''development'', ''evaluator''}"

lemma make_machine_compat: "make_machine inp = Inr m \<Longrightarrow> mi_native inp = None \<Longrightarrow> compat_machine m"
  using make_machine_Inr by (fastforce simp: compat_machine_def)

lemma compat_projection_parts:
  assumes "mi_native inp = None" "project inp = Inr p"
  obtains view where
    "candidate_projection inp (pr_active_epoch p) = Inr view"
    "pr_active_epoch p = last_of (records_of inp EPOCH)"
    "pr_superseded p = map (\<lambda>r. rec_str r ''epoch_id'') (butlast (records_of inp EPOCH))"
    "pr_candidate p = cv_current view" "pr_freshness p = cv_freshness view"
    "pr_lineage p = cv_lineage view" "pr_candidate_status p = cv_status view"
    "pr_evidence p = compat_evidence_readiness inp (pr_candidate p) None"
    "pr_disposition p = only (for_candidate inp CANDIDATE_DISPOSITION (candidate_id_of (pr_candidate p)))"
    "pr_disposition_status p =
       disposition_status_of (for_candidate inp CANDIDATE_DISPOSITION (candidate_id_of (pr_candidate p)))"
    "pr_freeze p = only (for_candidate inp FREEZE (candidate_id_of (pr_candidate p)))"
    "pr_stage p = stage_of (pr_limitations p) (pr_active_epoch p) (pr_candidate p) (pr_bundles p)
       (pr_evaluations p) (pr_freeze p) (pr_disposition_status p) (pr_evidence p)"
    "pr_limitations p = projection_limitations
       (if epoch_chain None [] (records_of inp EPOCH) then [] else [blocker ''EPOCH_LINEAGE_CONFLICT'' []])
       (cv_limitations view) (pr_evidence p)
       (for_candidate inp CANDIDATE_DISPOSITION (candidate_id_of (pr_candidate p)))
       (for_candidate inp FREEZE (candidate_id_of (pr_candidate p)))"
proof -
  obtain active status superseded limits where ep: "epoch_projection inp = (active, status, superseded, limits)"
    by (cases "epoch_projection inp")
  then have active: "active = last_of (records_of inp EPOCH)"
    and superseded: "superseded = map (\<lambda>r. rec_str r ''epoch_id'') (butlast (records_of inp EPOCH))"
    and limits: "limits = (if epoch_chain None [] (records_of inp EPOCH) then []
      else [blocker ''EPOCH_LINEAGE_CONFLICT'' []])"
    by (auto simp: epoch_projection_def last_of_def Let_def split: if_splits)
  from assms have "compat_projection inp = Inr p" by (simp add: project_compat)
  with ep assms(1) show thesis
    by (intro that [of "case candidate_projection inp active of Inr view \<Rightarrow> view"])
      (auto simp: compat_projection_def evidence_readiness_def Let_def and_then_Inr_iff
        active superseded limits)
qed

lemma ambiguous_stage_iff:
  assumes "mi_native inp = None" "project inp = Inr p"
  shows "pr_stage p = AMBIGUOUS_HISTORY \<longleftrightarrow> ambiguous_limitations (pr_limitations p)"
proof -
  obtain epoch candidate bundles evaluations freeze disposition evidence where
    "pr_stage p = stage_of (pr_limitations p) epoch candidate bundles evaluations freeze disposition evidence"
    using assms by (rule compat_projection_parts) blast
  then show ?thesis by (simp add: stage_of_def)
qed

text \<open>The current candidate belongs to the active epoch and to the history.\<close>

lemma candidate_projection_current:
  assumes "candidate_projection inp (Some epoch) = Inr view" "cv_current view = Some c"
  shows "c \<in> set (records_of inp CANDIDATE)"
    "rec_value c ''source_epoch'' = FStr (rec_str epoch ''epoch_id'')"
    "cv_freshness view =
       (if rec_value c ''candidate_id'' = FStr (mi_current_candidate inp) then ''CURRENT'' else ''STALE'')"
proof -
  let ?active = "filter (\<lambda>r. feq (rec_value r ''source_epoch'') (FStr (rec_str epoch ''epoch_id'')))
    (records_of inp CANDIDATE)"
  from assms have c: "last_of ?active = Some c"
    and fresh: "cv_freshness view =
       (if rec_value c ''candidate_id'' = FStr (mi_current_candidate inp) then ''CURRENT'' else ''STALE'')"
    by (auto simp: candidate_projection_def Let_def and_then_Inr_iff no_candidate_view_def
        case_prod_beta split: option.splits)
  from c have "c \<in> set ?active" by (rule last_of_Some)
  then show "c \<in> set (records_of inp CANDIDATE)"
    and "rec_value c ''source_epoch'' = FStr (rec_str epoch ''epoch_id'')" by auto
  from fresh show "cv_freshness view =
       (if rec_value c ''candidate_id'' = FStr (mi_current_candidate inp) then ''CURRENT'' else ''STALE'')" .
qed

lemma only_Some: "only xs = Some x \<longleftrightarrow> xs = [x]"
  by (auto simp: only_def split: list.splits)

lemma only_None: "only xs = None \<longleftrightarrow> length xs \<noteq> 1"
  by (auto simp: only_def split: list.splits)

section \<open>What selection, freeze and evaluation rest on\<close>

lemma fresh_candidate:
  assumes "compat_machine m" "pr_candidate (ma_projection m) = Some c"
    "pr_freshness (ma_projection m) = ''CURRENT''"
  shows "rec_value c ''candidate_id'' = FStr (mi_current_candidate (ma_input m))"
    "c \<in> set (records_of (ma_input m) CANDIDATE)"
proof -
  from assms(1) have n: "mi_native (ma_input m) = None" and p: "project (ma_input m) = Inr (ma_projection m)"
    by (simp_all add: compat_machine_def)
  obtain view where view: "candidate_projection (ma_input m) (pr_active_epoch (ma_projection m)) = Inr view"
    and c: "cv_current view = Some c" and f: "cv_freshness view = ''CURRENT''"
    using compat_projection_parts [OF n p] assms(2,3) by metis
  from view c obtain epoch where "pr_active_epoch (ma_projection m) = Some epoch"
    by (auto simp: candidate_projection_def no_candidate_view_def split: option.splits)
  with view have view': "candidate_projection (ma_input m) (Some epoch) = Inr view" by simp
  from candidate_projection_current(1,3) [OF view' c] f
  show "rec_value c ''candidate_id'' = FStr (mi_current_candidate (ma_input m))"
    and "c \<in> set (records_of (ma_input m) CANDIDATE)"
    by (auto split: if_splits)
qed

lemma evidence_of_machine:
  assumes "compat_machine m"
  shows "pr_evidence (ma_projection m)
    = compat_evidence_readiness (ma_input m) (pr_candidate (ma_projection m)) None"
  using assms compat_projection_parts unfolding compat_machine_def by metis

lemma evidence_plan_sound:
  assumes "mi_native (ma_input m) = None" "check_evidence_plan m candidate plan = Inr ()"
  obtains reqs where "plan = Some reqs" "reqs \<noteq> []"
    "\<forall>req \<in> set reqs. requirement_satisfied (ma_input m) (Some candidate) req"
proof -
  from assms obtain reqs where reqs: "plan = Some reqs" "reqs \<noteq> []"
    and ok: "readiness_blocker (compat_evidence_readiness (ma_input m) (Some candidate) (Some reqs)) = None"
    by (auto simp: check_evidence_plan_def evidence_readiness_def res_simps split: option.splits list.splits)
  from ok have "\<forall>req \<in> set reqs. requirement_satisfied (ma_input m) (Some candidate) req"
    by (simp add: compat_blocker_None_iff)
  with reqs show thesis by (rule that)
qed

text \<open>Lengths of the terminal lists behind the projected statuses.\<close>

lemma undisposed_iff:
  "disposition_status_of ds = ''undisposed'' \<Longrightarrow> \<forall>d \<in> set ds. rec_str d ''disposition'' \<noteq> ''undisposed''
   \<Longrightarrow> ds = []"
  by (cases ds rule: remdups_adj.cases) (auto simp: disposition_status_of_def only_def split: if_splits)

lemma compat_machine_native: "compat_machine m \<Longrightarrow> mi_native (ma_input m) = None"
  by (simp add: compat_machine_def)

lemma freeze_candidate_identity:
  assumes "compat_machine m" "pr_candidate (ma_projection m) = Some c" "names_candidate c (Some cid)"
    "pr_freshness (ma_projection m) = ''CURRENT''"
  shows "rec_value c ''candidate_id'' = FStr (mi_current_candidate (ma_input m))"
    "cid = mi_current_candidate (ma_input m)"
    "candidate_id_of (pr_candidate (ma_projection m)) = Some (mi_current_candidate (ma_input m))"
  using fresh_candidate(1) [OF assms(1,2,4)] assms(2,3)
  by (simp_all add: names_candidate_def candidate_id_of_def rec_str_def)

lemma terminal_lists:
  assumes "compat_machine m" "candidate_id_of (pr_candidate (ma_projection m)) = Some cid"
  shows "pr_disposition (ma_projection m) = only (for_candidate (ma_input m) CANDIDATE_DISPOSITION (Some cid))"
    "pr_disposition_status (ma_projection m)
      = disposition_status_of (for_candidate (ma_input m) CANDIDATE_DISPOSITION (Some cid))"
    "pr_freeze (ma_projection m) = only (for_candidate (ma_input m) FREEZE (Some cid))"
  using assms compat_projection_parts unfolding compat_machine_def by metis+

lemma selected_terminal:
  assumes "compat_machine m" "candidate_id_of (pr_candidate (ma_projection m)) = Some cid"
    "pr_disposition (ma_projection m) = Some d" "pr_disposition_status (ma_projection m) = ''selected''"
  shows "for_candidate (ma_input m) CANDIDATE_DISPOSITION (Some cid) = [d]"
    "rec_str d ''disposition'' = ''selected''"
proof -
  from terminal_lists(1) [OF assms(1,2)] assms(3)
  have "only (for_candidate (ma_input m) CANDIDATE_DISPOSITION (Some cid)) = Some d" by simp
  then show ds: "for_candidate (ma_input m) CANDIDATE_DISPOSITION (Some cid) = [d]" by (simp add: only_Some)
  from terminal_lists(2) [OF assms(1,2)] assms(4) show "rec_str d ''disposition'' = ''selected''"
    by (simp add: ds disposition_status_of_def only_def)
qed

lemma frozen_terminal:
  assumes "compat_machine m" "candidate_id_of (pr_candidate (ma_projection m)) = Some cid"
    "pr_freeze (ma_projection m) = Some f"
  shows "for_candidate (ma_input m) FREEZE (Some cid) = [f]"
proof -
  from terminal_lists(3) [OF assms(1,2)] assms(3)
  have "only (for_candidate (ma_input m) FREEZE (Some cid)) = Some f" by simp
  then show ?thesis by (simp add: only_Some)
qed

text \<open>Several freeze records make the history ambiguous, so an admitted transition sees at most one.\<close>

lemma unfrozen_terminal:
  assumes m: "compat_machine m" and cid: "candidate_id_of (pr_candidate (ma_projection m)) = Some cid"
    and "pr_freeze (ma_projection m) = None" "pr_stage (ma_projection m) \<noteq> AMBIGUOUS_HISTORY"
  shows "for_candidate (ma_input m) FREEZE (Some cid) = []"
proof -
  let ?fs = "for_candidate (ma_input m) FREEZE (Some cid)"
  from m have n: "mi_native (ma_input m) = None" and p: "project (ma_input m) = Inr (ma_projection m)"
    by (simp_all add: compat_machine_def)
  obtain el cl ds where "pr_limitations (ma_projection m)
      = projection_limitations el cl (pr_evidence (ma_projection m)) ds ?fs"
    using compat_projection_parts [OF n p] cid by metis
  with assms(4) ambiguous_stage_iff [OF n p] have "\<not> 1 < length ?fs"
    by (auto simp: ambiguous_limitations_def projection_limitations_def AMBIGUITY_CODES_def)
  moreover from assms(3) terminal_lists(3) [OF m cid] have "only ?fs = None" by simp
  then have "length ?fs \<noteq> 1" by (simp add: only_None)
  ultimately show ?thesis by (cases ?fs) auto
qed

end
