(* ===== verification/Inspection.thy ===== *)
theory Inspection
  imports ProjectionFacts
begin

text \<open>
  \<open>inspect\<close> of the state machine: every operation is probed with the arguments the projection
  suggests, and split into allowed and blocked operations. The nested dictionary of the source is a
  flat record; its constant texts are left out. The cached copy of a report equals the report, since
  neither the inputs nor the projection of a machine change.
\<close>

section \<open>Probing\<close>

definition OPERATIONS :: "string list" where
  "OPERATIONS =
     [''begin_epoch'', ''register_candidate'', ''run_project_check'', ''run_candidate_check'',
      ''compare_candidates'', ''select_candidate'', ''reject_candidate'', ''freeze_candidate'',
      ''run_evaluation'', ''run_development_verifier'', ''run_evaluator_verifier'',
      ''reconcile_evidence'', ''build_bundle'', ''record_verifier_result'']"

text \<open>Only a \<open>ForgeError\<close> becomes a blocker; another exception leaves \<open>inspect\<close>.\<close>

definition probe :: "'a res \<Rightarrow> blocker list res" where
  "probe t =
     (case t of
        Inr x \<Rightarrow> Inr []
      | Inl (ForgeError c ds) \<Rightarrow> Inr [blocker c ds]
      | Inl e \<Rightarrow> Inl e)"

definition compare_lineage :: "machine \<Rightarrow> unit res" where
  "compare_lineage m =
     (let lineage = pr_lineage (ma_projection m) in
      and_then (raise_if (length lineage < 2) (ForgeError ''COMPARE_INPUT'' [])) (\<lambda>_.
      authorize_candidate_comparison m lineage))"

definition unterminated_action :: "machine \<Rightarrow> forge_record option" where
  "unterminated_action m =
     (let terminal = map (\<lambda>r. rec_str r ''action_id'') (records_of (ma_input m) VERIFIER_RESULT) in
      List.find (\<lambda>r. rec_str r ''action_id'' \<notin> set terminal) (records_of (ma_input m) VERIFIER_ACTION))"

definition record_terminal_result :: "machine \<Rightarrow> forge_record res" where
  "record_terminal_result m =
     (case unterminated_action m of
        None \<Rightarrow> Inl (ForgeError ''ACTION_NOT_RECORDED'' [])
      | Some action \<Rightarrow>
          authorize_terminal_result (mi_history (ma_input m)) (rec_str action ''action_id'')
            (rec_str action ''candidate_identity'')
            (if rec_value action ''freeze_identity'' = FNull then None
             else Some (rec_str action ''freeze_identity''))
            (rec_str action ''mode''))"

definition operation_blockers :: "machine \<Rightarrow> blocker list dict res" where
  "operation_blockers m =
     (let p = ma_projection m;
          cid = candidate_id_of (pr_candidate p);
          cid_text = (case cid of None \<Rightarrow> [] | Some c \<Rightarrow> c);
          eid = map_option (\<lambda>e. rec_str e ''epoch_id'') (pr_active_epoch p) in
      and_then (probe (authorize_epoch_begin m eid)) (\<lambda>begin_epoch.
      and_then (probe (authorize_candidate_register m cid ''prospective-candidate-identity'' None)) (\<lambda>register.
      and_then (probe (authorize_development_work m None True)) (\<lambda>project_check.
      and_then (probe (authorize_development_work m cid False)) (\<lambda>candidate_check.
      and_then (probe (compare_lineage m)) (\<lambda>compare.
      and_then (probe (authorize_candidate_disposition m cid_text ''selected'')) (\<lambda>select.
      and_then (probe (authorize_candidate_disposition m cid_text ''rejected'')) (\<lambda>reject.
      and_then (probe (authorize_candidate_freeze m cid_text (Some (mi_required (ma_input m))))) (\<lambda>freeze.
      and_then (probe (authorize_evaluator_entry m cid)) (\<lambda>evaluation.
      and_then (probe (authorize_reconciliation m cid)) (\<lambda>reconcile.
      and_then (probe (authorize_bundle m cid True)) (\<lambda>bundle.
      and_then (probe (record_terminal_result m)) (\<lambda>terminal.
      Inr [(''begin_epoch'', begin_epoch), (''register_candidate'', register),
           (''run_project_check'', project_check), (''run_candidate_check'', candidate_check),
           (''run_development_verifier'', candidate_check), (''compare_candidates'', compare),
           (''select_candidate'', select), (''reject_candidate'', reject),
           (''freeze_candidate'', freeze), (''run_evaluation'', evaluation),
           (''run_evaluator_verifier'', evaluation), (''reconcile_evidence'', reconcile),
           (''build_bundle'', bundle), (''record_verifier_result'', terminal)])))))))))))))"

section \<open>The inspection\<close>

record inspection =
  in_stage :: string
  in_mode :: string
  in_epoch_status :: string
  in_active_epoch :: "string option"
  in_superseded :: "string list"
  in_candidate_status :: string
  in_candidate :: "string option"
  in_freshness :: string
  in_candidate_epoch :: "string option"
  in_lineage :: "string list"
  in_evidence :: readiness
  in_disposition_status :: string
  in_disposition :: "string option"
  in_freeze_status :: string
  in_freeze :: "string option"
  in_freeze_candidate :: "string option"
  in_evaluation_status :: string
  in_evaluations :: "string list"
  in_reconciliation_status :: string
  in_bundle_status :: string
  in_bundles :: "string list"
  in_allowed :: "string list"
  in_blocked :: "blocker list dict"
  in_limitations :: "blocker list"

definition allowed_of :: "blocker list dict \<Rightarrow> string list" where
  "allowed_of blockers = sort (map fst (filter (\<lambda>kv. snd kv = []) blockers))"

definition blocked_of :: "blocker list dict \<Rightarrow> blocker list dict" where
  "blocked_of blockers = filter (\<lambda>kv. snd kv \<noteq> []) (sort_key fst blockers)"

definition inspect :: "machine \<Rightarrow> inspection res" where
  "inspect m =
     (let p = ma_projection m in
      and_then (operation_blockers (m\<lparr>ma_preflight := False\<rparr>)) (\<lambda>blockers.
      Inr \<lparr>in_stage = stage_value (pr_stage p), in_mode = mi_mode (ma_input m),
           in_epoch_status = pr_epoch_status p,
           in_active_epoch = map_option (\<lambda>e. rec_str e ''epoch_id'') (pr_active_epoch p),
           in_superseded = pr_superseded p,
           in_candidate_status = pr_candidate_status p,
           in_candidate = candidate_id_of (pr_candidate p),
           in_freshness = pr_freshness p,
           in_candidate_epoch = map_option (\<lambda>c. rec_str c ''source_epoch'') (pr_candidate p),
           in_lineage = pr_lineage p,
           in_evidence = pr_evidence p,
           in_disposition_status = pr_disposition_status p,
           in_disposition = map_option (\<lambda>d. rec_str d ''disposition_id'') (pr_disposition p),
           in_freeze_status = pr_freeze_status p,
           in_freeze = map_option (\<lambda>f. rec_str f ''freeze_id'') (pr_freeze p),
           in_freeze_candidate = map_option (\<lambda>f. rec_str f ''candidate_identity'') (pr_freeze p),
           in_evaluation_status = pr_evaluation_status p,
           in_evaluations = map record_identity_text (pr_evaluations p),
           in_reconciliation_status = pr_reconciliation_status p,
           in_bundle_status = pr_bundle_status p,
           in_bundles = map record_identity_text (pr_bundles p),
           in_allowed = allowed_of blockers,
           in_blocked = blocked_of blockers,
           in_limitations = pr_limitations p\<rparr>))"

section \<open>What inspection reports\<close>

lemma probe_Inr: "probe t = Inr bs \<longleftrightarrow>
    (is_ok t \<and> bs = [] \<or> (\<exists>c ds. t = Inl (ForgeError c ds) \<and> bs = [blocker c ds]))"
  by (auto simp: probe_def split: sum.splits py_error.splits)

lemma probe_allowed: "probe t = Inr bs \<Longrightarrow> bs = [] \<longleftrightarrow> is_ok t"
  by (auto simp: probe_Inr)

lemma operation_blockers_keys:
  "operation_blockers m = Inr blockers \<Longrightarrow>
     set (dict_keys blockers) = set OPERATIONS \<and> dict_wf blockers"
  by (auto simp: operation_blockers_def Let_def and_then_Inr_iff OPERATIONS_def)

text \<open>Errors that inspection turns into blockers.\<close>

definition forge_only :: "'a res \<Rightarrow> bool" where
  "forge_only t \<longleftrightarrow> (case t of Inl (ForgeError c ds) \<Rightarrow> True | Inl e \<Rightarrow> False | Inr x \<Rightarrow> True)"

lemma forge_only_probe: "forge_only t \<Longrightarrow> \<exists>bs. probe t = Inr bs"
  by (auto simp: forge_only_def probe_def split: sum.splits py_error.splits)

lemma forge_only_and_then:
  "forge_only t \<Longrightarrow> (\<And>x. t = Inr x \<Longrightarrow> forge_only (f x)) \<Longrightarrow> forge_only (and_then t f)"
  by (cases t) (auto simp: forge_only_def split: py_error.splits)

lemma forge_only_simps [simp]:
  "forge_only (Inr x)" "forge_only (Inl (ForgeError c ds))" "forge_only (raise_if b (ForgeError c ds))"
  "forge_only (Inl (blocker_error bl))"
  by (auto simp: forge_only_def raise_if_def blocker_error_def)

lemma forge_only_run_checks: "\<forall>c \<in> set cs. forge_only c \<Longrightarrow> forge_only (run_checks cs)"
  by (induction cs) (auto intro: forge_only_and_then)

lemma forge_only_native: "mi_native (ma_input m) = None \<Longrightarrow> forge_only (native_transition m op st s r e)"
  by (simp add: native_transition_def)

lemma forge_only_unambiguous:
  assumes "compat_machine m"
  shows "forge_only (require_unambiguous m)"
proof -
  have "pr_stage (ma_projection m) = AMBIGUOUS_HISTORY \<Longrightarrow> pr_limitations (ma_projection m) \<noteq> []"
    using assms ambiguous_stage_iff [of "ma_input m" "ma_projection m"]
    by (auto simp: compat_machine_def ambiguous_limitations_def)
  then show ?thesis by (auto simp: require_unambiguous_def split: list.splits)
qed

lemma forge_only_require_candidate: "forge_only (require_candidate m cid)"
  by (auto simp: require_candidate_def intro!: forge_only_and_then split: option.splits)

lemma forge_only_selected: "forge_only (selected_disposition m)"
  by (auto simp: selected_disposition_def split: option.splits)

lemma forge_only_raise_blocker: "forge_only (raise_blocker r)"
  by (auto simp: raise_blocker_def split: option.splits)

lemma forge_only_evidence_plan:
  "mi_native (ma_input m) = None \<Longrightarrow> forge_only (check_evidence_plan m c plan)"
  by (auto simp: check_evidence_plan_def evidence_readiness_def forge_only_raise_blocker
      split: option.splits list.splits)

lemma forge_only_require_mode: "forge_only (require_mode m x)"
  by (simp add: require_mode_def)

lemmas forge_only_rules = forge_only_and_then forge_only_run_checks forge_only_native
  forge_only_unambiguous forge_only_require_candidate forge_only_selected forge_only_raise_blocker
  forge_only_evidence_plan forge_only_require_mode

lemma forge_only_begin: "compat_machine m \<Longrightarrow> forge_only (authorize_epoch_begin m parent)"
  using compat_machine_native [of m]
  by (auto simp: authorize_epoch_begin_def intro!: forge_only_rules split: option.splits)

lemma forge_only_register:
  "compat_machine m \<Longrightarrow> forge_only (authorize_candidate_register m parent proposed eid)"
  using compat_machine_native [of m]
  by (auto simp: authorize_candidate_register_def check_candidate_parent_def unknown_parent_def Let_def
      intro!: forge_only_rules split: option.splits)

lemma forge_only_work: "compat_machine m \<Longrightarrow> forge_only (authorize_development_work m cid scoped)"
  by (auto simp: authorize_development_work_def intro!: forge_only_rules)

lemma forge_only_compare: "compat_machine m \<Longrightarrow> forge_only (compare_lineage m)"
  by (auto simp: compare_lineage_def authorize_candidate_comparison_def compared_candidate_def Let_def
      intro!: forge_only_rules split: option.splits)

lemma forge_only_disposition:
  "compat_machine m \<Longrightarrow> forge_only (authorize_candidate_disposition m cid d)"
  using compat_machine_native [of m]
  by (auto simp: authorize_candidate_disposition_def Let_def intro!: forge_only_rules)

lemma forge_only_freeze: "compat_machine m \<Longrightarrow> forge_only (authorize_candidate_freeze m cid plan)"
  using compat_machine_native [of m]
  by (auto simp: authorize_candidate_freeze_def check_selection_binding_def Let_def
      intro!: forge_only_rules split: option.splits)

lemma forge_only_evaluator: "compat_machine m \<Longrightarrow> forge_only (authorize_evaluator_entry m cid)"
  by (auto simp: authorize_evaluator_entry_def intro!: forge_only_rules split: option.splits)

lemma forge_only_reconciliation: "compat_machine m \<Longrightarrow> forge_only (authorize_reconciliation m cid)"
  by (auto simp: authorize_reconciliation_def intro!: forge_only_rules split: option.splits)

lemma forge_only_bundle: "compat_machine m \<Longrightarrow> forge_only (authorize_bundle m cid valid)"
  using compat_machine_native [of m]
  by (auto simp: authorize_bundle_def intro!: forge_only_rules forge_only_evaluator)

lemma forge_only_terminal: "forge_only (record_terminal_result m)"
  by (auto simp: record_terminal_result_def authorize_terminal_result_def Let_def
      terminal_result_for_recorded_action_def intro!: forge_only_rules split: option.splits)

lemma and_then_total:
  "\<exists>x. t = Inr x \<Longrightarrow> (\<And>x. \<exists>y. f x = Inr y) \<Longrightarrow> \<exists>y. and_then t f = Inr y"
  by auto

lemma probes_total: "compat_machine m \<Longrightarrow> \<exists>blockers. operation_blockers m = Inr blockers"
  unfolding operation_blockers_def Let_def
  by (intro and_then_total forge_only_probe forge_only_begin forge_only_register forge_only_work
      forge_only_compare forge_only_disposition forge_only_freeze forge_only_evaluator
      forge_only_reconciliation forge_only_bundle forge_only_terminal exI) (assumption | rule refl)+

lemma compat_machine_preflight [simp]: "compat_machine (m\<lparr>ma_preflight := b\<rparr>) \<longleftrightarrow> compat_machine m"
  by (simp add: compat_machine_def)

lemma inspect_total: "compat_machine m \<Longrightarrow> \<exists>report. inspect m = Inr report"
  using probes_total [of "m\<lparr>ma_preflight := False\<rparr>"] by (auto simp: inspect_def Let_def and_then_Inr_iff)

section \<open>Allowed operations\<close>

lemma blockers_partition:
  assumes "dict_wf blockers"
  shows "set (allowed_of blockers) \<union> set (dict_keys (blocked_of blockers)) = set (dict_keys blockers)"
    "set (allowed_of blockers) \<inter> set (dict_keys (blocked_of blockers)) = {}"
proof -
  have "a = b" if "(k, a) \<in> set blockers" "(k, b) \<in> set blockers" for k a b
    using assms that by (metis map_of_is_SomeI option.inject)
  then show "set (allowed_of blockers) \<inter> set (dict_keys (blocked_of blockers)) = {}"
    by (fastforce simp: allowed_of_def blocked_of_def)
  show "set (allowed_of blockers) \<union> set (dict_keys (blocked_of blockers)) = set (dict_keys blockers)"
    by (auto simp: allowed_of_def blocked_of_def image_iff)
qed

lemma allowed_iff_get:
  "dict_wf blockers \<Longrightarrow> k \<in> set (allowed_of blockers) \<longleftrightarrow> dict_get blockers k = Some []"
  by (force simp: allowed_of_def intro: map_of_is_SomeI dest: map_of_SomeD)

text \<open>On a machine without an adapter the preflight flag has no effect.\<close>

lemma native_transition_compat:
  "mi_native (ma_input m) = None \<Longrightarrow> native_transition m op st s r e = Inr ()"
  by (simp add: native_transition_def)

lemma preflight_fields:
  "ma_input (m\<lparr>ma_preflight := b\<rparr>) = ma_input m" "ma_projection (m\<lparr>ma_preflight := b\<rparr>) = ma_projection m"
  by simp_all

lemma preflight_guards:
  "require_mode (m\<lparr>ma_preflight := b\<rparr>) = require_mode m"
  "require_unambiguous (m\<lparr>ma_preflight := b\<rparr>) = require_unambiguous m"
  "candidate_record (m\<lparr>ma_preflight := b\<rparr>) = candidate_record m"
  "require_candidate (m\<lparr>ma_preflight := b\<rparr>) = require_candidate m"
  "unknown_parent (m\<lparr>ma_preflight := b\<rparr>) = unknown_parent m"
  "selected_disposition (m\<lparr>ma_preflight := b\<rparr>) = selected_disposition m"
  "check_selection_binding (m\<lparr>ma_preflight := b\<rparr>) = check_selection_binding m"
  "check_evidence_plan (m\<lparr>ma_preflight := b\<rparr>) = check_evidence_plan m"
  unfolding fun_eq_iff require_mode_def require_unambiguous_def candidate_record_def
      unknown_parent_def selected_disposition_def check_selection_binding_def check_evidence_plan_def
      require_candidate_def preflight_fields
  by simp_all

lemma preflight_native:
  "mi_native (ma_input m) = None \<Longrightarrow> native_transition (m\<lparr>ma_preflight := b\<rparr>) = native_transition m"
  by (simp add: fun_eq_iff native_transition_def)

lemma preflight_irrelevant:
  assumes "mi_native (ma_input m) = None"
  shows "authorize_epoch_begin (m\<lparr>ma_preflight := b\<rparr>) parent = authorize_epoch_begin m parent"
    "authorize_candidate_register (m\<lparr>ma_preflight := b\<rparr>) parent proposed eid
      = authorize_candidate_register m parent proposed eid"
    "authorize_candidate_disposition (m\<lparr>ma_preflight := b\<rparr>) cid d = authorize_candidate_disposition m cid d"
    "authorize_candidate_freeze (m\<lparr>ma_preflight := b\<rparr>) cid plan = authorize_candidate_freeze m cid plan"
    "authorize_evaluator_entry (m\<lparr>ma_preflight := b\<rparr>) ecid = authorize_evaluator_entry m ecid"
  unfolding authorize_epoch_begin_def authorize_candidate_register_def check_candidate_parent_def
      authorize_candidate_disposition_def authorize_candidate_freeze_def authorize_evaluator_entry_def
      preflight_fields preflight_guards preflight_native [OF assms]
  by simp_all

text \<open>What the report says of the operations whose arguments are the projected candidate.\<close>

definition candidate_text :: "machine \<Rightarrow> string" where
  "candidate_text m =
     (case candidate_id_of (pr_candidate (ma_projection m)) of None \<Rightarrow> [] | Some c \<Rightarrow> c)"

lemma blockers_report:
  assumes "operation_blockers m = Inr blockers"
  shows "dict_get blockers ''select_candidate'' = Some [] \<longleftrightarrow>
      is_ok (authorize_candidate_disposition m (candidate_text m) ''selected'')"
    "dict_get blockers ''freeze_candidate'' = Some [] \<longleftrightarrow>
      is_ok (authorize_candidate_freeze m (candidate_text m) (Some (mi_required (ma_input m))))"
    "dict_get blockers ''run_evaluation'' = Some [] \<longleftrightarrow>
      is_ok (authorize_evaluator_entry m (candidate_id_of (pr_candidate (ma_projection m))))"
proof -
  obtain select_b freeze_b evaluate_b where
    probes: "probe (authorize_candidate_disposition m (candidate_text m) ''selected'') = Inr select_b"
      "probe (authorize_candidate_freeze m (candidate_text m) (Some (mi_required (ma_input m)))) = Inr freeze_b"
      "probe (authorize_evaluator_entry m (candidate_id_of (pr_candidate (ma_projection m)))) = Inr evaluate_b"
    and gets: "dict_get blockers ''select_candidate'' = Some select_b"
      "dict_get blockers ''freeze_candidate'' = Some freeze_b"
      "dict_get blockers ''run_evaluation'' = Some evaluate_b"
    using assms unfolding operation_blockers_def Let_def candidate_text_def and_then_Inr_iff
    by (elim exE conjE) (simp add: eq_commute [of _ blockers])
  from gets probes [THEN probe_allowed] show
    "dict_get blockers ''select_candidate'' = Some [] \<longleftrightarrow>
      is_ok (authorize_candidate_disposition m (candidate_text m) ''selected'')"
    "dict_get blockers ''freeze_candidate'' = Some [] \<longleftrightarrow>
      is_ok (authorize_candidate_freeze m (candidate_text m) (Some (mi_required (ma_input m))))"
    "dict_get blockers ''run_evaluation'' = Some [] \<longleftrightarrow>
      is_ok (authorize_evaluator_entry m (candidate_id_of (pr_candidate (ma_projection m))))"
    by simp_all
qed

lemma inspect_report:
  assumes m: "compat_machine m"
  obtains report where "inspect m = Inr report"
    "set (in_allowed report) \<union> set (dict_keys (in_blocked report)) = set OPERATIONS"
    "set (in_allowed report) \<inter> set (dict_keys (in_blocked report)) = {}"
    "''select_candidate'' \<in> set (in_allowed report) \<longleftrightarrow>
       is_ok (authorize_candidate_disposition m (candidate_text m) ''selected'')"
    "''freeze_candidate'' \<in> set (in_allowed report) \<longleftrightarrow>
       is_ok (authorize_candidate_freeze m (candidate_text m) (Some (mi_required (ma_input m))))"
    "''run_evaluation'' \<in> set (in_allowed report) \<longleftrightarrow>
       is_ok (authorize_evaluator_entry m (candidate_id_of (pr_candidate (ma_projection m))))"
proof -
  let ?m = "m\<lparr>ma_preflight := False\<rparr>"
  obtain blockers where b: "operation_blockers ?m = Inr blockers"
    using probes_total [of ?m] m by auto
  then obtain report where r: "inspect m = Inr report"
    and sets: "in_allowed report = allowed_of blockers" "in_blocked report = blocked_of blockers"
    by (simp add: inspect_def Let_def)
  from operation_blockers_keys [OF b] have wf: "dict_wf blockers"
    and keys: "set (dict_keys blockers) = set OPERATIONS" by simp_all
  have same: "candidate_text ?m = candidate_text m" by (simp add: candidate_text_def)
  from blockers_report [OF b] preflight_irrelevant [OF compat_machine_native [OF m]] r sets
    blockers_partition [OF wf] keys allowed_iff_get [OF wf]
  show thesis by (intro that [of report]) (simp_all add: same)
qed

end
