(* ===== verification/JsonText.thy ===== *)
theory JsonText
  imports Serialization
begin

text \<open>
  Reading JSON text, as the source uses \<open>json.loads\<close> on UTF-8 bytes: \<open>read_json\<close> of
  \<open>serialization.py\<close> with its duplicate-key hook, and the ledger's lines with Python's default of
  keeping the last of several members. The value of a float literal is the text \<open>fr\<close> gives for it
  (Python's shortest decimal form). The constants \<open>NaN\<close> and \<open>Infinity\<close>, a
  byte order mark and other encodings are rejected here. \<open>canonical_bytes\<close> is shown to be read back.
\<close>

section \<open>UTF-8\<close>

text \<open>\<open>bytes.decode("utf-8")\<close> succeeds; a surrogate written as three bytes is let through, as the
  \<open>surrogatepass\<close> handler of \<open>json\<close> does.\<close>

definition utf8_tail :: "char \<Rightarrow> bool" where
  "utf8_tail c \<longleftrightarrow> is_continuation c"

definition byte_in :: "nat \<Rightarrow> nat \<Rightarrow> char \<Rightarrow> bool" where
  "byte_in lo hi c \<longleftrightarrow> lo \<le> of_char c \<and> of_char c \<le> hi"

definition lead_length :: "char \<Rightarrow> nat" where
  "lead_length c =
     (if byte_in 0 127 c then 1 else if byte_in 194 223 c then 2 else if byte_in 224 239 c then 3
      else if byte_in 240 244 c then 4 else 0)"

text \<open>No overlong forms, and nothing beyond U+10FFFF.\<close>

definition second_ok :: "char \<Rightarrow> string \<Rightarrow> bool" where
  "second_ok c ds \<longleftrightarrow>
     (case ds of
        [] \<Rightarrow> True
      | d # _ \<Rightarrow> (byte_in 224 224 c \<longrightarrow> byte_in 160 191 d) \<and> (byte_in 240 240 c \<longrightarrow> byte_in 144 191 d)
          \<and> (byte_in 244 244 c \<longrightarrow> byte_in 128 143 d))"

definition utf8_step :: "string \<Rightarrow> string option" where
  "utf8_step s =
     (case s of
        [] \<Rightarrow> None
      | c # cs \<Rightarrow>
          (let n = lead_length c; ds = take (n - 1) cs in
           if n = 0 \<or> length cs < n - 1 \<or> \<not> list_all utf8_tail ds \<or> \<not> second_ok c ds then None
           else Some (drop (n - 1) cs)))"

lemma utf8_step_shorter: "utf8_step s = Some r \<Longrightarrow> length r < length s"
  by (auto simp: utf8_step_def Let_def split: list.splits if_splits)

lemma utf8_step_append: "utf8_step s = Some r \<Longrightarrow> utf8_step (s @ t) = Some (r @ t)"
  by (auto simp: utf8_step_def Let_def split: list.splits if_splits)

function utf8_valid :: "string \<Rightarrow> bool" where
  "utf8_valid s = (s = [] \<or> (case utf8_step s of None \<Rightarrow> False | Some r \<Rightarrow> utf8_valid r))"
  by pat_completeness auto
termination
  by (relation "measure length") (auto dest: utf8_step_shorter)

declare utf8_valid.simps [simp del]

lemma utf8_valid_append: "utf8_valid s \<Longrightarrow> utf8_valid t \<Longrightarrow> utf8_valid (s @ t)"
proof (induction s rule: utf8_valid.induct)
  case (1 s)
  show ?case
  proof (cases "s = []")
    case False
    with "1.prems"(1) obtain r where r: "utf8_step s = Some r" "utf8_valid r"
      by (subst (asm) utf8_valid.simps) (auto split: option.splits)
    with "1.IH" [OF r] "1.prems"(2) utf8_step_append [OF r(1), of t] show ?thesis
      by (subst utf8_valid.simps) simp
  qed (use "1.prems" in simp)
qed

definition ascii :: "string \<Rightarrow> bool" where
  "ascii s \<longleftrightarrow> list_all (byte_in 0 127) s"

lemma ascii_utf8: "ascii s \<Longrightarrow> utf8_valid s"
proof (induction s)
  case Nil
  then show ?case by (simp add: utf8_valid.simps)
next
  case (Cons c cs)
  then have "utf8_step (c # cs) = Some cs"
    by (simp add: utf8_step_def lead_length_def ascii_def second_ok_def)
  with Cons show ?case by (subst utf8_valid.simps) (simp add: ascii_def)
qed

definition utf8_encode :: "nat \<Rightarrow> string" where
  "utf8_encode n =
     (if n < 128 then [char_of n]
      else if n < 2048 then [char_of (192 + n div 64), char_of (128 + n mod 64)]
      else if n < 65536
      then [char_of (224 + n div 4096), char_of (128 + n div 64 mod 64), char_of (128 + n mod 64)]
      else [char_of (240 + n div 262144), char_of (128 + n div 4096 mod 64),
            char_of (128 + n div 64 mod 64), char_of (128 + n mod 64)])"

section \<open>Tokens\<close>

definition is_ws :: "char \<Rightarrow> bool" where
  "is_ws c \<longleftrightarrow> c \<in> {CHR '' '', CHR 0x09, CHR 0x0A, CHR 0x0D}"

definition skip_ws :: "string \<Rightarrow> string" where
  "skip_ws s = dropWhile is_ws s"

definition json_hex :: "char \<Rightarrow> nat option" where
  "json_hex c =
     (let n = of_char c :: nat in
      if 48 \<le> n \<and> n \<le> 57 then Some (n - 48)
      else if 97 \<le> n \<and> n \<le> 102 then Some (n - 87)
      else if 65 \<le> n \<and> n \<le> 70 then Some (n - 55)
      else None)"

fun hex4 :: "string \<Rightarrow> (nat \<times> string) option" where
  "hex4 (a # b # c # d # rest) =
     (case (json_hex a, json_hex b, json_hex c, json_hex d) of
        (Some w, Some x, Some y, Some z) \<Rightarrow> Some (w * 4096 + x * 256 + y * 16 + z, rest)
      | _ \<Rightarrow> None)"
| "hex4 _ = None"

definition simple_escape :: "char \<Rightarrow> char option" where
  "simple_escape c =
     map_of [(CHR 0x22, CHR 0x22), (CHR 0x5C, CHR 0x5C), (CHR ''/'', CHR ''/''), (CHR ''b'', CHR 0x08),
       (CHR ''f'', CHR 0x0C), (CHR ''n'', CHR 0x0A), (CHR ''r'', CHR 0x0D), (CHR ''t'', CHR 0x09)] c"

text \<open>A \<open>\u\<close> escape, with the low half of a surrogate pair when one follows.\<close>

definition unicode_escape :: "string \<Rightarrow> (string \<times> string) option" where
  "unicode_escape s =
     (case hex4 s of
        None \<Rightarrow> None
      | Some (n, rest) \<Rightarrow>
          if 55296 \<le> n \<and> n \<le> 56319
          then (case rest of
              a # b # more \<Rightarrow>
                if a = CHR 0x5C \<and> b = CHR ''u''
                then (case hex4 more of
                    None \<Rightarrow> None
                  | Some (l, rest') \<Rightarrow>
                      if 56320 \<le> l \<and> l \<le> 57343
                      then Some (utf8_encode (65536 + (n - 55296) * 1024 + (l - 56320)), rest')
                      else Some (utf8_encode n, rest))
                else Some (utf8_encode n, rest)
            | _ \<Rightarrow> Some (utf8_encode n, rest))
          else Some (utf8_encode n, rest))"

lemma hex4_length: "hex4 s = Some (n, rest) \<Longrightarrow> length rest < length s"
  by (induction s rule: hex4.induct) (auto split: option.splits)

lemma unicode_escape_length: "unicode_escape s = Some (u, rest) \<Longrightarrow> length rest < length s"
  by (auto simp: unicode_escape_def dest!: hex4_length split: option.splits prod.splits if_splits list.splits)

function parse_chars :: "string \<Rightarrow> (string \<times> string) option" where
  "parse_chars [] = None"
| "parse_chars (c # cs) =
     (if c = CHR 0x22 then Some ([], cs)
      else if c = CHR 0x5C
      then (case cs of
          [] \<Rightarrow> None
        | e # es \<Rightarrow>
            if e = CHR ''u''
            then (case unicode_escape es of
                None \<Rightarrow> None
              | Some (u, rest) \<Rightarrow> map_option (apfst ((@) u)) (parse_chars rest))
            else (case simple_escape e of
                None \<Rightarrow> None
              | Some x \<Rightarrow> map_option (apfst (Cons x)) (parse_chars es)))
      else if of_char c < (32 :: nat) then None
      else map_option (apfst (Cons c)) (parse_chars cs))"
  by pat_completeness auto
termination
  by (relation "measure length") (auto dest!: unicode_escape_length)

definition is_digit :: "char \<Rightarrow> bool" where
  "is_digit c \<longleftrightarrow> byte_in 48 57 c"

definition num_char :: "char \<Rightarrow> bool" where
  "num_char c \<longleftrightarrow> is_digit c \<or> c \<in> {CHR ''-'', CHR ''+'', CHR ''.'', CHR ''e'', CHR ''E''}"

definition digits_value :: "string \<Rightarrow> nat" where
  "digits_value ds = foldl (\<lambda>n c. 10 * n + (of_char c - 48)) 0 ds"

definition nat_token :: "string \<Rightarrow> bool" where
  "nat_token ds \<longleftrightarrow> ds \<noteq> [] \<and> list_all is_digit ds \<and> (length ds = 1 \<or> hd ds \<noteq> CHR ''0'')"

definition int_token :: "string \<Rightarrow> int option" where
  "int_token s =
     (case s of
        [] \<Rightarrow> None
      | c # cs \<Rightarrow>
          if c = CHR ''-'' then (if nat_token cs then Some (- int (digits_value cs)) else None)
          else if nat_token s then Some (int (digits_value s)) else None)"

definition exponent_token :: "string \<Rightarrow> bool" where
  "exponent_token s \<longleftrightarrow>
     (case s of
        [] \<Rightarrow> True
      | c # cs \<Rightarrow> c \<in> {CHR ''e'', CHR ''E''} \<and>
          (let ds = (case cs of [] \<Rightarrow> [] | d # ds \<Rightarrow> if d \<in> {CHR ''-'', CHR ''+''} then ds else cs) in
           ds \<noteq> [] \<and> list_all is_digit ds))"

definition fraction_token :: "string \<Rightarrow> bool" where
  "fraction_token s \<longleftrightarrow>
     (case s of
        [] \<Rightarrow> False
      | c # cs \<Rightarrow>
          if c = CHR ''.''
          then takeWhile is_digit cs \<noteq> [] \<and> exponent_token (dropWhile is_digit cs)
          else exponent_token s)"

definition float_token :: "string \<Rightarrow> bool" where
  "float_token s \<longleftrightarrow>
     (let t = (case s of [] \<Rightarrow> [] | c # cs \<Rightarrow> if c = CHR ''-'' then cs else s) in
      nat_token (takeWhile is_digit t) \<and> fraction_token (dropWhile is_digit t))"

definition parse_number :: "(string \<Rightarrow> string) \<Rightarrow> string \<Rightarrow> json option" where
  "parse_number fr tok =
     (case int_token tok of
        Some i \<Rightarrow> Some (JInt i)
      | None \<Rightarrow> if float_token tok then Some (JFloat (fr tok)) else None)"

section \<open>Values\<close>

text \<open>The hook receives the members of an object in the order they are written.\<close>

type_synonym members_hook = "obj \<Rightarrow> obj option"

definition keep_last :: members_hook where
  "keep_last ps = Some (foldl (\<lambda>d p. dict_set (fst p) (snd p) d) [] ps)"

definition no_duplicates :: members_hook where
  "no_duplicates ps = (case reject_duplicate_keys ps of Inl e \<Rightarrow> None | Inr d \<Rightarrow> Some d)"

fun eat :: "char \<Rightarrow> string \<Rightarrow> string option" where
  "eat c [] = None"
| "eat c (x # xs) = (if x = c then Some xs else None)"

definition parse_literal :: "string \<Rightarrow> (json \<times> string) option" where
  "parse_literal s =
     (if starts_with ''null'' s then Some (JNull, drop 4 s)
      else if starts_with ''true'' s then Some (JBool True, drop 4 s)
      else if starts_with ''false'' s then Some (JBool False, drop 5 s)
      else None)"

definition number_value :: "(string \<Rightarrow> string) \<Rightarrow> string \<Rightarrow> (json \<times> string) option" where
  "number_value fr s = map_option (\<lambda>v. (v, dropWhile num_char s)) (parse_number fr (takeWhile num_char s))"

text \<open>
  The recursive descent, by fuel: each call consumes at least one character of the text, so the
  length of the text is enough.
\<close>

fun parse_value :: "(string \<Rightarrow> string) \<Rightarrow> members_hook \<Rightarrow> nat \<Rightarrow> string \<Rightarrow> (json \<times> string) option"
and parse_items :: "(string \<Rightarrow> string) \<Rightarrow> members_hook \<Rightarrow> nat \<Rightarrow> string \<Rightarrow> (json list \<times> string) option"
and parse_members :: "(string \<Rightarrow> string) \<Rightarrow> members_hook \<Rightarrow> nat \<Rightarrow> string \<Rightarrow> (obj \<times> string) option" where
  "parse_value fr hook 0 s = None"
| "parse_value fr hook (Suc n) s =
     (case s of
        [] \<Rightarrow> None
      | c # cs \<Rightarrow>
          if c = CHR 0x22 then map_option (apfst JStr) (parse_chars cs)
          else if c = CHR ''[''
          then (case eat (CHR '']'') (skip_ws cs) of
              Some rest \<Rightarrow> Some (JArr [], rest)
            | None \<Rightarrow> map_option (apfst JArr) (parse_items fr hook n (skip_ws cs)))
          else if c = CHR ''{''
          then (case eat (CHR ''}'') (skip_ws cs) of
              Some rest \<Rightarrow> map_option (\<lambda>d. (JObj d, rest)) (hook [])
            | None \<Rightarrow>
                (case parse_members fr hook n (skip_ws cs) of
                   None \<Rightarrow> None
                 | Some (ps, rest) \<Rightarrow> map_option (\<lambda>d. (JObj d, rest)) (hook ps)))
          else (case parse_literal s of
              Some r \<Rightarrow> Some r
            | None \<Rightarrow> number_value fr s))"
| "parse_items fr hook 0 s = None"
| "parse_items fr hook (Suc n) s =
     (case parse_value fr hook n s of
        None \<Rightarrow> None
      | Some (v, rest) \<Rightarrow>
          (case skip_ws rest of
             [] \<Rightarrow> None
           | c # cs \<Rightarrow>
               if c = CHR '']'' then Some ([v], cs)
               else if c = CHR '','' then map_option (apfst (Cons v)) (parse_items fr hook n (skip_ws cs))
               else None))"
| "parse_members fr hook 0 s = None"
| "parse_members fr hook (Suc n) s =
     (case eat (CHR 0x22) s of
        None \<Rightarrow> None
      | Some cs \<Rightarrow>
          (case parse_chars cs of
             None \<Rightarrow> None
           | Some (k, rest) \<Rightarrow>
               (case eat (CHR '':'') (skip_ws rest) of
                  None \<Rightarrow> None
                | Some rest' \<Rightarrow>
                    (case parse_value fr hook n (skip_ws rest') of
                       None \<Rightarrow> None
                     | Some (v, rest'') \<Rightarrow>
                         (case skip_ws rest'' of
                            [] \<Rightarrow> None
                          | c # ds \<Rightarrow>
                              if c = CHR ''}'' then Some ([(k, v)], ds)
                              else if c = CHR '',''
                              then map_option (apfst (Cons (k, v))) (parse_members fr hook n (skip_ws ds))
                              else None)))))"

text \<open>\<open>json.loads\<close> on bytes.\<close>

definition json_loads :: "(string \<Rightarrow> string) \<Rightarrow> members_hook \<Rightarrow> string \<Rightarrow> json option" where
  "json_loads fr hook s =
     (if \<not> utf8_valid s then None
      else (case parse_value fr hook (Suc (length s)) (skip_ws s) of
          None \<Rightarrow> None
        | Some (v, rest) \<Rightarrow> if skip_ws rest = [] then Some v else None))"

section \<open>Strings read back\<close>

lemma json_hex_char: "n < 16 \<Longrightarrow> json_hex (hex_char n) = Some n"
  by (auto simp: json_hex_def hex_char_def Let_def)

lemma small_unicode_escape:
  assumes "n < 32"
  shows "unicode_escape (CHR ''0'' # CHR ''0'' # hex_char (n div 16) # hex_char (n mod 16) # rest)
    = Some ([char_of n], rest)"
proof -
  have "json_hex (CHR ''0'') = Some 0" by (simp add: json_hex_def)
  moreover have "json_hex (hex_char (n div 16)) = Some (n div 16)" "json_hex (hex_char (n mod 16)) = Some (n mod 16)"
    using assms by (intro json_hex_char; linarith)+
  moreover have "n div 16 * 16 + n mod 16 = n" by simp
  ultimately have "hex4 (CHR ''0'' # CHR ''0'' # hex_char (n div 16) # hex_char (n mod 16) # rest) = Some (n, rest)"
    by simp
  with assms show ?thesis by (simp add: unicode_escape_def utf8_encode_def)
qed

lemma parse_escaped_char:
  "parse_chars (escape_char c @ rest) = map_option (apfst (Cons c)) (parse_chars rest)"
proof -
  consider "c \<in> {CHR 0x22, CHR 0x5C, CHR 0x0A, CHR 0x0D, CHR 0x09, CHR 0x0C, CHR 0x08}"
    | (control) "c \<notin> {CHR 0x22, CHR 0x5C, CHR 0x0A, CHR 0x0D, CHR 0x09, CHR 0x0C, CHR 0x08}" "of_char c < (32 :: nat)"
    | (plain) "c \<notin> {CHR 0x22, CHR 0x5C, CHR 0x0A, CHR 0x0D, CHR 0x09, CHR 0x0C, CHR 0x08}" "\<not> of_char c < (32 :: nat)"
    by blast
  then show ?thesis
  proof cases
    case 1
    then show ?thesis by (auto simp: escape_char_def simple_escape_def)
  next
    case control
    have "map_option (apfst ((@) [c])) r = map_option (apfst (Cons c)) r" for r :: "(string \<times> string) option"
      by (cases r) auto
    with control small_unicode_escape [OF control(2), of rest] show ?thesis
      by (simp add: escape_char_def)
  next
    case plain
    then show ?thesis by (simp add: escape_char_def)
  qed
qed

lemma parse_quoted:
  "parse_chars (concat (map escape_char s) @ CHR 0x22 # rest) = Some (s, rest)"
  by (induction s) (simp_all add: parse_escaped_char)

section \<open>Numbers read back\<close>

lemma digit_char_digit: "n < 10 \<Longrightarrow> is_digit (digit_char n)"
  by (simp add: is_digit_def byte_in_def digit_char_def)

lemma digit_char_value: "n < 10 \<Longrightarrow> of_char (digit_char n) - (48 :: nat) = n"
  by (simp add: digit_char_def)

lemma digits_value_snoc: "digits_value (ds @ [c]) = 10 * digits_value ds + (of_char c - 48)"
  by (simp add: digits_value_def)

lemma nat_digits_digits: "list_all is_digit (nat_digits n) \<and> nat_digits n \<noteq> []"
proof (induction n rule: nat_digits.induct)
  case (1 n)
  then show ?case by (simp add: nat_digits.simps [of n] digit_char_digit)
qed

lemma nat_digits_value: "digits_value (nat_digits n) = n"
proof (induction n rule: nat_digits.induct)
  case (1 n)
  show ?case
  proof (cases "n < 10")
    case True
    then show ?thesis by (subst nat_digits.simps) (simp add: digits_value_def digit_char_value)
  next
    case False
    then show ?thesis using 1
      by (subst nat_digits.simps) (simp add: digits_value_snoc digit_char_value)
  qed
qed

lemma nat_digits_head: "0 < n \<Longrightarrow> hd (nat_digits n) \<noteq> CHR ''0''"
proof (induction n rule: nat_digits.induct)
  case (1 n)
  show ?case
  proof (cases "n < 10")
    case True
    have "of_char (digit_char n) \<noteq> (48 :: nat)" using True "1.prems" by (simp add: digit_char_def)
    then show ?thesis using True by (subst nat_digits.simps) auto
  next
    case False
    then show ?thesis using 1 nat_digits_digits [of "n div 10"]
      by (subst nat_digits.simps) simp
  qed
qed

lemma nat_token_digits: "nat_token (nat_digits n)"
proof (cases "n = 0")
  case True
  then show ?thesis by (simp add: nat_token_def nat_digits.simps digit_char_digit)
next
  case False
  then show ?thesis using nat_digits_digits [of n] nat_digits_head [of n] by (simp add: nat_token_def)
qed

lemma digit_not_minus: "is_digit c \<Longrightarrow> c \<noteq> CHR ''-''"
  by (auto simp: is_digit_def byte_in_def)

lemma int_token_str: "int_token (int_str i) = Some i"
proof (cases "i < 0")
  case True
  then show ?thesis by (simp add: int_token_def int_str_def nat_token_digits nat_digits_value)
next
  case False
  obtain c cs where c: "nat_digits (nat i) = c # cs" using nat_digits_digits [of "nat i"] by (cases "nat_digits (nat i)") auto
  then have "is_digit c" using nat_digits_digits [of "nat i"] by simp
  with False c show ?thesis
    using nat_token_digits [of "nat i"] nat_digits_value [of "nat i"]
    by (simp add: int_token_def int_str_def digit_not_minus)
qed

lemma int_str_chars: "list_all num_char (int_str i)"
  using nat_digits_digits by (auto simp: int_str_def num_char_def list_all_iff)

text \<open>What may follow a number: the text of the surrounding value, or nothing.\<close>

definition delimited :: "string \<Rightarrow> bool" where
  "delimited s \<longleftrightarrow> (case s of [] \<Rightarrow> True | c # cs \<Rightarrow> \<not> num_char c)"

lemma number_value_text:
  assumes "list_all num_char t" "parse_number fr t = Some v" "delimited rest"
  shows "number_value fr (t @ rest) = Some (v, rest)"
proof -
  have "takeWhile num_char rest = []" "dropWhile num_char rest = rest"
    using assms(3) by (cases rest; simp add: delimited_def)+
  then have "takeWhile num_char (t @ rest) = t" "dropWhile num_char (t @ rest) = rest"
    using assms(1) by (simp_all add: list_all_iff takeWhile_append dropWhile_append)
  with assms(2) show ?thesis by (simp add: number_value_def)
qed

section \<open>Canonical text reads back\<close>

text \<open>
  A value the encoder can have been given: keys without repetition, floats in the form Python writes.
\<close>

fun writable :: "(string \<Rightarrow> string) \<Rightarrow> json \<Rightarrow> bool" where
  "writable fr (JFloat f) = (list_all num_char f \<and> parse_number fr f = Some (JFloat f))"
| "writable fr (JArr xs) = (\<forall>x \<in> set xs. writable fr x)"
| "writable fr (JObj kvs) = (dict_wf kvs \<and> (\<forall>(k, v) \<in> set kvs. writable fr v))"
| "writable fr _ = True"

definition value_start :: "char \<Rightarrow> bool" where
  "value_start c \<longleftrightarrow> \<not> is_ws c \<and> c \<noteq> CHR '']'' \<and> c \<noteq> CHR ''}''"

lemma number_start: "num_char c \<Longrightarrow> value_start c \<and> c \<notin> {CHR 0x22, CHR ''['', CHR ''{'', CHR ''n'', CHR ''t'', CHR ''f''}"
  by (auto simp: num_char_def value_start_def is_digit_def byte_in_def is_ws_def)

lemma parse_number_Nil: "parse_number fr [] = None"
  by (simp add: parse_number_def int_token_def float_token_def nat_token_def)

lemma canonical_start:
  assumes "writable fr v"
  obtains c cs where "canonical_bytes v = c # cs" "value_start c"
proof (cases v)
  case (JInt i)
  obtain c cs where "int_str i = c # cs"
    using nat_digits_digits by (cases "int_str i") (auto simp: int_str_def split: if_splits)
  with int_str_chars [of i] number_start JInt that show thesis by auto
next
  case (JFloat f)
  with assms have "f \<noteq> []" "list_all num_char f" by (auto simp: parse_number_Nil)
  with JFloat number_start that show thesis by (cases f) auto
next
  case (JBool b)
  with that show thesis by (cases b) (auto simp: value_start_def is_ws_def)
qed (use that in \<open>auto simp: value_start_def is_ws_def quote_def\<close>)

lemma skip_ws_start: "value_start c \<Longrightarrow> skip_ws (c # cs) = c # cs"
  by (simp add: skip_ws_def value_start_def)

lemma canonical_skip:
  assumes "writable fr v"
  shows "skip_ws (canonical_bytes v @ rest) = canonical_bytes v @ rest"
    "eat (CHR '']'') (canonical_bytes v @ rest) = None"
    "canonical_bytes v \<noteq> []"
proof -
  obtain c cs where c: "canonical_bytes v = c # cs" "value_start c" using assms by (rule canonical_start)
  then show "skip_ws (canonical_bytes v @ rest) = canonical_bytes v @ rest" by (simp add: skip_ws_start)
  from c show "eat (CHR '']'') (canonical_bytes v @ rest) = None" "canonical_bytes v \<noteq> []"
    by (auto simp: value_start_def)
qed

lemma join_Cons: "xs \<noteq> [] \<Longrightarrow> join sep (x # xs) = x @ sep @ join sep xs"
  by (cases xs) auto

lemma delimited_simps [simp]:
  "delimited []" "delimited (CHR '']'' # s)" "delimited (CHR ''}'' # s)" "delimited (CHR '','' # s)"
  "delimited (CHR 0x0A # s)"
  by (simp_all add: delimited_def num_char_def is_digit_def byte_in_def)

lemma skip_ws_simps [simp]:
  "skip_ws (CHR '']'' # s) = CHR '']'' # s" "skip_ws (CHR ''}'' # s) = CHR ''}'' # s"
  "skip_ws (CHR '','' # s) = CHR '','' # s" "skip_ws (CHR '':'' # s) = CHR '':'' # s"
  "skip_ws (CHR 0x22 # s) = CHR 0x22 # s"
  by (simp_all add: skip_ws_def is_ws_def)

definition reads_back :: "(string \<Rightarrow> string) \<Rightarrow> members_hook \<Rightarrow> json \<Rightarrow> bool" where
  "reads_back fr hook v \<longleftrightarrow>
     (\<forall>n rest. length (canonical_bytes v) \<le> n \<longrightarrow> delimited rest \<longrightarrow>
        parse_value fr hook n (canonical_bytes v @ rest) = Some (sorted_json v, rest))"

lemma items_read_back:
  assumes "xs \<noteq> []" "\<forall>x \<in> set xs. reads_back fr hook x \<and> writable fr x"
    "length (join '','' (map canonical_bytes xs)) < n"
  shows "parse_items fr hook n (join '','' (map canonical_bytes xs) @ CHR '']'' # rest)
    = Some (map sorted_json xs, rest)"
  using assms
proof (induction xs arbitrary: n)
  case (Cons x xs)
  then obtain n' where n: "n = Suc n'" by (cases n) auto
  have x: "parse_value fr hook n' (canonical_bytes x @ rest') = Some (sorted_json x, rest')"
    if "delimited rest'" for rest'
    using Cons.prems n that by (cases xs) (auto simp: reads_back_def)
  show ?case
  proof (cases "xs = []")
    case True
    with x n show ?thesis by simp
  next
    case False
    then obtain y ys where xs: "xs = y # ys" by (cases xs) auto
    have y: "writable fr y" using Cons.prems(2) xs by simp
    let ?more = "join '','' (map canonical_bytes xs) @ CHR '']'' # rest"
    have "parse_items fr hook n' ?more = Some (map sorted_json xs, rest)"
      using Cons.prems False n by (intro Cons.IH) (auto simp: join_Cons)
    moreover have "skip_ws ?more = ?more"
      using canonical_skip(1) [OF y] xs by (cases ys) simp_all
    ultimately show ?thesis
      using x [of "CHR '','' # ?more"] n False by (simp add: join_Cons)
  qed
qed simp

lemma members_read_back:
  assumes "kvs \<noteq> []" "\<forall>p \<in> set kvs. reads_back fr hook (snd p) \<and> writable fr (snd p)"
    "length (join '','' (map (\<lambda>(k, v). member_text (k, canonical_bytes v)) kvs)) < n"
  shows "parse_members fr hook n (join '','' (map (\<lambda>(k, v). member_text (k, canonical_bytes v)) kvs) @ CHR ''}'' # rest)
    = Some (map (\<lambda>(k, v). (k, sorted_json v)) kvs, rest)"
  using assms
proof (induction kvs arbitrary: n)
  case (Cons p kvs)
  obtain k v where p: "p = (k, v)" by (cases p)
  let ?m = "\<lambda>(k, v). member_text (k, canonical_bytes v)"
  from Cons.prems obtain n' where n: "n = Suc n'" by (cases n) auto
  have head: "member_text (k, canonical_bytes v) @ t
      = CHR 0x22 # concat (map escape_char k) @ CHR 0x22 # CHR '':'' # canonical_bytes v @ t" for t
    by (simp add: member_text_def quote_def)
  have v: "writable fr v" "reads_back fr hook v" using Cons.prems(2) p by simp_all
  have "length (canonical_bytes v) \<le> n'"
    using Cons.prems(3) n p by (cases kvs) (auto simp: member_text_def)
  with v(2) have x: "parse_value fr hook n' (canonical_bytes v @ rest') = Some (sorted_json v, rest')"
    if "delimited rest'" for rest'
    using that by (simp add: reads_back_def)
  show ?case
  proof (cases "kvs = []")
    case True
    with x [of "CHR ''}'' # rest"] n p v show ?thesis
      by (simp add: head parse_quoted canonical_skip(1))
  next
    case False
    let ?more = "join '','' (map ?m kvs) @ CHR ''}'' # rest"
    have "parse_members fr hook n' ?more = Some (map (\<lambda>(k, v). (k, sorted_json v)) kvs, rest)"
      using Cons.prems False n by (intro Cons.IH) (auto simp: join_Cons)
    moreover have "skip_ws ?more = ?more"
      using False by (cases kvs; cases "tl kvs") (auto simp: member_text_def quote_def split: prod.splits)
    ultimately show ?thesis
      using x [of "CHR '','' # ?more"] n False p v
      by (simp add: join_Cons head parse_quoted canonical_skip(1))
  qed
qed simp

text \<open>
  A reader whose hook keeps the members of an object without repeated keys. Both hooks of the source
  are such readers.
\<close>

locale json_reader =
  fixes fr :: "string \<Rightarrow> string" and hook :: members_hook
  assumes hook_distinct: "dict_wf ps \<Longrightarrow> hook ps = Some ps"
begin

lemma canonical_reads_back: "writable fr v \<Longrightarrow> reads_back fr hook v"
proof (induction v rule: canonical_bytes.induct)
  case 1
  then show ?case by (auto simp: reads_back_def parse_literal_def starts_with_def neq_Nil_conv dest!: Suc_le_D)
next
  case (2 b)
  then show ?case by (auto simp: reads_back_def parse_literal_def starts_with_def dest!: Suc_le_D)
next
  case (3 i)
  have "number_value fr (int_str i @ rest) = Some (JInt i, rest)" if "delimited rest" for rest
    using that int_str_chars int_token_str by (intro number_value_text) (simp_all add: parse_number_def)
  moreover obtain c cs where "int_str i = c # cs" "num_char c"
    using int_str_chars [of i] nat_digits_digits by (cases "int_str i") (auto simp: int_str_def split: if_splits)
  ultimately show ?case
    using number_start [of c] by (auto simp: reads_back_def parse_literal_def starts_with_def dest!: Suc_le_D)
next
  case (4 f)
  then have f: "list_all num_char f" "parse_number fr f = Some (JFloat f)" by simp_all
  then obtain c cs where "f = c # cs" "num_char c" by (cases f) (auto simp: parse_number_Nil)
  moreover have "number_value fr (f @ rest) = Some (JFloat f, rest)" if "delimited rest" for rest
    using f that by (intro number_value_text) simp_all
  ultimately show ?case
    using number_start [of c] by (auto simp: reads_back_def parse_literal_def starts_with_def dest!: Suc_le_D)
next
  case (5 s)
  then show ?case by (auto simp: reads_back_def quote_def parse_quoted dest!: Suc_le_D)
next
  case (6 xs)
  show ?case
    unfolding reads_back_def
  proof (intro allI impI)
    fix n rest
    assume n: "length (canonical_bytes (JArr xs)) \<le> n" and "delimited rest"
    then obtain n' where n': "n = Suc n'" by (cases n) auto
    show "parse_value fr hook n (canonical_bytes (JArr xs) @ rest) = Some (sorted_json (JArr xs), rest)"
    proof (cases "xs = []")
      case True
      with n' show ?thesis by simp
    next
      case False
      then obtain y ys where xs: "xs = y # ys" by (cases xs) auto
      have all: "\<forall>x \<in> set xs. reads_back fr hook x \<and> writable fr x" using 6 by simp
      then have y: "writable fr y" using xs by simp
      let ?more = "join '','' (map canonical_bytes xs) @ CHR '']'' # rest"
      have "parse_items fr hook n' ?more = Some (map sorted_json xs, rest)"
        using n n' by (intro items_read_back [OF False all]) simp
      moreover have "skip_ws ?more = ?more" "eat (CHR '']'') ?more = None"
        using canonical_skip(1,2) [OF y] xs by (cases ys; simp)+
      ultimately show ?thesis using n' by simp
    qed
  qed
next
  case (7 kvs)
  let ?sorted = "sort_key fst kvs"
  let ?m = "\<lambda>(k, v). member_text (k, canonical_bytes v)"
  have bytes: "canonical_bytes (JObj kvs) = CHR ''{'' # join '','' (map ?m ?sorted) @ ''}''"
    by (simp add: sort_key_map_fst) (simp add: split_def o_def)
  have sorted: "sorted_json (JObj kvs) = JObj (map (\<lambda>(k, v). (k, sorted_json v)) ?sorted)"
    by (simp add: sort_key_map_fst)
  have wf: "dict_wf ?sorted" using "7.prems" by (simp add: distinct_map)
  show ?case
    unfolding reads_back_def
  proof (intro allI impI)
    fix n rest
    assume n: "length (canonical_bytes (JObj kvs)) \<le> n" and "delimited rest"
    then obtain n' where n': "n = Suc n'" by (cases n) auto
    show "parse_value fr hook n (canonical_bytes (JObj kvs) @ rest) = Some (sorted_json (JObj kvs), rest)"
    proof (cases "kvs = []")
      case True
      with n' show ?thesis by (simp add: hook_distinct)
    next
      case False
      have all: "\<forall>p \<in> set ?sorted. reads_back fr hook (snd p) \<and> writable fr (snd p)"
        using "7.IH" "7.prems" by force
      from False have ne: "?sorted \<noteq> []" by (metis set_empty set_sort)
      let ?more = "join '','' (map ?m ?sorted) @ CHR ''}'' # rest"
      have "parse_members fr hook n' ?more = Some (map (\<lambda>(k, v). (k, sorted_json v)) ?sorted, rest)"
        using n n' unfolding bytes by (intro members_read_back [OF ne all]) simp
      moreover have "skip_ws ?more = ?more" "eat (CHR ''}'') ?more = None"
        using ne by (cases ?sorted; cases "tl ?sorted"; force simp: member_text_def quote_def)+
      moreover have "hook (map (\<lambda>(k, v). (k, sorted_json v)) ?sorted)
          = Some (map (\<lambda>(k, v). (k, sorted_json v)) ?sorted)"
        using wf by (intro hook_distinct) (simp add: split_def o_def)
      ultimately show ?thesis using n' unfolding bytes sorted by simp
    qed
  qed
qed

text \<open>Hence the encoding determines the value, up to the order of members.\<close>

lemma canonical_bytes_inject:
  assumes "writable fr v" "writable fr w" "canonical_bytes v = canonical_bytes w"
  shows "sorted_json v = sorted_json w"
proof -
  let ?t = "canonical_bytes w"
  have "parse_value fr hook (length ?t) (?t @ []) = Some (sorted_json v, [])"
    using canonical_reads_back [OF assms(1), unfolded reads_back_def assms(3), rule_format, of "length ?t" "[]"]
    by simp
  moreover have "parse_value fr hook (length ?t) (?t @ []) = Some (sorted_json w, [])"
    using canonical_reads_back [OF assms(2), unfolded reads_back_def, rule_format, of "length ?t" "[]"]
    by simp
  ultimately have "Some (sorted_json v, []) = Some (sorted_json w, [])" by simp
  then show ?thesis by simp
qed

lemma loads_canonical:
  assumes "writable fr v" "utf8_valid (canonical_bytes v)" "list_all is_ws rest" "ascii rest"
  shows "json_loads fr hook (canonical_bytes v @ rest) = Some (sorted_json v)"
proof -
  from assms(3) have "delimited rest"
    by (cases rest) (auto simp: delimited_def is_ws_def num_char_def is_digit_def byte_in_def)
  moreover have "length (canonical_bytes v) \<le> Suc (length (canonical_bytes v @ rest))" by simp
  ultimately have "parse_value fr hook (Suc (length (canonical_bytes v @ rest))) (canonical_bytes v @ rest)
      = Some (sorted_json v, rest)"
    using canonical_reads_back [OF assms(1)] unfolding reads_back_def by blast
  moreover have "utf8_valid (canonical_bytes v @ rest)"
    using assms(2) ascii_utf8 [OF assms(4)] by (rule utf8_valid_append)
  moreover have "skip_ws rest = []" using assms(3) by (simp add: skip_ws_def list_all_iff)
  ultimately show ?thesis using canonical_skip(1) [OF assms(1)] by (simp add: json_loads_def)
qed

end

lemma foldl_dict_set: "dict_wf (d @ ps) \<Longrightarrow> foldl (\<lambda>d p. dict_set (fst p) (snd p) d) d ps = d @ ps"
proof (induction ps arbitrary: d)
  case (Cons p ps)
  then have "dict_set (fst p) (snd p) d = d @ [p]" by (simp add: dict_set_fresh)
  with Cons.IH [of "d @ [p]"] Cons.prems show ?case by simp
qed simp

interpretation ledger_reader: json_reader fr keep_last for fr
  by unfold_locales (use foldl_dict_set [of "[]"] in \<open>simp add: keep_last_def\<close>)

interpretation record_reader: json_reader fr no_duplicates for fr
  by unfold_locales (simp add: no_duplicates_def reject_duplicate_keys_Inr [THEN iffD2])

lemma reject_duplicates_error: "reject_duplicate_keys ps = Inl e \<Longrightarrow> e = PyValueError"
proof -
  have "reject_duplicate_keys_from acc ps = Inl e \<Longrightarrow> e = PyValueError" for acc
    by (induction acc ps rule: reject_duplicate_keys_from.induct) (auto split: if_splits)
  then show "reject_duplicate_keys ps = Inl e \<Longrightarrow> e = PyValueError" by (simp add: reject_duplicate_keys_def)
qed

lemma reject_duplicates_outcome:
  "reject_duplicate_keys ps = (if dict_wf ps then Inr ps else Inl PyValueError)"
  using reject_duplicate_keys_Inr [of ps] reject_duplicates_error [of ps]
  by (cases "reject_duplicate_keys ps") auto

lemma keep_last_members: "\<exists>d. keep_last ps = Some d \<and> (\<forall>k. dict_get d k = map_of (rev ps) k)"
proof -
  have "dict_get (foldl (\<lambda>d p. dict_set (fst p) (snd p) d) acc ps) k
      = (case map_of (rev ps) k of None \<Rightarrow> dict_get acc k | Some v \<Rightarrow> Some v)" for acc k
    by (induction ps arbitrary: acc) (auto simp: map_add_def split: option.splits)
  then have "dict_get (foldl (\<lambda>d p. dict_set (fst p) (snd p) d) [] ps) k = map_of (rev ps) k" for k
    by (simp add: option.case_eq_if)
  then show ?thesis by (simp add: keep_last_def)
qed

text \<open>\<open>read_json\<close> of a file's bytes: too many bytes, bytes that are no JSON, and repeated members all
  raise \<open>ValueError\<close>.\<close>

definition read_json :: "(string \<Rightarrow> string) \<Rightarrow> nat \<Rightarrow> string \<Rightarrow> json res" where
  "read_json fr byte_cap bytes =
     (if byte_cap < length bytes then Inl PyValueError
      else (case json_loads fr no_duplicates bytes of None \<Rightarrow> Inl PyValueError | Some v \<Rightarrow> Inr v))"

section \<open>The shape of canonical text\<close>

text \<open>No control character, hence no line break, occurs in canonical text.\<close>

definition printable :: "string \<Rightarrow> bool" where
  "printable s \<longleftrightarrow> list_all (\<lambda>c. (32 :: nat) \<le> of_char c) s"

lemma printable_append [simp]: "printable (s @ t) \<longleftrightarrow> printable s \<and> printable t"
  by (simp add: printable_def)

lemma printable_Cons [simp]: "printable (c # s) \<longleftrightarrow> (32 :: nat) \<le> of_char c \<and> printable s"
  by (simp add: printable_def)

lemma printable_Nil [simp]: "printable []"
  by (simp add: printable_def)

lemma printable_concat: "printable (concat ss) \<longleftrightarrow> (\<forall>s \<in> set ss. printable s)"
  by (induction ss) simp_all

lemma printable_join: "printable sep \<Longrightarrow> \<forall>s \<in> set ss. printable s \<Longrightarrow> printable (join sep ss)"
  by (induction sep ss rule: join.induct) simp_all

lemma hex_char_printable: "n < 16 \<Longrightarrow> (32 :: nat) \<le> of_char (hex_char n)"
  by (simp add: hex_char_def)

lemma escape_char_printable: "printable (escape_char c)"
proof -
  have "of_char c < (32 :: nat) \<Longrightarrow> of_char c div 16 < (16 :: nat)" by linarith
  then show ?thesis by (auto simp: escape_char_def hex_char_printable)
qed

lemma quote_printable: "printable (quote s)"
  by (simp add: quote_def printable_concat escape_char_printable)

lemma num_char_printable: "num_char c \<Longrightarrow> (32 :: nat) \<le> of_char c"
  by (auto simp: num_char_def is_digit_def byte_in_def)

lemma canonical_printable: "writable fr v \<Longrightarrow> printable (canonical_bytes v)"
proof (induction v rule: canonical_bytes.induct)
  case (3 i)
  show ?case using int_str_chars [of i] num_char_printable by (auto simp: printable_def list_all_iff)
next
  case (4 f)
  then show ?case using num_char_printable by (auto simp: printable_def list_all_iff)
next
  case (6 xs)
  then show ?case by (auto intro!: printable_join)
next
  case (7 kvs)
  then show ?case
    by (fastforce intro!: printable_join simp: sort_key_map_fst member_text_def quote_printable)
qed (simp_all add: quote_printable)

section \<open>The encoding ignores the order of members\<close>

lemma sort_key_twice [simp]: "sort_key f (sort_key f xs) = sort_key f xs"
  by (simp add: sort_key_id_if_sorted)

lemma canonical_sorted: "canonical_bytes (sorted_json v) = canonical_bytes v"
proof (induction v rule: canonical_bytes.induct)
  case (6 xs)
  then show ?case by (simp cong: map_cong)
next
  case (7 kvs)
  have "map (\<lambda>(k, v). (k, canonical_bytes v)) (map (\<lambda>(k, v). (k, sorted_json v)) kvs)
      = map (\<lambda>(k, v). (k, canonical_bytes v)) kvs"
    using "7.IH" by (auto intro!: map_cong)
  then have "sort_key fst (map (\<lambda>(k, v). (k, canonical_bytes v))
        (sort_key fst (map (\<lambda>(k, v). (k, sorted_json v)) kvs)))
      = sort_key fst (map (\<lambda>(k, v). (k, canonical_bytes v)) kvs)"
    by (simp only: sort_key_map_fst [symmetric] sort_key_twice)
  then show ?case by simp
qed simp_all

lemma obj_sorted: "dict_wf d \<Longrightarrow> dict_get (sort_key fst (map (\<lambda>(k, v). (k, sorted_json v)) d)) k
    = map_option sorted_json (dict_get d k)"
proof -
  assume wf: "dict_wf d"
  have eq: "map_of (sort_key fst e) = map_of e" if "dict_wf e" for e :: "(string \<times> json) list"
    using that by (intro map_of_inject_set [THEN iffD2]) (simp_all add: distinct_map)
  have "dict_wf (map (\<lambda>(k, v). (k, sorted_json v)) d)" using wf by (simp add: split_def o_def)
  then show ?thesis by (simp add: eq map_of_map)
qed

section \<open>What is read can be written\<close>

text \<open>Python writes a float as a literal that denotes it again.\<close>

definition float_faithful :: "(string \<Rightarrow> string) \<Rightarrow> bool" where
  "float_faithful fr \<longleftrightarrow> (\<forall>tok. writable fr (JFloat (fr tok)))"

lemma keep_last_Some:
  assumes "keep_last ps = Some d"
  shows "dict_wf d" "set d \<subseteq> set ps"
proof -
  have "dict_wf (foldl (\<lambda>d p. dict_set (fst p) (snd p) d) acc ps)
      \<and> set (foldl (\<lambda>d p. dict_set (fst p) (snd p) d) acc ps) \<subseteq> set acc \<union> set ps"
    if "dict_wf acc" for acc :: obj
    using that
  proof (induction ps arbitrary: acc)
    case (Cons p ps)
    have "set (dict_set k v acc) \<subseteq> insert (k, v) (set acc)" for k v and acc :: obj
      by (induction acc) auto
    then have "set (dict_set (fst p) (snd p) acc) \<subseteq> insert p (set acc)"
      by (metis prod.collapse)
    moreover have "dict_wf (dict_set (fst p) (snd p) acc)" using Cons.prems by (rule dict_wf_set)
    ultimately show ?case using Cons.IH [of "dict_set (fst p) (snd p) acc"] by auto
  qed simp
  from this [of "[]"] assms show "dict_wf d" "set d \<subseteq> set ps" by (auto simp: keep_last_def)
qed

lemma parse_number_writable:
  "float_faithful fr \<Longrightarrow> parse_number fr tok = Some v \<Longrightarrow> writable fr v"
  unfolding parse_number_def float_faithful_def by (auto split: option.splits if_splits simp del: writable.simps(1))

lemma parse_writable:
  "parse_value fr keep_last n s = Some (v, rest) \<Longrightarrow> float_faithful fr \<Longrightarrow> writable fr v"
  "parse_items fr keep_last n s = Some (vs, rest) \<Longrightarrow> float_faithful fr \<Longrightarrow> \<forall>v \<in> set vs. writable fr v"
  "parse_members fr keep_last n s = Some (ps, rest) \<Longrightarrow> float_faithful fr \<Longrightarrow> \<forall>p \<in> set ps. writable fr (snd p)"
proof (induction n arbitrary: s v vs ps rest)
  case 0
  { case 1 then show ?case by simp }
  { case 2 then show ?case by simp }
  { case 3 then show ?case by simp }
next
  case (Suc n)
  { case 1
    obtain c cs where s: "s = c # cs" using 1 by (cases s) auto
    consider "c = CHR 0x22" | "c = CHR ''[''" | "c = CHR ''{''"
      | "c \<noteq> CHR 0x22" "c \<noteq> CHR ''[''" "c \<noteq> CHR ''{''" by blast
    then show ?case
    proof cases
      case a: 1
      with s 1 show ?thesis by auto
    next
      case 2
      with s 1 show ?thesis using Suc.IH(2) by (fastforce split: option.splits)
    next
      case 3
      show ?thesis
      proof (cases "eat (CHR ''}'') (skip_ws cs)")
        case None
        with 3 s 1 obtain ps d where ps: "parse_members fr keep_last n (skip_ws cs) = Some (ps, rest)"
          "keep_last ps = Some d" "v = JObj d" by (auto split: option.splits)
        from Suc.IH(3) [OF ps(1) 1(2)] keep_last_Some [OF ps(2)] ps(3) show ?thesis by fastforce
      next
        case (Some r)
        with 3 s 1 show ?thesis by (auto simp: keep_last_def)
      qed
    next
      case 4
      with s 1 show ?thesis using parse_number_writable [OF 1(2)]
        by (auto simp: parse_literal_def number_value_def split: option.splits if_splits)
    qed
  }
  { case 2
    from 2(1) obtain x r where x: "parse_value fr keep_last n s = Some (x, r)"
      by (auto split: option.splits)
    have "writable fr x" by (rule Suc.IH(1) [OF x 2(2)])
    with 2 x show ?case using Suc.IH(2) by (fastforce split: list.splits if_splits) }
  { case 3
    from 3(1) obtain k cs r1 r2 x r where x: "eat (CHR 0x22) s = Some cs" "parse_chars cs = Some (k, r1)"
      "eat (CHR '':'') (skip_ws r1) = Some r2" "parse_value fr keep_last n (skip_ws r2) = Some (x, r)"
      by (auto split: option.splits)
    have "writable fr x" by (rule Suc.IH(1) [OF x(4) 3(2)])
    with 3 x show ?case using Suc.IH(3) by (fastforce split: list.splits if_splits) }
qed

lemma loads_writable:
  "json_loads fr keep_last s = Some v \<Longrightarrow> float_faithful fr \<Longrightarrow> writable fr v"
  by (auto simp: json_loads_def simp del: parse_value.simps dest: parse_writable(1) split: if_splits option.splits)

end
