(* ===== verification/Ledger.thy ===== *)
theory Ledger
  imports LedgerEntries JsonText
begin

text \<open>
  \<open>ledger.py\<close>: the hash-linked, append-only history of one state directory. The bytes of the ledger
  file are split into lines and parsed, the chain is verified from the first entry, and entries are
  built, appended and selected by kind with the help of a derived index. The two caches of a
  \<open>Ledger\<close> object are explicit state. File-system errors, the file lock and the permission bits are
  outside the model; so are Python's recursion limit and its limit on the digits of an integer.
\<close>

section \<open>State\<close>

text \<open>The parameters: digests, and the text Python writes for the float a literal denotes.\<close>

record storage_env =
  env_crypto :: crypto
  env_float :: "string \<Rightarrow> string"
  env_state_dir :: string

record ledger_cache =
  cached_digest :: "string option"
  cached_raw :: "obj list option"
  verified_digest :: "string option"
  verified_head :: "string option"

definition empty_cache :: ledger_cache where
  "empty_cache = \<lparr>cached_digest = None, cached_raw = None, verified_digest = None, verified_head = None\<rparr>"

definition GENESIS :: string where
  "GENESIS = replicate 64 (CHR ''0'')"

definition LEDGER_LINE_BYTE_CAP :: nat where
  "LEDGER_LINE_BYTE_CAP = 16000000"

abbreviation env_sha :: "storage_env \<Rightarrow> string \<Rightarrow> string" where
  "env_sha env \<equiv> cr_sha (env_crypto env)"

section \<open>Reading\<close>

text \<open>\<open>bytes.splitlines(keepends=True)\<close>: lines end at LF, CR or CR LF.\<close>

fun add_to_first :: "char \<Rightarrow> string list \<Rightarrow> string list" where
  "add_to_first c [] = [[c]]"
| "add_to_first c (l # ls) = (c # l) # ls"

fun split_lines :: "string \<Rightarrow> string list" where
  "split_lines [] = []"
| "split_lines [c] = [[c]]"
| "split_lines (c # d # s) =
     (if c = CHR 0x0A then [c] # split_lines (d # s)
      else if c = CHR 0x0D then (if d = CHR 0x0A then [c, d] # split_lines s else [c] # split_lines (d # s))
      else add_to_first c (split_lines (d # s)))"

definition complete_line :: "string \<Rightarrow> bool" where
  "complete_line line \<longleftrightarrow> line \<noteq> [] \<and> last line = CHR 0x0A"

definition parse_line :: "storage_env \<Rightarrow> string \<Rightarrow> obj res" where
  "parse_line env line =
     (if \<not> complete_line line then Inl (ForgeError ''LEDGER_TRUNCATED'' [])
      else if LEDGER_LINE_BYTE_CAP < length line then Inl (ForgeError ''LEDGER_MALFORMED'' [])
      else (case json_loads (env_float env) keep_last line of
          Some (JObj d) \<Rightarrow> Inr d
        | _ \<Rightarrow> Inl (ForgeError ''LEDGER_MALFORMED'' [])))"

definition parse_ledger :: "storage_env \<Rightarrow> string \<Rightarrow> obj list res" where
  "parse_ledger env bytes = traverse (parse_line env) (split_lines bytes)"

text \<open>\<open>_read_unlocked_raw\<close>; the ledger file is \<open>None\<close> where it does not exist.\<close>

definition read_unlocked_raw ::
  "storage_env \<Rightarrow> string option \<Rightarrow> ledger_cache \<Rightarrow> (obj list \<times> ledger_cache) res" where
  "read_unlocked_raw env file cache =
     (case file of
        None \<Rightarrow> Inr ([], cache\<lparr>cached_digest := Some (env_sha env []), cached_raw := Some []\<rparr>)
      | Some bytes \<Rightarrow>
          let digest = env_sha env bytes in
          (case cached_raw cache of
             Some records \<Rightarrow>
               if cached_digest cache = Some digest then Inr (records, cache)
               else and_then (parse_ledger env bytes)
                 (\<lambda>rs. Inr (rs, cache\<lparr>cached_digest := Some digest, cached_raw := Some rs\<rparr>))
           | None \<Rightarrow> and_then (parse_ledger env bytes)
               (\<lambda>rs. Inr (rs, cache\<lparr>cached_digest := Some digest, cached_raw := Some rs\<rparr>))))"

section \<open>Verification\<close>

definition entry_hash :: "storage_env \<Rightarrow> obj \<Rightarrow> string" where
  "entry_hash env body = env_sha env (canonical_bytes (JObj body))"

definition entry_body :: "obj \<Rightarrow> obj" where
  "entry_body entry = dict_del ''entry_hash'' entry"

definition verify_entry :: "storage_env \<Rightarrow> nat \<Rightarrow> string \<Rightarrow> obj \<Rightarrow> string res" where
  "verify_entry env index previous entry =
     (let expected = entry_hash env (entry_body entry); at = [int_str (int index)] in
      if \<not> json_eq (obj_get entry ''sequence'') (JInt (int index)) then Inl (ForgeError ''LEDGER_SEQUENCE'' at)
      else if obj_get entry ''previous_hash'' \<noteq> JStr previous then Inl (ForgeError ''LEDGER_LINK'' at)
      else if obj_get entry ''entry_hash'' \<noteq> JStr expected then Inl (ForgeError ''LEDGER_TAMPER'' at)
      else Inr expected)"

fun verify_from :: "storage_env \<Rightarrow> nat \<Rightarrow> string \<Rightarrow> obj list \<Rightarrow> string res" where
  "verify_from env index previous [] = Inr previous"
| "verify_from env index previous (entry # entries) =
     and_then (verify_entry env index previous entry) (\<lambda>h. verify_from env (Suc index) h entries)"

definition verify_chain_of :: "storage_env \<Rightarrow> obj list \<Rightarrow> string res" where
  "verify_chain_of env records = verify_from env 1 GENESIS records"

text \<open>
  \<open>_verify_raw_records\<close>. Every caller passes the list that the preceding read returned, which is the
  cached list itself.
\<close>

definition verify_raw_records :: "storage_env \<Rightarrow> obj list \<Rightarrow> ledger_cache \<Rightarrow> (string \<times> ledger_cache) res" where
  "verify_raw_records env records cache =
     (case verified_head cache of
        Some head \<Rightarrow>
          if cached_digest cache = verified_digest cache then Inr (head, cache)
          else and_then (verify_chain_of env records)
            (\<lambda>h. Inr (h, cache\<lparr>verified_digest := cached_digest cache, verified_head := Some h\<rparr>))
      | None \<Rightarrow> and_then (verify_chain_of env records)
          (\<lambda>h. Inr (h, cache\<lparr>verified_digest := cached_digest cache, verified_head := Some h\<rparr>)))"

text \<open>One locked read of the ledger: the records and the verified head, and the caches afterwards.\<close>

definition cached_snapshot ::
  "storage_env \<Rightarrow> string option \<Rightarrow> ledger_cache \<Rightarrow> (obj list \<times> string) res \<times> ledger_cache" where
  "cached_snapshot env file cache =
     (case read_unlocked_raw env file cache of
        Inl e \<Rightarrow> (Inl e, cache)
      | Inr (records, cache') \<Rightarrow>
          (case verify_raw_records env records cache' of
             Inl e \<Rightarrow> (Inl e, cache')
           | Inr (head, cache'') \<Rightarrow> (Inr (records, head), cache'')))"

definition file_bytes :: "string option \<Rightarrow> string" where
  "file_bytes file = (case file of None \<Rightarrow> [] | Some bytes \<Rightarrow> bytes)"

text \<open>The same without caches.\<close>

definition snapshot :: "storage_env \<Rightarrow> string option \<Rightarrow> (obj list \<times> string) res" where
  "snapshot env file =
     and_then (parse_ledger env (file_bytes file)) (\<lambda>records.
     and_then (verify_chain_of env records) (\<lambda>head. Inr (records, head)))"

section \<open>Building and appending entries\<close>

definition last_hash :: "obj list \<Rightarrow> json res" where
  "last_hash records =
     (if records = [] then Inr (JStr GENESIS)
      else (case dict_get (last records) ''entry_hash'' of
          None \<Rightarrow> Inl (PyKeyError ''entry_hash'')
        | Some h \<Rightarrow> Inr h))"

definition raw_entry :: "storage_env \<Rightarrow> string \<Rightarrow> string \<Rightarrow> forge_record \<Rightarrow> nat \<Rightarrow> json \<Rightarrow> obj" where
  "raw_entry env timestamp kind payload sequence previous =
     (let body =
        [(''record_type'', JStr (rt_value LEDGER_ENTRY)),
         (''schema_version'', JStr CURRENT_SCHEMA_VERSION),
         (''sequence'', JInt (int sequence)),
         (''timestamp'', JStr timestamp),
         (''kind'', JStr kind),
         (''previous_hash'', previous),
         (''payload'', JObj (rec_to_json payload))] in
      body @ [(''entry_hash'', JStr (entry_hash env body))])"

definition writable_kind :: "string \<Rightarrow> forge_record \<Rightarrow> unit res" where
  "writable_kind kind payload =
     and_then (kind_type kind) (\<lambda>t.
     and_then (raise_if (fr_type payload \<noteq> t)
       (ForgeError ''RECORD_TYPE_MISMATCH'' [kind, rt_value t, rt_value (fr_type payload)])) (\<lambda>_.
     raise_if (fr_schema payload \<noteq> CURRENT_SCHEMA_VERSION) (ForgeError ''RECORD_VERSION_WRITE'' [])))"

definition normalize_raw :: "storage_env \<Rightarrow> obj \<Rightarrow> ledger_entry res" where
  "normalize_raw env raw = normalize_ledger_entry (env_crypto env) (py_of_json (JObj raw))"

text \<open>\<open>_build_entry_unlocked\<close>; the clock's text is the argument \<open>timestamp\<close>.\<close>

definition build_entry ::
  "storage_env \<Rightarrow> string \<Rightarrow> string \<Rightarrow> forge_record \<Rightarrow> obj list \<Rightarrow> (obj \<times> ledger_entry) res" where
  "build_entry env timestamp kind payload records =
     and_then (writable_kind kind payload) (\<lambda>_.
     and_then (last_hash records) (\<lambda>previous.
     let raw = raw_entry env timestamp kind payload (Suc (length records)) previous in
     and_then (normalize_raw env raw) (\<lambda>entry. Inr (raw, entry))))"

definition entry_line :: "obj \<Rightarrow> string" where
  "entry_line raw = canonical_bytes (JObj raw) @ [CHR 0x0A]"

text \<open>\<open>append\<close>: the line is on disk before the entry is normalised for the caller.\<close>

definition append_entry ::
  "storage_env \<Rightarrow> string \<Rightarrow> string \<Rightarrow> forge_record \<Rightarrow> string option \<Rightarrow> (string option \<times> ledger_entry res) res" where
  "append_entry env timestamp kind payload file =
     and_then (writable_kind kind payload) (\<lambda>_.
     and_then (parse_ledger env (file_bytes file)) (\<lambda>records.
     and_then (if records \<noteq> [] then verify_chain_of env records else Inr GENESIS) (\<lambda>_.
     and_then (last_hash records) (\<lambda>previous.
     let raw = raw_entry env timestamp kind payload (Suc (length records)) previous in
     Inr (Some (file_bytes file @ entry_line raw), normalize_raw env raw)))))"

section \<open>Selecting entries by kind\<close>

fun select_kinds :: "string list \<Rightarrow> obj list \<Rightarrow> obj list res" where
  "select_kinds kinds [] = Inr []"
| "select_kinds kinds (entry # entries) =
     and_then (in_texts (obj_get entry ''kind'') kinds) (\<lambda>keep.
     and_then (select_kinds kinds entries) (\<lambda>es. Inr (if keep then entry # es else es)))"

definition sequence_of_kind :: "obj list \<Rightarrow> string \<Rightarrow> json \<Rightarrow> nat option" where
  "sequence_of_kind records kind v =
     (case v of
        JInt i \<Rightarrow>
          if i < 1 \<or> int (length records) < i then None
          else if obj_get (records ! nat (i - 1)) ''kind'' \<noteq> JStr kind then None
          else Some (nat i)
      | _ \<Rightarrow> None)"

definition kind_sequences :: "obj list \<Rightarrow> obj \<Rightarrow> string \<Rightarrow> nat list option" where
  "kind_sequences records by_kind kind =
     (case dict_get by_kind kind of
        None \<Rightarrow> Some []
      | Some (JArr vs) \<Rightarrow> those (map (sequence_of_kind records kind) vs)
      | Some _ \<Rightarrow> None)"

text \<open>The index's members that must describe the history just read.\<close>

definition index_binds :: "string \<Rightarrow> json \<Rightarrow> nat \<Rightarrow> obj \<Rightarrow> bool" where
  "index_binds digest head count d \<longleftrightarrow>
     json_eq (obj_get d ''schema_version'') (JInt 1) \<and>
     obj_get d ''ledger_sha256'' = JStr digest \<and>
     json_eq (obj_get d ''ledger_head'') head \<and>
     json_eq (obj_get d ''entry_count'') (JInt (int count))"

definition index_selection :: "storage_env \<Rightarrow> string \<Rightarrow> obj list \<Rightarrow> string list \<Rightarrow> string option \<Rightarrow> nat list option res" where
  "index_selection env digest records kinds index =
     (case index of
        None \<Rightarrow> Inr None
      | Some bytes \<Rightarrow>
          (case json_loads (env_float env) keep_last bytes of
             Some (JObj d) \<Rightarrow>
               and_then (last_hash records) (\<lambda>head.
               case json_members (obj_get d ''sequences_by_kind'') of
                 Some by_kind \<Rightarrow>
                   if index_binds digest head (length records) d
                   then Inr (map_option concat (those (map (kind_sequences records by_kind) kinds)))
                   else Inr None
               | None \<Rightarrow> Inr None)
           | _ \<Rightarrow> Inr None))"

definition select_with_index ::
  "storage_env \<Rightarrow> string \<Rightarrow> obj list \<Rightarrow> string list \<Rightarrow> string option \<Rightarrow> obj list res" where
  "select_with_index env digest records kinds index =
     and_then (index_selection env digest records kinds index) (\<lambda>selection.
     case selection of
       Some sequences \<Rightarrow> Inr (map (\<lambda>i. records ! (i - 1)) (sort (remdups sequences)))
     | None \<Rightarrow> select_kinds kinds records)"

end
