(* ===== verification/RecordStore.thy ===== *)
theory RecordStore
  imports Ledger
begin

text \<open>
  \<open>record_store.py\<close>: the recoverable commit of one immutable record and its ledger entry, and the
  parts of \<open>ledger.py\<close> that look beyond the ledger file (\<open>verify\<close>, \<open>records\<close>, the index). The state
  directory is a \<open>store\<close>; what changes it durably is a \<open>disk_step\<close>, and an operation is a list of
  phases, each of which reads the store, may raise, and performs some disk steps. Directory creation
  and syncing, temporary files of \<open>_atomic_write\<close> (never read again) and errors of the operating
  system are not modelled.
\<close>

section \<open>State\<close>

text \<open>A directory under \<open>transactions\<close>: \<open>record.stage\<close>, \<open>ledger.stage\<close> and \<open>journal.json\<close>.\<close>

record tx_dir =
  tx_record :: "string option"
  tx_ledger :: "string option"
  tx_journal :: "string option"

record store =
  st_ledger :: "string option"
  st_index :: "string option"
  st_records :: "string \<rightharpoonup> string"
  st_txs :: "tx_dir dict"

definition empty_tx :: tx_dir where
  "empty_tx = \<lparr>tx_record = None, tx_ledger = None, tx_journal = None\<rparr>"

datatype disk_step =
    MakeTx string
  | StageRecord string string
  | StageLedger string string
  | WriteJournal string string
  | PublishRecord string string
  | PublishLedger string
  | WriteIndex string
  | RemoveTx string

definition tx_of :: "store \<Rightarrow> string \<Rightarrow> tx_dir" where
  "tx_of s t = (case dict_get (st_txs s) t of None \<Rightarrow> empty_tx | Some d \<Rightarrow> d)"

definition put_tx :: "string \<Rightarrow> tx_dir \<Rightarrow> store \<Rightarrow> store" where
  "put_tx t d s = s\<lparr>st_txs := dict_set t d (st_txs s)\<rparr>"

primrec do_step :: "disk_step \<Rightarrow> store \<Rightarrow> store" where
  "do_step (MakeTx t) s = put_tx t empty_tx s"
| "do_step (StageRecord t bytes) s = put_tx t ((tx_of s t)\<lparr>tx_record := Some bytes\<rparr>) s"
| "do_step (StageLedger t bytes) s = put_tx t ((tx_of s t)\<lparr>tx_ledger := Some bytes\<rparr>) s"
| "do_step (WriteJournal t bytes) s = put_tx t ((tx_of s t)\<lparr>tx_journal := Some bytes\<rparr>) s"
| "do_step (PublishRecord t destination) s =
     put_tx t ((tx_of s t)\<lparr>tx_record := None\<rparr>)
       (s\<lparr>st_records := (st_records s)(destination := tx_record (tx_of s t))\<rparr>)"
| "do_step (PublishLedger t) s =
     put_tx t ((tx_of s t)\<lparr>tx_ledger := None\<rparr>) (s\<lparr>st_ledger := tx_ledger (tx_of s t)\<rparr>)"
| "do_step (WriteIndex bytes) s = s\<lparr>st_index := Some bytes\<rparr>"
| "do_step (RemoveTx t) s = s\<lparr>st_txs := dict_del t (st_txs s)\<rparr>"

definition do_steps :: "disk_step list \<Rightarrow> store \<Rightarrow> store" where
  "do_steps steps s = foldl (\<lambda>s step. do_step step s) s steps"

type_synonym phase = "store \<Rightarrow> disk_step list res"

fun run_phases :: "phase list \<Rightarrow> store \<Rightarrow> unit res \<times> store" where
  "run_phases [] s = (Inr (), s)"
| "run_phases (p # ps) s =
     (case p s of Inl e \<Rightarrow> (Inl e, s) | Inr steps \<Rightarrow> run_phases ps (do_steps steps s))"

section \<open>Reading records\<close>

definition group_type :: "string \<Rightarrow> record_type res" where
  "group_type record_group =
     (case dict_get RECORD_GROUP_TYPES record_group of
        None \<Rightarrow> Inl (ForgeError ''RECORD_CONTEXT'' [record_group])
      | Some t \<Rightarrow> Inr t)"

text \<open>\<open>load_record_file\<close> with a trusted group, on the bytes of the file.\<close>

definition load_record_file :: "storage_env \<Rightarrow> string \<Rightarrow> string \<Rightarrow> forge_record res" where
  "load_record_file env record_group bytes =
     and_then (group_type record_group) (\<lambda>t.
     and_then (read_json (env_float env) 4000000 bytes) (\<lambda>raw.
     if is_obj raw then parse_record (env_crypto env) (py_of_json raw) t else Inl malformed))"

definition record_bytes :: "forge_record \<Rightarrow> string" where
  "record_bytes r = canonical_bytes (JObj (rec_to_json r)) @ [CHR 0x0A]"

definition context_of :: "string \<Rightarrow> persisted_context res" where
  "context_of kind =
     (case dict_get PERSISTED_RECORD_CONTEXTS kind of
        None \<Rightarrow> Inl (PyKeyError kind)
      | Some context \<Rightarrow> Inr context)"

definition identity_text :: "forge_record \<Rightarrow> string \<Rightarrow> string res" where
  "identity_text r f =
     (case rec_value r f of
        FStr s \<Rightarrow> if s = [] then Inl (ForgeError ''RECORD_IDENTITY'' [f]) else Inr s
      | _ \<Rightarrow> Inl (ForgeError ''RECORD_IDENTITY'' [f]))"

definition json_same :: "forge_record \<Rightarrow> forge_record \<Rightarrow> bool" where
  "json_same r q = json_eq (JObj (rec_to_json r)) (JObj (rec_to_json q))"

text \<open>One entry of \<open>_verify_immutable_records_unlocked\<close>; only a \<open>ForgeError\<close> of the reader is
  rewritten.\<close>

definition verify_immutable_record :: "storage_env \<Rightarrow> store \<Rightarrow> ledger_entry \<Rightarrow> unit res" where
  "verify_immutable_record env s e =
     and_then (context_of (le_kind e)) (\<lambda>context.
     and_then (identity_text (le_payload e) (prc_identity_field context)) (\<lambda>identity.
     and_then (immutable_record_path (env_state_dir env) (prc_group context) identity) (\<lambda>path.
     case st_records s path of
       None \<Rightarrow> Inl (ForgeError ''RECORD_FILE_MISSING'' [int_str (le_sequence e)])
     | Some bytes \<Rightarrow>
         (case load_record_file env (prc_group context) bytes of
            Inl (ForgeError c ds) \<Rightarrow> Inl (ForgeError ''RECORD_FILE_MALFORMED'' [int_str (le_sequence e)])
          | Inl other \<Rightarrow> Inl other
          | Inr r \<Rightarrow>
              if \<not> json_same r (le_payload e)
              then Inl (ForgeError ''RECORD_FILE_MISMATCH'' [int_str (le_sequence e)])
              else raise_if (le_source e = CURRENT_SCHEMA_VERSION \<and> bytes \<noteq> record_bytes (le_payload e))
                (ForgeError ''RECORD_FILE_MISMATCH'' [int_str (le_sequence e)])))))"

definition verify_immutable_records :: "storage_env \<Rightarrow> store \<Rightarrow> ledger_entry list \<Rightarrow> unit res" where
  "verify_immutable_records env s entries = run_checks (map (verify_immutable_record env s) entries)"

text \<open>\<open>_require_recovered_unlocked\<close>, \<open>verify_chain\<close>, \<open>verify\<close>, \<open>records\<close> and \<open>records_for\<close>.\<close>

definition require_recovered :: "store \<Rightarrow> unit res" where
  "require_recovered s = raise_if (st_txs s \<noteq> []) (ForgeError ''RECOVERY_REQUIRED'' [])"

definition verify_chain :: "storage_env \<Rightarrow> store \<Rightarrow> (nat \<times> string) res" where
  "verify_chain env s =
     and_then (require_recovered s) (\<lambda>_.
     and_then (snapshot env (st_ledger s)) (\<lambda>(raws, head). Inr (length raws, head)))"

definition verify_ledger :: "storage_env \<Rightarrow> store \<Rightarrow> (nat \<times> string) res" where
  "verify_ledger env s =
     and_then (require_recovered s) (\<lambda>_.
     and_then (snapshot env (st_ledger s)) (\<lambda>(raws, head).
     and_then (traverse (normalize_raw env) raws) (\<lambda>entries.
     and_then (verify_immutable_records env s entries) (\<lambda>_. Inr (length raws, head)))))"

definition select_entries :: "storage_env \<Rightarrow> store \<Rightarrow> string list option \<Rightarrow> ledger_entry list res" where
  "select_entries env s kinds =
     and_then (require_recovered s) (\<lambda>_.
     and_then (snapshot env (st_ledger s)) (\<lambda>(raws, head).
     and_then (case kinds of
         None \<Rightarrow> Inr raws
       | Some ks \<Rightarrow> select_with_index env (env_sha env (file_bytes (st_ledger s))) raws ks (st_index s)) (\<lambda>selected.
     traverse (normalize_raw env) selected)))"

definition ledger_records :: "storage_env \<Rightarrow> store \<Rightarrow> string option \<Rightarrow> ledger_entry list res" where
  "ledger_records env s kind = select_entries env s (map_option (\<lambda>k. [k]) kind)"

definition ledger_records_for :: "storage_env \<Rightarrow> store \<Rightarrow> string list \<Rightarrow> ledger_entry list res" where
  "ledger_records_for env s kinds = select_entries env s (Some kinds)"

section \<open>The derived index\<close>

definition INDEX_SCHEMA_VERSION :: int where
  "INDEX_SCHEMA_VERSION = 1"

definition append_sequence :: "string \<Rightarrow> int \<Rightarrow> obj \<Rightarrow> obj" where
  "append_sequence kind n by_kind =
     dict_set kind (JArr ((case dict_get by_kind kind of Some (JArr vs) \<Rightarrow> vs | _ \<Rightarrow> []) @ [JInt n])) by_kind"

fun index_entries :: "storage_env \<Rightarrow> obj \<Rightarrow> obj \<Rightarrow> obj list \<Rightarrow> (obj \<times> obj) res" where
  "index_entries env by_kind identities [] = Inr (by_kind, identities)"
| "index_entries env by_kind identities (raw # raws) =
     and_then (normalize_raw env raw) (\<lambda>e.
     and_then (context_of (le_kind e)) (\<lambda>context.
     let identities' =
       (case rec_value (le_payload e) (prc_identity_field context) of
          FStr s \<Rightarrow> dict_set (le_kind e @ '':'' @ s) (JInt (le_sequence e)) identities
        | _ \<Rightarrow> identities) in
     index_entries env (append_sequence (le_kind e) (le_sequence e) by_kind) identities' raws))"

definition index_data :: "storage_env \<Rightarrow> store \<Rightarrow> obj list \<Rightarrow> obj res" where
  "index_data env s raws =
     and_then (index_entries env [] [] raws) (\<lambda>(by_kind, identities).
     and_then (last_hash raws) (\<lambda>head.
     let bytes = file_bytes (st_ledger s) in
     Inr [(''schema_version'', JInt INDEX_SCHEMA_VERSION),
          (''ledger_sha256'', JStr (env_sha env bytes)),
          (''ledger_size'', JInt (int (length bytes))),
          (''ledger_head'', head),
          (''entry_count'', JInt (int (length raws))),
          (''sequences_by_kind'', JObj by_kind),
          (''identity_sequences'', JObj identities)]))"

definition ensure_index :: "storage_env \<Rightarrow> store \<Rightarrow> obj list \<Rightarrow> disk_step list res" where
  "ensure_index env s raws =
     and_then (index_data env s raws) (\<lambda>expected.
     let current = (case st_index s of None \<Rightarrow> None | Some bytes \<Rightarrow> json_loads (env_float env) keep_last bytes) in
     Inr (if (case current of None \<Rightarrow> True | Some v \<Rightarrow> \<not> json_eq v (JObj expected))
          then [WriteIndex (canonical_bytes (JObj expected) @ [CHR 0x0A])] else []))"

definition rebuild_index :: "storage_env \<Rightarrow> phase" where
  "rebuild_index env s =
     and_then (snapshot env (st_ledger s)) (\<lambda>(raws, head). ensure_index env s raws)"

section \<open>Journals\<close>

definition TRANSACTION_SCHEMA_VERSION :: int where
  "TRANSACTION_SCHEMA_VERSION = 1"

definition JOURNAL_HASHES :: "string list" where
  "JOURNAL_HASHES =
     [''record_sha256'', ''ledger_before_sha256'', ''ledger_after_sha256'', ''expected_previous_hash'',
      ''entry_hash'']"

definition JOURNAL_TEXTS :: "string list" where
  "JOURNAL_TEXTS =
     [''transaction_id'', ''state'', ''record_group'', ''ledger_kind'', ''record_identity'',
      ''record_destination''] @ JOURNAL_HASHES"

definition JOURNAL_KEYS :: "string list" where
  "JOURNAL_KEYS = [''schema_version'', ''expected_sequence''] @ JOURNAL_TEXTS"

definition hex64 :: "string \<Rightarrow> bool" where
  "hex64 s \<longleftrightarrow> length s = 64 \<and> list_all (\<lambda>c. c \<in> set ''0123456789abcdef'') s"

definition journal_bytes :: "obj \<Rightarrow> string" where
  "journal_bytes journal = canonical_bytes (JObj journal) @ [CHR 0x0A]"

text \<open>A text or number of a validated journal.\<close>

definition journal_text :: "obj \<Rightarrow> string \<Rightarrow> string" where
  "journal_text journal k = (case obj_get journal k of JStr s \<Rightarrow> s | _ \<Rightarrow> [])"

definition journal_sequence :: "obj \<Rightarrow> int" where
  "journal_sequence journal = (case obj_get journal ''expected_sequence'' of JInt i \<Rightarrow> i | _ \<Rightarrow> 0)"

definition journal_malformed :: py_error where
  "journal_malformed = ForgeError ''RECOVERY_JOURNAL_MALFORMED'' []"

definition load_journal :: "storage_env \<Rightarrow> string \<Rightarrow> string \<Rightarrow> obj res" where
  "load_journal env name bytes =
     (case json_loads (env_float env) keep_last bytes of
        Some (JObj j) \<Rightarrow>
          and_then (raise_if (set (dict_keys j) \<noteq> set JOURNAL_KEYS) journal_malformed) (\<lambda>_.
          and_then (raise_if (\<not> json_eq (obj_get j ''schema_version'') (JInt TRANSACTION_SCHEMA_VERSION)
              \<or> obj_get j ''transaction_id'' \<noteq> JStr name) journal_malformed) (\<lambda>_.
          and_then (require_in (obj_get j ''state'') [''PREPARED'', ''COMMITTED''] journal_malformed) (\<lambda>_.
          and_then (raise_if (case json_int (obj_get j ''expected_sequence'') of None \<Rightarrow> True | Some i \<Rightarrow> i < 1)
              journal_malformed) (\<lambda>_.
          and_then (raise_if (\<not> list_all (\<lambda>k. json_text (obj_get j k) \<noteq> None) JOURNAL_TEXTS)
              journal_malformed) (\<lambda>_.
          and_then (raise_if (\<not> list_all (\<lambda>k. hex64 (journal_text j k)) JOURNAL_HASHES)
              journal_malformed) (\<lambda>_. Inr j))))))
      | _ \<Rightarrow> Inl journal_malformed)"

definition committed :: "obj \<Rightarrow> obj" where
  "committed journal = dict_set ''state'' (JStr ''COMMITTED'') journal"

section \<open>Commit\<close>

definition IMMUTABLE_RECORD_BYTE_CAP :: nat where
  "IMMUTABLE_RECORD_BYTE_CAP = 4000000"

text \<open>What is checked before the store is touched: the record's identity and its path.\<close>

definition commit_checks :: "storage_env \<Rightarrow> string \<Rightarrow> string \<Rightarrow> forge_record \<Rightarrow> (string \<times> string \<times> string) res" where
  "commit_checks env record_group kind r =
     and_then (persisted_record_context record_group kind) (\<lambda>context.
     and_then (raise_if (fr_type r \<noteq> prc_record_type context)
       (ForgeError ''RECORD_TYPE_MISMATCH'' [rt_value (prc_record_type context), rt_value (fr_type r)])) (\<lambda>_.
     and_then (raise_if (fr_schema r \<noteq> CURRENT_SCHEMA_VERSION) (ForgeError ''RECORD_VERSION_WRITE'' [])) (\<lambda>_.
     and_then (identity_text r (prc_identity_field context)) (\<lambda>identity.
     and_then (immutable_record_path (env_state_dir env) record_group identity) (\<lambda>destination.
     and_then (raise_if (IMMUTABLE_RECORD_BYTE_CAP < length (record_bytes r)) (ForgeError ''RECORD_SIZE'' [])) (\<lambda>_.
     Inr (prc_identity_field context, identity, destination)))))))"

definition same_identity :: "string \<Rightarrow> string \<Rightarrow> string \<Rightarrow> obj \<Rightarrow> bool" where
  "same_identity kind field identity raw \<longleftrightarrow>
     obj_get raw ''kind'' = JStr kind \<and>
     (case json_members (obj_get raw ''payload'') of
        None \<Rightarrow> False
      | Some payload \<Rightarrow> obj_get payload field = JStr identity)"

definition resolve_duplicate :: "store \<Rightarrow> string \<Rightarrow> forge_record \<Rightarrow> ledger_entry list \<Rightarrow> ledger_entry res" where
  "resolve_duplicate s destination r entries =
     (case (entries, st_records s destination) of
        ([e], Some bytes) \<Rightarrow>
          if bytes \<noteq> record_bytes r \<or> \<not> json_same (le_payload e) r
          then Inl (ForgeError ''RECORD_EXISTS'' [])
          else Inr e
      | _ \<Rightarrow> Inl (ForgeError ''RECORD_STORAGE_CONFLICT'' []))"

text \<open>\<open>destination.relative_to(self.state_dir)\<close>.\<close>

definition relative_to_state :: "storage_env \<Rightarrow> string \<Rightarrow> string" where
  "relative_to_state env path = drop (Suc (length (env_state_dir env))) path"

definition prepared_journal ::
  "storage_env \<Rightarrow> string \<Rightarrow> string \<Rightarrow> string \<Rightarrow> string \<Rightarrow> string \<Rightarrow> forge_record \<Rightarrow> string \<Rightarrow> string \<Rightarrow> ledger_entry \<Rightarrow> obj"
where
  "prepared_journal env txid record_group kind identity destination r before after e =
     [(''schema_version'', JInt TRANSACTION_SCHEMA_VERSION),
      (''transaction_id'', JStr txid),
      (''state'', JStr ''PREPARED''),
      (''record_group'', JStr record_group),
      (''ledger_kind'', JStr kind),
      (''record_identity'', JStr identity),
      (''record_destination'', JStr (relative_to_state env destination)),
      (''record_sha256'', JStr (env_sha env (record_bytes r))),
      (''ledger_before_sha256'', JStr (env_sha env before)),
      (''ledger_after_sha256'', JStr (env_sha env after)),
      (''expected_sequence'', JInt (le_sequence e)),
      (''expected_previous_hash'', JStr (le_previous_hash e)),
      (''entry_hash'', JStr (le_entry_hash e))]"

text \<open>The predecessor a journal was prepared for is still the ledger's head.\<close>

definition assert_predecessor :: "storage_env \<Rightarrow> string \<Rightarrow> obj \<Rightarrow> store \<Rightarrow> unit res" where
  "assert_predecessor env code journal s =
     and_then (snapshot env (st_ledger s)) (\<lambda>(raws, head).
     raise_if (int (length raws) + 1 \<noteq> journal_sequence journal
       \<or> head \<noteq> journal_text journal ''expected_previous_hash'') (ForgeError code []))"

definition assert_expected_ledger :: "storage_env \<Rightarrow> obj \<Rightarrow> string \<Rightarrow> store \<Rightarrow> unit res" where
  "assert_expected_ledger env journal expected s =
     (let actual = file_bytes (st_ledger s) in
      and_then (raise_if (actual \<noteq> expected
          \<or> env_sha env actual \<noteq> journal_text journal ''ledger_before_sha256'')
        (ForgeError ''TRANSACTION_LEDGER_CONFLICT'' [])) (\<lambda>_.
      assert_predecessor env ''TRANSACTION_LEDGER_CONFLICT'' journal s))"

definition commit_phases :: "storage_env \<Rightarrow> string \<Rightarrow> string \<Rightarrow> forge_record \<Rightarrow> string \<Rightarrow> string \<Rightarrow> obj \<Rightarrow> phase list" where
  "commit_phases env txid destination r before after journal =
     [\<lambda>s. Inr [MakeTx txid],
      \<lambda>s. Inr [StageRecord txid (record_bytes r)],
      \<lambda>s. Inr [StageLedger txid after],
      \<lambda>s. Inr [WriteJournal txid (journal_bytes journal)],
      \<lambda>s. Inr [PublishRecord txid destination],
      \<lambda>s. and_then (assert_expected_ledger env journal before s) (\<lambda>_. Inr [PublishLedger txid]),
      \<lambda>s. Inr [WriteJournal txid (journal_bytes (committed journal))],
      rebuild_index env,
      \<lambda>s. Inr [RemoveTx txid]]"

text \<open>The decision of a commit on a recovered store: the existing entry, or the phases to run.\<close>

definition plan_commit ::
  "storage_env \<Rightarrow> string \<Rightarrow> string \<Rightarrow> string \<Rightarrow> string \<Rightarrow> forge_record \<Rightarrow> string \<times> string \<times> string \<Rightarrow> store
     \<Rightarrow> (phase list \<times> ledger_entry) res"
where
  "plan_commit env timestamp txid record_group kind r checked s =
     (case checked of (field, identity, destination) \<Rightarrow>
      and_then (snapshot env (st_ledger s)) (\<lambda>(raws, head).
      and_then (traverse (normalize_raw env) (filter (same_identity kind field identity) raws)) (\<lambda>existing.
      if st_records s destination \<noteq> None \<or> existing \<noteq> []
      then and_then (resolve_duplicate s destination r existing) (\<lambda>e. Inr ([], e))
      else
        (let before = file_bytes (st_ledger s) in
         and_then (build_entry env timestamp kind r raws) (\<lambda>(raw, e).
         let after = before @ entry_line raw in
         and_then (raise_if (LEDGER_LINE_BYTE_CAP < length (entry_line raw)) (ForgeError ''RECORD_SIZE'' [])) (\<lambda>_.
         Inr (commit_phases env txid destination r before after
                (prepared_journal env txid record_group kind identity destination r before after e), e)))))))"

section \<open>Recovery\<close>

definition validate_recovery_file :: "storage_env \<Rightarrow> string option \<Rightarrow> string \<Rightarrow> unit res" where
  "validate_recovery_file env file expected =
     (case file of
        None \<Rightarrow> Inl (ForgeError ''RECOVERY_AMBIGUOUS'' [])
      | Some bytes \<Rightarrow> raise_if (env_sha env bytes \<noteq> expected) (ForgeError ''RECOVERY_STAGE_MISMATCH'' []))"

text \<open>Equality of paths: repeated separators and \<open>.\<close> components do not count.\<close>

fun split_path :: "string \<Rightarrow> string \<Rightarrow> string list" where
  "split_path acc [] = [rev acc]"
| "split_path acc (c # cs) = (if c = CHR ''/'' then rev acc # split_path [] cs else split_path (c # acc) cs)"

definition path_parts :: "string \<Rightarrow> string list" where
  "path_parts p = filter (\<lambda>part. part \<noteq> [] \<and> part \<noteq> ''.'') (split_path [] p)"

definition same_path :: "string \<Rightarrow> string \<Rightarrow> bool" where
  "same_path p q \<longleftrightarrow> path_parts p = path_parts q \<and> starts_with ''/'' p = starts_with ''/'' q"

definition under_state :: "storage_env \<Rightarrow> string \<Rightarrow> string" where
  "under_state env p = (if starts_with ''/'' p then p else env_state_dir env @ ''/'' @ p)"

definition recovery_destination :: "storage_env \<Rightarrow> obj \<Rightarrow> string res" where
  "recovery_destination env journal =
     and_then (persisted_record_context (journal_text journal ''record_group'') (journal_text journal ''ledger_kind'')) (\<lambda>context.
     and_then (immutable_record_path (env_state_dir env) (journal_text journal ''record_group'')
       (journal_text journal ''record_identity'')) (\<lambda>destination.
     and_then (raise_if (\<not> same_path (under_state env (journal_text journal ''record_destination'')) destination)
       journal_malformed) (\<lambda>_. Inr destination)))"

definition old_ledger :: "storage_env \<Rightarrow> obj \<Rightarrow> store \<Rightarrow> bool" where
  "old_ledger env journal s \<longleftrightarrow>
     env_sha env (file_bytes (st_ledger s)) = journal_text journal ''ledger_before_sha256''"

definition republish_record :: "storage_env \<Rightarrow> string \<Rightarrow> obj \<Rightarrow> string \<Rightarrow> phase" where
  "republish_record env txid journal destination s =
     (let d = tx_of s txid; final = st_records s destination in
      and_then (validate_recovery_file env (if final \<noteq> None then final else tx_record d)
        (journal_text journal ''record_sha256'')) (\<lambda>_.
      if old_ledger env journal s
      then and_then (raise_if (obj_get journal ''state'' = JStr ''COMMITTED'') (ForgeError ''RECOVERY_AMBIGUOUS'' [])) (\<lambda>_.
           and_then (validate_recovery_file env (tx_ledger d) (journal_text journal ''ledger_after_sha256'')) (\<lambda>_.
           Inr (if final = None then [PublishRecord txid destination] else [])))
      else Inr []))"

definition republish_ledger :: "storage_env \<Rightarrow> string \<Rightarrow> obj \<Rightarrow> phase" where
  "republish_ledger env txid journal s =
     (if old_ledger env journal s
      then and_then (assert_predecessor env ''RECOVERY_LEDGER_CONFLICT'' journal s) (\<lambda>_. Inr [PublishLedger txid])
      else Inr [])"

definition confirm_recovery :: "storage_env \<Rightarrow> string \<Rightarrow> obj \<Rightarrow> string \<Rightarrow> phase" where
  "confirm_recovery env txid journal destination s =
     and_then (raise_if (env_sha env (file_bytes (st_ledger s)) \<noteq> journal_text journal ''ledger_after_sha256'')
       (ForgeError ''RECOVERY_LEDGER_CONFLICT'' [])) (\<lambda>_.
     and_then (validate_recovery_file env (st_records s destination) (journal_text journal ''record_sha256'')) (\<lambda>_.
     and_then (snapshot env (st_ledger s)) (\<lambda>(raws, head).
     and_then (raise_if (int (length raws) < journal_sequence journal) (ForgeError ''RECOVERY_AMBIGUOUS'' [])) (\<lambda>_.
     and_then (normalize_raw env (raws ! nat (journal_sequence journal - 1))) (\<lambda>e.
     and_then (raise_if (le_entry_hash e \<noteq> journal_text journal ''entry_hash''
         \<or> le_kind e \<noteq> journal_text journal ''ledger_kind'') (ForgeError ''RECOVERY_AMBIGUOUS'' [])) (\<lambda>_.
     and_then (load_record_file env (journal_text journal ''record_group'') (file_bytes (st_records s destination))) (\<lambda>r.
     and_then (raise_if (\<not> json_same r (le_payload e)) (ForgeError ''RECOVERY_AMBIGUOUS'' [])) (\<lambda>_.
     Inr [WriteJournal txid (journal_bytes (committed journal))]))))))))"

definition recovery_phases :: "storage_env \<Rightarrow> string \<Rightarrow> obj \<Rightarrow> string \<Rightarrow> phase list" where
  "recovery_phases env txid journal destination =
     [republish_record env txid journal destination,
      republish_ledger env txid journal,
      confirm_recovery env txid journal destination,
      rebuild_index env,
      \<lambda>s. Inr [RemoveTx txid]]"

text \<open>One directory of \<open>_recover_unlocked\<close>: the phases, and whether the transaction is completed.\<close>

definition plan_recovery :: "storage_env \<Rightarrow> string \<Rightarrow> store \<Rightarrow> (phase list \<times> bool) res" where
  "plan_recovery env txid s =
     (case tx_journal (tx_of s txid) of
        None \<Rightarrow> Inr ([\<lambda>s. Inr [RemoveTx txid]], False)
      | Some bytes \<Rightarrow>
          and_then (load_journal env txid bytes) (\<lambda>journal.
          and_then (recovery_destination env journal) (\<lambda>destination.
          Inr (recovery_phases env txid journal destination, True))))"

fun recover_each :: "storage_env \<Rightarrow> string list \<Rightarrow> nat \<times> nat \<Rightarrow> store \<Rightarrow> (nat \<times> nat) res \<times> store" where
  "recover_each env [] counts s = (Inr counts, s)"
| "recover_each env (txid # txids) (completed_count, abandoned) s =
     (case plan_recovery env txid s of
        Inl e \<Rightarrow> (Inl e, s)
      | Inr (phases, completes) \<Rightarrow>
          (case run_phases phases s of
             (Inl e, s') \<Rightarrow> (Inl e, s')
           | (Inr u, s') \<Rightarrow>
               recover_each env txids
                 (if completes then (Suc completed_count, abandoned) else (completed_count, Suc abandoned)) s'))"

definition recover_unlocked :: "storage_env \<Rightarrow> store \<Rightarrow> (nat \<times> nat) res \<times> store" where
  "recover_unlocked env s = recover_each env (sort (dict_keys (st_txs s))) (0, 0) s"

text \<open>What \<open>recover\<close> checks and writes once no transaction is left.\<close>

definition recheck :: "storage_env \<Rightarrow> phase" where
  "recheck env s =
     and_then (snapshot env (st_ledger s)) (\<lambda>(raws, head).
     and_then (traverse (normalize_raw env) raws) (\<lambda>entries.
     and_then (verify_immutable_records env s entries) (\<lambda>_.
     if st_index s \<noteq> None then ensure_index env s raws else Inr [])))"

definition recover :: "storage_env \<Rightarrow> store \<Rightarrow> (nat \<times> nat) res \<times> store" where
  "recover env s =
     (case recover_unlocked env s of
        (Inl e, s') \<Rightarrow> (Inl e, s')
      | (Inr counts, s') \<Rightarrow>
          (case run_phases [recheck env] s' of
             (Inl e, s'') \<Rightarrow> (Inl e, s'')
           | (Inr u, s'') \<Rightarrow> (Inr counts, s'')))"

text \<open>\<open>commit\<close>; the transaction's identifier and the clock's text are arguments.\<close>

definition commit ::
  "storage_env \<Rightarrow> string \<Rightarrow> string \<Rightarrow> string \<Rightarrow> string \<Rightarrow> forge_record \<Rightarrow> store \<Rightarrow> ledger_entry res \<times> store"
where
  "commit env timestamp txid record_group kind r s =
     (case commit_checks env record_group kind r of
        Inl e \<Rightarrow> (Inl e, s)
      | Inr checked \<Rightarrow>
          (case recover_unlocked env s of
             (Inl e, s') \<Rightarrow> (Inl e, s')
           | (Inr counts, s') \<Rightarrow>
               (case plan_commit env timestamp txid record_group kind r checked s' of
                  Inl e \<Rightarrow> (Inl e, s')
                | Inr (phases, entry) \<Rightarrow>
                    (case run_phases phases s' of
                       (Inl e, s'') \<Rightarrow> (Inl e, s'')
                     | (Inr u, s'') \<Rightarrow> (Inr entry, s'')))))"

section \<open>Interruption\<close>

text \<open>
  The stores that a power loss can leave: after any number of disk steps, with a staged file cut
  short, or with a directory only partly removed. (\<open>journal.json\<close> and the index are written by
  renaming a complete temporary file.)
\<close>

inductive torn :: "disk_step list \<Rightarrow> store \<Rightarrow> store \<Rightarrow> bool" where
  before_step: "torn steps s s"
| after_step: "torn steps (do_step step s) t \<Longrightarrow> torn (step # steps) s t"
| record_cut: "torn (StageRecord txid bytes # steps) s (do_step (StageRecord txid (take n bytes)) s)"
| ledger_cut: "torn (StageLedger txid bytes # steps) s (do_step (StageLedger txid (take n bytes)) s)"
| half_removed: "a \<in> {None, tx_record (tx_of s txid)} \<Longrightarrow> b \<in> {None, tx_ledger (tx_of s txid)} \<Longrightarrow>
    c \<in> {None, tx_journal (tx_of s txid)} \<Longrightarrow>
    torn (RemoveTx txid # steps) s (put_tx txid \<lparr>tx_record = a, tx_ledger = b, tx_journal = c\<rparr> s)"

inductive interrupted :: "phase list \<Rightarrow> store \<Rightarrow> store \<Rightarrow> bool" where
  here: "interrupted ps s s"
| within: "p s = Inr steps \<Longrightarrow> torn steps s t \<Longrightarrow> interrupted (p # ps) s t"
| later: "p s = Inr steps \<Longrightarrow> interrupted ps (do_steps steps s) t \<Longrightarrow> interrupted (p # ps) s t"

text \<open>A recovery that is itself interrupted, in any of its transactions.\<close>

inductive recovery_interrupted :: "storage_env \<Rightarrow> string list \<Rightarrow> store \<Rightarrow> store \<Rightarrow> bool" where
  not_begun: "recovery_interrupted env txids s s"
| in_transaction: "plan_recovery env txid s = Inr (phases, completes) \<Longrightarrow> interrupted phases s t \<Longrightarrow>
    recovery_interrupted env (txid # txids) s t"
| next_transaction: "plan_recovery env txid s = Inr (phases, completes) \<Longrightarrow>
    run_phases phases s = (Inr (), s') \<Longrightarrow> recovery_interrupted env txids s' t \<Longrightarrow>
    recovery_interrupted env (txid # txids) s t"

end
