(* ===== verification/StatusAggregation.thy ===== *)
theory StatusAggregation
  imports Records
begin

text \<open>
  Statuses and their aggregation: \<open>application/support.py\<close>, and the claim reporting and reconciliation
  of \<open>application/evidence.py\<close>. The adapter of the MNCS runtime, where one is selected, is a parameter:
  the fold it computes, and the projection it returns for a reconciliation.
\<close>

section \<open>Folding statuses\<close>

definition STATUSES :: "string list" where
  "STATUSES = [''PASS'', ''FAIL'', ''UNKNOWN'']"

definition STATUS_ORDER :: "nat dict" where
  "STATUS_ORDER = [(''PASS'', 0), (''UNKNOWN'', 1), (''FAIL'', 2)]"

definition status_order :: "string \<Rightarrow> nat" where
  "status_order s = (case dict_get STATUS_ORDER s of None \<Rightarrow> 0 | Some n \<Rightarrow> n)"

text \<open>Python's \<open>max\<close> with a key: the first of the greatest.\<close>

fun max_by :: "('a \<Rightarrow> nat) \<Rightarrow> 'a \<Rightarrow> 'a list \<Rightarrow> 'a" where
  "max_by f best [] = best"
| "max_by f best (x # xs) = max_by f (if f best < f x then x else best) xs"

definition fold_status :: "string list \<Rightarrow> string" where
  "fold_status statuses =
     (case filter (\<lambda>s. s \<in> set STATUSES) statuses of
        [] \<Rightarrow> ''UNKNOWN''
      | s # ss \<Rightarrow> max_by status_order s ss)"

definition aggregate_status :: "(string list \<Rightarrow> string res) option \<Rightarrow> string list \<Rightarrow> string res" where
  "aggregate_status native statuses =
     (let values = filter (\<lambda>s. s \<in> set STATUSES) statuses in
      if values = [] then Inr ''UNKNOWN''
      else (case native of
          Some status_aggregate \<Rightarrow>
            and_then (status_aggregate values) (\<lambda>result.
            if result \<notin> set STATUSES then Inl (ForgeError ''NATIVE_STATUS_UNKNOWN'' []) else Inr result)
        | None \<Rightarrow> Inr (max_by status_order (hd values) (tl values))))"

text \<open>The status of a workflow from its exit code and the status its output reports.\<close>

definition compatibility_execution_result_status :: "int option \<Rightarrow> string option \<Rightarrow> string" where
  "compatibility_execution_result_status exit_status reported =
     (case exit_status of
        None \<Rightarrow> ''UNKNOWN''
      | Some code \<Rightarrow>
          if code \<noteq> 0 then ''FAIL''
          else (case reported of
              Some s \<Rightarrow> if s \<in> set STATUSES then s else ''UNKNOWN''
            | None \<Rightarrow> ''UNKNOWN''))"

section \<open>Claims\<close>

definition CLAIM_CLASSES :: "string list" where
  "CLAIM_CLASSES =
     [''mncs_implementation_result'', ''mncds_development_process_result'', ''local_reproduction'',
      ''operator_controlled_reproduction'', ''independent_evaluation'', ''protected_holdout'',
      ''witnessed_evidence'', ''operational_evidence'', ''governance_approval'']"

definition STATUS_MEMBERS :: "string list" where
  "STATUS_MEMBERS = [''status'', ''result'', ''overall_status'', ''aggregate_status'']"

fun extract_statuses :: "json \<Rightarrow> string list" where
  "extract_statuses (JObj kvs) =
     concat (map (\<lambda>(k, v). if k \<in> set STATUS_MEMBERS
       then (case v of JStr s \<Rightarrow> if s \<in> set STATUSES then [s] else [] | _ \<Rightarrow> [])
       else extract_statuses v) kvs)"
| "extract_statuses (JArr vs) = concat (map extract_statuses vs)"
| "extract_statuses v = []"

fun contains :: "string \<Rightarrow> string \<Rightarrow> bool" where
  "contains needle [] = (needle = [])"
| "contains needle (c # cs) = (starts_with needle (c # cs) \<or> contains needle cs)"

text \<open>\<open>path.lower()\<close> of an ASCII path.\<close>

definition lower_char :: "char \<Rightarrow> char" where
  "lower_char c =
     (case dict_get (map (\<lambda>(u, l). ([u], l)) (zip ''ABCDEFGHIJKLMNOPQRSTUVWXYZ'' ''abcdefghijklmnopqrstuvwxyz'')) [c] of
        None \<Rightarrow> c | Some l \<Rightarrow> l)"

definition classify_record :: "string \<Rightarrow> string" where
  "classify_record path =
     (let lowered = map lower_char path in
      if contains ''mncds'' lowered \<or> contains ''development-record'' lowered
      then ''mncds_development_process_result''
      else if contains ''independent'' lowered then ''independent_evaluation''
      else if contains ''holdout'' lowered \<or> contains ''protected'' lowered then ''protected_holdout''
      else if contains ''witness'' lowered then ''witnessed_evidence''
      else if contains ''operational'' lowered \<or> contains ''monitor'' lowered then ''operational_evidence''
      else if contains ''governance'' lowered \<or> contains ''approval'' lowered then ''governance_approval''
      else if contains ''reproduction'' lowered then ''local_reproduction''
      else ''mncs_implementation_result'')"

text \<open>\<open>_structured_statuses\<close>: the evidence files that could be read, in order, at most 1000 of them.\<close>

record structured_status =
  ss_source :: string
  ss_status :: string
  ss_class :: string

definition structured_statuses :: "(string \<times> json option) list \<Rightarrow> structured_status list" where
  "structured_statuses evidence =
     concat (map (\<lambda>(path, content). case content of
         None \<Rightarrow> []
       | Some v \<Rightarrow> map (\<lambda>s. \<lparr>ss_source = path, ss_status = s, ss_class = classify_record path\<rparr>)
           (extract_statuses v)) (take 1000 evidence))"

definition class_status ::
  "(string list \<Rightarrow> string res) option \<Rightarrow> structured_status list \<Rightarrow> string \<Rightarrow> (string \<times> string) res" where
  "class_status native records claim_class =
     and_then (aggregate_status native (map ss_status (filter (\<lambda>r. ss_class r = claim_class) records)))
       (\<lambda>status. Inr (claim_class, status))"

definition claim_statuses ::
  "(string list \<Rightarrow> string res) option \<Rightarrow> structured_status list \<Rightarrow> string dict res" where
  "claim_statuses native records =
     and_then (traverse (class_status native records) CLAIM_CLASSES) (\<lambda>statuses.
     let statuses' = dict_set ''operator_controlled_reproduction'' ''UNKNOWN'' statuses in
     Inr (dict_set ''promotion_disposition''
       (if list_all (\<lambda>p. snd p = ''PASS'') statuses' then ''REVIEW_REQUIRED'' else ''NOT_PROMOTABLE'') statuses'))"

definition required_claims :: "string \<Rightarrow> string list" where
  "required_claims requested =
     (if requested = ''mncs'' then [''mncs_implementation_result'']
      else if requested = ''mncds'' then [''mncds_development_process_result'']
      else if requested = ''independent'' then [''independent_evaluation'']
      else if requested = ''protected'' then [''protected_holdout'']
      else if requested = ''promotion'' then CLAIM_CLASSES
      else [requested])"

text \<open>The blockers of a claim outside the rights domain: class, status and whether it failed.\<close>

definition claim_blockers :: "string dict \<Rightarrow> string \<Rightarrow> bool \<Rightarrow> string \<Rightarrow> (string \<times> string) list" where
  "claim_blockers statuses requested rights_blocking rights_status =
     map (\<lambda>name. (name, case dict_get statuses name of None \<Rightarrow> ''UNKNOWN'' | Some s \<Rightarrow> s))
       (filter (\<lambda>name. dict_get statuses name \<noteq> Some ''PASS'') (required_claims requested))
     @ (if requested = ''promotion'' \<and> rights_blocking then [(''rights_provenance'', rights_status)] else [])"

section \<open>Reconciliation\<close>

record result_item =
  ri_category :: string
  ri_status :: string
  ri_output :: string
  ri_unsupported :: "string list"

record category_summary =
  cs_status :: string
  cs_records :: "string list"
  cs_unsupported :: "string list"

definition add_to_category :: "result_item list dict \<Rightarrow> result_item \<Rightarrow> result_item list dict" where
  "add_to_category d item =
     dict_set (ri_category item)
       ((case dict_get d (ri_category item) of None \<Rightarrow> [] | Some items \<Rightarrow> items) @ [item]) d"

definition group_by_category :: "result_item list \<Rightarrow> result_item list dict" where
  "group_by_category items = foldl add_to_category [] items"

definition unsupported_values :: "result_item list \<Rightarrow> string list" where
  "unsupported_values items = concat (map ri_unsupported items)"

definition summary_of :: "string \<Rightarrow> result_item list \<Rightarrow> category_summary" where
  "summary_of status items =
     \<lparr>cs_status = status, cs_records = map ri_output items, cs_unsupported = sorted_set (unsupported_values items)\<rparr>"

definition compat_reconciliation ::
  "result_item list dict \<Rightarrow> category_summary dict \<times> string list \<times> string" where
  "compat_reconciliation by_category =
     (let ordered = sort_key fst by_category;
          values = (\<lambda>items. remdups (map ri_status items));
          categories = map (\<lambda>(category, items). (category, summary_of (fold_status (values items)) items)) ordered in
      (categories,
       map fst (filter (\<lambda>(category, items). 1 < length (values items)) ordered),
       fold_status (map (\<lambda>p. cs_status (snd p)) categories)))"

record native_category =
  nc_status :: string
  nc_observed :: int
  nc_unsupported :: int
  nc_pass :: int
  nc_fail :: int
  nc_unknown :: int
  nc_conflict :: bool

record native_reconciliation =
  nr_categories :: "native_category list"
  nr_status :: string
  nr_observed :: int
  nr_unsupported :: int
  nr_conflicting :: int

abbreviation reconciliation_mismatch :: "string list \<Rightarrow> py_error" where
  "reconciliation_mismatch ds \<equiv> ForgeError ''NATIVE_RECONCILIATION_MISMATCH'' ds"

text \<open>Each native category is checked against the items it stands for before its status is taken.\<close>

definition native_summary ::
  "(string \<times> result_item list) \<times> native_category \<Rightarrow> (string \<times> category_summary) res" where
  "native_summary pair =
     (case pair of ((category, items), native) \<Rightarrow>
      and_then (run_checks
        [raise_if (nc_observed native \<noteq> int (length items)) (reconciliation_mismatch [category]),
         raise_if (nc_unsupported native \<noteq> int (length (unsupported_values items))) (reconciliation_mismatch [category]),
         raise_if (nc_pass native + nc_fail native + nc_unknown native \<noteq> int (length items))
           (reconciliation_mismatch [category])]) (\<lambda>_.
      Inr (category, summary_of (nc_status native) items)))"

definition native_reconciliation_of ::
  "(result_item list dict \<Rightarrow> native_reconciliation res) \<Rightarrow> result_item list dict
     \<Rightarrow> (category_summary dict \<times> string list \<times> string) res" where
  "native_reconciliation_of projection by_category =
     and_then (projection by_category) (\<lambda>p.
     let ordered = sort_key fst by_category; pairs = zip ordered (nr_categories p) in
     and_then (raise_if (length (nr_categories p) \<noteq> length ordered) (reconciliation_mismatch [])) (\<lambda>_.
     and_then (traverse native_summary pairs) (\<lambda>categories.
     let conflicts = map (fst \<circ> fst) (filter (\<lambda>(c, n). nc_conflict n) pairs) in
     and_then (raise_if (nr_observed p \<noteq> int (sum_list (map (\<lambda>(c, items). length items) ordered))
         \<or> nr_unsupported p \<noteq> int (sum_list (map (\<lambda>(c, items). length (unsupported_values items)) ordered))
         \<or> nr_conflicting p \<noteq> int (length conflicts)) (reconciliation_mismatch [])) (\<lambda>_.
     Inr (categories, conflicts, nr_status p)))))"

record reconciled =
  rc_aggregation :: string
  rc_categories :: "category_summary dict"
  rc_conflicts :: "string list"
  rc_limited :: bool
  rc_blockers :: "string list"

definition reconcile_results ::
  "(result_item list dict \<Rightarrow> native_reconciliation res) option \<Rightarrow> result_item list \<Rightarrow> reconciled res" where
  "reconcile_results native items =
     (let by_category = group_by_category items in
      and_then (case native of
          None \<Rightarrow> Inr (compat_reconciliation by_category)
        | Some projection \<Rightarrow> native_reconciliation_of projection by_category) (\<lambda>(categories, conflicts, aggregate).
      Inr \<lparr>rc_aggregation = aggregate, rc_categories = categories, rc_conflicts = conflicts,
        rc_limited = (aggregate \<noteq> ''PASS''),
        rc_blockers = map fst (filter (\<lambda>p. cs_status (snd p) \<noteq> ''PASS'') categories)\<rparr>))"

section \<open>The order of statuses\<close>

text \<open>The abstract statuses: \<open>FAIL\<close> dominates \<open>UNKNOWN\<close>, which dominates \<open>PASS\<close>.\<close>

datatype assessed = Passed | Undecided | Failed

primrec assessed_rank :: "assessed \<Rightarrow> nat" where
  "assessed_rank Passed = 0"
| "assessed_rank Undecided = 1"
| "assessed_rank Failed = 2"

primrec assessed_text :: "assessed \<Rightarrow> string" where
  "assessed_text Passed = ''PASS''"
| "assessed_text Undecided = ''UNKNOWN''"
| "assessed_text Failed = ''FAIL''"

instantiation assessed :: linorder
begin

definition less_eq_assessed :: "assessed \<Rightarrow> assessed \<Rightarrow> bool" where
  "less_eq_assessed a b \<longleftrightarrow> assessed_rank a \<le> assessed_rank b"

definition less_assessed :: "assessed \<Rightarrow> assessed \<Rightarrow> bool" where
  "less_assessed a b \<longleftrightarrow> assessed_rank a < assessed_rank b"

instance
proof
  fix a b :: assessed
  assume "a \<le> b" "b \<le> a"
  then show "a = b" by (cases a; cases b) (simp_all add: less_eq_assessed_def)
qed (auto simp: less_eq_assessed_def less_assessed_def)

end

text \<open>The worst of the assessments, undecided where there is none.\<close>

definition worst :: "assessed list \<Rightarrow> assessed" where
  "worst as = (case as of [] \<Rightarrow> Undecided | a # rest \<Rightarrow> fold max rest a)"

lemma worst_Max: "as \<noteq> [] \<Longrightarrow> worst as = Max (set as)"
  by (cases as) (simp_all add: worst_def Max.set_eq_fold [symmetric] del: set_simps(2))

lemma order_assessed: "status_order (assessed_text a) = assessed_rank a"
  by (cases a) (simp_all add: status_order_def STATUS_ORDER_def)

lemma assessed_recognised [simp]: "assessed_text a \<in> set STATUSES"
  by (cases a) (simp_all add: STATUSES_def)

lemma assessed_text_inject [simp]: "assessed_text a = assessed_text b \<longleftrightarrow> a = b"
  by (cases a; cases b) simp_all

lemma recognised_assessed:
  assumes "s \<in> set STATUSES"
  obtains a where "s = assessed_text a"
proof -
  from assms have "s = assessed_text Passed \<or> s = assessed_text Failed \<or> s = assessed_text Undecided"
    by (simp add: STATUSES_def)
  with that show thesis by blast
qed

lemma recognised_list:
  assumes "set ss \<subseteq> set STATUSES"
  obtains as where "ss = map assessed_text as"
proof -
  have "\<exists>as. ss = map assessed_text as"
    using assms by (induction ss) (auto elim!: recognised_assessed intro: exI [of _ "_ # _"])
  with that show thesis by blast
qed

lemma max_by_assessed: "max_by status_order (assessed_text a) (map assessed_text as) = assessed_text (fold max as a)"
proof (induction as arbitrary: a)
  case (Cons b as)
  have "(if status_order (assessed_text a) < status_order (assessed_text b) then assessed_text b else assessed_text a)
      = assessed_text (max b a)"
    unfolding order_assessed by (cases a; cases b) (simp_all add: max_def less_eq_assessed_def)
  with Cons show ?case by simp
qed simp

lemma fold_status_worst: "fold_status (map assessed_text as) = assessed_text (worst as)"
proof -
  have "filter (\<lambda>s. s \<in> set STATUSES) (map assessed_text as) = map assessed_text as"
    by (simp add: filter_id_conv)
  then show ?thesis by (cases as) (simp_all add: fold_status_def worst_def max_by_assessed)
qed

lemma fold_status_filter: "fold_status (filter (\<lambda>s. s \<in> set STATUSES) ss) = fold_status ss"
  by (simp add: fold_status_def)

lemma aggregate_status_compat: "aggregate_status None ss = Inr (fold_status ss)"
  by (cases "filter (\<lambda>s. s \<in> set STATUSES) ss") (simp_all add: aggregate_status_def fold_status_def)

lemma worst_iff:
  "worst as = Passed \<longleftrightarrow> as \<noteq> [] \<and> set as \<subseteq> {Passed}"
  "worst as = Failed \<longleftrightarrow> Failed \<in> set as"
proof -
  have fold: "fold max bs a = Passed \<longleftrightarrow> a = Passed \<and> set bs \<subseteq> {Passed}"
    "fold max bs a = Failed \<longleftrightarrow> a = Failed \<or> Failed \<in> set bs" for bs a
  proof (induction bs arbitrary: a)
    case (Cons b bs)
    { case 1 show ?case unfolding fold_simps comp_def Cons(1)
        by (cases a; cases b) (auto simp: max_def less_eq_assessed_def)
    next
      case 2 show ?case unfolding fold_simps comp_def Cons(2)
        by (cases a; cases b) (auto simp: max_def less_eq_assessed_def) }
  qed auto
  show "worst as = Passed \<longleftrightarrow> as \<noteq> [] \<and> set as \<subseteq> {Passed}" "worst as = Failed \<longleftrightarrow> Failed \<in> set as"
    using fold by (cases as; auto simp: worst_def)+
qed

lemma worst_concat:
  assumes "\<forall>as \<in> set ass. as \<noteq> []"
  shows "worst (map worst ass) = worst (concat ass)"
proof -
  have "worst (map worst ass) = Passed \<longleftrightarrow> worst (concat ass) = Passed"
  proof -
    have "set (map worst ass) \<subseteq> {Passed} \<longleftrightarrow> (\<forall>as \<in> set ass. set as \<subseteq> {Passed})"
      using assms worst_iff(1) by auto
    with assms show ?thesis unfolding worst_iff(1) by (cases ass) auto
  qed
  moreover have "worst (map worst ass) = Failed \<longleftrightarrow> worst (concat ass) = Failed"
  proof -
    have "Failed \<in> set (map worst ass) \<longleftrightarrow> (\<exists>as \<in> set ass. worst as = Failed)" by (metis (mono_tags, lifting) imageE image_eqI set_map)
    then show ?thesis unfolding worst_iff(2) [of "map worst ass"] worst_iff(2) [of "concat ass"] by (simp add: worst_iff(2))
  qed
  ultimately show ?thesis by (cases "worst (map worst ass)"; cases "worst (concat ass)") simp_all
qed

section \<open>What reconciliation concludes\<close>

lemma dict_get_group:
  "dict_get (foldl add_to_category d items) c =
     (case dict_get d c of
        Some old \<Rightarrow> Some (old @ filter (\<lambda>i. ri_category i = c) items)
      | None \<Rightarrow> (if c \<in> ri_category ` set items then Some (filter (\<lambda>i. ri_category i = c) items) else None))"
proof (induction items arbitrary: d)
  case (Cons item items)
  show ?case
    unfolding foldl.simps Cons.IH by (auto simp: add_to_category_def filter_empty_conv split: option.splits)
qed (simp split: option.split)

lemma group_by_category_wf: "dict_wf (group_by_category items)"
proof -
  have "dict_wf d \<Longrightarrow> dict_wf (foldl add_to_category d items)" for d
    by (induction items arbitrary: d) (simp_all add: add_to_category_def)
  then show ?thesis by (simp add: group_by_category_def)
qed

lemma group_by_category_member:
  "(c, is) \<in> set (group_by_category items) \<longleftrightarrow>
     c \<in> ri_category ` set items \<and> is = filter (\<lambda>i. ri_category i = c) items"
proof -
  have "dict_get (group_by_category items) c =
      (if c \<in> ri_category ` set items then Some (filter (\<lambda>i. ri_category i = c) items) else None)"
    by (simp add: group_by_category_def dict_get_group)
  with group_by_category_wf [of items] show ?thesis
    by (metis (no_types, lifting) map_of_SomeD map_of_is_SomeI option.distinct(1) option.inject)
qed

lemma fold_status_remdups: "fold_status (remdups ss) = fold_status ss"
proof -
  let ?ok = "\<lambda>ss. filter (\<lambda>s. s \<in> set STATUSES) ss"
  obtain as where as: "?ok ss = map assessed_text as" by (rule recognised_list [of "?ok ss"]) auto
  have "?ok (remdups ss) = remdups (?ok ss)" by (simp add: remdups_filter)
  also have "\<dots> = map assessed_text (remdups as)"
    unfolding as by (induction as) auto
  finally have "fold_status (remdups ss) = assessed_text (worst (remdups as))"
    using fold_status_worst fold_status_filter by metis
  also have "worst (remdups as) = worst as" by (cases "as = []") (simp_all add: worst_Max)
  also have "assessed_text (worst as) = fold_status ss" using as fold_status_worst fold_status_filter by metis
  finally show ?thesis .
qed

lemma fold_status_iff:
  assumes "set ss \<subseteq> set STATUSES"
  shows "fold_status ss = ''PASS'' \<longleftrightarrow> ss \<noteq> [] \<and> set ss \<subseteq> {''PASS''}"
    "fold_status ss = ''FAIL'' \<longleftrightarrow> ''FAIL'' \<in> set ss" "fold_status ss \<in> set STATUSES"
proof -
  obtain as where as: "ss = map assessed_text as" using assms by (rule recognised_list)
  have texts: "assessed_text a = ''PASS'' \<longleftrightarrow> a = Passed" "assessed_text a = ''FAIL'' \<longleftrightarrow> a = Failed" for a
    by (cases a; simp)+
  have "fold_status ss = ''PASS'' \<longleftrightarrow> worst as = Passed" "fold_status ss = ''FAIL'' \<longleftrightarrow> worst as = Failed"
    unfolding as fold_status_worst texts by simp_all
  moreover have "set as \<subseteq> {Passed} \<longleftrightarrow> set ss \<subseteq> {''PASS''}" "Failed \<in> set as \<longleftrightarrow> ''FAIL'' \<in> set ss"
    by (auto simp: as texts texts [THEN eq_iff_swap] image_iff)
  moreover have "as \<noteq> [] \<longleftrightarrow> ss \<noteq> []" by (simp add: as)
  ultimately show "fold_status ss = ''PASS'' \<longleftrightarrow> ss \<noteq> [] \<and> set ss \<subseteq> {''PASS''}"
    "fold_status ss = ''FAIL'' \<longleftrightarrow> ''FAIL'' \<in> set ss"
    unfolding worst_iff by simp_all
  show "fold_status ss \<in> set STATUSES" unfolding as fold_status_worst by simp
qed

lemma image_member: "y \<in> f ` S \<longleftrightarrow> (\<exists>x \<in> S. f x = y)"
  by (auto simp: image_iff)

lemma several_values: "1 < length (remdups (map f xs)) \<longleftrightarrow> (\<exists>x \<in> set xs. \<exists>y \<in> set xs. f x \<noteq> f y)"
proof -
  have "1 < length (remdups (map f xs)) \<longleftrightarrow> \<not> card (f ` set xs) \<le> Suc 0"
    by (simp add: length_remdups_card_conv not_le)
  then show ?thesis by (simp add: card_le_Suc0_iff_eq)
qed

lemma compat_reconciliation_passes:
  assumes "\<forall>item \<in> set items. ri_status item \<in> set STATUSES"
    "compat_reconciliation (group_by_category items) = (categories, conflicts, aggregate)"
  shows "aggregate = ''PASS'' \<longleftrightarrow> items \<noteq> [] \<and> (\<forall>item \<in> set items. ri_status item = ''PASS'')"
    "aggregate = ''FAIL'' \<longleftrightarrow> (\<exists>item \<in> set items. ri_status item = ''FAIL'')"
    "set conflicts = {c. \<exists>i \<in> set items. \<exists>j \<in> set items. ri_category i = c \<and> ri_category j = c \<and> ri_status i \<noteq> ri_status j}"
proof -
  let ?ordered = "sort_key fst (group_by_category items)"
  let ?sts = "\<lambda>is. remdups (map ri_status is)"
  have aggregate: "aggregate = fold_status (map (\<lambda>(c, is). fold_status (map ri_status is)) ?ordered)"
    and conflicts: "conflicts = map fst (filter (\<lambda>(c, is). 1 < length (?sts is)) ?ordered)"
    using assms(2) by (auto simp: compat_reconciliation_def Let_def summary_of_def fold_status_remdups comp_def split_def)
  have statuses: "set (map ri_status is) \<subseteq> set STATUSES" "is \<noteq> []" if "(c, is) \<in> set ?ordered" for c "is"
    using that assms(1) by (auto simp: group_by_category_member filter_empty_conv)
  have recognised: "set (map (\<lambda>(c, is). fold_status (map ri_status is)) ?ordered) \<subseteq> set STATUSES"
    using fold_status_iff(3) [OF statuses(1)] by auto
  have "?ordered \<noteq> [] \<longleftrightarrow> items \<noteq> []"
  proof -
    have "set (map fst (group_by_category items)) = ri_category ` set items"
      by (simp add: set_eq_iff image_iff Bex_def split_paired_Ex group_by_category_member)
    then have "group_by_category items = [] \<longleftrightarrow> items = []"
      by (metis set_empty image_is_empty map_is_Nil_conv)
    then show ?thesis by (metis length_0_conv length_sort)
  qed
  moreover have "(\<forall>p \<in> set ?ordered. fold_status (map ri_status (snd p)) = ''PASS'') \<longleftrightarrow> (\<forall>item \<in> set items. ri_status item = ''PASS'')"
  proof -
    have "fold_status (map ri_status is) = ''PASS'' \<longleftrightarrow> (\<forall>i \<in> set is. ri_status i = ''PASS'')" if "(c, is) \<in> set ?ordered" for c "is"
      using fold_status_iff(1) [OF statuses(1) [OF that]] statuses(2) [OF that] by auto
    then show ?thesis by (auto simp: Ball_def split_paired_All group_by_category_member)
  qed
  ultimately show "aggregate = ''PASS'' \<longleftrightarrow> items \<noteq> [] \<and> (\<forall>item \<in> set items. ri_status item = ''PASS'')"
    unfolding aggregate fold_status_iff(1) [OF recognised] by (auto simp: split_def image_subset_iff)
  have "fold_status (map ri_status is) = ''FAIL'' \<longleftrightarrow> (\<exists>i \<in> set is. ri_status i = ''FAIL'')" if "(c, is) \<in> set ?ordered" for c "is"
    using fold_status_iff(2) [OF statuses(1) [OF that]] by (simp add: image_member)
  then have "(\<exists>p \<in> set ?ordered. fold_status (map ri_status (snd p)) = ''FAIL'') \<longleftrightarrow> (\<exists>item \<in> set items. ri_status item = ''FAIL'')"
    by (auto simp: Bex_def split_paired_Ex group_by_category_member)
  then show "aggregate = ''FAIL'' \<longleftrightarrow> (\<exists>item \<in> set items. ri_status item = ''FAIL'')"
    unfolding aggregate fold_status_iff(2) [OF recognised] by (simp add: split_def image_member)
  have conflict: "1 < length (?sts (filter P items)) \<longleftrightarrow>
      (\<exists>i \<in> set items. \<exists>j \<in> set items. P i \<and> P j \<and> ri_status i \<noteq> ri_status j)" for P
    using several_values [of ri_status "filter P items"] by auto
  have "c \<in> set conflicts \<longleftrightarrow> c \<in> ri_category ` set items \<and> 1 < length (?sts (filter (\<lambda>i. ri_category i = c) items))" for c
    unfolding conflicts by (simp add: image_iff [of c fst] Bex_def split_paired_Ex group_by_category_member) blast
  then have "c \<in> set conflicts \<longleftrightarrow>
      (\<exists>i \<in> set items. \<exists>j \<in> set items. ri_category i = c \<and> ri_category j = c \<and> ri_status i \<noteq> ri_status j)" for c
    unfolding conflict by blast
  then show "set conflicts = {c. \<exists>i \<in> set items. \<exists>j \<in> set items. ri_category i = c \<and> ri_category j = c \<and> ri_status i \<noteq> ri_status j}"
    by blast
qed

section \<open>Promotion\<close>

lemma promotion_disposition:
  assumes "claim_statuses native records = Inr statuses"
  shows "dict_get statuses ''promotion_disposition'' = Some ''NOT_PROMOTABLE''"
    "dict_get statuses ''operator_controlled_reproduction'' = Some ''UNKNOWN''"
proof -
  from assms obtain base where st: "statuses = dict_set ''promotion_disposition''
      (if list_all (\<lambda>p. snd p = ''PASS'') (dict_set ''operator_controlled_reproduction'' ''UNKNOWN'' base)
       then ''REVIEW_REQUIRED'' else ''NOT_PROMOTABLE'') (dict_set ''operator_controlled_reproduction'' ''UNKNOWN'' base)"
    by (auto simp: claim_statuses_def Let_def res_simps)
  have "dict_get (dict_set ''operator_controlled_reproduction'' ''UNKNOWN'' base) ''operator_controlled_reproduction'' = Some ''UNKNOWN''"
    by simp
  then have "(''operator_controlled_reproduction'', ''UNKNOWN'') \<in> set (dict_set ''operator_controlled_reproduction'' ''UNKNOWN'' base)"
    by (rule map_of_SomeD)
  then have "\<not> list_all (\<lambda>p. snd p = ''PASS'') (dict_set ''operator_controlled_reproduction'' ''UNKNOWN'' base)"
    by (force simp: list_all_iff)
  then show "dict_get statuses ''promotion_disposition'' = Some ''NOT_PROMOTABLE''"
    "dict_get statuses ''operator_controlled_reproduction'' = Some ''UNKNOWN''"
    unfolding st by simp_all
qed

end
