(* ===== verification/LifecycleContext.thy ===== *)
theory LifecycleContext
  imports Authorization RecordStore StatusAggregation
begin

text \<open>
  \<open>application/lifecycle.py\<close> and the ports it is written against (\<open>ports.py\<close>): one machine over the
  verified history of the store and the current observations. What a \<open>ProjectObserver\<close> sees during a
  call is a parameter, as is the configuration; the machine kept from an earlier call is not modelled.
\<close>

section \<open>What a service observes\<close>

record observation =
  ob_policy :: "(string \<times> string list \<times> string option) res"
  ob_envelopes :: "(string list dict \<times> string dict \<times> string dict) res"
  ob_candidate :: "string res"
  ob_authority :: "string dict res"
  ob_freeze_bindings :: "string \<Rightarrow> forge_record option \<Rightarrow> string dict res"
  ob_content :: "string list \<Rightarrow> string res"
  ob_identities :: "string list \<Rightarrow> string dict res"
  ob_changed_files :: "string list \<Rightarrow> string dict res"
  ob_candidate_paths :: "string list res"
  ob_authority_paths :: "string list res"

record forge_config =
  cf_paths :: "string \<Rightarrow> string list"
  cf_declared_paths :: "string \<Rightarrow> string list"
  cf_policy :: "string \<Rightarrow> string"
  cf_resolve :: "string \<Rightarrow> string res"
  cf_read_plan :: "string \<Rightarrow> json option"

record lifecycle_context =
  lc_env :: storage_env
  lc_mode :: string
  lc_native :: "native_adapter option"
  lc_status_aggregate :: "(string list \<Rightarrow> string res) option"

record machine_view =
  mv_authority :: bool
  mv_freeze_bindings :: bool
  mv_policy :: bool
  mv_kinds :: "string list option"

definition full_view :: machine_view where
  "full_view = \<lparr>mv_authority = True, mv_freeze_bindings = True, mv_policy = True, mv_kinds = None\<rparr>"

section \<open>The machine of a call\<close>

definition current_freeze :: "ledger_entry list \<Rightarrow> forge_record option" where
  "current_freeze history = map_option le_payload (List.find (\<lambda>e. le_kind e = ''freeze'') (rev history))"

definition machine_inputs ::
  "lifecycle_context \<Rightarrow> observation \<Rightarrow> machine_view \<Rightarrow> store \<Rightarrow> machine_input res"
where
  "machine_inputs ctx obs view s =
     and_then (if mv_policy view then ob_policy obs else Inr ([], [], None)) (\<lambda>(policy_identity, required, policy_error).
     and_then (if mv_policy view then ob_envelopes obs else Inr ([], [], [])) (\<lambda>(keys, environments, policies).
     and_then (ob_candidate obs) (\<lambda>candidate.
     and_then (case mv_kinds view of
         Some kinds \<Rightarrow> ledger_records_for (lc_env ctx) s kinds
       | None \<Rightarrow> ledger_records (lc_env ctx) s None) (\<lambda>history.
     and_then (if mv_authority view then ob_authority obs else Inr []) (\<lambda>authorities.
     and_then (if mv_freeze_bindings view then ob_freeze_bindings obs candidate (current_freeze history) else Inr [])
       (\<lambda>bindings.
     Inr \<lparr>mi_sha = env_sha (lc_env ctx), mi_mode = lc_mode ctx, mi_history = history,
       mi_current_candidate = candidate, mi_current_authority = authorities, mi_freeze_bindings = bindings,
       mi_policy_identity = policy_identity, mi_required = required, mi_policy_error = policy_error,
       mi_freshness = [], mi_comparability = [], mi_environment_keys = keys,
       mi_environment_identities = environments, mi_policy_identities = policies,
       mi_native = lc_native ctx\<rparr>))))))"

definition lifecycle_machine ::
  "lifecycle_context \<Rightarrow> observation \<Rightarrow> machine_view \<Rightarrow> store \<Rightarrow> machine res"
where
  "lifecycle_machine ctx obs view s = and_then (machine_inputs ctx obs view s) make_machine"

text \<open>\<open>record_by_id\<close> and \<open>result_records\<close>: records of one kind, read from the store.\<close>

definition record_by_id :: "storage_env \<Rightarrow> store \<Rightarrow> string \<Rightarrow> string \<Rightarrow> string \<Rightarrow> forge_record res" where
  "record_by_id env s kind identity key =
     and_then (ledger_records env s (Some kind)) (\<lambda>entries.
     case List.find (\<lambda>e. feq (rec_value (le_payload e) key) (FStr identity)) (rev entries) of
       Some e \<Rightarrow> Inr (le_payload e)
     | None \<Rightarrow> Inl (ForgeError ''RECORD_NOT_FOUND'' [kind, identity]))"

definition result_records :: "storage_env \<Rightarrow> store \<Rightarrow> string option \<Rightarrow> forge_record list res" where
  "result_records env s candidate_id =
     and_then (ledger_records env s (Some ''result'')) (\<lambda>entries.
     Inr (filter (\<lambda>r. \<forall>c \<in> set_option candidate_id. feq (rec_value r ''candidate_identity'') (FStr c))
       (map le_payload entries)))"

text \<open>\<open>record[key]\<close> of a record, with Python's \<open>KeyError\<close>, and \<open>str(..)\<close> of it.\<close>

definition rec_item :: "forge_record \<Rightarrow> string \<Rightarrow> fjson res" where
  "rec_item r key = (case rec_get r key of None \<Rightarrow> Inl (PyKeyError key) | Some v \<Rightarrow> Inr v)"

definition verify_freeze :: "lifecycle_context \<Rightarrow> observation \<Rightarrow> forge_record \<Rightarrow> store \<Rightarrow> unit res" where
  "verify_freeze ctx obs freeze s =
     and_then (lifecycle_machine ctx obs (full_view\<lparr>mv_authority := False\<rparr>) s) (\<lambda>m.
     and_then (authorize_evaluator_entry m None) (\<lambda>(current, candidate).
     and_then (rec_item current ''freeze_id'') (\<lambda>current_id.
     raise_if (\<not> feq current_id (rec_value freeze ''freeze_id'')) (ForgeError ''FREEZE_SUPERSEDED'' []))))"

section \<open>Facts\<close>

lemma machine_inputs_Inr:
  assumes "machine_inputs ctx obs view s = Inr inp" "mv_kinds view = None"
  shows "ledger_records (lc_env ctx) s None = Inr (mi_history inp)" "mi_native inp = lc_native ctx"
    "mi_mode inp = lc_mode ctx"
  using assms by (auto simp: machine_inputs_def and_then_Inr_iff)

lemma lifecycle_machine_Inr:
  assumes "lifecycle_machine ctx obs view s = Inr m"
  obtains inp where "machine_inputs ctx obs view s = Inr inp" "make_machine inp = Inr m"
  using assms by (auto simp: lifecycle_machine_def and_then_Inr_iff)

end
