(* ===== verification/RightsProvenance.thy ===== *)
theory RightsProvenance
  imports LifecycleContext
begin

text \<open>
  \<open>application/rights_provenance.py\<close>: the assessment of a rights manifest and the policy that may block a
  selection. The JSON Schema validator and the manifest file are parameters; the prose of a blocker is
  replaced by a code and its data.
\<close>

section \<open>The policy\<close>

record rights_config =
  rg_mode :: string
  rg_manifest :: "string option"
  rg_resolve :: "string \<Rightarrow> string res"
  rg_read :: "string \<Rightarrow> json option option"
  rg_schema_errors :: "string \<Rightarrow> obj \<Rightarrow> string list"
  rg_project :: string

definition RIGHTS_MODES :: "string list" where
  "RIGHTS_MODES = [''observe'', ''advisory'', ''enforced'']"

definition SUPPORTED_MANIFEST_VERSIONS :: "string list" where
  "SUPPORTED_MANIFEST_VERSIONS = [''0.2.0'', ''0.1.0'']"

definition RIGHTS_SCHEMA_VERSION :: string where
  "RIGHTS_SCHEMA_VERSION = ''0.2.0''"

definition rights_policy :: "rights_config \<Rightarrow> (string \<times> string option) res" where
  "rights_policy cfg =
     and_then (raise_if (rg_mode cfg \<notin> set RIGHTS_MODES) (ForgeError ''CONFIG_INVALID'' [rg_mode cfg])) (\<lambda>_.
     case rg_manifest cfg of
       None \<Rightarrow> Inr (rg_mode cfg, None)
     | Some declared \<Rightarrow> and_then (rg_resolve cfg declared) (\<lambda>path. Inr (rg_mode cfg, Some path)))"

record policy_projection =
  pp_blocking :: bool
  pp_disposition :: string
  pp_review_required :: bool

definition project_policy :: "string \<Rightarrow> string \<Rightarrow> policy_projection" where
  "project_policy mode evidence =
     (let incomplete = (evidence \<noteq> ''PASS'') in
      if mode = ''observe''
      then \<lparr>pp_blocking = False, pp_disposition = ''OBSERVED'', pp_review_required = incomplete\<rparr>
      else if mode = ''advisory''
      then \<lparr>pp_blocking = False,
        pp_disposition = (if incomplete then ''REVIEW_REQUIRED'' else ''NO_ADVISORY''), pp_review_required = incomplete\<rparr>
      else \<lparr>pp_blocking = incomplete,
        pp_disposition = (if incomplete then ''BLOCKED_BY_RIGHTS_PROVENANCE_POLICY''
          else ''RIGHTS_PROVENANCE_EVIDENCE_COMPLETE''), pp_review_required = incomplete\<rparr>)"

section \<open>Assessing a manifest\<close>

definition review_status :: "json \<Rightarrow> string list \<Rightarrow> string list \<Rightarrow> string res" where
  "review_status v passed failed =
     and_then (in_texts v passed) (\<lambda>p.
     if p then Inr ''PASS''
     else and_then (in_texts v failed) (\<lambda>f. Inr (if f then ''FAIL'' else ''UNKNOWN'')))"

text \<open>What one licensed source adds to the statuses and the blockers.\<close>

definition source_license :: "json \<Rightarrow> (string \<times> blocker) list" where
  "source_license source =
     (case source of
        JObj d \<Rightarrow>
          if obj_get d ''license_status'' = JStr ''incompatible'' then [(''FAIL'', blocker ''LICENSE_INCOMPATIBLE'' [])]
          else if obj_get d ''license_status'' = JStr ''unknown'' then [(''UNKNOWN'', blocker ''LICENSE_UNKNOWN'' [])]
          else []
      | _ \<Rightarrow> [])"

definition rights_findings :: "obj \<Rightarrow> (string \<times> blocker) list res" where
  "rights_findings rights =
     and_then (in_texts (obj_get rights ''third_party_material'') [''possible'', ''unknown'']) (\<lambda>third_party.
     Inr ((if obj_get rights ''rights_basis'' = JStr ''unknown-needs-review''
           then [(''UNKNOWN'', blocker ''RIGHTS_BASIS_UNKNOWN'' [])] else [])
       @ (if third_party then [(''UNKNOWN'', blocker ''THIRD_PARTY_MATERIAL'' [])] else [])
       @ (case obj_get rights ''sources'' of JArr sources \<Rightarrow> concat (map source_license sources) | _ \<Rightarrow> [])))"

definition rights_basis_status ::
  "(string list \<Rightarrow> string res) option \<Rightarrow> obj \<Rightarrow> (string \<times> blocker list) res"
where
  "rights_basis_status native rights =
     and_then (rights_findings rights) (\<lambda>found.
     and_then (aggregate_status native (''PASS'' # map fst found)) (\<lambda>status.
     Inr (status, map snd found)))"

definition validation_errors :: "rights_config \<Rightarrow> obj \<Rightarrow> string list" where
  "validation_errors cfg manifest =
     (case obj_get manifest ''schema_version'' of
        JStr v \<Rightarrow> if v \<in> set SUPPORTED_MANIFEST_VERSIONS then take 20 (rg_schema_errors cfg v manifest)
          else [''RIGHTS_MANIFEST_UNSUPPORTED'']
      | _ \<Rightarrow> [''RIGHTS_MANIFEST_UNSUPPORTED''])"

record assessment =
  as_candidate :: "string option"
  as_mode :: string
  as_evidence :: string
  as_contract :: string
  as_provenance :: string
  as_rights :: string
  as_review :: string
  as_technical :: string
  as_blockers :: "blocker list"
  as_policy :: policy_projection

definition artifact_mismatch :: "obj \<Rightarrow> string option \<Rightarrow> bool" where
  "artifact_mismatch manifest candidate =
     (case (candidate, obj_get manifest ''artifact'') of
        (Some c, JObj artifact) \<Rightarrow> obj_get artifact ''id'' \<noteq> JStr c
      | _ \<Rightarrow> False)"

definition review_statuses :: "obj \<Rightarrow> (string \<times> string) res" where
  "review_statuses manifest =
     (case obj_get manifest ''review'' of
        JObj review \<Rightarrow>
          and_then (review_status (obj_get review ''provenance_validation'') [''passed''] [''failed'']) (\<lambda>provenance.
          and_then (review_status (obj_get review ''human_acceptance'') [''accepted'', ''not-required''] [''rejected'']) (\<lambda>human.
          Inr (provenance, human)))
      | _ \<Rightarrow> Inr (''UNKNOWN'', ''UNKNOWN''))"

definition status_blocker :: "string \<Rightarrow> string \<Rightarrow> blocker list" where
  "status_blocker code status = (if status = ''PASS'' then [] else [blocker code [status]])"

definition technical_status :: "lifecycle_context \<Rightarrow> string option \<Rightarrow> store \<Rightarrow> string res" where
  "technical_status ctx candidate s =
     (case candidate of
        None \<Rightarrow> Inr ''UNKNOWN''
      | Some c \<Rightarrow> and_then (result_records (lc_env ctx) s (Some c)) (\<lambda>rs.
          aggregate_status (lc_status_aggregate ctx) (map (\<lambda>r. rec_str r ''status'') rs)))"

text \<open>The statuses of the manifest: contract, provenance, rights and review, with their blockers.\<close>

definition manifest_statuses ::
  "(string list \<Rightarrow> string res) option \<Rightarrow> rights_config \<Rightarrow> obj \<Rightarrow> string option
     \<Rightarrow> (string \<times> string \<times> string \<times> string \<times> blocker list) res"
where
  "manifest_statuses native cfg manifest candidate =
     (let errors = validation_errors cfg manifest in
      if errors \<noteq> [] then Inr (''FAIL'', ''UNKNOWN'', ''UNKNOWN'', ''UNKNOWN'', map (\<lambda>e. blocker ''MANIFEST'' [e]) errors)
      else
        (let mismatch = artifact_mismatch manifest candidate in
         and_then (review_statuses manifest) (\<lambda>(provenance, human).
         let blockers = (if mismatch then [blocker ''ARTIFACT_MISMATCH'' []] else [])
           @ (if is_obj (obj_get manifest ''review'')
              then status_blocker ''PROVENANCE'' provenance @ status_blocker ''HUMAN_REVIEW'' human else []) in
         and_then (case obj_get manifest ''rights'' of
             JObj rights \<Rightarrow> rights_basis_status native rights
           | _ \<Rightarrow> Inr (''UNKNOWN'', [])) (\<lambda>(rights, found).
         Inr (if mismatch then ''FAIL'' else ''PASS'', provenance, rights, human, blockers @ found)))))"

definition assess_manifest ::
  "lifecycle_context \<Rightarrow> rights_config \<Rightarrow> obj \<Rightarrow> string option \<Rightarrow> string \<Rightarrow> store \<Rightarrow> assessment res"
where
  "assess_manifest ctx cfg manifest candidate mode s =
     and_then (rights_policy cfg) (\<lambda>_.
     and_then (raise_if (mode \<notin> set RIGHTS_MODES) (ForgeError ''RIGHTS_POLICY_MODE'' [mode])) (\<lambda>_.
     and_then (manifest_statuses (lc_status_aggregate ctx) cfg manifest candidate)
       (\<lambda>(contract, provenance, rights, human, blockers).
     and_then (aggregate_status (lc_status_aggregate ctx) [contract, provenance, rights, human]) (\<lambda>evidence.
     and_then (technical_status ctx candidate s) (\<lambda>technical.
     Inr \<lparr>as_candidate = candidate, as_mode = mode, as_evidence = evidence, as_contract = contract,
       as_provenance = provenance, as_rights = rights, as_review = human, as_technical = technical,
       as_blockers = blockers, as_policy = project_policy mode evidence\<rparr>)))))"

section \<open>Drafts\<close>

text \<open>\<open>_candidate_identity\<close>: the candidate given, or the one of the current history.\<close>

definition bare_view :: machine_view where
  "bare_view = \<lparr>mv_authority = False, mv_freeze_bindings = False, mv_policy = False, mv_kinds = None\<rparr>"

definition candidate_identity ::
  "lifecycle_context \<Rightarrow> observation \<Rightarrow> string option \<Rightarrow> store \<Rightarrow> string option res"
where
  "candidate_identity ctx obs given s =
     (case given of
        Some c \<Rightarrow> Inr (Some c)
      | None \<Rightarrow> and_then (lifecycle_machine ctx obs bare_view s) (\<lambda>m.
          Inr (case pr_candidate (ma_projection m) of
              None \<Rightarrow> None
            | Some c \<Rightarrow> (case rec_value c ''candidate_id'' of FNull \<Rightarrow> None | v \<Rightarrow> Some (py_str v)))))"

definition first_text :: "forge_record \<Rightarrow> string option" where
  "first_text r =
     (let receipt = rec_value r ''receipt_identity'';
          reference = (if truthy receipt then receipt else rec_value r ''binding_id'') in
      case reference of FStr t \<Rightarrow> (if t = [] then None else Some t) | _ \<Rightarrow> None)"

definition receipt_evidence :: "storage_env \<Rightarrow> string option \<Rightarrow> store \<Rightarrow> json list res" where
  "receipt_evidence env candidate s =
     (case candidate of
        None \<Rightarrow> Inr []
      | Some c \<Rightarrow> and_then (ledger_records env s (Some ''execution_receipt_binding'')) (\<lambda>entries.
          Inr (map (\<lambda>t. JObj [(''kind'', JStr ''fabric-receipt''), (''reference'', JStr t)])
            (fromkeys (List.map_filter first_text
              (filter (\<lambda>r. feq (rec_value r ''candidate_identity'') (FStr c)) (map le_payload entries)))))))"

text \<open>The participants and the changed paths of the candidate's record, where one is found.\<close>

definition draft_subject :: "storage_env \<Rightarrow> string option \<Rightarrow> store \<Rightarrow> (json list \<times> json list) res" where
  "draft_subject env candidate s =
     (case candidate of
        None \<Rightarrow> Inr ([], [])
      | Some c \<Rightarrow>
          (case record_by_id env s ''candidate'' c ''candidate_id'' of
             Inl (ForgeError code data) \<Rightarrow> Inr ([], [])
           | Inl e \<Rightarrow> Inl e
           | Inr r \<Rightarrow> Inr
               (case rec_value r ''generator_identity'' of
                  FStr g \<Rightarrow> if g = [] then []
                    else [JObj [(''type'', JStr ''agent''), (''role'', JStr ''generator''), (''name'', JStr g)]]
                | _ \<Rightarrow> [],
                case rec_value r ''changed_files'' of FTuple vs \<Rightarrow> map (\<lambda>v. JStr (py_str v)) vs | _ \<Rightarrow> [])))"

definition declared_technical :: "string \<Rightarrow> string" where
  "declared_technical technical =
     (if technical = ''PASS'' then ''passed'' else if technical = ''FAIL'' then ''failed'' else ''not-run'')"

definition draft_manifest ::
  "lifecycle_context \<Rightarrow> rights_config \<Rightarrow> string option \<Rightarrow> store \<Rightarrow> obj res"
where
  "draft_manifest ctx cfg candidate s =
     and_then (draft_subject (lc_env ctx) candidate s) (\<lambda>(participants, paths).
     and_then (technical_status ctx candidate s) (\<lambda>technical.
     and_then (receipt_evidence (lc_env ctx) candidate s) (\<lambda>receipts.
     Inr [(''schema_version'', JStr RIGHTS_SCHEMA_VERSION),
       (''spec_profile'', JStr ''development''),
       (''artifact'', JObj
         [(''id'', JStr (case candidate of Some (c # cs) \<Rightarrow> c # cs | _ \<Rightarrow> ''project:'' @ rg_project cfg)),
          (''class'', JStr ''source-code''), (''paths'', JArr paths)]),
       (''provenance'', JObj
         [(''origin_classification'', JStr ''origin-uncertain''), (''participants'', JArr participants),
          (''process_evidence'', JArr receipts),
          (''notes'', JStr ''Forge-derived draft: unknown fields remain explicit until supplied evidence resolves them.'')]),
       (''rights'', JObj
         [(''distribution_license'', JStr ''Apache-2.0''), (''copyright_status'', JStr ''unresolved''),
          (''rights_basis'', JStr ''unknown-needs-review''), (''third_party_material'', JStr ''unknown''),
          (''sources'', JArr []),
          (''notes'', JStr ''No legal conclusion is inferred from candidate or execution provenance.'')]),
       (''review'', JObj
         [(''technical_validation'', JStr (declared_technical technical)),
          (''provenance_validation'', JStr ''not-run''), (''human_acceptance'', JStr ''not-reviewed'')])])))"

section \<open>Enforcement\<close>

text \<open>A configured manifest is absent, unreadable, or read.\<close>

definition load_configured_manifest :: "rights_config \<Rightarrow> string \<Rightarrow> obj res" where
  "load_configured_manifest cfg path =
     (case rg_read cfg path of
        None \<Rightarrow> Inl (ForgeError ''RIGHTS_MANIFEST_MISSING'' [path])
      | Some (Some (JObj d)) \<Rightarrow> Inr d
      | Some unreadable \<Rightarrow> Inl (ForgeError ''RIGHTS_MANIFEST_INVALID'' []))"

definition rights_provenance_status ::
  "lifecycle_context \<Rightarrow> rights_config \<Rightarrow> observation \<Rightarrow> string option \<Rightarrow> store \<Rightarrow> assessment res"
where
  "rights_provenance_status ctx cfg obs given s =
     and_then (rights_policy cfg) (\<lambda>(mode, path).
     and_then (candidate_identity ctx obs given s) (\<lambda>candidate.
     and_then (case path of
         None \<Rightarrow> draft_manifest ctx cfg candidate s
       | Some p \<Rightarrow>
           (case load_configured_manifest cfg p of
              Inl (ForgeError code data) \<Rightarrow> draft_manifest ctx cfg candidate s
            | Inl e \<Rightarrow> Inl e
            | Inr manifest \<Rightarrow> Inr manifest)) (\<lambda>manifest.
     assess_manifest ctx cfg manifest candidate mode s)))"

definition enforce_rights_provenance_selection ::
  "lifecycle_context \<Rightarrow> rights_config \<Rightarrow> observation \<Rightarrow> string \<Rightarrow> store \<Rightarrow> assessment res"
where
  "enforce_rights_provenance_selection ctx cfg obs candidate s =
     and_then (rights_provenance_status ctx cfg obs (Some candidate) s) (\<lambda>result.
     and_then (raise_if (pp_blocking (as_policy result)) (ForgeError ''RIGHTS_PROVENANCE_BLOCKED'' [])) (\<lambda>_.
     Inr result))"

section \<open>What an enforced policy lets pass\<close>

lemma passing_status:
  assumes "fold_status ss = ''PASS''" "s \<in> set ss" "s \<in> set STATUSES"
  shows "s = ''PASS''"
proof -
  let ?ok = "filter (\<lambda>s. s \<in> set STATUSES) ss"
  have "fold_status ?ok = ''PASS''" using assms(1) by (simp add: fold_status_filter)
  then have "set ?ok \<subseteq> {''PASS''}" by (subst (asm) fold_status_iff) auto
  with assms(2,3) show ?thesis by auto
qed

lemma status_texts [simp]: "''PASS'' \<in> set STATUSES" "''FAIL'' \<in> set STATUSES" "''UNKNOWN'' \<in> set STATUSES"
  by (simp_all add: STATUSES_def)

lemma fold_status_recognised: "fold_status ss \<in> set STATUSES"
proof -
  have "fold_status (filter (\<lambda>s. s \<in> set STATUSES) ss) \<in> set STATUSES" by (rule fold_status_iff(3)) auto
  then show ?thesis by (simp add: fold_status_filter)
qed

lemma review_status_recognised: "review_status v passed failed = Inr s \<Longrightarrow> s \<in> set STATUSES"
  by (auto simp: review_status_def and_then_Inr_iff split: if_splits)

lemma review_status_PASS: "review_status v passed failed = Inr ''PASS'' \<longleftrightarrow> (\<exists>t \<in> set passed. v = JStr t)"
  by (cases v) (auto simp: review_status_def in_texts_def and_then_Inr_iff)

text \<open>Rights evidence that leaves nothing open.\<close>

definition source_cleared :: "json \<Rightarrow> bool" where
  "source_cleared source \<longleftrightarrow>
     (case source of
        JObj d \<Rightarrow> obj_get d ''license_status'' \<notin> {JStr ''incompatible'', JStr ''unknown''}
      | _ \<Rightarrow> True)"

definition rights_cleared :: "obj \<Rightarrow> bool" where
  "rights_cleared rights \<longleftrightarrow>
     obj_get rights ''rights_basis'' \<noteq> JStr ''unknown-needs-review''
     \<and> obj_get rights ''third_party_material'' \<notin> {JStr ''possible'', JStr ''unknown''}
     \<and> (\<forall>sources. obj_get rights ''sources'' = JArr sources \<longrightarrow> (\<forall>source \<in> set sources. source_cleared source))"

definition manifest_cleared :: "rights_config \<Rightarrow> string \<Rightarrow> obj \<Rightarrow> bool" where
  "manifest_cleared cfg candidate manifest \<longleftrightarrow>
     (\<exists>v \<in> set SUPPORTED_MANIFEST_VERSIONS. obj_get manifest ''schema_version'' = JStr v
        \<and> rg_schema_errors cfg v manifest = [])
     \<and> (\<forall>artifact. obj_get manifest ''artifact'' = JObj artifact \<longrightarrow> obj_get artifact ''id'' = JStr candidate)
     \<and> (\<exists>review rights. obj_get manifest ''review'' = JObj review \<and> obj_get manifest ''rights'' = JObj rights
        \<and> obj_get review ''provenance_validation'' = JStr ''passed''
        \<and> obj_get review ''human_acceptance'' \<in> {JStr ''accepted'', JStr ''not-required''}
        \<and> rights_cleared rights)"

lemma source_license_cleared: "source_license source = [] \<longleftrightarrow> source_cleared source"
  by (cases source) (auto simp: source_license_def source_cleared_def)

lemma source_license_statuses: "set (map fst (source_license source)) \<subseteq> {''FAIL'', ''UNKNOWN''}"
  by (cases source) (auto simp: source_license_def)

lemma rights_findings_cleared:
  assumes "rights_findings rights = Inr found"
  shows "set (map fst found) \<subseteq> {''FAIL'', ''UNKNOWN''}" "found = [] \<Longrightarrow> rights_cleared rights"
proof -
  from assms obtain third where t: "in_texts (obj_get rights ''third_party_material'') [''possible'', ''unknown''] = Inr third"
    and found: "found = (if obj_get rights ''rights_basis'' = JStr ''unknown-needs-review''
           then [(''UNKNOWN'', blocker ''RIGHTS_BASIS_UNKNOWN'' [])] else [])
       @ (if third then [(''UNKNOWN'', blocker ''THIRD_PARTY_MATERIAL'' [])] else [])
       @ (case obj_get rights ''sources'' of JArr sources \<Rightarrow> concat (map source_license sources) | _ \<Rightarrow> [])"
    by (auto simp: rights_findings_def and_then_Inr_iff)
  show "set (map fst found) \<subseteq> {''FAIL'', ''UNKNOWN''}"
    unfolding found using source_license_statuses by (fastforce split: json.splits)
  have "third \<longleftrightarrow> obj_get rights ''third_party_material'' \<in> {JStr ''possible'', JStr ''unknown''}"
    using t by (cases "obj_get rights ''third_party_material''") (auto simp: in_texts_def)
  then show "found = [] \<Longrightarrow> rights_cleared rights"
    unfolding found rights_cleared_def by (auto simp: source_license_cleared split: if_splits)
qed

lemma rights_basis_PASS:
  assumes "rights_basis_status None rights = Inr (''PASS'', bs)"
  shows "rights_cleared rights"
proof -
  from assms obtain found where found: "rights_findings rights = Inr found"
    and pass: "fold_status (''PASS'' # map fst found) = ''PASS''"
    by (auto simp: rights_basis_status_def aggregate_status_compat and_then_Inr_iff)
  note f = rights_findings_cleared [OF found]
  have "False" if x: "x \<in> set (map fst found)" for x
  proof -
    from f(1) x have "x \<in> {''FAIL'', ''UNKNOWN''}" by (rule subsetD)
    moreover from this have "x \<in> set STATUSES" by (elim insertE emptyE) (simp_all only: status_texts)
    then have "x = ''PASS''" using x by (intro passing_status [OF pass]) (simp_all del: set_map)
    ultimately show False by simp
  qed
  then have "found = []" by (cases found) auto
  with f(2) show ?thesis by simp
qed

lemma manifest_statuses_recognised:
  assumes "manifest_statuses None cfg manifest candidate = Inr (contract, provenance, rights, human, bs)"
  shows "{contract, provenance, rights, human} \<subseteq> set STATUSES"
  using assms
  by (auto simp: manifest_statuses_def review_statuses_def rights_basis_status_def aggregate_status_compat
      Let_def and_then_Inr_iff review_status_recognised fold_status_recognised split: if_splits json.splits)

lemma manifest_statuses_PASS:
  assumes "manifest_statuses None cfg manifest (Some candidate) = Inr (''PASS'', ''PASS'', ''PASS'', ''PASS'', bs)"
  shows "manifest_cleared cfg candidate manifest"
proof -
  have errors: "validation_errors cfg manifest = []"
  proof (rule ccontr)
    assume "validation_errors cfg manifest \<noteq> []"
    with assms show False by (simp add: manifest_statuses_def)
  qed
  then obtain provenance human rights found where review: "review_statuses manifest = Inr (provenance, human)"
    and rights: "(case obj_get manifest ''rights'' of JObj rights \<Rightarrow> rights_basis_status None rights
        | _ \<Rightarrow> Inr (''UNKNOWN'', [])) = Inr (rights, found)"
    and "(if artifact_mismatch manifest (Some candidate) then ''FAIL'' else ''PASS'') = ''PASS''"
      "provenance = ''PASS''" "human = ''PASS''" "rights = ''PASS''"
    using assms by (auto simp: manifest_statuses_def Let_def and_then_Inr_iff simp del: split_paired_Ex)
  then have review: "review_statuses manifest = Inr (''PASS'', ''PASS'')"
    and mismatch: "\<not> artifact_mismatch manifest (Some candidate)"
    by (simp_all split: if_splits)
  have rights: "\<exists>rights. obj_get manifest ''rights'' = JObj rights \<and> rights_basis_status None rights = Inr (''PASS'', found)"
    using rights \<open>rights = ''PASS''\<close> by (cases "obj_get manifest ''rights''") simp_all
  from review obtain review where "obj_get manifest ''review'' = JObj review"
    "obj_get review ''provenance_validation'' = JStr ''passed''"
    "obj_get review ''human_acceptance'' \<in> {JStr ''accepted'', JStr ''not-required''}"
    by (cases "obj_get manifest ''review''") (auto simp: review_statuses_def and_then_Inr_iff review_status_PASS)
  moreover from rights obtain rights where "obj_get manifest ''rights'' = JObj rights" "rights_cleared rights"
    using rights_basis_PASS by blast
  moreover from errors have "\<exists>v \<in> set SUPPORTED_MANIFEST_VERSIONS. obj_get manifest ''schema_version'' = JStr v
      \<and> rg_schema_errors cfg v manifest = []"
    by (cases "obj_get manifest ''schema_version''") (auto simp: validation_errors_def split: if_splits)
  ultimately show ?thesis
    using mismatch by (auto simp: manifest_cleared_def artifact_mismatch_def)
qed

lemma draft_not_cleared:
  assumes "draft_manifest ctx cfg candidate s = Inr manifest"
  shows "\<not> manifest_cleared cfg c manifest"
  using assms by (auto simp: draft_manifest_def and_then_Inr_iff manifest_cleared_def obj_get_def)

lemma enforced_selection_cleared:
  assumes "enforce_rights_provenance_selection ctx cfg obs candidate s = Inr result"
    "rg_mode cfg = ''enforced''" "lc_status_aggregate ctx = None"
  shows "\<exists>declared path manifest. rg_manifest cfg = Some declared \<and> rg_resolve cfg declared = Inr path
    \<and> load_configured_manifest cfg path = Inr manifest \<and> manifest_cleared cfg candidate manifest"
proof -
  from assms(1) have status: "rights_provenance_status ctx cfg obs (Some candidate) s = Inr result"
    and open': "\<not> pp_blocking (as_policy result)"
    by (auto simp: enforce_rights_provenance_selection_def and_then_Inr_iff raise_if_Inr_iff)
  from status obtain mode path manifest where policy: "rights_policy cfg = Inr (mode, path)"
    and manifest: "(case path of
         None \<Rightarrow> draft_manifest ctx cfg (Some candidate) s
       | Some p \<Rightarrow>
           (case load_configured_manifest cfg p of
              Inl (ForgeError code data) \<Rightarrow> draft_manifest ctx cfg (Some candidate) s
            | Inl e \<Rightarrow> Inl e
            | Inr manifest \<Rightarrow> Inr manifest)) = Inr manifest"
    and assess: "assess_manifest ctx cfg manifest (Some candidate) mode s = Inr result"
    by (auto simp: rights_provenance_status_def candidate_identity_def and_then_Inr_iff)
  have mode: "mode = ''enforced''" and path: "\<forall>p. path = Some p \<longrightarrow> (\<exists>d. rg_manifest cfg = Some d \<and> rg_resolve cfg d = Inr p)"
    using policy assms(2) by (auto simp: rights_policy_def and_then_Inr_iff split: option.splits)
  from assess obtain contract provenance rights human bs where
    st: "manifest_statuses None cfg manifest (Some candidate) = Inr (contract, provenance, rights, human, bs)"
    and result: "as_policy result = project_policy ''enforced'' (fold_status [contract, provenance, rights, human])"
    by (auto simp: assess_manifest_def assms(3) mode aggregate_status_compat and_then_Inr_iff)
  from open' have pass: "fold_status [contract, provenance, rights, human] = ''PASS''"
    by (simp add: result project_policy_def Let_def)
  have all: "x = ''PASS''" if "x \<in> {contract, provenance, rights, human}" for x
    using that manifest_statuses_recognised [OF st] by (intro passing_status [OF pass]) auto
  then have "contract = ''PASS'' \<and> provenance = ''PASS'' \<and> rights = ''PASS'' \<and> human = ''PASS''" by blast
  with st have cleared: "manifest_cleared cfg candidate manifest" by (intro manifest_statuses_PASS) simp
  then have "draft_manifest ctx cfg (Some candidate) s \<noteq> Inr manifest" using draft_not_cleared by blast
  with manifest have "\<exists>p. path = Some p \<and> load_configured_manifest cfg p = Inr manifest"
    by (auto split: option.splits sum.splits py_error.splits)
  with cleared path show ?thesis by blast
qed

end
