(* ===== verification/LedgerFacts.thy ===== *)
theory LedgerFacts
  imports Ledger "HOL-Library.Sublist"
begin

text \<open>
  What holds of the ledger of \<open>ledger.py\<close>: appended lines read back behind the old ones and keep the
  chain verified, the head of a verified chain determines its contents, and a chain's beginning
  verifies whenever the chain does.
\<close>

section \<open>Equality of values\<close>

lemma json_eq_members:
  assumes "dict_wf kvs" "\<And>k v. (k, v) \<in> set kvs \<Longrightarrow> json_eq (g v) v"
  shows "json_eq (JObj (sort_key fst (map (\<lambda>(k, v). (k, g v)) kvs))) (JObj kvs)"
    "json_eq (JObj (map (\<lambda>(k, v). (k, g v)) kvs)) (JObj kvs)"
proof -
  have "case dict_get kvs k of None \<Rightarrow> False | Some x \<Rightarrow> json_eq w x"
    if "(k, w) \<in> set (map (\<lambda>(k, v). (k, g v)) kvs)" for k w
  proof -
    from that obtain v where v: "(k, v) \<in> set kvs" "w = g v" by auto
    with assms show ?thesis by simp
  qed
  then show "json_eq (JObj (sort_key fst (map (\<lambda>(k, v). (k, g v)) kvs))) (JObj kvs)"
    and "json_eq (JObj (map (\<lambda>(k, v). (k, g v)) kvs)) (JObj kvs)"
    unfolding json_eq.simps json.case by (simp_all only: list_all_iff) (simp_all add: split_def)
qed

lemma json_eq_refl: "writable fr v \<Longrightarrow> json_eq v v"
proof (induction v rule: canonical_bytes.induct)
  case (6 xs)
  then show ?case by (simp add: list_all2_same)
next
  case (7 kvs)
  have "json_eq v v" if "(k, v) \<in> set kvs" for k v
    using "7.IH" [OF that refl] "7.prems" that by auto
  with "7.prems" json_eq_members(2) [of kvs "\<lambda>v. v"] show ?case by simp
qed simp_all

lemma json_eq_sorted: "writable fr v \<Longrightarrow> json_eq (sorted_json v) v"
proof (induction v rule: canonical_bytes.induct)
  case (6 xs)
  then show ?case by (simp add: list_all2_map1 list_all2_same)
next
  case (7 kvs)
  have "json_eq (sorted_json v) v" if "(k, v) \<in> set kvs" for k v
    using "7.IH" [OF that refl] "7.prems" that by auto
  with "7.prems" json_eq_members(1) [of kvs sorted_json] show ?case by simp
qed simp_all

lemma num_text_int: "num_text v = num_text (JInt i) \<Longrightarrow> sorted_json v = v"
  by (cases v) auto

lemma int_str_inject: "int_str i = int_str j \<longleftrightarrow> i = j"
  by (metis int_token_str option.inject)
section \<open>Lines\<close>

lemma concat_add_to_first [simp]: "concat (add_to_first c ls) = c # concat ls"
  by (cases ls) simp_all

lemma concat_split_lines [simp]: "concat (split_lines s) = s"
  by (induction s rule: split_lines.induct) simp_all

lemma split_lines_nonempty: "l \<in> set (split_lines s) \<Longrightarrow> l \<noteq> []"
proof (induction s arbitrary: l rule: split_lines.induct)
  case (3 c d s)
  have "l \<noteq> []" if "l \<in> set (add_to_first c ls)" "\<forall>l \<in> set ls. l \<noteq> []" for ls l
    using that by (cases ls) auto
  with 3 show ?case by (auto split: if_splits)
qed auto

lemma add_to_first_append: "ls \<noteq> [] \<Longrightarrow> add_to_first c (ls @ ms) = add_to_first c ls @ ms"
  by (cases ls) simp_all

lemma split_lines_Nil_iff [simp]: "split_lines s = [] \<longleftrightarrow> s = []"
  by (metis concat.simps(1) concat_split_lines split_lines.simps(1))

text \<open>Whatever follows a complete line starts a line of its own.\<close>

lemma split_lines_append: "complete_line s \<Longrightarrow> split_lines (s @ t) = split_lines s @ split_lines t"
proof (induction s rule: split_lines.induct)
  case (2 c)
  then show ?case by (cases t) (simp_all add: complete_line_def)
next
  case (3 c d s)
  have tail: "complete_line (d # s)" using 3 by (simp add: complete_line_def)
  consider "c = CHR 0x0A" | "c = CHR 0x0D" "d = CHR 0x0A" | "c = CHR 0x0D" "d \<noteq> CHR 0x0A"
    | "c \<noteq> CHR 0x0A" "c \<noteq> CHR 0x0D" by blast
  then show ?case
  proof cases
    case 2
    show ?thesis
    proof (cases "s = []")
      case True
      with 2 show ?thesis by (cases t) simp_all
    next
      case False
      with 2 3 show ?thesis by (simp add: complete_line_def)
    qed
  next
    case a: 3
    then show ?thesis using "3.IH"(3) tail by simp
  next
    case 4
    then show ?thesis using "3.IH"(4) tail by (simp add: add_to_first_append)
  qed (use "3.IH"(1) tail in simp)
qed (simp add: complete_line_def)

lemma split_printable_line: "printable s \<Longrightarrow> split_lines (s @ [CHR 0x0A]) = [s @ [CHR 0x0A]]"
proof (induction s rule: split_lines.induct)
  case (3 c d s)
  then have "c \<noteq> CHR 0x0A" "c \<noteq> CHR 0x0D" by auto
  with 3 show ?case by simp
qed auto

text \<open>A ledger that parses is empty or ends with a complete line.\<close>

lemma parse_ledger_complete:
  assumes "parse_ledger env bytes = Inr rs"
  shows "bytes = [] \<or> complete_line bytes"
proof (cases "bytes = []")
  case False
  let ?ls = "split_lines bytes"
  have ne: "?ls \<noteq> []" using False by simp
  have "parse_line env (last ?ls) = Inr (rs ! (length ?ls - 1))"
    using traverse_Inr_nth [OF assms [unfolded parse_ledger_def], of "length ?ls - 1"] ne
    by (simp add: last_conv_nth)
  then have "complete_line (last ?ls)" by (auto simp: parse_line_def split: if_splits)
  moreover have "bytes = concat (butlast ?ls) @ last ?ls"
    using ne by (metis append_butlast_last_id concat.simps(1,2) concat_append concat_split_lines append_Nil2)
  ultimately show ?thesis by (metis complete_line_def last_appendR)
qed simp

lemma parse_ledger_append:
  assumes "parse_ledger env bytes = Inr rs" "parse_ledger env extra = Inr rs'"
  shows "parse_ledger env (bytes @ extra) = Inr (rs @ rs')"
  using parse_ledger_complete [OF assms(1)]
proof
  assume "bytes = []"
  with assms show ?thesis by (simp add: parse_ledger_def)
next
  assume "complete_line bytes"
  with assms show ?thesis by (simp add: parse_ledger_def split_lines_append traverse_append)
qed

text \<open>What the ledger asks of a line that it writes.\<close>

definition storable :: "storage_env \<Rightarrow> obj \<Rightarrow> bool" where
  "storable env raw \<longleftrightarrow>
     writable (env_float env) (JObj raw) \<and> utf8_valid (canonical_bytes (JObj raw))
     \<and> length (entry_line raw) \<le> LEDGER_LINE_BYTE_CAP"

definition sorted_obj :: "obj \<Rightarrow> obj" where
  "sorted_obj d = sort_key fst (map (\<lambda>(k, v). (k, sorted_json v)) d)"

lemma sorted_json_obj: "sorted_json (JObj d) = JObj (sorted_obj d)"
  by (simp add: sorted_obj_def)

lemma parse_entry_line:
  assumes "storable env raw"
  shows "parse_ledger env (entry_line raw) = Inr [sorted_obj raw]"
proof -
  have w: "writable (env_float env) (JObj raw)" and u: "utf8_valid (canonical_bytes (JObj raw))"
    and cap: "\<not> LEDGER_LINE_BYTE_CAP < length (entry_line raw)"
    using assms unfolding storable_def by auto
  have "split_lines (entry_line raw) = [entry_line raw]"
    unfolding entry_line_def using canonical_printable [OF w] by (rule split_printable_line)
  moreover have "json_loads (env_float env) keep_last (entry_line raw) = Some (JObj (sorted_obj raw))"
    unfolding entry_line_def sorted_json_obj [symmetric]
    by (rule ledger_reader.loads_canonical [OF w u]) (simp_all add: is_ws_def ascii_def byte_in_def)
  moreover have "complete_line (entry_line raw)" by (simp add: complete_line_def entry_line_def)
  ultimately show ?thesis using cap by (simp add: parse_ledger_def parse_line_def)
qed

section \<open>Hashes of stored entries\<close>

lemma sorted_obj_get: "dict_wf d \<Longrightarrow> obj_get (sorted_obj d) k = sorted_json (obj_get d k)"
  by (simp add: obj_get_def sorted_obj_def obj_sorted split: option.splits)

lemma sorted_obj_without: "dict_without ks (sorted_obj d) = sorted_obj (dict_without ks d)"
  by (simp add: sorted_obj_def dict_without_def filter_sort filter_map o_def split_def)

lemma canonical_sorted_obj: "canonical_bytes (JObj (sorted_obj d)) = canonical_bytes (JObj d)"
  using canonical_sorted [of "JObj d"] by (simp only: sorted_json_obj)

lemma entry_hash_sorted [simp]: "entry_hash env (entry_body (sorted_obj d)) = entry_hash env (entry_body d)"
  unfolding entry_hash_def entry_body_def sorted_obj_without canonical_sorted_obj ..

lemma verify_entry_Inr:
  "verify_entry env i p e = Inr h \<longleftrightarrow>
     json_eq (obj_get e ''sequence'') (JInt (int i)) \<and> obj_get e ''previous_hash'' = JStr p
     \<and> obj_get e ''entry_hash'' = JStr h \<and> h = entry_hash env (entry_body e)"
  by (auto simp: verify_entry_def Let_def)

lemma raw_entry_get:
  "obj_get (raw_entry env timestamp kind payload n previous) ''sequence'' = JInt (int n)"
  "obj_get (raw_entry env timestamp kind payload n previous) ''previous_hash'' = previous"
  "obj_get (raw_entry env timestamp kind payload n previous) ''kind'' = JStr kind"
  "obj_get (raw_entry env timestamp kind payload n previous) ''payload'' = JObj (rec_to_json payload)"
  "dict_wf (raw_entry env timestamp kind payload n previous)"
  by (simp_all add: raw_entry_def obj_get_def)

lemma raw_entry_hash:
  "obj_get (raw_entry env timestamp kind payload n previous) ''entry_hash''
     = JStr (entry_hash env (entry_body (raw_entry env timestamp kind payload n previous)))"
  by (simp add: raw_entry_def obj_get_def entry_body_def)

lemma verify_raw_entry:
  fixes env timestamp kind payload n p
  defines "raw \<equiv> raw_entry env timestamp kind payload n (JStr p)"
  shows "verify_entry env n p (sorted_obj raw) = Inr (entry_hash env (entry_body raw))"
  unfolding verify_entry_Inr raw_def
  by (simp add: sorted_obj_get raw_entry_get raw_entry_hash)

section \<open>Sorted members\<close>

lemma sorted_obj_wf [simp]: "dict_wf d \<Longrightarrow> dict_wf (sorted_obj d)"
proof -
  assume "dict_wf d"
  then have "dict_wf (sort_key fst d)" by (simp add: distinct_map)
  then show ?thesis unfolding sorted_obj_def sort_key_map_fst by (simp add: split_def o_def)
qed

lemma dict_get_sorted_obj: "dict_wf d \<Longrightarrow> dict_get (sorted_obj d) k = map_option sorted_json (dict_get d k)"
  by (simp add: sorted_obj_def obj_sorted)

lemma set_of_map_of: "dict_wf d \<Longrightarrow> set d = {(k, v). dict_get d k = Some v}"
  by auto

text \<open>Objects with the same members are written alike.\<close>

lemma sorted_obj_ext:
  assumes "dict_wf d" "dict_wf e"
    "\<And>k. map_option sorted_json (dict_get d k) = map_option sorted_json (dict_get e k)"
  shows "sorted_obj d = sorted_obj e"
proof (rule map_sorted_distinct_set_unique [of fst])
  have wf: "dict_wf (sorted_obj d)" "dict_wf (sorted_obj e)" using assms by simp_all
  show "set (sorted_obj d) = set (sorted_obj e)"
    unfolding set_of_map_of [OF wf(1)] set_of_map_of [OF wf(2)]
    using assms by (simp add: dict_get_sorted_obj)
  show "distinct (map fst (sorted_obj d))" "distinct (map fst (sorted_obj e))" by (rule wf)+
  show "sorted (map fst (sorted_obj d))" "sorted (map fst (sorted_obj e))"
    by (simp_all add: sorted_obj_def)
  from wf(1) have "inj_on fst (set (sorted_obj d))" by (simp add: distinct_map)
  with \<open>set (sorted_obj d) = set (sorted_obj e)\<close> show "inj_on fst (set (sorted_obj d) \<union> set (sorted_obj e))"
    by simp
qed

lemma sorted_obj_insert:
  assumes "dict_wf d" "dict_wf e" "sorted_obj (dict_del k d) = sorted_obj (dict_del k e)"
    "dict_get d k = dict_get e k"
  shows "sorted_obj d = sorted_obj e"
proof (rule sorted_obj_ext [OF assms(1,2)])
  fix k'
  have "dict_get (sorted_obj (dict_del k d)) k' = dict_get (sorted_obj (dict_del k e)) k'"
    using assms(3) by simp
  then show "map_option sorted_json (dict_get d k') = map_option sorted_json (dict_get e k')"
    using assms(1,2,4) by (cases "k' = k") (simp_all add: dict_get_sorted_obj)
qed

section \<open>Hash chains\<close>

text \<open>
  A chain of checked entries: the check of an entry yields the digest of its content, and the content
  fixes the position and the predecessor's digest under which the entry passes.
\<close>

locale hash_chain =
  fixes check :: "nat \<Rightarrow> string \<Rightarrow> 'e \<Rightarrow> string res"
    and run :: "nat \<Rightarrow> string \<Rightarrow> 'e list \<Rightarrow> string res"
    and ok :: "'e \<Rightarrow> bool" and content :: "'e \<Rightarrow> string" and digest :: "string \<Rightarrow> string"
  assumes run_Nil: "run i p [] = Inr p"
    and run_Cons: "run i p (e # es) = and_then (check i p e) (\<lambda>h. run (Suc i) h es)"
    and check_digest: "check i p e = Inr h \<Longrightarrow> h = digest (content e)"
    and content_link: "ok e \<Longrightarrow> ok f \<Longrightarrow> content e = content f \<Longrightarrow>
      check i p e = Inr h \<Longrightarrow> check j q f = Inr k \<Longrightarrow> p = q"
begin

lemma run_append: "run i p (es @ fs) = and_then (run i p es) (\<lambda>h. run (i + length es) h fs)"
proof (induction es arbitrary: i p)
  case (Cons e es)
  then show ?case by (cases "check i p e") (simp_all add: run_Cons)
qed (simp add: run_Nil)

lemma run_snoc: "run i p (es @ [e]) = and_then (run i p es) (\<lambda>h. check (i + length es) h e)"
proof -
  have "and_then m (\<lambda>h. Inr h) = m" for m :: "string res" by (cases m) simp_all
  then show ?thesis by (simp add: run_append run_Cons run_Nil)
qed

lemma head_determines:
  assumes "run i g es = Inr h" "run i g fs = Inr h" "\<forall>e \<in> set es \<union> set fs. ok e"
    "inj_on digest (content ` (set es \<union> set fs))" "g \<notin> digest ` content ` (set es \<union> set fs)"
  shows "map content es = map content fs"
  using assms
proof (induction es arbitrary: fs h rule: rev_induct)
  case Nil
  then show ?case
  proof (cases fs rule: rev_cases)
    case (snoc fs' f)
    with Nil.prems(1,2) obtain q j where "check j q f = Inr g"
      by (auto simp: run_snoc run_Nil and_then_Inr_iff)
    then have "g = digest (content f)" by (rule check_digest)
    with Nil.prems(5) snoc show ?thesis by auto
  qed simp
next
  case (snoc e es)
  from snoc.prems(1) obtain p where p: "run i g es = Inr p" "check (i + length es) p e = Inr h"
    by (auto simp: run_snoc and_then_Inr_iff)
  from check_digest [OF p(2)] have h: "h = digest (content e)" .
  show ?case
  proof (cases fs rule: rev_cases)
    case Nil
    with snoc.prems(2) have "h = g" by (simp add: run_Nil)
    with snoc.prems(5) h show ?thesis by simp
  next
    case inner: (snoc fs' f)
    from snoc.prems(2) inner obtain q where q: "run i g fs' = Inr q" "check (i + length fs') q f = Inr h"
      by (auto simp: run_snoc and_then_Inr_iff)
    from check_digest [OF q(2)] h have "digest (content e) = digest (content f)" by simp
    then have same: "content e = content f"
      by (rule inj_onD [OF snoc.prems(4)]) (simp_all add: inner)
    have "p = q"
      by (rule content_link [OF _ _ same p(2) q(2)]) (simp_all add: snoc.prems(3) inner)
    with q have q': "run i g fs' = Inr p" by simp
    have "map content es = map content fs'"
    proof (rule snoc.IH [OF p(1) q'])
      show "inj_on digest (content ` (set es \<union> set fs'))"
        using snoc.prems(4) by (rule inj_on_subset) (auto simp: inner)
      show "g \<notin> digest ` content ` (set es \<union> set fs')" using snoc.prems(5) by (simp add: inner)
      show "\<forall>e \<in> set es \<union> set fs'. ok e" using snoc.prems(3) by (simp add: inner)
    qed
    with same inner show ?thesis by simp
  qed
qed

lemma beginning_runs: "run i g (es @ fs) = Inr h \<Longrightarrow> \<exists>h'. run i g es = Inr h'"
  by (auto simp: run_append and_then_Inr_iff)

end

lemma writable_body: "writable fr (JObj e) \<Longrightarrow> writable fr (JObj (entry_body e))"
  by (auto simp: entry_body_def dict_without_def split_def distinct_map_filter)

lemma bodies_agree:
  assumes "writable fr (JObj e)" "writable fr (JObj f)"
    "canonical_bytes (JObj (entry_body e)) = canonical_bytes (JObj (entry_body f))"
  shows "sorted_obj (entry_body e) = sorted_obj (entry_body f)"
  using ledger_reader.canonical_bytes_inject [OF writable_body [OF assms(1)] writable_body [OF assms(2)] assms(3)]
  by (simp add: sorted_json_obj del: sorted_json.simps)

interpretation ledger_chain: hash_chain "verify_entry env" "verify_from env"
  "\<lambda>e. writable (env_float env) (JObj e)" "\<lambda>e. canonical_bytes (JObj (entry_body e))" "env_sha env" for env
proof unfold_locales
  fix e f i p h j q k
  assume w: "writable (env_float env) (JObj e)" "writable (env_float env) (JObj f)"
    and same: "canonical_bytes (JObj (entry_body e)) = canonical_bytes (JObj (entry_body f))"
    and e: "verify_entry env i p e = Inr h" and f: "verify_entry env j q f = Inr k"
  have "obj_get (sorted_obj (entry_body e)) ''previous_hash'' = obj_get (sorted_obj (entry_body f)) ''previous_hash''"
    using bodies_agree [OF w same] by simp
  moreover have "dict_wf (entry_body e)" "dict_wf (entry_body f)" using w by (simp_all add: entry_body_def)
  moreover have "obj_get (entry_body d) ''previous_hash'' = obj_get d ''previous_hash''" for d
    by (simp add: obj_get_def entry_body_def)
  ultimately show "p = q" using e f by (simp add: verify_entry_Inr sorted_obj_get)
qed (auto simp: verify_entry_Inr entry_hash_def)

lemma histories_agree:
  assumes "map (\<lambda>e. canonical_bytes (JObj (entry_body e))) es = map (\<lambda>e. canonical_bytes (JObj (entry_body e))) fs"
    "\<forall>e \<in> set es \<union> set fs. writable fr (JObj e)"
  shows "map (\<lambda>e. sorted_obj (entry_body e)) es = map (\<lambda>e. sorted_obj (entry_body e)) fs"
  using assms
proof (induction es arbitrary: fs)
  case (Cons e es)
  then obtain f fs' where fs: "fs = f # fs'"
    and same: "canonical_bytes (JObj (entry_body e)) = canonical_bytes (JObj (entry_body f))"
    by (cases fs) (simp_all del: canonical_bytes.simps)
  have "sorted_obj (entry_body e) = sorted_obj (entry_body f)"
    by (rule bodies_agree [where fr = fr, OF _ _ same]) (use Cons.prems(2) fs in simp_all)
  moreover have "map (\<lambda>e. sorted_obj (entry_body e)) es = map (\<lambda>e. sorted_obj (entry_body e)) fs'"
    by (rule Cons.IH) (use Cons.prems fs in \<open>simp_all del: canonical_bytes.simps writable.simps\<close>)
  ultimately show ?case by (simp add: fs)
qed simp

lemma verified_last_hash:
  assumes "verify_chain_of env rs = Inr h"
  shows "last_hash rs = Inr (JStr h)"
proof (cases rs rule: rev_cases)
  case Nil
  with assms show ?thesis by (simp add: verify_chain_of_def last_hash_def)
next
  case (snoc rs' e)
  with assms obtain p where "verify_entry env (1 + length rs') p e = Inr h"
    by (auto simp: verify_chain_of_def ledger_chain.run_snoc and_then_Inr_iff)
  then have "obj_get e ''entry_hash'' = JStr h" by (simp add: verify_entry_Inr)
  with snoc show ?thesis by (auto simp: last_hash_def obj_get_def split: option.splits)
qed

section \<open>Appending\<close>

definition next_entry :: "storage_env \<Rightarrow> string \<Rightarrow> string \<Rightarrow> forge_record \<Rightarrow> obj list \<Rightarrow> string \<Rightarrow> obj" where
  "next_entry env timestamp kind payload rs head =
     raw_entry env timestamp kind payload (Suc (length rs)) (JStr head)"

lemma snapshot_Inr:
  "snapshot env file = Inr (rs, h) \<longleftrightarrow>
     parse_ledger env (file_bytes file) = Inr rs \<and> verify_chain_of env rs = Inr h"
  by (auto simp: snapshot_def and_then_Inr_iff)

lemma append_entry_eq:
  assumes "snapshot env file = Inr (rs, h)" "writable_kind kind payload = Inr ()"
  shows "append_entry env timestamp kind payload file =
    Inr (Some (file_bytes file @ entry_line (next_entry env timestamp kind payload rs h)),
         normalize_raw env (next_entry env timestamp kind payload rs h))"
  using assms verified_last_hash [of env rs h]
  by (auto simp: append_entry_def snapshot_Inr next_entry_def Let_def)

lemma chain_append:
  assumes "verify_chain_of env rs = Inr h"
  shows "verify_chain_of env (rs @ [sorted_obj (next_entry env timestamp kind payload rs h)])
    = Inr (entry_hash env (entry_body (next_entry env timestamp kind payload rs h)))"
  using assms verify_raw_entry by (simp add: verify_chain_of_def ledger_chain.run_snoc next_entry_def)

lemma snapshot_append:
  assumes "snapshot env file = Inr (rs, h)" "storable env (next_entry env timestamp kind payload rs h)"
  shows "snapshot env (Some (file_bytes file @ entry_line (next_entry env timestamp kind payload rs h)))
    = Inr (rs @ [sorted_obj (next_entry env timestamp kind payload rs h)],
           entry_hash env (entry_body (next_entry env timestamp kind payload rs h)))"
proof -
  have read: "parse_ledger env (file_bytes file) = Inr rs" "verify_chain_of env rs = Inr h"
    using assms(1) by (auto simp: snapshot_Inr)
  show ?thesis
    using parse_ledger_append [OF read(1) parse_entry_line [OF assms(2)]] chain_append [OF read(2)]
    by (simp add: snapshot_Inr file_bytes_def)
qed

section \<open>The caches\<close>

text \<open>Successive reads of one \<open>Ledger\<close> object, each finding the file in the given state.\<close>

fun cached_reads :: "storage_env \<Rightarrow> ledger_cache \<Rightarrow> string option list \<Rightarrow> (obj list \<times> string) res list" where
  "cached_reads env cache [] = []"
| "cached_reads env cache (f # fs) =
     (case cached_snapshot env f cache of (r, cache') \<Rightarrow> r # cached_reads env cache' fs)"

definition cache_faithful :: "storage_env \<Rightarrow> string set \<Rightarrow> ledger_cache \<Rightarrow> bool" where
  "cache_faithful env seen cache \<longleftrightarrow>
     (\<forall>rs dg. cached_raw cache = Some rs \<longrightarrow> cached_digest cache = Some dg \<longrightarrow>
        (\<exists>b \<in> seen. dg = env_sha env b \<and> parse_ledger env b = Inr rs)) \<and>
     (\<forall>h. verified_head cache = Some h \<longrightarrow>
        (\<exists>b \<in> seen. verified_digest cache = Some (env_sha env b) \<and>
           (\<exists>rs. parse_ledger env b = Inr rs \<and> verify_chain_of env rs = Inr h)))"

lemma cache_faithful_empty: "cache_faithful env seen empty_cache"
  by (simp add: cache_faithful_def empty_cache_def)

lemma parse_ledger_Nil [simp]: "parse_ledger env [] = Inr []"
  by (simp add: parse_ledger_def)

lemma read_faithful:
  assumes "cache_faithful env seen cache" "inj_on (env_sha env) seen" "file_bytes f \<in> seen"
    "read_unlocked_raw env f cache = Inr (rs, cache')"
  shows "parse_ledger env (file_bytes f) = Inr rs" "cache_faithful env seen cache'"
    "cached_digest cache' = Some (env_sha env (file_bytes f))"
proof -
  let ?b = "file_bytes f"
  have fresh: "parse_ledger env ?b = Inr rs \<Longrightarrow>
      cache_faithful env seen (cache\<lparr>cached_digest := Some (env_sha env ?b), cached_raw := Some rs\<rparr>)"
    using assms(1,3) unfolding cache_faithful_def by (auto intro: bexI [of _ ?b])
  have hit: "parse_ledger env ?b = Inr rs'"
    if "cached_raw cache = Some rs'" "cached_digest cache = Some (env_sha env ?b)" for rs'
  proof -
    from that assms(1) obtain b where b: "b \<in> seen" "env_sha env ?b = env_sha env b" "parse_ledger env b = Inr rs'"
      unfolding cache_faithful_def by blast
    with assms(2,3) have "b = ?b" by (metis inj_onD)
    with b show ?thesis by simp
  qed
  show "parse_ledger env ?b = Inr rs" "cache_faithful env seen cache'"
    "cached_digest cache' = Some (env_sha env ?b)"
    using assms(1,4) fresh hit
    by (auto simp: read_unlocked_raw_def file_bytes_def Let_def and_then_Inr_iff
        split: option.splits if_splits)
qed

lemma read_error:
  assumes "cache_faithful env seen cache" "inj_on (env_sha env) seen" "file_bytes f \<in> seen"
    "read_unlocked_raw env f cache = Inl e"
  shows "parse_ledger env (file_bytes f) = Inl e"
  using assms(4)
  by (auto simp: read_unlocked_raw_def file_bytes_def Let_def and_then_Inl_iff split: option.splits if_splits)

lemma verify_faithful:
  assumes "cache_faithful env seen cache" "inj_on (env_sha env) seen" "b \<in> seen"
    "parse_ledger env b = Inr rs" "cached_digest cache = Some (env_sha env b)"
  shows "(case verify_raw_records env rs cache of Inl e \<Rightarrow> Inl e | Inr (h, c) \<Rightarrow> Inr h) = verify_chain_of env rs"
    "verify_raw_records env rs cache = Inr (h, cache') \<Longrightarrow> cache_faithful env seen cache'"
proof -
  have hit: "verify_chain_of env rs = Inr h"
    if "verified_head cache = Some h" "cached_digest cache = verified_digest cache" for h
  proof -
    from that assms(1) obtain b' rs' where b': "b' \<in> seen" "verified_digest cache = Some (env_sha env b')"
      "parse_ledger env b' = Inr rs'" "verify_chain_of env rs' = Inr h"
      unfolding cache_faithful_def by blast
    with that(2) assms(2,3,5) have "b' = b" by (metis inj_onD option.inject)
    with b' assms(4) show ?thesis by simp
  qed
  then show "(case verify_raw_records env rs cache of Inl e \<Rightarrow> Inl e | Inr (h, c) \<Rightarrow> Inr h) = verify_chain_of env rs"
    by (cases "verify_chain_of env rs"; cases "verified_head cache") (auto simp: verify_raw_records_def)
  have "cache_faithful env seen (cache\<lparr>verified_digest := cached_digest cache, verified_head := Some k\<rparr>)"
    if "verify_chain_of env rs = Inr k" for k
    using assms that unfolding cache_faithful_def by auto
  then show "verify_raw_records env rs cache = Inr (h, cache') \<Longrightarrow> cache_faithful env seen cache'"
    using assms(1) by (auto simp: verify_raw_records_def and_then_Inr_iff split: option.splits if_splits)
qed

lemma cached_snapshot_faithful:
  assumes "cache_faithful env seen cache" "inj_on (env_sha env) seen" "file_bytes f \<in> seen"
    "cached_snapshot env f cache = (r, cache')"
  shows "r = snapshot env f" "cache_faithful env seen cache'"
proof -
  have "r = snapshot env f \<and> cache_faithful env seen cache'"
  proof (cases "read_unlocked_raw env f cache")
    case (Inl e)
    with read_error [OF assms(1-3) Inl] assms(1,4) show ?thesis
      by (simp add: cached_snapshot_def snapshot_def)
  next
    case (Inr p)
    obtain rs c where p: "p = (rs, c)" by (cases p)
    note read = read_faithful [OF assms(1-3) Inr [unfolded p]]
    note verify = verify_faithful [OF read(2) assms(2,3) read(1,3)]
    show ?thesis
    proof (cases "verify_raw_records env rs c")
      case (Inl e)
      with verify(1) have "verify_chain_of env rs = Inl e" by simp
      with assms(4) read \<open>read_unlocked_raw env f cache = Inr p\<close> p Inl show ?thesis
        by (simp add: cached_snapshot_def snapshot_def)
    next
      case (Inr q)
      obtain h c' where q: "q = (h, c')" by (cases q)
      with verify(1) Inr have "verify_chain_of env rs = Inr h" by simp
      with assms(4) read \<open>read_unlocked_raw env f cache = Inr p\<close> p Inr q verify(2) show ?thesis
        by (simp add: cached_snapshot_def snapshot_def)
    qed
  qed
  then show "r = snapshot env f" "cache_faithful env seen cache'" by simp_all
qed

lemma cached_reads_faithful:
  assumes "cache_faithful env seen cache" "inj_on (env_sha env) seen" "\<forall>f \<in> set fs. file_bytes f \<in> seen"
  shows "cached_reads env cache fs = map (snapshot env) fs"
  using assms
proof (induction fs arbitrary: cache)
  case (Cons f fs)
  obtain r c where rc: "cached_snapshot env f cache = (r, c)" by fastforce
  from Cons.prems(3) have "file_bytes f \<in> seen" by simp
  note here = cached_snapshot_faithful [OF Cons.prems(1,2) this rc]
  with Cons rc show ?case by simp
qed simp

section \<open>Selection\<close>

definition kind_among :: "string list \<Rightarrow> obj \<Rightarrow> bool" where
  "kind_among kinds e \<longleftrightarrow> (\<exists>k \<in> set kinds. obj_get e ''kind'' = JStr k)"

lemma select_kinds_Inr: "select_kinds kinds rs = Inr es \<Longrightarrow> es = filter (kind_among kinds) rs"
proof (induction rs arbitrary: es)
  case (Cons e rs)
  have "in_texts v ts = Inr b \<longleftrightarrow> b = (\<exists>k \<in> set ts. v = JStr k) \<and> \<not> is_obj v \<and> (\<forall>xs. v \<noteq> JArr xs)" for v ts b
    by (cases v) (auto simp: in_texts_def)
  with Cons show ?case by (auto simp: and_then_Inr_iff kind_among_def)
qed simp

lemma sequence_of_kind_Some:
  "sequence_of_kind rs kind v = Some i \<Longrightarrow> 1 \<le> i \<and> i \<le> length rs \<and> obj_get (rs ! (i - 1)) ''kind'' = JStr kind"
  by (auto simp: sequence_of_kind_def nat_diff_distrib split: json.splits if_splits)

lemma those_Some: "those os = Some xs \<longleftrightarrow> os = map Some xs"
proof (induction os arbitrary: xs)
  case (Cons o' os)
  show ?case
  proof (cases o')
    case (Some x)
    with Cons show ?thesis by (cases xs) auto
  qed (cases xs; simp)
qed auto

lemma kind_sequences_Some:
  assumes "kind_sequences rs by_kind kind = Some is" "i \<in> set is"
  shows "1 \<le> i" "i \<le> length rs" "obj_get (rs ! (i - 1)) ''kind'' = JStr kind"
proof -
  from assms obtain v where "sequence_of_kind rs kind v = Some i"
    by (auto simp: kind_sequences_def those_Some map_eq_conv split: option.splits json.splits)
      (metis in_set_conv_nth length_map nth_map)
  then show "1 \<le> i" "i \<le> length rs" "obj_get (rs ! (i - 1)) ''kind'' = JStr kind"
    by (auto dest: sequence_of_kind_Some)
qed

lemma index_selection_Some:
  assumes "index_selection env digest rs kinds index = Inr (Some is)" "i \<in> set is"
  shows "1 \<le> i" "i \<le> length rs" "kind_among kinds (rs ! (i - 1))"
proof -
  from assms(1) obtain by_kind iss where "those (map (kind_sequences rs by_kind) kinds) = Some iss"
    "is = concat iss"
    by (auto simp: index_selection_def and_then_Inr_iff split: option.splits json.splits if_splits)
  with assms(2) obtain js where "js \<in> set iss" "i \<in> set js"
    and all: "map (kind_sequences rs by_kind) kinds = map Some iss" by (auto simp: those_Some)
  then have "Some js \<in> set (map (kind_sequences rs by_kind) kinds)" by simp
  then obtain kind where "kind \<in> set kinds" "kind_sequences rs by_kind kind = Some js" by auto
  with \<open>i \<in> set js\<close> show "1 \<le> i" "i \<le> length rs" "kind_among kinds (rs ! (i - 1))"
    by (auto simp: kind_among_def dest: kind_sequences_Some)
qed

text \<open>The positions listed, in order and without repetition.\<close>

lemma listed_entries:
  assumes "\<forall>i \<in> set is. 1 \<le> i \<and> i \<le> length rs"
  shows "map (\<lambda>i. rs ! (i - 1)) (sort (remdups is))
    = map ((!) rs) (filter (\<lambda>i. Suc i \<in> set is) [0..<length rs])"
proof -
  have "sort (remdups is) = map Suc (filter (\<lambda>i. Suc i \<in> set is) [0..<length rs])"
  proof (rule sorted_distinct_set_unique)
    show "set (sort (remdups is)) = set (map Suc (filter (\<lambda>i. Suc i \<in> set is) [0..<length rs]))"
      using assms by (auto simp: image_iff) (metis Suc_le_D Suc_le_eq One_nat_def)
    show "sorted (map Suc (filter (\<lambda>i. Suc i \<in> set is) [0..<length rs]))"
      by (simp add: sorted_wrt_map sorted_wrt_filter)
  qed (simp_all add: distinct_map)
  then show ?thesis by (simp add: comp_def)
qed

lemma filter_as_positions: "filter P xs = map ((!) xs) (filter (\<lambda>i. P (xs ! i)) [0..<length xs])"
proof -
  have "filter P xs = filter P (map ((!) xs) [0..<length xs])" by (simp only: map_nth)
  then show ?thesis by (simp only: filter_map comp_def)
qed

lemma select_with_index_cases:
  assumes "select_with_index env digest rs kinds index = Inr es"
  shows "es = filter (kind_among kinds) rs \<or>
    (\<exists>is. index_selection env digest rs kinds index = Inr (Some is) \<and>
      es = map ((!) rs) (filter (\<lambda>i. Suc i \<in> set is) [0..<length rs]))"
proof -
  from assms obtain selection where sel: "index_selection env digest rs kinds index = Inr selection"
    by (auto simp: select_with_index_def and_then_Inr_iff)
  show ?thesis
  proof (cases selection)
    case None
    with assms sel show ?thesis by (auto simp: select_with_index_def dest: select_kinds_Inr)
  next
    case (Some "is")
    with sel have found: "index_selection env digest rs kinds index = Inr (Some is)" by simp
    then have "\<forall>i \<in> set is. 1 \<le> i \<and> i \<le> length rs"
      using index_selection_Some(1,2) [OF found] by blast
    note positions = listed_entries [OF this]
    from assms found positions have "es = map ((!) rs) (filter (\<lambda>i. Suc i \<in> set is) [0..<length rs])"
      by (simp add: select_with_index_def)
    with found show ?thesis by blast
  qed
qed

lemma select_with_index_subseq:
  assumes "select_with_index env digest rs kinds index = Inr es"
  shows "subseq es (filter (kind_among kinds) rs)"
  using select_with_index_cases [OF assms]
proof
  assume "\<exists>is. index_selection env digest rs kinds index = Inr (Some is) \<and>
      es = map ((!) rs) (filter (\<lambda>i. Suc i \<in> set is) [0..<length rs])"
  then obtain "is" where sel: "index_selection env digest rs kinds index = Inr (Some is)"
    and es: "es = map ((!) rs) (filter (\<lambda>i. Suc i \<in> set is) [0..<length rs])" by blast
  let ?listed = "\<lambda>i. Suc i \<in> set is" and ?wanted = "\<lambda>i. kind_among kinds (rs ! i)"
  have "?wanted i" if "?listed i" for i
    using index_selection_Some(3) [OF sel that] by simp
  then have "filter ?listed [0..<length rs] = filter ?listed (filter ?wanted [0..<length rs])"
    unfolding filter_filter by (intro filter_cong refl) blast
  then have "subseq (filter ?listed [0..<length rs]) (filter ?wanted [0..<length rs])"
    using subseq_filter_left [of ?listed "filter ?wanted [0..<length rs]"] by simp
  then show ?thesis
    unfolding es filter_as_positions [of "kind_among kinds" rs] by (rule subseq_map)
qed simp

end
