(* ===== verification/StoredRecords.thy ===== *)
theory StoredRecords
  imports LedgerFacts
begin

text \<open>
  Records survive storage: the checks of \<open>records.py\<close> do not depend on the order of members, so a
  record whose canonical text is read back (with sorted members) passes them again. The JCS encoder
  of \<open>rfc8785\<close> is assumed to sort members, which is what RFC 8785 prescribes.
\<close>

definition jcs_sorts :: "crypto \<Rightarrow> bool" where
  "jcs_sorts cr \<longleftrightarrow> (\<forall>v. cr_jcs cr (sorted_json v) = cr_jcs cr v)"

section \<open>Sorting keeps what the checks read\<close>

lemma sorted_json_scalar [simp]:
  "sorted_json v = JNull \<longleftrightarrow> v = JNull" "sorted_json v = JStr s \<longleftrightarrow> v = JStr s"
  "sorted_json v = JBool b \<longleftrightarrow> v = JBool b" "sorted_json v = JInt i \<longleftrightarrow> v = JInt i"
  "is_obj (sorted_json v) \<longleftrightarrow> is_obj v" "is_text (sorted_json v) \<longleftrightarrow> is_text v"
  by (cases v; simp)+

lemma in_texts_sorted [simp]: "in_texts (sorted_json v) ts = in_texts v ts"
  by (cases v) (simp_all add: in_texts_def)

lemma require_in_sorted [simp]: "require_in (sorted_json v) ts e = require_in v ts e"
  by (simp add: require_in_def)

lemma text_items_sorted: "text_items (map sorted_json xs) = text_items xs"
proof (induction xs)
  case (Cons x xs)
  then show ?case by (cases x) simp_all
qed simp

lemma texts_or_sorted [simp]: "texts_or ne e (sorted_json v) = texts_or ne e v"
  by (cases v) (simp_all add: texts_or_def text_items_sorted)

lemma set_sorted_obj_keys [simp]: "set (dict_keys (sorted_obj d)) = set (dict_keys d)"
  by (force simp: sorted_obj_def)

lemma filter_keys_sorted:
  "filter P (dict_keys (sorted_obj d)) = [] \<longleftrightarrow> filter P (dict_keys d) = []"
  unfolding filter_empty_conv set_sorted_obj_keys ..

lemma num_text_sorted [simp]: "num_text (sorted_json v) = num_text v"
  by (cases v) simp_all

lemma json_eq_sorted_both:
  "writable fr v \<Longrightarrow> writable fr w \<Longrightarrow> json_eq (sorted_json v) (sorted_json w) = json_eq v w"
proof (induction v arbitrary: w rule: canonical_bytes.induct)
  case (6 xs)
  then show ?case
    by (cases w) (auto simp: list_all2_conv_all_nth)
next
  case (7 kvs)
  show ?case
  proof (cases w)
    case (JObj e)
    have e: "dict_get (sorted_obj e) k = map_option sorted_json (dict_get e k)" for k
      using "7.prems"(2) JObj by (simp add: dict_get_sorted_obj)
    have "(case dict_get (sorted_obj e) k of None \<Rightarrow> False | Some x \<Rightarrow> json_eq (sorted_json v) x)
        = (case dict_get e k of None \<Rightarrow> False | Some x \<Rightarrow> json_eq v x)" if "(k, v) \<in> set kvs" for k v
    proof (cases "dict_get e k")
      case (Some x)
      then have "(k, x) \<in> set e" by (rule map_of_SomeD)
      with "7.prems" JObj that have "writable fr v" "writable fr x" by auto
      from "7.IH" [OF that refl this] Some show ?thesis by (simp add: e)
    qed (simp add: e)
    then have "list_all (\<lambda>(k, v). case dict_get (sorted_obj e) k of None \<Rightarrow> False | Some x \<Rightarrow> json_eq v x) (sorted_obj kvs)
        = list_all (\<lambda>(k, v). case dict_get e k of None \<Rightarrow> False | Some x \<Rightarrow> json_eq v x) kvs"
      unfolding sorted_obj_def [of kvs] list_all_iff by (simp add: split_def) (metis fst_conv prod.collapse snd_conv)
    moreover have "length (sorted_obj d) = length d" for d by (simp add: sorted_obj_def)
    ultimately show ?thesis unfolding JObj sorted_json_obj by simp
  qed simp_all
qed (auto split: json.splits)

section \<open>The validators\<close>

lemma run_checks_mono:
  "list_all2 (\<lambda>c d. c = Inr () \<longrightarrow> d = Inr ()) cs ds \<Longrightarrow> run_checks cs = Inr () \<Longrightarrow> run_checks ds = Inr ()"
  by (induction rule: list_all2_induct) (auto simp: res_simps)

lemma validate_execution_assurance_sorted:
  "dict_wf fs \<Longrightarrow> validate_execution_assurance (sorted_obj fs) = validate_execution_assurance fs"
  by (simp add: validate_execution_assurance_def Let_def sorted_obj_get)

lemma receipt_projection_sorted: "receipt_projection (sorted_obj d) = sorted_json (receipt_projection d)"
  unfolding receipt_projection_def sorted_json_obj sorted_obj_without ..

lemma writable_obj_get: "writable fr (JObj d) \<Longrightarrow> writable fr (obj_get d k)"
  by (auto simp: obj_get_def split: option.splits dest!: map_of_SomeD)

lemma validate_complete_receipt_sorted:
  assumes "jcs_sorts cr" "writable fr (JObj fs)"
  shows "validate_complete_receipt cr (sorted_obj fs) = validate_complete_receipt cr fs"
proof (cases "obj_get fs ''mncs_receipt''")
  case (JObj receipt)
  have wf: "dict_wf fs" using assms(2) by simp
  have receipt: "writable fr (JObj receipt)" using writable_obj_get [OF assms(2), of "''mncs_receipt''"] JObj by simp
  then have rwf: "dict_wf receipt" by simp
  have get: "obj_get (sorted_obj fs) ''mncs_receipt'' = JObj (sorted_obj receipt)"
    using JObj wf by (simp add: sorted_obj_get sorted_json_obj del: sorted_json.simps(2))
  have jcs: "cr_jcs cr (receipt_projection (sorted_obj receipt)) = cr_jcs cr (receipt_projection receipt)"
    using assms(1) by (simp add: receipt_projection_sorted jcs_sorts_def)
  have versions: "json_eq (sorted_json (obj_get fs ''receipt_schema_version'')) (sorted_json (obj_get receipt ''schema_version''))
      = json_eq (obj_get fs ''receipt_schema_version'') (obj_get receipt ''schema_version'')"
    using assms(2) receipt by (intro json_eq_sorted_both [of fr] writable_obj_get)
  show ?thesis
    unfolding validate_complete_receipt_def get JObj
    by (cases "obj_get fs ''receipt_identity''")
      (simp_all add: sorted_obj_get [OF wf] sorted_obj_get [OF rwf] jcs versions)
next
  case (JArr xs)
  with assms(2) show ?thesis by (simp add: validate_complete_receipt_def sorted_obj_get)
qed (use assms(2) in \<open>simp_all add: validate_complete_receipt_def sorted_obj_get\<close>)

lemma traverse_Inr_iff: "(\<exists>ys. traverse f xs = Inr ys \<and> concat ys = []) \<longleftrightarrow> (\<forall>x \<in> set xs. f x = Inr [])"
proof (induction xs)
  case (Cons x xs)
  show ?case
  proof (cases "f x")
    case (Inr y)
    with Cons show ?thesis by (cases "traverse f xs") auto
  qed simp
qed simp

lemma validate_established_properties_obj:
  "validate_established_properties (JObj ps) = Inr () \<longleftrightarrow>
     set (dict_keys ps) = set ESTABLISHED_PROPERTY_KEYS \<and> (\<forall>p \<in> set ps. property_state_invalid p = Inr [])"
  unfolding traverse_Inr_iff [symmetric]
  by (auto simp: validate_established_properties_def res_simps)

lemma validate_established_properties_sorted:
  "validate_established_properties v = Inr () \<Longrightarrow> validate_established_properties (sorted_json v) = Inr ()"
proof (cases v)
  case (JObj ps)
  assume "validate_established_properties v = Inr ()"
  moreover have "property_state_invalid (k, sorted_json w) = property_state_invalid (k, w)" for k w
    unfolding property_state_invalid_def fst_conv snd_conv in_texts_sorted ..
  moreover have "set (sorted_obj ps) = (\<lambda>(k, w). (k, sorted_json w)) ` set ps" by (simp add: sorted_obj_def)
  ultimately show ?thesis
    unfolding JObj sorted_json_obj validate_established_properties_obj set_sorted_obj_keys
    by (auto simp del: set_map)
qed (simp_all add: validate_established_properties_def)

lemma validate_execution_receipt_binding_sorted:
  assumes "jcs_sorts cr" "writable fr (JObj fs)" "validate_execution_receipt_binding cr fs = Inr ()"
  shows "validate_execution_receipt_binding cr (sorted_obj fs) = Inr ()"
proof -
  have wf: "dict_wf fs" using assms(2) by simp
  show ?thesis
    using assms(3) validate_established_properties_sorted [of "obj_get fs ''established_properties''"]
    unfolding validate_execution_receipt_binding_def Let_def sorted_obj_get [OF wf] require_in_sorted
      validate_complete_receipt_sorted [OF assms(1,2)] run_checks_Inr
    by simp
qed

lemma claims_assurance_sorted: "dict_wf fs \<Longrightarrow> claims_assurance (sorted_obj fs) = claims_assurance fs"
  by (simp add: claims_assurance_def sorted_obj_get)

lemma validate_compiler_experiment_sorted:
  "dict_wf fs \<Longrightarrow> validate_compiler_experiment (sorted_obj fs) = validate_compiler_experiment fs"
  by (simp add: validate_compiler_experiment_def sorted_obj_get claims_assurance_sorted)

lemma validate_compiler_candidate_sorted:
  assumes "writable fr (JObj fs)"
  shows "validate_compiler_candidate (sorted_obj fs) = validate_compiler_candidate fs"
  using assms json_eq_sorted_both [OF writable_obj_get [OF assms] writable_obj_get [OF assms]]
  by (simp add: validate_compiler_candidate_def sorted_obj_get claims_assurance_sorted)

lemma digest_matches_sorted: "digest_matches (sorted_json v) (sorted_json w) = digest_matches v w"
  by (cases v) (simp_all add: digest_matches_def)

lemma validate_concept_evaluation_sorted:
  assumes "writable fr (JObj fs)"
  shows "validate_concept_evaluation (sorted_obj fs) = validate_concept_evaluation fs"
proof (cases "obj_get fs ''evaluation_material''")
  case (JObj material)
  have wf: "dict_wf fs" using assms by simp
  have "writable fr (JObj material)" using writable_obj_get [OF assms, of "''evaluation_material''"] JObj by simp
  then have mwf: "dict_wf material" by simp
  have "obj_get (sorted_obj fs) ''evaluation_material'' = JObj (sorted_obj material)"
    using JObj wf by (simp add: sorted_obj_get sorted_json_obj del: sorted_json.simps(2))
  then show ?thesis
    unfolding validate_concept_evaluation_def JObj
    by (simp add: sorted_obj_get [OF wf] sorted_obj_get [OF mwf] claims_assurance_sorted wf digest_matches_sorted)
next
  case (JArr xs)
  with assms show ?thesis by (simp add: validate_concept_evaluation_def sorted_obj_get)
qed (use assms in \<open>simp_all add: validate_concept_evaluation_def sorted_obj_get\<close>)

text \<open>A record's fields pass again once they have been stored.\<close>

lemma validate_fields_sorted:
  assumes "jcs_sorts cr" "writable fr (JObj fs)" "validate_fields cr t fs = Inr ()"
  shows "validate_fields cr t (sorted_obj fs) = Inr ()"
proof -
  have wf: "dict_wf fs" using assms(2) by simp
  have status: "status_is_valid t (sorted_obj fs) = status_is_valid t fs"
    unfolding status_is_valid_def sorted_obj_get [OF wf] require_in_sorted ..
  have lists: "invalid_texts t (sorted_obj fs) = invalid_texts t fs"
    "invalid_objects t (sorted_obj fs) = invalid_objects t fs"
    by (simp_all add: invalid_texts_def invalid_objects_def sorted_obj_get [OF wf])
  show ?thesis
    using assms(3) validate_execution_receipt_binding_sorted [OF assms(1,2)]
    by (auto simp: validate_fields_def Let_def and_then_Inr_iff run_checks_Inr sorted_obj_get [OF wf]
        status lists filter_keys_sorted raise_if_Inr_iff validate_execution_assurance_sorted [OF wf]
        validate_compiler_experiment_sorted [OF wf] validate_compiler_candidate_sorted [OF assms(2)]
        validate_concept_evaluation_sorted [OF assms(2)] simp del: set_map run_checks.simps split: if_splits)
qed

section \<open>Identities\<close>

lemma sorted_json_idem [simp]: "sorted_json (sorted_json v) = sorted_json v"
proof (induction v rule: canonical_bytes.induct)
  case (7 kvs)
  then have "map (\<lambda>(k, v). (k, sorted_json v)) (map (\<lambda>(k, v). (k, sorted_json v)) kvs)
      = map (\<lambda>(k, v). (k, sorted_json v)) kvs"
    by (auto intro!: map_cong)
  then have "sort_key fst (map (\<lambda>(k, v). (k, sorted_json v)) (sort_key fst (map (\<lambda>(k, v). (k, sorted_json v)) kvs)))
      = sort_key fst (map (\<lambda>(k, v). (k, sorted_json v)) kvs)"
    by (simp only: sort_key_map_fst [symmetric] sort_key_twice)
  then show ?case by simp
qed (simp_all cong: map_cong)

lemma sorted_obj_same_text:
  assumes "dict_wf d" "dict_wf e"
    "\<And>k. map_option sorted_json (dict_get d k) = map_option sorted_json (dict_get e k)"
  shows "canonical_bytes (JObj d) = canonical_bytes (JObj e)"
  using sorted_obj_ext [OF assms] by (metis canonical_sorted_obj)

lemma json_depth_sorted [simp]: "json_depth (sorted_json v) = json_depth v"
proof (induction v rule: canonical_bytes.induct)
  case (6 xs)
  then show ?case by (simp cong: map_cong)
next
  case (7 kvs)
  have max: "foldr max ns (0 :: nat) = foldr max ms 0" if "set ns = set ms" for ns ms
    using that foldr_max_le_iff [of ns "foldr max ms 0"] foldr_max_le_iff [of ms "foldr max ns 0"]
      foldr_max_le_iff [of ns "foldr max ns 0"] foldr_max_le_iff [of ms "foldr max ms 0"]
    by (intro antisym) auto
  have "(\<lambda>(k, v). json_depth v) ` set (sorted_obj kvs) = (\<lambda>(k, v). json_depth v) ` set kvs"
    using 7 unfolding sorted_obj_def by (force simp: image_iff)
  then have "foldr max (map (\<lambda>(k, v). json_depth v) (sorted_obj kvs)) 0
      = foldr max (map (\<lambda>(k, v). json_depth v) kvs) 0" by (intro max) simp
  moreover have "sorted_obj kvs = [] \<longleftrightarrow> kvs = []"
    using set_sorted_obj_keys [of kvs] by (metis list.map_disc_iff set_empty2)
  ultimately show ?case unfolding sorted_json_obj by simp
qed simp_all

lemma bounded_fields_sorted: "bounded_fields fs \<Longrightarrow> bounded_fields (sorted_obj fs)"
  by (auto simp: bounded_fields_def list_all_iff sorted_obj_def)

lemma current_projection_eq:
  assumes "dict_wf kept" "set metadata_keys \<inter> set (dict_keys kept) = {}"
  shows "current_projection t kept =
    [(''record_type'', JStr (rt_value t)), (''schema_version'', JStr CURRENT_SCHEMA_VERSION)] @ kept"
  using assms by (simp add: current_projection_def dict_update_append metadata_keys_def)

lemma current_projection_text:
  assumes "dict_wf fs" "set metadata_keys \<inter> set (dict_keys fs) = {}"
  shows "canonical_bytes (JObj (current_projection t (dict_without ks (sorted_obj fs))))
    = canonical_bytes (JObj (current_projection t (dict_without ks fs)))"
proof -
  let ?kept = "dict_without ks fs" and ?sorted = "dict_without ks (sorted_obj fs)"
  have wf: "dict_wf ?kept" "dict_wf ?sorted" using assms(1) by simp_all
  have keys: "set metadata_keys \<inter> set (dict_keys ?kept) = {}" "set metadata_keys \<inter> set (dict_keys ?sorted) = {}"
    using assms(2) set_sorted_obj_keys [of fs] by (auto simp del: set_sorted_obj_keys)
  show ?thesis
    unfolding current_projection_eq [OF wf(1) keys(1)] current_projection_eq [OF wf(2) keys(2)]
  proof (rule sorted_obj_same_text)
    fix k
    show "map_option sorted_json (dict_get ([(''record_type'', JStr (rt_value t)), (''schema_version'', JStr CURRENT_SCHEMA_VERSION)] @ ?sorted) k)
      = map_option sorted_json (dict_get ([(''record_type'', JStr (rt_value t)), (''schema_version'', JStr CURRENT_SCHEMA_VERSION)] @ ?kept) k)"
      using assms(1) by (simp add: dict_get_sorted_obj map_option.compositionality comp_def)
  qed (use wf keys in \<open>auto simp: metadata_keys_def\<close>)
qed

lemma check_current_identity_sorted:
  assumes "bounded_fields fs" "dict_wf fs" "set metadata_keys \<inter> set (dict_keys fs) = {}"
    "check_current_identity cr t fs = Inr ()"
  shows "check_current_identity cr t (sorted_obj fs) = Inr ()"
proof -
  from assms(4) obtain spec where spec: "record_specs t = Some spec"
    by (auto simp: check_current_identity_def res_simps)
  show ?thesis
  proof (cases "rs_identity_field spec")
    case None
    with spec show ?thesis by (simp add: check_current_identity_def spec_of_def)
  next
    case (Some f)
    with assms(4) spec obtain e where e: "derive_record_identity cr t (py_fields fs) = Inr e" "obj_get fs f = JStr e"
      by (auto simp: check_current_identity_def spec_of_def res_simps)
    then obtain prefix where prefix: "rs_identity_prefix spec = Some prefix"
      using spec by (auto simp: derive_record_identity_def spec_of_def split: option.splits)
    have "derive_record_identity cr t (py_fields (sorted_obj fs)) = derive_record_identity cr t (py_fields fs)"
      unfolding derive_record_identity_normal [OF assms(1) spec Some prefix]
        derive_record_identity_normal [OF bounded_fields_sorted [OF assms(1)] spec Some prefix]
        local_json_identity_def current_projection_text [OF assms(2,3)] ..
    with e spec Some assms(2) show ?thesis
      by (simp add: check_current_identity_def spec_of_def sorted_obj_get)
  qed
qed

section \<open>Records read back\<close>

text \<open>A record as \<open>new_record\<close> makes it.\<close>

definition current_record :: "crypto \<Rightarrow> forge_record \<Rightarrow> bool" where
  "current_record cr r \<longleftrightarrow>
     (let fs = thaw_fields (fr_fields r) in
      fr_schema r = CURRENT_SCHEMA_VERSION \<and> fr_source r = CURRENT_SCHEMA_VERSION
      \<and> validate_fields cr (fr_type r) fs = Inr () \<and> check_current_identity cr (fr_type r) fs = Inr ()
      \<and> bounded_fields fs \<and> dict_wf fs)"

lemma new_record_current:
  "new_record cr t raw = Inr r \<Longrightarrow> distinct (map fst raw) \<Longrightarrow> current_record cr r \<and> fr_type r = t"
  by (auto simp: current_record_def model_def elim!: new_record_Inr)

text \<open>The record with its members in the order of the stored text.\<close>

definition stored_form :: "forge_record \<Rightarrow> forge_record" where
  "stored_form r = model (fr_type r) (sorted_obj (thaw_fields (fr_fields r))) CURRENT_SCHEMA_VERSION"

lemma current_record_model:
  "current_record cr r \<Longrightarrow> r = model (fr_type r) (thaw_fields (fr_fields r)) CURRENT_SCHEMA_VERSION"
  by (simp add: current_record_def model_def Let_def)

lemma current_rec_to_json:
  assumes "current_record cr r"
  shows "rec_to_json r = (''record_type'', JStr (rt_value (fr_type r)))
    # (''schema_version'', JStr CURRENT_SCHEMA_VERSION) # thaw_fields (fr_fields r)"
    "dict_wf (rec_to_json r)" "bounded_fields (rec_to_json r)"
    "dict_without metadata_keys (rec_to_json r) = thaw_fields (fr_fields r)"
proof -
  let ?fs = "thaw_fields (fr_fields r)"
  have fs: "validate_fields cr (fr_type r) ?fs = Inr ()" "bounded_fields ?fs" "dict_wf ?fs"
    using assms unfolding current_record_def Let_def by blast+
  note no_meta = validated_no_metadata [OF fs(1)]
  show eq: "rec_to_json r = (''record_type'', JStr (rt_value (fr_type r)))
      # (''schema_version'', JStr CURRENT_SCHEMA_VERSION) # ?fs"
    using rec_to_json_model [OF fs(3) no_meta, of "fr_type r" CURRENT_SCHEMA_VERSION]
      current_record_model [OF assms] by simp
  from fs no_meta show "dict_wf (rec_to_json r)" "bounded_fields (rec_to_json r)"
    "dict_without metadata_keys (rec_to_json r) = ?fs"
    unfolding eq by (simp_all add: bounded_rec_to_json metadata_keys_def dict_without_id)
qed

lemma parse_record_current:
  assumes "bounded_fields d" "obj_get d ''record_type'' = JStr (rt_value t)"
    "obj_get d ''schema_version'' = JStr CURRENT_SCHEMA_VERSION"
    "validate_fields cr t (dict_without metadata_keys d) = Inr ()"
    "check_current_identity cr t (dict_without metadata_keys d) = Inr ()"
  shows "parse_record cr (py_of_json (JObj d)) t = Inr (model t (dict_without metadata_keys d) CURRENT_SCHEMA_VERSION)"
  using assms json_object_embed [OF assms(1), of record_label]
  by (simp add: parse_record_def CURRENT_SCHEMA_VERSION_def LEGACY_SCHEMA_VERSION_def del: py_of_json.simps)

lemma stored_form_current:
  assumes "current_record cr r" "jcs_sorts cr" "writable fr (JObj (rec_to_json r))"
  shows "current_record cr (stored_form r)" "fr_type (stored_form r) = fr_type r"
    "rec_to_json (stored_form r) = (''record_type'', JStr (rt_value (fr_type r)))
      # (''schema_version'', JStr CURRENT_SCHEMA_VERSION) # sorted_obj (thaw_fields (fr_fields r))"
proof -
  let ?fs = "thaw_fields (fr_fields r)"
  have fs: "validate_fields cr (fr_type r) ?fs = Inr ()" "check_current_identity cr (fr_type r) ?fs = Inr ()"
    "bounded_fields ?fs" "dict_wf ?fs"
    using assms(1) unfolding current_record_def Let_def by blast+
  have "writable fr (JObj ?fs)" using assms(3) unfolding current_rec_to_json(1) [OF assms(1)] by simp
  with assms(2) fs(1) have "validate_fields cr (fr_type r) (sorted_obj ?fs) = Inr ()"
    by (intro validate_fields_sorted)
  moreover have "check_current_identity cr (fr_type r) (sorted_obj ?fs) = Inr ()"
    using fs by (intro check_current_identity_sorted validated_no_metadata)
  ultimately show current: "current_record cr (stored_form r)"
    using fs by (simp add: current_record_def stored_form_def model_def bounded_fields_sorted)
  show "fr_type (stored_form r) = fr_type r" by (simp add: stored_form_def model_def)
  then show "rec_to_json (stored_form r) = (''record_type'', JStr (rt_value (fr_type r)))
      # (''schema_version'', JStr CURRENT_SCHEMA_VERSION) # sorted_obj (thaw_fields (fr_fields r))"
    using current_rec_to_json(1) [OF current] by (simp add: stored_form_def model_def)
qed

lemma stored_form_parses:
  assumes "current_record cr r" "jcs_sorts cr" "writable fr (JObj (rec_to_json r))"
  shows "parse_record cr (py_of_json (JObj (sorted_obj (rec_to_json r)))) (fr_type r) = Inr (stored_form r)"
proof -
  let ?fs = "thaw_fields (fr_fields r)"
  note json = current_rec_to_json [OF assms(1)]
  have without: "dict_without metadata_keys (sorted_obj (rec_to_json r)) = sorted_obj ?fs"
    unfolding sorted_obj_without json(4) ..
  have get: "obj_get (rec_to_json r) ''record_type'' = JStr (rt_value (fr_type r))"
    "obj_get (rec_to_json r) ''schema_version'' = JStr CURRENT_SCHEMA_VERSION"
    unfolding json(1) by (simp_all add: obj_get_def)
  have stored: "validate_fields cr (fr_type r) (sorted_obj ?fs) = Inr ()"
    "check_current_identity cr (fr_type r) (sorted_obj ?fs) = Inr ()"
    using stored_form_current(1) [OF assms] by (simp_all add: current_record_def stored_form_def model_def Let_def)
  show ?thesis
    unfolding stored_form_def
    by (subst parse_record_current)
      (simp_all add: without stored bounded_fields_sorted json(3) sorted_obj_get [OF json(2)] get)
qed

text \<open>Both forms have the same text and are equal as Python compares objects.\<close>

lemma stored_form_text:
  assumes "current_record cr r" "jcs_sorts cr" "writable fr (JObj (rec_to_json r))"
  shows "canonical_bytes (JObj (rec_to_json (stored_form r))) = canonical_bytes (JObj (rec_to_json r))"
    "sorted_obj (rec_to_json (stored_form r)) = sorted_obj (rec_to_json r)"
    "writable fr (JObj (rec_to_json (stored_form r)))"
proof -
  let ?fs = "thaw_fields (fr_fields r)"
  note json = current_rec_to_json [OF assms(1)] and stored = stored_form_current [OF assms]
  have wf: "dict_wf ?fs" using json(2) unfolding json(1) by simp
  have "writable fr (JObj ?fs)" using assms(3) unfolding json(1) by simp
  show eq: "sorted_obj (rec_to_json (stored_form r)) = sorted_obj (rec_to_json r)"
  proof (rule sorted_obj_ext)
    show "dict_wf (rec_to_json (stored_form r))" by (rule current_rec_to_json(2) [OF stored(1)])
    show "dict_wf (rec_to_json r)" by (rule json(2))
    fix k
    show "map_option sorted_json (dict_get (rec_to_json (stored_form r)) k)
        = map_option sorted_json (dict_get (rec_to_json r) k)"
      unfolding stored(3) json(1) using wf by (simp add: dict_get_sorted_obj map_option.compositionality comp_def)
  qed
  then show "canonical_bytes (JObj (rec_to_json (stored_form r))) = canonical_bytes (JObj (rec_to_json r))"
    by (metis canonical_sorted_obj)
  have "writable fr (sorted_json v)" if "writable fr v" for v
    using that
  proof (induction v rule: canonical_bytes.induct)
    case (7 kvs)
    have "dict_wf (sorted_obj kvs)" using "7.prems" by simp
    moreover have "\<forall>(k, v) \<in> set (sorted_obj kvs). writable fr v"
      using 7 by (fastforce simp: sorted_obj_def)
    ultimately show ?case unfolding sorted_json_obj by simp
  qed auto
  from this [OF \<open>writable fr (JObj ?fs)\<close>] have "writable fr (JObj (sorted_obj ?fs))"
    unfolding sorted_json_obj .
  then show "writable fr (JObj (rec_to_json (stored_form r)))"
    using current_rec_to_json(2) [OF stored(1)] unfolding stored(3) by simp
qed

section \<open>Entries read back\<close>

lemma as_json_list_identity:
  "as_json_list (map py_of_json xs) path i depth = Inr ys \<Longrightarrow>
   (\<And>x w p. x \<in> set xs \<Longrightarrow> as_json_value (py_of_json x) p depth = Inr w \<Longrightarrow> w = x) \<Longrightarrow> ys = xs"
proof (induction xs arbitrary: ys i)
  case (Cons x xs)
  then show ?case by (fastforce simp: res_simps)
qed simp

lemma as_json_items_identity:
  "as_json_items (map (\<lambda>(k, v). (KStr k, py_of_json v)) kvs) path depth = Inr d \<Longrightarrow>
   (\<And>k v w p. (k, v) \<in> set kvs \<Longrightarrow> as_json_value (py_of_json v) p depth = Inr w \<Longrightarrow> w = v) \<Longrightarrow> d = kvs"
proof (induction kvs arbitrary: d)
  case (Cons p kvs)
  then show ?case by (cases p) (fastforce simp: res_simps)
qed simp

lemma as_json_value_identity: "as_json_value (py_of_json v) path depth = Inr w \<Longrightarrow> w = v"
proof (induction v arbitrary: path depth w rule: py_of_json.induct)
  case (6 xs)
  then obtain ys where ys: "as_json_list (map py_of_json xs) path 0 (depth + 1) = Inr ys" "w = JArr ys"
    by (auto simp: as_json_value.simps res_simps split: if_splits)
  from as_json_list_identity [OF ys(1)] "6.IH" ys(2) show ?case by blast
next
  case (7 kvs)
  then obtain d where d: "as_json_items (map (\<lambda>(k, v). (KStr k, py_of_json v)) kvs) path (depth + 1) = Inr d" "w = JObj d"
    by (auto simp: as_json_value.simps res_simps split: if_splits)
  from as_json_items_identity [OF d(1)] "7.IH" d(2) show ?case by blast
qed (auto simp: as_json_value.simps split: if_splits)

lemma json_object_identity:
  assumes "json_object (py_of_json (JObj d)) label = Inr data"
  shows "data = d" "bounded_fields d"
proof -
  from assms show "data = d"
    by (auto simp: json_object_def res_simps simp del: py_of_json.simps dest!: as_json_value_identity)
  with json_object_bounded [OF assms] show "bounded_fields d" by simp
qed

definition entry_of :: "string \<Rightarrow> string \<Rightarrow> forge_record \<Rightarrow> nat \<Rightarrow> string \<Rightarrow> string \<Rightarrow> ledger_entry" where
  "entry_of timestamp kind payload n previous h =
     \<lparr>le_sequence = int n, le_timestamp = timestamp, le_kind = kind, le_previous_hash = previous,
      le_payload = payload, le_entry_hash = h, le_schema = CURRENT_SCHEMA_VERSION,
      le_source = CURRENT_SCHEMA_VERSION\<rparr>"

lemma normalize_current_entry:
  assumes "bounded_fields d" "set (dict_keys d) = set metadata_keys \<union> set LEDGER_REQUIRED"
    "obj_get d ''record_type'' = JStr (rt_value LEDGER_ENTRY)"
    "obj_get d ''schema_version'' = JStr CURRENT_SCHEMA_VERSION"
    "obj_get d ''sequence'' = JInt (int n)" "obj_get d ''timestamp'' = JStr timestamp"
    "obj_get d ''kind'' = JStr kind" "obj_get d ''previous_hash'' = JStr previous"
    "obj_get d ''entry_hash'' = JStr h" "obj_get d ''payload'' = JObj pl"
    "kind_type kind = Inr t" "parse_record cr (py_of_json (JObj pl)) t = Inr r"
  shows "normalize_ledger_entry cr (py_of_json (JObj d)) = Inr (entry_of timestamp kind r n previous h)"
proof -
  let ?d = "dict_without metadata_keys d"
  have data: "json_object (py_of_json (JObj d)) ''ledger_entry'' = Inr d"
    by (rule json_object_embed [OF assms(1)])
  have get: "obj_get ?d ''sequence'' = JInt (int n)" "obj_get ?d ''timestamp'' = JStr timestamp"
    "obj_get ?d ''kind'' = JStr kind" "obj_get ?d ''previous_hash'' = JStr previous"
    "obj_get ?d ''entry_hash'' = JStr h" "obj_get ?d ''payload'' = JObj pl"
    using assms(5-10) by (simp_all add: obj_get_def metadata_keys_def)
  have keys: "set (dict_keys ?d) = set LEDGER_REQUIRED"
    using assms(2) by (auto simp: LEDGER_REQUIRED_def metadata_keys_def simp del: set_map)
  have none: "filter (\<lambda>k. k \<notin> set (dict_keys ?d)) LEDGER_REQUIRED = []"
    "filter (\<lambda>k. k \<notin> set LEDGER_REQUIRED) (dict_keys ?d) = []"
    unfolding filter_empty_conv keys by simp_all
  have source: "entry_source (JStr (rt_value LEDGER_ENTRY)) (JStr CURRENT_SCHEMA_VERSION) = Inr CURRENT_SCHEMA_VERSION"
    by (simp add: entry_source_def CURRENT_SCHEMA_VERSION_def LEGACY_SCHEMA_VERSION_def)
  have "entry_of_members cr CURRENT_SCHEMA_VERSION ?d = Inr (entry_of timestamp kind r n previous h)"
    using assms(11,12)
    by (simp add: entry_of_members_def get json_int_def json_text_def json_members_def
        typed_def entry_of_def del: py_of_json.simps)
  then show ?thesis
    unfolding normalize_ledger_entry_def data and_then.simps assms(3,4) source Let_def none sort_key_simps
    by simp
qed

lemma raw_entry_members:
  "set (dict_keys (raw_entry env timestamp kind payload n previous)) = set metadata_keys \<union> set LEDGER_REQUIRED"
  "obj_get (raw_entry env timestamp kind payload n previous) ''record_type'' = JStr (rt_value LEDGER_ENTRY)"
  "obj_get (raw_entry env timestamp kind payload n previous) ''schema_version'' = JStr CURRENT_SCHEMA_VERSION"
  "obj_get (raw_entry env timestamp kind payload n previous) ''timestamp'' = JStr timestamp"
  by (auto simp: raw_entry_def obj_get_def LEDGER_REQUIRED_def metadata_keys_def)

lemmas raw_entry_facts = raw_entry_members raw_entry_get(1-4) raw_entry_hash

lemma normalize_raw_bounded: "normalize_raw env raw = Inr e \<Longrightarrow> bounded_fields raw"
  by (auto simp: normalize_raw_def normalize_ledger_entry_def and_then_Inr_iff simp del: py_of_json.simps
      dest: json_object_identity)

lemma current_record_parses:
  assumes "current_record cr r"
  shows "parse_record cr (py_of_json (JObj (rec_to_json r))) (fr_type r) = Inr r"
proof -
  note json = current_rec_to_json [OF assms]
  have get: "obj_get (rec_to_json r) ''record_type'' = JStr (rt_value (fr_type r))"
    "obj_get (rec_to_json r) ''schema_version'' = JStr CURRENT_SCHEMA_VERSION"
    unfolding json(1) by (simp_all add: obj_get_def)
  have "parse_record cr (py_of_json (JObj (rec_to_json r))) (fr_type r)
      = Inr (model (fr_type r) (thaw_fields (fr_fields r)) CURRENT_SCHEMA_VERSION)"
    using assms by (subst parse_record_current) (simp_all add: json(3,4) get current_record_def Let_def)
  with current_record_model [OF assms] show ?thesis by simp
qed

text \<open>What \<open>_build_entry_unlocked\<close> returns, and what the stored line gives when it is read.\<close>

lemma normalize_built_entry:
  fixes env timestamp kind r n p
  defines "raw \<equiv> raw_entry env timestamp kind r n (JStr p)"
  assumes "current_record (env_crypto env) r" "kind_type kind = Inr (fr_type r)" "bounded_fields raw"
  shows "normalize_raw env raw = Inr (entry_of timestamp kind r n p (entry_hash env (entry_body raw)))"
  unfolding normalize_raw_def
  by (rule normalize_current_entry [OF assms(4), where t = "fr_type r" and pl = "rec_to_json r"])
    (simp_all add: raw_def raw_entry_facts assms(3) current_record_parses [OF assms(2)] del: py_of_json.simps set_map)

lemma normalize_stored_entry:
  fixes env timestamp kind r n p
  defines "raw \<equiv> raw_entry env timestamp kind r n (JStr p)"
  assumes "current_record (env_crypto env) r" "kind_type kind = Inr (fr_type r)" "bounded_fields raw"
    "jcs_sorts (env_crypto env)" "writable (env_float env) (JObj (rec_to_json r))"
  shows "normalize_raw env (sorted_obj raw)
    = Inr (entry_of timestamp kind (stored_form r) n p (entry_hash env (entry_body raw)))"
proof -
  have wf: "dict_wf raw" unfolding raw_def by (rule raw_entry_get)
  show ?thesis
    unfolding normalize_raw_def
    by (rule normalize_current_entry [OF bounded_fields_sorted [OF assms(4)], where t = "fr_type r"
          and pl = "sorted_obj (rec_to_json r)"])
      (simp_all add: sorted_obj_get [OF wf] sorted_json_obj raw_entry_facts [of env timestamp kind r n "JStr p", folded raw_def]
        assms(3) stored_form_parses [OF assms(2,5,6)] del: py_of_json.simps set_map sorted_json.simps(2))
qed

end
