(* ===== verification/TextEncoding.thy ===== *)
theory TextEncoding
  imports JsonText
begin

text \<open>
  When the canonical text of a value is valid UTF-8: its strings and member names are, and its floats
  are written in ASCII. (A Python string with a lone surrogate has no UTF-8 encoding.)
\<close>

fun utf8_json :: "json \<Rightarrow> bool" where
  "utf8_json (JFloat f) = ascii f"
| "utf8_json (JStr s) = utf8_valid s"
| "utf8_json (JArr xs) = (\<forall>x \<in> set xs. utf8_json x)"
| "utf8_json (JObj kvs) = (\<forall>(k, v) \<in> set kvs. utf8_valid k \<and> utf8_json v)"
| "utf8_json _ = True"

lemma ascii_append [simp]: "ascii (s @ t) \<longleftrightarrow> ascii s \<and> ascii t"
  by (simp add: ascii_def)

lemma ascii_Cons [simp]: "ascii (c # s) \<longleftrightarrow> byte_in 0 127 c \<and> ascii s"
  by (simp add: ascii_def)

lemma ascii_Nil [simp]: "ascii []"
  by (simp add: ascii_def)

lemma utf8_valid_Nil [simp]: "utf8_valid []"
  by (simp add: utf8_valid.simps)

lemma utf8_valid_concat: "\<forall>s \<in> set ss. utf8_valid s \<Longrightarrow> utf8_valid (concat ss)"
  by (induction ss) (simp_all add: utf8_valid_append)

lemma utf8_valid_join: "utf8_valid sep \<Longrightarrow> \<forall>s \<in> set ss. utf8_valid s \<Longrightarrow> utf8_valid (join sep ss)"
  by (induction sep ss rule: join.induct) (simp_all add: utf8_valid_append)

lemma hex_char_ascii: "n < 16 \<Longrightarrow> byte_in 0 127 (hex_char n)"
  by (simp add: byte_in_def hex_char_def)

lemma escape_char_ascii:
  assumes "byte_in 0 127 c"
  shows "ascii (escape_char c)"
proof -
  have "of_char c < (32 :: nat) \<Longrightarrow> of_char c div 16 < (16 :: nat)" by linarith
  then have hex: "of_char c < (32 :: nat) \<Longrightarrow> byte_in 0 127 (hex_char (of_char c div 16))"
    "byte_in 0 127 (hex_char (of_char c mod 16))"
    by (simp_all add: hex_char_ascii)
  have literals: "byte_in 0 127 (CHR 0x5C)" "byte_in 0 127 (CHR 0x22)" "byte_in 0 127 (CHR ''n'')"
    "byte_in 0 127 (CHR ''r'')" "byte_in 0 127 (CHR ''t'')" "byte_in 0 127 (CHR ''f'')"
    "byte_in 0 127 (CHR ''b'')" "byte_in 0 127 (CHR ''u'')" "byte_in 0 127 (CHR ''0'')"
    by (simp_all add: byte_in_def)
  show ?thesis unfolding escape_char_def using assms hex by (simp add: literals)
qed

lemma escape_char_high: "\<not> byte_in 0 127 c \<Longrightarrow> escape_char c = [c]"
proof -
  assume high: "\<not> byte_in 0 127 c"
  then have "c \<noteq> d" if "byte_in 0 127 d" for d using that by blast
  then have "c \<noteq> CHR 0x22" "c \<noteq> CHR 0x5C" "c \<noteq> CHR 0x0A" "c \<noteq> CHR 0x0D" "c \<noteq> CHR 0x09" "c \<noteq> CHR 0x0C" "c \<noteq> CHR 0x08"
    by (simp_all add: byte_in_def)
  moreover have "\<not> of_char c < (32 :: nat)" using high by (simp add: byte_in_def)
  ultimately show ?thesis by (simp add: escape_char_def)
qed

lemma tail_high: "utf8_tail c \<Longrightarrow> \<not> byte_in 0 127 c"
  by (simp add: utf8_tail_def is_continuation_def byte_in_def)

lemma lead_high: "lead_length c \<noteq> 1 \<Longrightarrow> \<not> byte_in 0 127 c"
  by (auto simp: lead_length_def)

lemma escape_high: "\<forall>c \<in> set s. \<not> byte_in 0 127 c \<Longrightarrow> concat (map escape_char s) = s"
  by (induction s) (simp_all add: escape_char_high)

text \<open>Escaping leaves the bytes of a longer sequence alone.\<close>

lemma utf8_valid_escape: "utf8_valid s \<Longrightarrow> utf8_valid (concat (map escape_char s))"
proof (induction s rule: utf8_valid.induct)
  case (1 s)
  show ?case
  proof (cases s)
    case (Cons c cs)
    with "1.prems" obtain r where step: "utf8_step s = Some r" and r: "utf8_valid r"
      by (subst (asm) utf8_valid.simps) (auto split: option.splits)
    have IH: "utf8_valid (concat (map escape_char r))" using "1.IH" [of r] step r Cons by simp
    let ?n = "lead_length c" and ?ds = "take (lead_length c - 1) cs"
    from step Cons have ds: "list_all utf8_tail ?ds" "r = drop (?n - 1) cs"
      by (auto simp: utf8_step_def Let_def split: if_splits)
    show ?thesis
    proof (cases "?n = 1")
      case True
      then have "byte_in 0 127 c" by (auto simp: lead_length_def split: if_splits)
      from escape_char_ascii [OF this] have "utf8_valid (escape_char c)" by (rule ascii_utf8)
      with IH True ds Cons show ?thesis by (simp add: utf8_valid_append)
    next
      case False
      let ?seq = "c # ?ds"
      have "\<forall>d \<in> set ?seq. \<not> byte_in 0 127 d"
        using lead_high [OF False] ds(1) by (auto simp: list_all_iff tail_high)
      then have seq: "concat (map escape_char ?seq) = ?seq" by (rule escape_high)
      have s: "s = ?seq @ r" using Cons ds(2) by simp
      have "concat (map escape_char s) = ?seq @ concat (map escape_char r)"
        unfolding s by (simp only: map_append concat_append seq)
      moreover have "utf8_valid ?seq"
      proof -
        have "utf8_step ?seq = Some []"
          using step Cons by (auto simp: utf8_step_def Let_def second_ok_def split: if_splits list.splits)
        then show ?thesis by (subst utf8_valid.simps) simp
      qed
      ultimately show ?thesis using IH by (simp only: utf8_valid_append)
    qed
  qed (simp add: utf8_valid.simps)
qed

lemma utf8_valid_quote: "utf8_valid s \<Longrightarrow> utf8_valid (quote s)"
proof -
  assume "utf8_valid s"
  moreover have quotes: "utf8_valid [CHR 0x22]" by (rule ascii_utf8) (simp add: byte_in_def)
  ultimately have "utf8_valid ([CHR 0x22] @ concat (map escape_char s) @ [CHR 0x22])"
    by (intro utf8_valid_append utf8_valid_escape)
  then show ?thesis by (simp add: quote_def)
qed

lemma int_str_ascii: "ascii (int_str i)"
proof -
  have "num_char c \<Longrightarrow> byte_in 0 127 c" for c
    by (auto simp: num_char_def is_digit_def byte_in_def)
  then show ?thesis using int_str_chars [of i] by (auto simp: ascii_def list_all_iff)
qed

lemma utf8_canonical: "utf8_json v \<Longrightarrow> utf8_valid (canonical_bytes v)"
proof (induction v rule: canonical_bytes.induct)
  case (6 xs)
  moreover have ends: "utf8_valid ''[''" "utf8_valid '']''" "utf8_valid '',''"
    by (rule ascii_utf8; simp add: byte_in_def)+
  ultimately have "utf8_valid (''['' @ join '','' (map canonical_bytes xs) @ '']'')"
    by (intro utf8_valid_append utf8_valid_join) auto
  then show ?case by simp
next
  case (7 kvs)
  have member: "utf8_valid (member_text (k, canonical_bytes v))" if "(k, v) \<in> set kvs" for k v
  proof -
    have "utf8_valid k" "utf8_valid (canonical_bytes v)"
      using "7.IH" [OF that refl] "7.prems" that by auto
    moreover have "utf8_valid '':''" by (rule ascii_utf8) (simp add: byte_in_def)
    ultimately have "utf8_valid (quote k @ '':'' @ canonical_bytes v)"
      by (intro utf8_valid_append utf8_valid_quote)
    then show ?thesis by (simp add: member_text_def)
  qed
  have ends: "utf8_valid ''{''" "utf8_valid ''}''" "utf8_valid '',''"
    by (rule ascii_utf8; simp add: byte_in_def)+
  have "utf8_valid (''{'' @ join '','' (map member_text (sort_key fst (map (\<lambda>(k, v). (k, canonical_bytes v)) kvs))) @ ''}'')"
    using ends by (intro utf8_valid_append utf8_valid_join) (auto simp: member)
  then show ?case by simp
qed (simp_all add: ascii_utf8 int_str_ascii utf8_valid_quote byte_in_def)

end
