(* ===== verification/StoreFacts.thy ===== *)
theory StoreFacts
  imports RecordStore StoredRecords TextEncoding
begin

text \<open>
  What the operations of \<open>record_store.py\<close> do to a store: a committed record and its entry are read
  back and verify, a journal is read back as it was written, and the index can always be rebuilt.
\<close>

section \<open>Stored records\<close>

text \<open>A record that can be written: as \<open>new_record\<close> makes it, with text that has an encoding.\<close>

definition recordable :: "storage_env \<Rightarrow> forge_record \<Rightarrow> bool" where
  "recordable env r \<longleftrightarrow>
     current_record (env_crypto env) r \<and> writable (env_float env) (JObj (rec_to_json r))
     \<and> utf8_json (JObj (rec_to_json r))"

text \<open>What is documented of \<open>hashlib\<close> and \<open>rfc8785\<close>.\<close>

definition digests_documented :: "storage_env \<Rightarrow> bool" where
  "digests_documented env \<longleftrightarrow> jcs_sorts (env_crypto env) \<and> (\<forall>s. hex64 (env_sha env s))"

lemma hex64_ascii: "hex64 s \<Longrightarrow> ascii s"
proof -
  assume "hex64 s"
  then have "\<forall>c \<in> set s. c \<in> set ''0123456789abcdef''" unfolding hex64_def list_all_iff by (rule conjunct2)
  moreover have "\<forall>c \<in> set ''0123456789abcdef''. byte_in 0 127 c" by (simp add: byte_in_def)
  ultimately show "ascii s" unfolding ascii_def list_all_iff by blast
qed

lemma line_end: "list_all is_ws [CHR 0x0A]" "ascii [CHR 0x0A]"
  by (simp_all add: is_ws_def byte_in_def)

lemma loads_canonical_line:
  assumes "writable fr v" "utf8_json v"
  shows "json_loads fr keep_last (canonical_bytes v @ [CHR 0x0A]) = Some (sorted_json v)"
  using assms(1) utf8_canonical [OF assms(2)] line_end by (rule ledger_reader.loads_canonical)

lemma read_canonical:
  assumes "writable fr v" "utf8_json v" "length (canonical_bytes v @ [CHR 0x0A]) \<le> cap"
  shows "read_json fr cap (canonical_bytes v @ [CHR 0x0A]) = Inr (sorted_json v)"
proof -
  have "json_loads fr no_duplicates (canonical_bytes v @ [CHR 0x0A]) = Some (sorted_json v)"
    using assms(1) utf8_canonical [OF assms(2)] line_end by (rule record_reader.loads_canonical)
  with assms(3) show ?thesis unfolding read_json_def not_less [symmetric] by simp
qed

lemma load_stored_record:
  assumes "recordable env r" "jcs_sorts (env_crypto env)" "group_type record_group = Inr (fr_type r)"
    "length (record_bytes r) \<le> 4000000"
  shows "load_record_file env record_group (record_bytes r) = Inr (stored_form r)"
proof -
  have r: "current_record (env_crypto env) r" "writable (env_float env) (JObj (rec_to_json r))"
    "utf8_json (JObj (rec_to_json r))" using assms(1) by (simp_all add: recordable_def)
  have "read_json (env_float env) 4000000 (record_bytes r) = Inr (JObj (sorted_obj (rec_to_json r)))"
    using read_canonical [OF r(2,3)] assms(4)
    unfolding record_bytes_def sorted_json_obj by blast
  then show ?thesis
    using assms(3) stored_form_parses [OF r(1) assms(2) r(2)]
    by (simp add: load_record_file_def del: py_of_json.simps)
qed

lemma stored_record_bytes:
  assumes "recordable env r" "jcs_sorts (env_crypto env)"
  shows "record_bytes (stored_form r) = record_bytes r" "json_same (stored_form r) (stored_form r)"
    "json_same (stored_form r) r"
proof -
  have r: "current_record (env_crypto env) r" "writable (env_float env) (JObj (rec_to_json r))"
    using assms(1) by (simp_all add: recordable_def)
  note stored = stored_form_text [OF r(1) assms(2) r(2)]
  show "record_bytes (stored_form r) = record_bytes r" using stored(1) by (simp add: record_bytes_def)
  show "json_same (stored_form r) (stored_form r)"
    unfolding json_same_def using stored(3) by (rule json_eq_refl)
  have "json_eq (sorted_json (JObj (rec_to_json (stored_form r)))) (sorted_json (JObj (rec_to_json r)))"
    unfolding sorted_json_obj stored(2)
    using stored_form_text(3) [OF r(1) assms(2) r(2)] json_eq_refl json_eq_sorted_both sorted_json_obj stored(2)
    by metis
  then show "json_same (stored_form r) r"
    unfolding json_same_def json_eq_sorted_both [OF stored(3) r(2)] .
qed

section \<open>Checked commits\<close>

lemma commit_checks_Inr:
  assumes "commit_checks env record_group kind r = Inr (field, identity, destination)"
  obtains ctx where "persisted_record_context record_group kind = Inr ctx"
    "context_of kind = Inr ctx" "prc_group ctx = record_group" "prc_identity_field ctx = field"
    "kind_type kind = Inr (fr_type r)" "group_type record_group = Inr (fr_type r)"
    "identity_text r field = Inr identity"
    "immutable_record_path (env_state_dir env) record_group identity = Inr destination"
    "length (record_bytes r) \<le> 4000000" "fr_schema r = CURRENT_SCHEMA_VERSION"
proof -
  from assms obtain ctx where c: "persisted_record_context record_group kind = Inr ctx"
    "fr_type r = prc_record_type ctx" "fr_schema r = CURRENT_SCHEMA_VERSION"
    "identity_text r field = Inr identity" "prc_identity_field ctx = field"
    "immutable_record_path (env_state_dir env) record_group identity = Inr destination"
    "length (record_bytes r) \<le> 4000000"
    unfolding commit_checks_def and_then_Inr_iff raise_if_Inr_iff IMMUTABLE_RECORD_BYTE_CAP_def
      sum.inject prod.inject not_less not_not by blast
  have "context_of kind = Inr ctx"
    using c(1) by (auto simp: persisted_record_context_def context_of_def split: option.splits if_splits)
  moreover have "kind_type kind = Inr (fr_type r)" "group_type record_group = Inr (fr_type r)"
    using persisted_record_context_Inr [OF c(1)] c(2)
    unfolding context_consistent_def Let_def fst_conv snd_conv kind_type_def group_type_def by simp_all
  ultimately show thesis using persisted_record_context_Inr(1) [OF c(1)] c by (intro that)
qed

lemma identity_text_Inr: "identity_text r f = Inr s \<longleftrightarrow> rec_value r f = FStr s \<and> s \<noteq> []"
  by (cases "rec_value r f") (auto simp: identity_text_def)

lemma stored_identity_text:
  assumes "current_record cr r" "identity_text r f = Inr s"
  shows "identity_text (stored_form r) f = Inr s"
proof -
  let ?fs = "thaw_fields (fr_fields r)"
  have wf: "dict_wf ?fs" "fr_schema r = CURRENT_SCHEMA_VERSION"
    using assms(1) by (simp_all add: current_record_def Let_def del: keys_thaw_fields)
  have found: "rec_value r f = FStr s" "s \<noteq> []" using assms(2) by (simp_all add: identity_text_Inr)
  have "rec_value (stored_form r) f = FStr s"
  proof (cases "f \<in> set metadata_keys")
    case True
    with found wf(2) show ?thesis
      by (auto simp: metadata_keys_def rec_value_def rec_get_def stored_form_def model_def)
  next
    case False
    then have "dict_get (fr_fields r) f = Some (FStr s)"
      using found by (auto simp: metadata_keys_def rec_value_def rec_get_def split: option.splits if_splits)
    then have "dict_get ?fs f = Some (JStr s)" by simp
    with wf(1) have "dict_get (sorted_obj ?fs) f = Some (JStr s)" by (simp only: dict_get_sorted_obj) simp
    with False show ?thesis by (simp add: metadata_keys_def rec_value_def rec_get_def stored_form_def model_def)
  qed
  with found show ?thesis by (simp add: identity_text_Inr)
qed

lemma verify_new_record:
  assumes "commit_checks env record_group kind r = Inr (field, identity, destination)"
    "recordable env r" "jcs_sorts (env_crypto env)"
    "le_payload e = stored_form r" "le_kind e = kind" "st_records s destination = Some (record_bytes r)"
  shows "verify_immutable_record env s e = Inr ()"
proof -
  from assms(1) obtain ctx where c: "context_of kind = Inr ctx" "prc_group ctx = record_group"
    "prc_identity_field ctx = field" "group_type record_group = Inr (fr_type r)"
    "identity_text r field = Inr identity"
    "immutable_record_path (env_state_dir env) record_group identity = Inr destination"
    "length (record_bytes r) \<le> 4000000" by (rule commit_checks_Inr)
  have "identity_text (stored_form r) field = Inr identity"
    using assms(2) c(5) by (auto simp: recordable_def intro: stored_identity_text)
  with c assms(4-6) load_stored_record [OF assms(2,3) c(4,7)] stored_record_bytes [OF assms(2,3)]
  show ?thesis by (simp add: verify_immutable_record_def)
qed

text \<open>Adding a file leaves the verified ones alone.\<close>

lemma verify_immutable_record_frame:
  assumes "verify_immutable_record env s e = Inr ()" "st_records s destination = None"
    "st_records s' = (st_records s)(destination := x)"
  shows "verify_immutable_record env s' e = Inr ()"
proof -
  from assms(1) obtain ctx identity path bytes where
    "context_of (le_kind e) = Inr ctx" "identity_text (le_payload e) (prc_identity_field ctx) = Inr identity"
    "immutable_record_path (env_state_dir env) (prc_group ctx) identity = Inr path"
    "st_records s path = Some bytes"
    by (auto simp: verify_immutable_record_def and_then_Inr_iff split: option.splits)
  moreover from this assms(2,3) have "st_records s' path = Some bytes" by (cases "path = destination") auto
  ultimately show ?thesis using assms(1) by (simp add: verify_immutable_record_def)
qed

lemma verify_immutable_records_Inr:
  "verify_immutable_records env s es = Inr u \<longleftrightarrow> (\<forall>e \<in> set es. verify_immutable_record env s e = Inr ())"
  by (auto simp: verify_immutable_records_def run_checks_Inr)

lemma verify_ledger_Inr:
  "verify_ledger env s = Inr (n, h) \<longleftrightarrow>
     st_txs s = [] \<and> (\<exists>raws es. snapshot env (st_ledger s) = Inr (raws, h) \<and> n = length raws
       \<and> traverse (normalize_raw env) raws = Inr es \<and> verify_immutable_records env s es = Inr ())"
  by (auto simp: verify_ledger_def require_recovered_def and_then_Inr_iff raise_if_Inr_iff)

section \<open>The index\<close>

lemma normalized_context:
  assumes "normalize_raw env raw = Inr e"
  obtains ctx where "context_of (le_kind e) = Inr ctx"
proof -
  have "le_kind e \<in> set (dict_keys LEDGER_KIND_TYPES)"
    using normalize_ledger_entry_payload(2) [OF assms [unfolded normalize_raw_def]]
    by (metis dict_get_None_iff option.distinct(1))
  then have "dict_get PERSISTED_RECORD_CONTEXTS (le_kind e) \<noteq> None"
    unfolding persisted_kinds [symmetric] dict_get_None_iff by simp
  then show thesis by (auto simp: context_of_def intro: that)
qed

lemma index_entries_total:
  "traverse (normalize_raw env) raws = Inr es \<Longrightarrow> \<exists>d. index_entries env by_kind identities raws = Inr d"
proof (induction raws arbitrary: es by_kind identities)
  case (Cons raw raws)
  then obtain e es' where e: "normalize_raw env raw = Inr e" "traverse (normalize_raw env) raws = Inr es'"
    by (auto simp: and_then_Inr_iff)
  obtain ctx where "context_of (le_kind e) = Inr ctx" using e(1) by (rule normalized_context)
  with Cons.IH [OF e(2)] e(1) show ?case by (auto simp: Let_def)
qed simp

lemma ensure_index_total:
  assumes "traverse (normalize_raw env) raws = Inr es" "verify_chain_of env raws = Inr h"
  shows "ensure_index env s raws = Inr [] \<or> (\<exists>bytes. ensure_index env s raws = Inr [WriteIndex bytes])"
proof -
  obtain d where "index_entries env [] [] raws = Inr d" using index_entries_total [OF assms(1)] by blast
  with verified_last_hash [OF assms(2)] show ?thesis
    by (cases d) (auto simp: ensure_index_def index_data_def Let_def)
qed

lemma rebuild_index_total:
  assumes "snapshot env (st_ledger s) = Inr (raws, h)" "traverse (normalize_raw env) raws = Inr es"
  shows "rebuild_index env s = Inr [] \<or> (\<exists>bytes. rebuild_index env s = Inr [WriteIndex bytes])"
proof -
  have "verify_chain_of env raws = Inr h" using assms(1) by (simp add: snapshot_Inr)
  from ensure_index_total [OF assms(2) this, of s] assms(1) show ?thesis by (simp add: rebuild_index_def)
qed

section \<open>Journals\<close>

lemma journal_text_sorted: "dict_wf j \<Longrightarrow> journal_text (sorted_obj j) k = journal_text j k"
  by (cases "obj_get j k") (simp_all add: journal_text_def sorted_obj_get)

lemma journal_sequence_sorted: "dict_wf j \<Longrightarrow> journal_sequence (sorted_obj j) = journal_sequence j"
  by (cases "obj_get j ''expected_sequence''") (simp_all add: journal_sequence_def sorted_obj_get)

lemma committed_get: "obj_get (committed j) k = (if k = ''state'' then JStr ''COMMITTED'' else obj_get j k)"
  by (simp add: committed_def obj_get_def)

lemma committed_text: "k \<noteq> ''state'' \<Longrightarrow> journal_text (committed j) k = journal_text j k"
  by (simp add: journal_text_def committed_get)

lemma committed_sequence: "journal_sequence (committed j) = journal_sequence j"
  by (simp add: journal_sequence_def committed_get)

lemma committed_twice: "committed (committed j) = committed j"
proof -
  have "dict_set k v (dict_set k v d) = dict_set k v d" for k and v :: json and d
    by (induction d) auto
  then show ?thesis by (simp add: committed_def)
qed

lemma committed_sorted_bytes:
  assumes "dict_wf j"
  shows "journal_bytes (committed (sorted_obj j)) = journal_bytes (committed j)"
proof -
  have "canonical_bytes (JObj (committed (sorted_obj j))) = canonical_bytes (JObj (committed j))"
  proof (rule sorted_obj_same_text)
    show "dict_wf (committed (sorted_obj j))" "dict_wf (committed j)"
      unfolding committed_def
      by (rule dict_wf_set [OF sorted_obj_wf [OF assms]], rule dict_wf_set [OF assms])
    show "map_option sorted_json (dict_get (committed (sorted_obj j)) k) = map_option sorted_json (dict_get (committed j) k)" for k
      using assms by (simp add: committed_def dict_get_sorted_obj map_option.compositionality comp_def)
  qed
  then show ?thesis by (simp add: journal_bytes_def)
qed

text \<open>Recovery does not depend on the order of a journal's members.\<close>

lemma recovery_destination_sorted:
  "dict_wf j \<Longrightarrow> recovery_destination env (sorted_obj j) = recovery_destination env j"
  by (simp add: recovery_destination_def journal_text_sorted)

lemma recovery_phases_sorted:
  assumes "dict_wf j"
  shows "recovery_phases env txid (sorted_obj j) destination = recovery_phases env txid j destination"
proof -
  have old: "old_ledger env (sorted_obj j) = old_ledger env j"
    using assms by (simp add: old_ledger_def journal_text_sorted fun_eq_iff)
  have "republish_record env txid (sorted_obj j) destination = republish_record env txid j destination"
    unfolding fun_eq_iff republish_record_def journal_text_sorted [OF assms] old sorted_obj_get [OF assms]
      sorted_json_scalar by simp
  moreover have "republish_ledger env txid (sorted_obj j) = republish_ledger env txid j"
    unfolding fun_eq_iff republish_ledger_def assert_predecessor_def journal_text_sorted [OF assms]
      journal_sequence_sorted [OF assms] old by simp
  moreover have "confirm_recovery env txid (sorted_obj j) destination = confirm_recovery env txid j destination"
    unfolding fun_eq_iff confirm_recovery_def journal_text_sorted [OF assms] journal_sequence_sorted [OF assms]
      committed_sorted_bytes [OF assms] by simp
  ultimately show ?thesis by (simp add: recovery_phases_def)
qed

text \<open>A journal that passes the checks of \<open>_load_journal\<close>.\<close>

definition valid_journal :: "string \<Rightarrow> obj \<Rightarrow> bool" where
  "valid_journal txid j \<longleftrightarrow>
     dict_wf j \<and> set (dict_keys j) = set JOURNAL_KEYS
     \<and> obj_get j ''schema_version'' = JInt TRANSACTION_SCHEMA_VERSION
     \<and> obj_get j ''transaction_id'' = JStr txid
     \<and> obj_get j ''state'' \<in> {JStr ''PREPARED'', JStr ''COMMITTED''}
     \<and> (\<exists>n \<ge> 1. obj_get j ''expected_sequence'' = JInt n)
     \<and> (\<forall>k \<in> set JOURNAL_TEXTS. \<exists>s. obj_get j k = JStr s \<and> utf8_valid s)
     \<and> (\<forall>k \<in> set JOURNAL_HASHES. hex64 (journal_text j k))"

lemma valid_journal_member:
  assumes "valid_journal txid j" "(k, v) \<in> set j"
  shows "utf8_valid k \<and> utf8_json v \<and> writable fr v"
proof -
  have wf: "dict_wf j" "set (dict_keys j) = set JOURNAL_KEYS" using assms(1) by (simp_all add: valid_journal_def del: set_map)
  have "dict_get j k = Some v" using wf(1) assms(2) by simp
  then have get: "obj_get j k = v" by (simp add: obj_get_def)
  have k: "k \<in> set JOURNAL_KEYS" using wf(2) assms(2) by force
  have "list_all ascii JOURNAL_KEYS" by code_simp
  with k have "utf8_valid k" by (auto simp: list_all_iff intro: ascii_utf8)
  moreover have "(\<exists>n. v = JInt n) \<or> (\<exists>s. v = JStr s \<and> utf8_valid s)"
  proof (cases "k \<in> set JOURNAL_TEXTS")
    case True
    with assms(1) get show ?thesis unfolding valid_journal_def by auto
  next
    case False
    with k have "k = ''schema_version'' \<or> k = ''expected_sequence''" by (simp add: JOURNAL_KEYS_def)
    with assms(1) get show ?thesis unfolding valid_journal_def by auto
  qed
  ultimately show ?thesis by auto
qed

lemma load_journal_written:
  assumes "valid_journal txid j"
  shows "load_journal env txid (journal_bytes j) = Inr (sorted_obj j)"
proof -
  have wf: "dict_wf j" using assms by (simp add: valid_journal_def)
  have "writable (env_float env) (JObj j)" "utf8_json (JObj j)"
    using valid_journal_member [OF assms] wf by auto
  from loads_canonical_line [OF this]
  have loads: "json_loads (env_float env) keep_last (journal_bytes j) = Some (JObj (sorted_obj j))"
    unfolding journal_bytes_def sorted_json_obj .
  have keys: "set (dict_keys (sorted_obj j)) = set JOURNAL_KEYS"
    using assms unfolding set_sorted_obj_keys by (simp add: valid_journal_def del: set_map)
  have texts: "list_all (\<lambda>k. json_text (obj_get (sorted_obj j) k) \<noteq> None) JOURNAL_TEXTS"
    using assms wf by (auto simp: list_all_iff valid_journal_def sorted_obj_get json_text_def split: json.splits)
  have hashes: "list_all (\<lambda>k. hex64 (journal_text (sorted_obj j) k)) JOURNAL_HASHES"
    using assms wf by (auto simp: list_all_iff valid_journal_def journal_text_sorted)
  have state: "require_in (obj_get (sorted_obj j) ''state'') [''PREPARED'', ''COMMITTED''] journal_malformed = Inr ()"
    using assms wf by (auto simp: valid_journal_def sorted_obj_get require_in_def in_texts_def)
  from assms obtain n where n: "n \<ge> 1" "obj_get j ''expected_sequence'' = JInt n" by (auto simp: valid_journal_def)
  show ?thesis
    unfolding load_journal_def loads
    using assms wf texts hashes state n keys
    by (simp add: valid_journal_def sorted_obj_get json_int_def del: set_map)
qed

lemma valid_journal_committed:
  assumes "valid_journal txid j"
  shows "valid_journal txid (committed j)"
proof -
  have wf: "dict_wf j" "set (dict_keys j) = set JOURNAL_KEYS"
    using assms by (simp_all add: valid_journal_def del: set_map)
  then have "dict_keys (committed j) = dict_keys j"
    by (simp add: committed_def JOURNAL_KEYS_def JOURNAL_TEXTS_def del: set_map)
  moreover have "\<forall>k \<in> set JOURNAL_HASHES. k \<noteq> ''state''" by (simp add: JOURNAL_HASHES_def)
  moreover have "utf8_valid ''COMMITTED''" by (rule ascii_utf8) (simp add: byte_in_def)
  ultimately show ?thesis
    using assms by (auto simp: valid_journal_def committed_get committed_text simp del: set_map)
qed

end
