(* ===== verification/CrashSafety.thy ===== *)
theory CrashSafety
  imports StoreFacts
begin

text \<open>
  The commit protocol of \<open>record_store.py\<close> under interruption. A transaction passes through seven
  stages, told apart by the staged files and the journal; every store that an interrupted commit or an
  interrupted recovery leaves is in one of them, and recovery takes each of them to a store with the
  record and its entry, or to one without both.
\<close>

section \<open>A transaction in flight\<close>

record flight =
  fl_txid :: string
  fl_destination :: string
  fl_record :: string
  fl_after :: string
  fl_journal :: obj
  fl_store :: store

definition fl_before :: "flight \<Rightarrow> string" where
  "fl_before fl = file_bytes (st_ledger (fl_store fl))"

text \<open>What the preparation of a transaction establishes.\<close>

definition valid_flight :: "storage_env \<Rightarrow> flight \<Rightarrow> bool" where
  "valid_flight env fl \<longleftrightarrow>
     (let j = fl_journal fl in
      st_txs (fl_store fl) = [] \<and> st_records (fl_store fl) (fl_destination fl) = None
      \<and> valid_journal (fl_txid fl) j \<and> obj_get j ''state'' = JStr ''PREPARED''
      \<and> recovery_destination env j = Inr (fl_destination fl)
      \<and> journal_text j ''record_sha256'' = env_sha env (fl_record fl)
      \<and> journal_text j ''ledger_before_sha256'' = env_sha env (fl_before fl)
      \<and> journal_text j ''ledger_after_sha256'' = env_sha env (fl_after fl)
      \<and> env_sha env (fl_before fl) \<noteq> env_sha env (fl_after fl)
      \<and> (\<exists>raws h raw h' es e r.
           snapshot env (st_ledger (fl_store fl)) = Inr (raws, h)
           \<and> journal_sequence j = int (length raws) + 1 \<and> journal_text j ''expected_previous_hash'' = h
           \<and> snapshot env (Some (fl_after fl)) = Inr (raws @ [raw], h')
           \<and> traverse (normalize_raw env) raws = Inr es \<and> normalize_raw env raw = Inr e
           \<and> le_entry_hash e = journal_text j ''entry_hash'' \<and> le_kind e = journal_text j ''ledger_kind''
           \<and> load_record_file env (journal_text j ''record_group'') (fl_record fl) = Inr r
           \<and> json_same r (le_payload e)))"

definition fl_records :: "flight \<Rightarrow> string \<rightharpoonup> string" where
  "fl_records fl = (st_records (fl_store fl))(fl_destination fl := Some (fl_record fl))"

section \<open>Stages\<close>

definition holds :: "flight \<Rightarrow> tx_dir \<Rightarrow> string option \<Rightarrow> (string \<rightharpoonup> string) \<Rightarrow> store \<Rightarrow> bool" where
  "holds fl d ledger records s \<longleftrightarrow>
     st_txs s = [(fl_txid fl, d)] \<and> st_ledger s = ledger \<and> st_records s = records"

definition settled :: "string option \<Rightarrow> (string \<rightharpoonup> string) \<Rightarrow> store \<Rightarrow> bool" where
  "settled ledger records s \<longleftrightarrow> st_txs s = [] \<and> st_ledger s = ledger \<and> st_records s = records"

datatype stage = Before | Staging | Prepared | Record_Out | Ledger_Out | Clearing | After

fun in_stage :: "flight \<Rightarrow> stage \<Rightarrow> store \<Rightarrow> bool" where
  "in_stage fl Before s = settled (st_ledger (fl_store fl)) (st_records (fl_store fl)) s"
| "in_stage fl Staging s =
     (\<exists>d. tx_journal d = None \<and> holds fl d (st_ledger (fl_store fl)) (st_records (fl_store fl)) s)"
| "in_stage fl Prepared s =
     holds fl \<lparr>tx_record = Some (fl_record fl), tx_ledger = Some (fl_after fl),
         tx_journal = Some (journal_bytes (fl_journal fl))\<rparr>
       (st_ledger (fl_store fl)) (st_records (fl_store fl)) s"
| "in_stage fl Record_Out s =
     holds fl \<lparr>tx_record = None, tx_ledger = Some (fl_after fl),
         tx_journal = Some (journal_bytes (fl_journal fl))\<rparr>
       (st_ledger (fl_store fl)) (fl_records fl) s"
| "in_stage fl Ledger_Out s =
     (\<exists>j \<in> {fl_journal fl, committed (fl_journal fl)}.
        holds fl \<lparr>tx_record = None, tx_ledger = None, tx_journal = Some (journal_bytes j)\<rparr>
          (Some (fl_after fl)) (fl_records fl) s)"
| "in_stage fl Clearing s =
     (\<exists>d. tx_journal d = None \<and> holds fl d (Some (fl_after fl)) (fl_records fl) s)"
| "in_stage fl After s = settled (Some (fl_after fl)) (fl_records fl) s"

definition on_track :: "flight \<Rightarrow> store \<Rightarrow> bool" where
  "on_track fl s \<longleftrightarrow> (\<exists>stage. in_stage fl stage s)"

declare in_stage.simps [simp del]

lemma on_trackI [intro]: "in_stage fl stage s \<Longrightarrow> on_track fl s"
  by (auto simp: on_track_def)

text \<open>The effect of a disk step on the one transaction.\<close>

lemma tx_of_holds: "holds fl d l r s \<Longrightarrow> tx_of s (fl_txid fl) = d"
  by (simp add: holds_def tx_of_def)

lemma step_holds:
  assumes "holds fl d l r s"
  shows "holds fl (d\<lparr>tx_record := Some b\<rparr>) l r (do_step (StageRecord (fl_txid fl) b) s)"
    "holds fl (d\<lparr>tx_ledger := Some b\<rparr>) l r (do_step (StageLedger (fl_txid fl) b) s)"
    "holds fl (d\<lparr>tx_journal := Some b\<rparr>) l r (do_step (WriteJournal (fl_txid fl) b) s)"
    "holds fl (d\<lparr>tx_record := None\<rparr>) l (r(x := tx_record d)) (do_step (PublishRecord (fl_txid fl) x) s)"
    "holds fl (d\<lparr>tx_ledger := None\<rparr>) (tx_ledger d) r (do_step (PublishLedger (fl_txid fl)) s)"
    "holds fl d l r (do_step (WriteIndex b) s)"
    "settled l r (do_step (RemoveTx (fl_txid fl)) s)"
  using assms by (simp_all add: holds_def settled_def tx_of_def put_tx_def)

lemma make_holds: "settled l r s \<Longrightarrow> holds fl empty_tx l r (do_step (MakeTx (fl_txid fl)) s)"
  by (simp add: holds_def settled_def put_tx_def)

lemma half_removed_holds:
  assumes "holds fl d l r s"
  shows "holds fl d' l r (put_tx (fl_txid fl) d' s)"
  using assms by (simp add: holds_def put_tx_def)

declare do_step.simps [simp del]

section \<open>Interrupted steps\<close>

inductive_simps torn_Nil: "torn [] s t"
inductive_simps interrupted_Nil: "interrupted [] s t"
inductive_simps interrupted_Cons: "interrupted (p # ps) s t"

text \<open>Steps that cannot be observed halfway.\<close>

fun whole_step :: "disk_step \<Rightarrow> bool" where
  "whole_step (StageRecord t bytes) = False"
| "whole_step (StageLedger t bytes) = False"
| "whole_step (RemoveTx t) = False"
| "whole_step step = True"

lemma torn_whole: "torn [step] s t \<Longrightarrow> whole_step step \<Longrightarrow> t = s \<or> t = do_step step s"
  by (cases rule: torn.cases) (auto simp: torn_Nil)

text \<open>One phase of a program whose result is a store of the set \<open>Q\<close> wherever it stops.\<close>

lemma interrupted_phase:
  assumes "interrupted (p # ps) s t" "p s = Inr steps" "Q s"
    "torn steps s t \<Longrightarrow> Q t" "interrupted ps (do_steps steps s) t \<Longrightarrow> Q t"
  shows "Q t"
  using assms by (auto simp: interrupted_Cons)

lemma run_phase: "p s = Inr steps \<Longrightarrow> run_phases (p # ps) s = run_phases ps (do_steps steps s)"
  by simp

lemma do_steps_simps [simp]: "do_steps [] s = s" "do_steps (step # steps) s = do_steps steps (do_step step s)"
  by (simp_all add: do_steps_def)

section \<open>Removing a transaction\<close>

lemma torn_removal:
  assumes "torn [RemoveTx (fl_txid fl)] s t" "holds fl d l r s"
  shows "t = s \<or> settled l r t \<or> (\<exists>d'. tx_record d' \<in> {None, tx_record d} \<and> tx_ledger d' \<in> {None, tx_ledger d}
    \<and> tx_journal d' \<in> {None, tx_journal d} \<and> holds fl d' l r t)"
proof -
  from assms(1) show ?thesis
  proof (cases rule: torn.cases)
    case after_step
    then show ?thesis using step_holds(7) [OF assms(2)] by (simp add: torn_Nil)
  next
    case (half_removed a b c)
    let ?d = "\<lparr>tx_record = a, tx_ledger = b, tx_journal = c\<rparr>"
    have "holds fl ?d l r t" using half_removed half_removed_holds [OF assms(2)] by simp
    moreover have "tx_record ?d \<in> {None, tx_record d} \<and> tx_ledger ?d \<in> {None, tx_ledger d}
        \<and> tx_journal ?d \<in> {None, tx_journal d}"
      using half_removed tx_of_holds [OF assms(2)] by simp
    ultimately show ?thesis by blast
  qed simp_all
qed

lemma removal_on_track:
  assumes "in_stage fl stage s" "stage \<in> {Staging, Ledger_Out, Clearing}" "torn [RemoveTx (fl_txid fl)] s t"
  shows "on_track fl t"
proof -
  have keep: "t = s \<Longrightarrow> on_track fl t" using assms(1) by blast
  from assms(2) consider (staging) "stage = Staging" | (out) "stage = Ledger_Out" | (clearing) "stage = Clearing"
    by blast
  then show ?thesis
  proof cases
    case staging
    with assms(1) obtain d where d: "tx_journal d = None"
      "holds fl d (st_ledger (fl_store fl)) (st_records (fl_store fl)) s" by (auto simp: in_stage.simps)
    with torn_removal [OF assms(3) d(2)] keep have
      "on_track fl t \<or> in_stage fl Before t \<or> in_stage fl Staging t" by (auto simp: in_stage.simps)
    then show ?thesis by blast
  next
    case out
    with assms(1) obtain j where j: "j \<in> {fl_journal fl, committed (fl_journal fl)}"
      "holds fl \<lparr>tx_record = None, tx_ledger = None, tx_journal = Some (journal_bytes j)\<rparr>
         (Some (fl_after fl)) (fl_records fl) s" by (fastforce simp: in_stage.simps)
    from torn_removal [OF assms(3) j(2)] consider "t = s" | "in_stage fl After t"
      | (half) d where "tx_record d = None" "tx_ledger d = None" "tx_journal d \<in> {None, Some (journal_bytes j)}"
          "holds fl d (Some (fl_after fl)) (fl_records fl) t" by (auto simp: in_stage.simps)
    then show ?thesis
    proof cases
      case half
      then have d: "\<lparr>tx_record = None, tx_ledger = None, tx_journal = tx_journal d\<rparr> = d" by simp
      show ?thesis
      proof (cases "tx_journal d = None")
        case True
        with half(4) have "in_stage fl Clearing t" by (auto simp: in_stage.simps)
        then show ?thesis by blast
      next
        case False
        with half(3) have "tx_journal d = Some (journal_bytes j)" by simp
        with half(4) d have "holds fl \<lparr>tx_record = None, tx_ledger = None, tx_journal = Some (journal_bytes j)\<rparr>
            (Some (fl_after fl)) (fl_records fl) t" by simp
        with j(1) have "in_stage fl Ledger_Out t" unfolding in_stage.simps by blast
        then show ?thesis by blast
      qed
    qed (use keep in auto)
  next
    case clearing
    with assms(1) obtain d where d: "tx_journal d = None" "holds fl d (Some (fl_after fl)) (fl_records fl) s" by (auto simp: in_stage.simps)
    with torn_removal [OF assms(3) d(2)] keep have
      "on_track fl t \<or> in_stage fl After t \<or> in_stage fl Clearing t" by (auto simp: in_stage.simps)
    then show ?thesis by blast
  qed
qed

section \<open>The last phases\<close>

lemma flight_after:
  assumes "valid_flight env fl"
  obtains raws raw h h' es e r where
    "snapshot env (st_ledger (fl_store fl)) = Inr (raws, h)"
    "journal_sequence (fl_journal fl) = int (length raws) + 1"
    "journal_text (fl_journal fl) ''expected_previous_hash'' = h"
    "snapshot env (Some (fl_after fl)) = Inr (raws @ [raw], h')"
    "traverse (normalize_raw env) raws = Inr es" "normalize_raw env raw = Inr e"
    "le_entry_hash e = journal_text (fl_journal fl) ''entry_hash''"
    "le_kind e = journal_text (fl_journal fl) ''ledger_kind''"
    "load_record_file env (journal_text (fl_journal fl) ''record_group'') (fl_record fl) = Inr r"
    "json_same r (le_payload e)"
  using assms unfolding valid_flight_def Let_def by blast

lemma index_phase:
  assumes "valid_flight env fl" "holds fl d (Some (fl_after fl)) r s"
  shows "rebuild_index env s = Inr [] \<or> (\<exists>bytes. rebuild_index env s = Inr [WriteIndex bytes])"
proof -
  from assms(1) obtain raws raw h' es e where *: "snapshot env (Some (fl_after fl)) = Inr (raws @ [raw], h')"
    "traverse (normalize_raw env) raws = Inr es" "normalize_raw env raw = Inr e" by (rule flight_after)
  then have "traverse (normalize_raw env) (raws @ [raw]) = Inr (es @ [e])" by (simp add: traverse_append)
  with *(1) assms(2) show ?thesis by (intro rebuild_index_total) (simp_all add: holds_def)
qed

text \<open>
  A program whose completion leaves a store with or without the record, and whose interruption leaves
  a store that recovery knows.
\<close>

definition recovers :: "flight \<Rightarrow> phase list \<Rightarrow> stage \<Rightarrow> store \<Rightarrow> bool" where
  "recovers fl phases result s \<longleftrightarrow>
     (\<exists>s'. run_phases phases s = (Inr (), s') \<and> in_stage fl result s') \<and>
     (\<forall>t. interrupted phases s t \<longrightarrow> on_track fl t)"

lemma recovers_on_track: "recovers fl phases result s \<Longrightarrow> on_track fl s"
  by (auto simp: recovers_def intro: interrupted.here)

lemma recovers_Nil: "in_stage fl result s \<Longrightarrow> recovers fl [] result s"
  by (auto simp: recovers_def interrupted_Nil)

lemma recovers_phase:
  assumes "p s = Inr steps" "on_track fl s" "\<And>t. torn steps s t \<Longrightarrow> on_track fl t"
    "recovers fl ps result (do_steps steps s)"
  shows "recovers fl (p # ps) result s"
  using assms unfolding recovers_def by (auto elim: interrupted_phase)

lemma recovers_skip: "p s = Inr [] \<Longrightarrow> recovers fl ps result s \<Longrightarrow> recovers fl (p # ps) result s"
  by (rule recovers_phase) (auto simp: torn_Nil dest: recovers_on_track)

lemma recovers_whole:
  assumes "p s = Inr [step]" "whole_step step" "on_track fl s" "recovers fl ps result (do_step step s)"
  shows "recovers fl (p # ps) result s"
proof (rule recovers_phase)
  show "p s = Inr [step]" by (rule assms(1))
  show "on_track fl t" if "torn [step] s t" for t
    using torn_whole [OF that assms(2)] assms(3) recovers_on_track [OF assms(4)] by auto
qed (use assms(3,4) in simp_all)

lemma recovers_removal:
  assumes "in_stage fl stage s" "stage \<in> {Staging, Ledger_Out, Clearing}"
    "in_stage fl result (do_step (RemoveTx (fl_txid fl)) s)"
  shows "recovers fl [\<lambda>s. Inr [RemoveTx (fl_txid fl)]] result s"
proof (rule recovers_phase)
  show "on_track fl t" if "torn [RemoveTx (fl_txid fl)] s t" for t
    by (rule removal_on_track [OF assms(1,2) that])
qed (use assms in \<open>auto intro: recovers_Nil simp del: do_step.simps\<close>)

lemma removed_after:
  assumes "stage \<in> {Ledger_Out, Clearing}" "in_stage fl stage s"
  shows "in_stage fl After (do_step (RemoveTx (fl_txid fl)) s)"
proof -
  from assms obtain d where "holds fl d (Some (fl_after fl)) (fl_records fl) s" by (auto simp: in_stage.simps)
  then show ?thesis unfolding in_stage.simps by (rule step_holds)
qed

lemma last_phases_recover:
  assumes "valid_flight env fl" "in_stage fl Ledger_Out s"
  shows "recovers fl [rebuild_index env, \<lambda>s. Inr [RemoveTx (fl_txid fl)]] After s"
proof -
  from assms(2) obtain d where d: "holds fl d (Some (fl_after fl)) (fl_records fl) s"
    by (auto simp: in_stage.simps)
  have remove: "recovers fl [\<lambda>s. Inr [RemoveTx (fl_txid fl)]] After u" if "in_stage fl Ledger_Out u" for u
    by (rule recovers_removal [OF that _ removed_after [OF _ that]]) simp_all
  from index_phase [OF assms(1) d] show ?thesis
  proof
    assume "rebuild_index env s = Inr []"
    then show ?thesis by (rule recovers_skip) (rule remove [OF assms(2)])
  next
    assume "\<exists>bytes. rebuild_index env s = Inr [WriteIndex bytes]"
    then obtain bytes where phase: "rebuild_index env s = Inr [WriteIndex bytes]" by blast
    have "in_stage fl Ledger_Out (do_step (WriteIndex bytes) s)"
      using assms(2) step_holds(6) unfolding in_stage.simps by blast
    note rest = remove [OF this]
  show ?thesis
  proof (rule recovers_whole)
    show "on_track fl s" using assms(2) by blast
  qed (rule phase, simp, rule rest)
  qed
qed

section \<open>Recovering\<close>

lemma committed_flight:
  "journal_sequence j' = journal_sequence (fl_journal fl)" "old_ledger env j' = old_ledger env (fl_journal fl)"
  "confirm_recovery env txid j' = confirm_recovery env txid (fl_journal fl)"
  if "j' \<in> {fl_journal fl, committed (fl_journal fl)}"
  using that
  by (auto simp: committed_sequence old_ledger_def confirm_recovery_def committed_text committed_twice fun_eq_iff)

lemma flight_hashes:
  assumes "valid_flight env fl"
  shows "journal_text (fl_journal fl) ''record_sha256'' = env_sha env (fl_record fl)"
    "journal_text (fl_journal fl) ''ledger_before_sha256'' = env_sha env (fl_before fl)"
    "journal_text (fl_journal fl) ''ledger_after_sha256'' = env_sha env (fl_after fl)"
    "env_sha env (fl_before fl) \<noteq> env_sha env (fl_after fl)"
    "st_records (fl_store fl) (fl_destination fl) = None"
    "obj_get (fl_journal fl) ''state'' = JStr ''PREPARED''"
    "recovery_destination env (fl_journal fl) = Inr (fl_destination fl)"
    "valid_journal (fl_txid fl) (fl_journal fl)"
  using assms by (simp_all add: valid_flight_def Let_def)

lemma flight_old_ledger:
  assumes "valid_flight env fl"
  shows "holds fl d (st_ledger (fl_store fl)) r s \<Longrightarrow> old_ledger env (fl_journal fl) s"
    "holds fl d (Some (fl_after fl)) r s \<Longrightarrow> \<not> old_ledger env (fl_journal fl) s"
  using flight_hashes [OF assms] by (auto simp: old_ledger_def holds_def fl_before_def file_bytes_def)

lemma confirm_phase:
  assumes "valid_flight env fl" "in_stage fl Ledger_Out s"
  shows "confirm_recovery env (fl_txid fl) (fl_journal fl) (fl_destination fl) s
    = Inr [WriteJournal (fl_txid fl) (journal_bytes (committed (fl_journal fl)))]"
proof -
  let ?j = "fl_journal fl"
  from assms(1) obtain raws raw h' es e r where *: "journal_sequence ?j = int (length raws) + 1"
    "snapshot env (Some (fl_after fl)) = Inr (raws @ [raw], h')" "normalize_raw env raw = Inr e"
    "le_entry_hash e = journal_text ?j ''entry_hash''" "le_kind e = journal_text ?j ''ledger_kind''"
    "load_record_file env (journal_text ?j ''record_group'') (fl_record fl) = Inr r" "json_same r (le_payload e)"
    by (rule flight_after)
  from assms(2) have s: "st_ledger s = Some (fl_after fl)" "st_records s (fl_destination fl) = Some (fl_record fl)"
    by (auto simp: in_stage.simps holds_def fl_records_def)
  have "(raws @ [raw]) ! nat (journal_sequence ?j - 1) = raw" using *(1) by (simp add: nth_append)
  with * s flight_hashes [OF assms(1)] show ?thesis
    by (simp add: confirm_recovery_def validate_recovery_file_def file_bytes_def)
qed

lemma confirm_recovers:
  assumes "valid_flight env fl" "in_stage fl Ledger_Out s"
  shows "recovers fl [confirm_recovery env (fl_txid fl) (fl_journal fl) (fl_destination fl),
    rebuild_index env, \<lambda>s. Inr [RemoveTx (fl_txid fl)]] After s"
proof -
  let ?w = "WriteJournal (fl_txid fl) (journal_bytes (committed (fl_journal fl)))"
  have "in_stage fl Ledger_Out (do_step ?w s)"
    using assms(2) step_holds(3) [where b = "journal_bytes (committed (fl_journal fl))"] unfolding in_stage.simps
    by (fastforce)
  note rest = last_phases_recover [OF assms(1) this]
  show ?thesis
  proof (rule recovers_whole)
    show "on_track fl s" using assms(2) by blast
  qed (rule confirm_phase [OF assms], simp, rule rest)
qed

lemma ledger_phase:
  assumes "valid_flight env fl" "holds fl d (st_ledger (fl_store fl)) r s"
  shows "assert_predecessor env code (fl_journal fl) s = Inr ()"
proof -
  from assms(1) obtain raws h where "snapshot env (st_ledger (fl_store fl)) = Inr (raws, h)"
    "journal_sequence (fl_journal fl) = int (length raws) + 1"
    "journal_text (fl_journal fl) ''expected_previous_hash'' = h" by (rule flight_after)
  with assms(2) show ?thesis by (simp add: assert_predecessor_def holds_def)
qed

lemma record_out_recovers:
  assumes "valid_flight env fl" "in_stage fl Record_Out s"
  shows "recovers fl [republish_ledger env (fl_txid fl) (fl_journal fl),
    confirm_recovery env (fl_txid fl) (fl_journal fl) (fl_destination fl),
    rebuild_index env, \<lambda>s. Inr [RemoveTx (fl_txid fl)]] After s"
proof -
  let ?d = "\<lparr>tx_record = None, tx_ledger = Some (fl_after fl), tx_journal = Some (journal_bytes (fl_journal fl))\<rparr>"
  have d: "holds fl ?d (st_ledger (fl_store fl)) (fl_records fl) s" using assms(2) by (simp add: in_stage.simps)
  have phase: "republish_ledger env (fl_txid fl) (fl_journal fl) s = Inr [PublishLedger (fl_txid fl)]"
    using flight_old_ledger(1) [OF assms(1) d] ledger_phase [OF assms(1) d] by (simp add: republish_ledger_def)
  have "in_stage fl Ledger_Out (do_step (PublishLedger (fl_txid fl)) s)"
    using step_holds(5) [OF d] unfolding in_stage.simps by (intro bexI [of _ "fl_journal fl"]) simp_all
  note rest = confirm_recovers [OF assms(1) this]
  show ?thesis
  proof (rule recovers_whole)
    show "on_track fl s" using assms(2) by blast
  qed (rule phase, simp, rule rest)
qed

lemma prepared_recovers:
  assumes "valid_flight env fl" "in_stage fl Prepared s"
  shows "recovers fl (recovery_phases env (fl_txid fl) (fl_journal fl) (fl_destination fl)) After s"
proof -
  let ?d = "\<lparr>tx_record = Some (fl_record fl), tx_ledger = Some (fl_after fl), tx_journal = Some (journal_bytes (fl_journal fl))\<rparr>"
  have d: "holds fl ?d (st_ledger (fl_store fl)) (st_records (fl_store fl)) s" using assms(2) by (simp add: in_stage.simps)
  have phase: "republish_record env (fl_txid fl) (fl_journal fl) (fl_destination fl) s
      = Inr [PublishRecord (fl_txid fl) (fl_destination fl)]"
    using flight_old_ledger(1) [OF assms(1) d] flight_hashes [OF assms(1)] d tx_of_holds [OF d]
    by (simp add: republish_record_def validate_recovery_file_def holds_def)
  have "in_stage fl Record_Out (do_step (PublishRecord (fl_txid fl) (fl_destination fl)) s)"
    using step_holds(4) [OF d, of "fl_destination fl"] by (simp add: in_stage.simps fl_records_def)
  note rest = record_out_recovers [OF assms(1) this]
  show ?thesis
    unfolding recovery_phases_def
  proof (rule recovers_whole)
    show "on_track fl s" using assms(2) by blast
  qed (rule phase, simp, rule rest)
qed

lemma record_out_recovers':
  assumes "valid_flight env fl" "in_stage fl Record_Out s"
  shows "recovers fl (recovery_phases env (fl_txid fl) (fl_journal fl) (fl_destination fl)) After s"
proof -
  let ?d = "\<lparr>tx_record = None, tx_ledger = Some (fl_after fl), tx_journal = Some (journal_bytes (fl_journal fl))\<rparr>"
  have d: "holds fl ?d (st_ledger (fl_store fl)) (fl_records fl) s" using assms(2) by (simp add: in_stage.simps)
  have "republish_record env (fl_txid fl) (fl_journal fl) (fl_destination fl) s = Inr []"
    using flight_old_ledger(1) [OF assms(1) d] flight_hashes [OF assms(1)] d tx_of_holds [OF d]
    by (simp add: republish_record_def validate_recovery_file_def holds_def fl_records_def)
  then show ?thesis
    unfolding recovery_phases_def by (rule recovers_skip) (rule record_out_recovers [OF assms])
qed

lemma ledger_out_recovers:
  assumes "valid_flight env fl" "in_stage fl Ledger_Out s" "j' \<in> {fl_journal fl, committed (fl_journal fl)}"
  shows "recovers fl (recovery_phases env (fl_txid fl) j' (fl_destination fl)) After s"
proof -
  from assms(2) obtain d where d: "holds fl d (Some (fl_after fl)) (fl_records fl) s" by (auto simp: in_stage.simps)
  have new: "\<not> old_ledger env j' s"
    using flight_old_ledger(2) [OF assms(1) d] committed_flight(2) [OF assms(3)] by simp
  have "journal_text j' ''record_sha256'' = env_sha env (fl_record fl)"
    using assms(3) flight_hashes(1) [OF assms(1)] by (auto simp: committed_text)
  then have "republish_record env (fl_txid fl) j' (fl_destination fl) s = Inr []"
    using new d by (simp add: republish_record_def validate_recovery_file_def holds_def fl_records_def)
  moreover have "republish_ledger env (fl_txid fl) j' s = Inr []" using new by (simp add: republish_ledger_def)
  ultimately show ?thesis
    unfolding recovery_phases_def committed_flight(3) [OF assms(3)]
    by (intro recovers_skip confirm_recovers [OF assms(1,2)])
qed

text \<open>What recovery plans for the store of each stage, and where it leads.\<close>

lemma plan_written_journal:
  assumes "valid_flight env fl" "j' \<in> {fl_journal fl, committed (fl_journal fl)}"
    "tx_journal (tx_of s (fl_txid fl)) = Some (journal_bytes j')"
  shows "plan_recovery env (fl_txid fl) s
    = Inr (recovery_phases env (fl_txid fl) j' (fl_destination fl), True)"
proof -
  have j': "valid_journal (fl_txid fl) j'"
    using assms(2) flight_hashes(8) [OF assms(1)] valid_journal_committed by auto
  then have wf: "dict_wf j'" by (simp add: valid_journal_def)
  have "recovery_destination env j' = Inr (fl_destination fl)"
    using assms(2) flight_hashes(7) [OF assms(1)] by (auto simp: recovery_destination_def committed_text)
  with wf show ?thesis
    by (simp add: plan_recovery_def assms(3) load_journal_written [OF j'] recovery_destination_sorted [OF wf]
        recovery_phases_sorted [OF wf])
qed

lemma stage_recovers:
  assumes "valid_flight env fl" "in_stage fl stage s" "stage \<noteq> Before" "stage \<noteq> After"
  obtains phases completes result where "plan_recovery env (fl_txid fl) s = Inr (phases, completes)"
    "recovers fl phases result s" "result = (if stage = Staging then Before else After)"
proof -
  have abandoned: "plan_recovery env (fl_txid fl) s = Inr ([\<lambda>s. Inr [RemoveTx (fl_txid fl)]], False)"
    if "holds fl d l r s" "tx_journal d = None" for d l r
    using that by (simp add: plan_recovery_def tx_of_holds [OF that(1)])
  have journal: "plan_recovery env (fl_txid fl) s = Inr (recovery_phases env (fl_txid fl) j' (fl_destination fl), True)"
    if "holds fl d l r s" "tx_journal d = Some (journal_bytes j')" "j' \<in> {fl_journal fl, committed (fl_journal fl)}"
    for d l r j'
    using that by (intro plan_written_journal [OF assms(1)]) (simp_all add: tx_of_holds [OF that(1)])
  consider "stage = Staging" | "stage = Prepared" | "stage = Record_Out" | "stage = Ledger_Out" | "stage = Clearing"
    using assms(3,4) by (cases stage) auto
  then show thesis
  proof cases
    case 1
    with assms(2) obtain d where d: "tx_journal d = None" "holds fl d (st_ledger (fl_store fl)) (st_records (fl_store fl)) s"
      by (auto simp: in_stage.simps)
    have removed: "in_stage fl Before (do_step (RemoveTx (fl_txid fl)) s)"
      unfolding in_stage.simps using d(2) by (rule step_holds)
    show thesis
      by (rule that [OF abandoned [OF d(2,1)] recovers_removal [OF assms(2) _ removed]]) (simp_all add: 1)
  next
    case 2
    with assms(2) have d: "holds fl \<lparr>tx_record = Some (fl_record fl), tx_ledger = Some (fl_after fl),
         tx_journal = Some (journal_bytes (fl_journal fl))\<rparr> (st_ledger (fl_store fl)) (st_records (fl_store fl)) s"
      by (simp add: in_stage.simps)
    show thesis
      by (rule that [OF journal [OF d] prepared_recovers [OF assms(1)]]) (use 2 assms(2) in simp_all)
  next
    case 3
    with assms(2) have d: "holds fl \<lparr>tx_record = None, tx_ledger = Some (fl_after fl),
         tx_journal = Some (journal_bytes (fl_journal fl))\<rparr> (st_ledger (fl_store fl)) (fl_records fl) s"
      by (simp add: in_stage.simps)
    show thesis
      by (rule that [OF journal [OF d] record_out_recovers' [OF assms(1)]]) (use 3 assms(2) in simp_all)
  next
    case 4
    with assms(2) have "in_stage fl Ledger_Out s" by simp
    then obtain j' where j': "j' \<in> {fl_journal fl, committed (fl_journal fl)}"
      "holds fl \<lparr>tx_record = None, tx_ledger = None, tx_journal = Some (journal_bytes j')\<rparr>
          (Some (fl_after fl)) (fl_records fl) s" unfolding in_stage.simps by blast
    show thesis
      by (rule that [OF journal [OF j'(2) _ j'(1)] ledger_out_recovers [OF assms(1) _ j'(1)]]) (use 4 assms(2) in simp_all)
  next
    case 5
    with assms(2) obtain d where d: "tx_journal d = None" "holds fl d (Some (fl_after fl)) (fl_records fl) s"
      by (auto simp: in_stage.simps)
    show thesis
      by (rule that [OF abandoned [OF d(2,1)] recovers_removal [OF assms(2) _ removed_after [OF _ assms(2)]]])
        (simp_all add: 5)
  qed
qed

section \<open>Committing\<close>

lemma torn_staged:
  "torn [StageRecord x b] s t \<Longrightarrow> t = s \<or> (\<exists>b'. t = do_step (StageRecord x b') s)"
  "torn [StageLedger x b] s t \<Longrightarrow> t = s \<or> (\<exists>b'. t = do_step (StageLedger x b') s)"
proof -
  show "t = s \<or> (\<exists>b'. t = do_step (StageRecord x b') s)" if "torn [StageRecord x b] s t"
    using that
  proof (cases rule: torn.cases)
    case after_step
    then have "t = do_step (StageRecord x b) s" by (simp add: torn_Nil)
    then show ?thesis by blast
  qed blast+
  show "t = s \<or> (\<exists>b'. t = do_step (StageLedger x b') s)" if "torn [StageLedger x b] s t"
    using that
  proof (cases rule: torn.cases)
    case after_step
    then have "t = do_step (StageLedger x b) s" by (simp add: torn_Nil)
    then show ?thesis by blast
  qed blast+
qed

lemma staging_recovers:
  assumes "p s = Inr [step]" "step = StageRecord (fl_txid fl) b \<or> step = StageLedger (fl_txid fl) b"
    "tx_journal d = None" "holds fl d (st_ledger (fl_store fl)) (st_records (fl_store fl)) s"
    "recovers fl ps result (do_step step s)"
  shows "recovers fl (p # ps) result s"
proof (rule recovers_phase)
  show "p s = Inr [step]" by (rule assms(1))
  have "in_stage fl Staging s" using assms(3,4) by (auto simp: in_stage.simps)
  then show here: "on_track fl s" by blast
  have staged: "in_stage fl Staging (do_step (StageRecord (fl_txid fl) b') s)"
    "in_stage fl Staging (do_step (StageLedger (fl_txid fl) b') s)" for b'
    unfolding in_stage.simps using step_holds(1,2) [OF assms(4), of b'] assms(3)
    by (metis tx_dir.update_convs(1,2) tx_dir.select_convs(3) tx_dir.cases)+
  show "on_track fl t" if "torn [step] s t" for t
    using assms(2) that torn_staged here staged by blast
  show "recovers fl ps result (do_steps [step] s)" using assms(5) by simp
qed

lemma commit_recovers:
  assumes "valid_flight env fl" "in_stage fl Before s" "record_bytes r = fl_record fl"
  shows "recovers fl (commit_phases env (fl_txid fl) (fl_destination fl) r (fl_before fl) (fl_after fl) (fl_journal fl)) After s"
proof -
  let ?t = "fl_txid fl" and ?L = "st_ledger (fl_store fl)" and ?R = "st_records (fl_store fl)"
  let ?jb = "journal_bytes (fl_journal fl)" and ?cb = "journal_bytes (committed (fl_journal fl))"
  let ?s1 = "do_step (MakeTx ?t) s"
  let ?s2 = "do_step (StageRecord ?t (fl_record fl)) ?s1"
  let ?s3 = "do_step (StageLedger ?t (fl_after fl)) ?s2"
  let ?s4 = "do_step (WriteJournal ?t ?jb) ?s3"
  let ?s5 = "do_step (PublishRecord ?t (fl_destination fl)) ?s4"
  let ?s6 = "do_step (PublishLedger ?t) ?s5"
  let ?s7 = "do_step (WriteJournal ?t ?cb) ?s6"
  have h1: "holds fl empty_tx ?L ?R ?s1" using assms(2) by (intro make_holds) (simp add: in_stage.simps)
  have h2: "holds fl (empty_tx\<lparr>tx_record := Some (fl_record fl)\<rparr>) ?L ?R ?s2" by (rule step_holds(1) [OF h1])
  have h3: "holds fl (empty_tx\<lparr>tx_record := Some (fl_record fl), tx_ledger := Some (fl_after fl)\<rparr>) ?L ?R ?s3"
    using step_holds(2) [OF h2] by simp
  have h4: "in_stage fl Prepared ?s4" using step_holds(3) [OF h3, of ?jb] by (simp add: in_stage.simps empty_tx_def)
  have d4: "holds fl \<lparr>tx_record = Some (fl_record fl), tx_ledger = Some (fl_after fl), tx_journal = Some ?jb\<rparr> ?L ?R ?s4"
    using h4 by (simp add: in_stage.simps)
  have h5: "in_stage fl Record_Out ?s5"
    using step_holds(4) [OF d4, of "fl_destination fl"] by (simp add: in_stage.simps fl_records_def)
  have d5: "holds fl \<lparr>tx_record = None, tx_ledger = Some (fl_after fl), tx_journal = Some ?jb\<rparr> ?L (fl_records fl) ?s5"
    using h5 by (simp add: in_stage.simps)
  have d6: "holds fl \<lparr>tx_record = None, tx_ledger = None, tx_journal = Some ?jb\<rparr> (Some (fl_after fl)) (fl_records fl) ?s6"
    using step_holds(5) [OF d5] by simp
  have h6: "in_stage fl Ledger_Out ?s6" unfolding in_stage.simps using d6 by blast
  have h7: "in_stage fl Ledger_Out ?s7" unfolding in_stage.simps using step_holds(3) [OF d6, of ?cb] by auto
  have "in_stage fl Staging ?s3"
    unfolding in_stage.simps by (rule exI, rule conjI [OF _ h3]) (simp add: empty_tx_def)
  then have staging: "on_track fl ?s3" by blast
  have actual: "st_ledger ?s5 = ?L" using d5 by (simp add: holds_def)
  have expected: "assert_expected_ledger env (fl_journal fl) (fl_before fl) ?s5 = Inr ()"
    using ledger_phase [OF assms(1) d5] flight_hashes [OF assms(1)] actual
    by (simp add: assert_expected_ledger_def Let_def fl_before_def)
  note last = last_phases_recover [OF assms(1) h7]
  show ?thesis
    unfolding commit_phases_def assms(3)
  proof (rule recovers_whole)
    show "on_track fl s" using assms(2) by blast
    show "recovers fl [\<lambda>s. Inr [StageRecord ?t (fl_record fl)], \<lambda>s. Inr [StageLedger ?t (fl_after fl)],
        \<lambda>s. Inr [WriteJournal ?t ?jb], \<lambda>s. Inr [PublishRecord ?t (fl_destination fl)],
        \<lambda>s. and_then (assert_expected_ledger env (fl_journal fl) (fl_before fl) s) (\<lambda>_. Inr [PublishLedger ?t]),
        \<lambda>s. Inr [WriteJournal ?t ?cb], rebuild_index env, \<lambda>s. Inr [RemoveTx ?t]] After ?s1"
      apply (rule staging_recovers [OF _ _ _ h1], simp, simp, simp add: empty_tx_def)
      apply (rule staging_recovers [OF _ _ _ h2], simp, simp, simp add: empty_tx_def)
      apply (rule recovers_whole, simp, simp, rule staging)
      apply (rule recovers_whole, simp, simp, rule on_trackI [OF h4])
      apply (rule recovers_whole, simp add: expected, simp, rule on_trackI [OF h5])
      apply (rule recovers_whole, simp, simp, rule on_trackI [OF h6])
      by (rule last)
  qed simp_all
qed

section \<open>Whole operations\<close>

text \<open>Recovery of a store on the track of a transaction settles it.\<close>

lemma settled_dict: "settled l r s \<Longrightarrow> recover_unlocked env s = (Inr (0, 0), s)"
  by (simp add: settled_def recover_unlocked_def)

lemma on_track_recovers:
  assumes "valid_flight env fl" "on_track fl s"
  obtains counts s' where "recover_unlocked env s = (Inr counts, s')"
    "in_stage fl Before s' \<or> in_stage fl After s'"
proof -
  from assms(2) obtain stage where stage: "in_stage fl stage s" by (auto simp: on_track_def)
  show thesis
  proof (cases "stage = Before \<or> stage = After")
    case True
    with stage settled_dict [of _ _ s env] show thesis by (intro that [of "(0, 0)" s]) (auto simp: in_stage.simps)
  next
    case False
    with stage_recovers [OF assms(1) stage] obtain phases completes result where
      plan: "plan_recovery env (fl_txid fl) s = Inr (phases, completes)"
      and rec: "recovers fl phases result s" and result: "result = (if stage = Staging then Before else After)"
      by blast
    from rec obtain s' where run: "run_phases phases s = (Inr (), s')" and s': "in_stage fl result s'"
      by (auto simp: recovers_def)
    from stage False have "dict_keys (st_txs s) = [fl_txid fl]"
      by (cases stage) (auto simp: in_stage.simps holds_def)
    then have "sort (dict_keys (st_txs s)) = [fl_txid fl]" by simp
    with plan run have "recover_unlocked env s = (Inr (if completes then (1, 0) else (0, 1)), s')"
      by (simp add: recover_unlocked_def)
    with s' result show thesis by (auto split: if_splits intro: that)
  qed
qed

text \<open>An interrupted recovery of such a store leaves another one.\<close>

lemma recovery_interrupted_on_track:
  assumes "valid_flight env fl" "on_track fl s"
    "recovery_interrupted env (sort (dict_keys (st_txs s))) s t"
  shows "on_track fl t"
proof -
  from assms(2) obtain stage where stage: "in_stage fl stage s" by (auto simp: on_track_def)
  show ?thesis
  proof (cases "stage = Before \<or> stage = After")
    case True
    then have "st_txs s = []" using stage by (auto simp: in_stage.simps settled_def)
    with assms(3) have "t = s" by (auto elim: recovery_interrupted.cases)
    with assms(2) show ?thesis by simp
  next
    case False
    with stage_recovers [OF assms(1) stage] obtain phases completes result where
      plan: "plan_recovery env (fl_txid fl) s = Inr (phases, completes)"
      and rec: "recovers fl phases result s" and result: "result = (if stage = Staging then Before else After)"
      by blast
    from rec obtain s' where run: "run_phases phases s = (Inr (), s')" and s': "in_stage fl result s'"
      and track: "\<And>t. interrupted phases s t \<Longrightarrow> on_track fl t" by (auto simp: recovers_def)
    from stage False have "dict_keys (st_txs s) = [fl_txid fl]"
      by (cases stage) (auto simp: in_stage.simps holds_def)
    then have "recovery_interrupted env [fl_txid fl] s t" using assms(3) by simp
    then show ?thesis
    proof (cases rule: recovery_interrupted.cases)
      case (next_transaction phases' completes' s'')
      with plan run have "s'' = s'" by simp
      moreover have "t = s''" using next_transaction by (auto elim: recovery_interrupted.cases)
      ultimately show ?thesis using s' by blast
    qed (use assms(2) plan track in auto)
  qed
qed

end
