(* ===== verification/CommitFacts.thy ===== *)
theory CommitFacts
  imports CrashSafety
begin

text \<open>
  What \<open>commit\<close> of \<open>record_store.py\<close> achieves on a store that verifies: the transaction it prepares is
  one that recovery can finish, its completion extends the verified history by the record, and
  committing the same record again returns the entry that is already there.
\<close>

section \<open>Texts of the storage context\<close>

lemma dict_get_key: "dict_get d k = Some v \<Longrightarrow> k \<in> set (dict_keys d)"
  using dict_get_None_iff [of d k] by fastforce

lemma kind_ascii: "kind_type kind = Inr t \<Longrightarrow> ascii kind"
proof -
  assume "kind_type kind = Inr t"
  then have "kind \<in> set (dict_keys LEDGER_KIND_TYPES)"
    unfolding kind_type_Inr by (rule dict_get_key)
  moreover have "list_all ascii (dict_keys LEDGER_KIND_TYPES)" by code_simp
  ultimately show ?thesis by (auto simp: list_all_iff simp del: set_map)
qed

lemma group_ascii: "group_type record_group = Inr t \<Longrightarrow> ascii record_group"
proof -
  assume "group_type record_group = Inr t"
  then obtain t where "dict_get RECORD_GROUP_TYPES record_group = Some t"
    by (auto simp: group_type_def split: option.splits)
  then have "record_group \<in> set (dict_keys RECORD_GROUP_TYPES)" by (rule dict_get_key)
  moreover have "list_all ascii (dict_keys RECORD_GROUP_TYPES)" by code_simp
  ultimately show ?thesis by (auto simp: list_all_iff simp del: set_map)
qed

lemma safe_identity_ascii: "safe_record_identity identity = Inr safe \<Longrightarrow> ascii safe"
proof -
  assume "safe_record_identity identity = Inr safe"
  then have "list_all is_safe_char safe" by (rule safe_record_identity_Inr)
  moreover have "list_all (byte_in 0 127)
    ''ABCDEFGHIJKLMNOPQRSTUVWXYZabcdefghijklmnopqrstuvwxyz0123456789._-''" by code_simp
  ultimately show ?thesis unfolding ascii_def list_all_iff is_safe_char_def by blast
qed

lemma identity_utf8:
  assumes "recordable env r" "identity_text r f = Inr s"
  shows "utf8_valid s"
proof -
  have r: "current_record (env_crypto env) r" "utf8_json (JObj (rec_to_json r))"
    using assms(1) by (simp_all add: recordable_def)
  have "rec_get r f = Some (FStr s)"
    using assms(2) by (auto simp: identity_text_Inr rec_value_def split: option.splits)
  then have "dict_get (rec_to_json r) f = Some (JStr s)"
    using r(1) unfolding current_rec_to_json(1) [OF r(1)]
    by (auto simp: rec_get_def current_record_def Let_def split: if_splits)
  then have "(f, JStr s) \<in> set (rec_to_json r)" by (rule map_of_SomeD)
  with r(2) show ?thesis by auto
qed

lemma destination_relative:
  assumes "immutable_record_path (env_state_dir env) record_group identity = Inr destination"
    "group_type record_group = Inr t"
  shows "ascii (relative_to_state env destination)"
    "under_state env (relative_to_state env destination) = destination"
proof -
  from assms(1) obtain safe where safe: "safe_record_identity identity = Inr safe"
    and d: "destination = env_state_dir env @ ''/records/'' @ record_group @ ''/'' @ safe @ ''.json''"
    by (auto simp: immutable_record_path_def and_then_Inr_iff)
  have rel: "relative_to_state env destination = ''records/'' @ record_group @ ''/'' @ safe @ ''.json''"
    unfolding d relative_to_state_def by simp
  show "under_state env (relative_to_state env destination) = destination"
    unfolding under_state_def rel by (simp add: d starts_with_def)
  show "ascii (relative_to_state env destination)"
    unfolding rel using safe_identity_ascii [OF safe] group_ascii [OF assms(2)] by (simp add: byte_in_def)
qed

lemma verified_head_ascii:
  assumes "verify_chain_of env rs = Inr h" "\<forall>s. hex64 (env_sha env s)"
  shows "hex64 h"
proof (cases rs rule: rev_cases)
  case Nil
  have "hex64 GENESIS" by (simp add: GENESIS_def hex64_def list_all_iff)
  with Nil assms(1) show ?thesis by (simp add: verify_chain_of_def)
next
  case (snoc rs' e)
  with assms(1) obtain p where "verify_entry env (1 + length rs') p e = Inr h"
    by (auto simp: verify_chain_of_def ledger_chain.run_snoc and_then_Inr_iff)
  with assms(2) show ?thesis by (simp add: verify_entry_Inr entry_hash_def)
qed

section \<open>The prepared transaction\<close>

text \<open>A commit of a new record on a store that verifies.\<close>

definition fresh_commit ::
  "storage_env \<Rightarrow> string \<Rightarrow> string \<Rightarrow> string \<Rightarrow> string \<Rightarrow> forge_record \<Rightarrow> string \<times> string \<times> string \<Rightarrow> store
     \<Rightarrow> nat \<Rightarrow> string \<Rightarrow> bool"
where
  "fresh_commit env timestamp txid record_group kind r checked s n h \<longleftrightarrow>
     digests_documented env \<and> recordable env r \<and> utf8_valid timestamp \<and> utf8_valid txid
     \<and> verify_ledger env s = Inr (n, h) \<and> commit_checks env record_group kind r = Inr checked
     \<and> st_records s (snd (snd checked)) = None
     \<and> is_ok (plan_commit env timestamp txid record_group kind r checked s)"

definition commit_raw :: "storage_env \<Rightarrow> string \<Rightarrow> string \<Rightarrow> forge_record \<Rightarrow> nat \<Rightarrow> string \<Rightarrow> obj" where
  "commit_raw env timestamp kind r n h = raw_entry env timestamp kind r (Suc n) (JStr h)"

definition commit_entry :: "storage_env \<Rightarrow> string \<Rightarrow> string \<Rightarrow> forge_record \<Rightarrow> nat \<Rightarrow> string \<Rightarrow> ledger_entry" where
  "commit_entry env timestamp kind r n h =
     entry_of timestamp kind r (Suc n) h (entry_hash env (entry_body (commit_raw env timestamp kind r n h)))"

definition commit_ledger :: "storage_env \<Rightarrow> string \<Rightarrow> string \<Rightarrow> forge_record \<Rightarrow> store \<Rightarrow> nat \<Rightarrow> string \<Rightarrow> string" where
  "commit_ledger env timestamp kind r s n h =
     file_bytes (st_ledger s) @ entry_line (commit_raw env timestamp kind r n h)"

definition commit_flight ::
  "storage_env \<Rightarrow> string \<Rightarrow> string \<Rightarrow> string \<Rightarrow> string \<Rightarrow> forge_record \<Rightarrow> string \<times> string \<times> string \<Rightarrow> store
     \<Rightarrow> nat \<Rightarrow> string \<Rightarrow> flight"
where
  "commit_flight env timestamp txid record_group kind r checked s n h =
     (let after = commit_ledger env timestamp kind r s n h; destination = snd (snd checked) in
      \<lparr>fl_txid = txid, fl_destination = destination, fl_record = record_bytes r, fl_after = after,
       fl_journal = prepared_journal env txid record_group kind (fst (snd checked)) destination r
         (file_bytes (st_ledger s)) after (commit_entry env timestamp kind r n h),
       fl_store = s\<rparr>)"

lemma plan_commit_fresh:
  assumes "fresh_commit env timestamp txid record_group kind r (field, identity, destination) s n h"
  shows "plan_commit env timestamp txid record_group kind r (field, identity, destination) s =
      Inr (commit_phases env txid destination r (file_bytes (st_ledger s)) (commit_ledger env timestamp kind r s n h)
             (fl_journal (commit_flight env timestamp txid record_group kind r (field, identity, destination) s n h)),
           commit_entry env timestamp kind r n h)"
    "bounded_fields (commit_raw env timestamp kind r n h)"
    "length (entry_line (commit_raw env timestamp kind r n h)) \<le> LEDGER_LINE_BYTE_CAP"
proof -
  have checks: "commit_checks env record_group kind r = Inr (field, identity, destination)"
    and new: "st_records s destination = None" and ok: "is_ok (plan_commit env timestamp txid record_group kind r (field, identity, destination) s)"
    and r: "current_record (env_crypto env) r"
    using assms by (simp_all add: fresh_commit_def recordable_def)
  from assms obtain raws where raws: "snapshot env (st_ledger s) = Inr (raws, h)" "n = length raws"
    by (auto simp: fresh_commit_def verify_ledger_Inr)
  have head: "last_hash raws = Inr (JStr h)"
    using raws(1) by (intro verified_last_hash [of env]) (simp add: snapshot_Inr)
  from ok raws new obtain es where es: "traverse (normalize_raw env) (filter (same_identity kind field identity) raws) = Inr es"
    and "es = []" and built: "is_ok (build_entry env timestamp kind r raws)"
    and cap: "\<forall>raw e. build_entry env timestamp kind r raws = Inr (raw, e) \<longrightarrow> length (entry_line raw) \<le> LEDGER_LINE_BYTE_CAP"
    by (cases "build_entry env timestamp kind r raws")
      (auto simp: plan_commit_def is_ok_iff and_then_Inr_iff resolve_duplicate_def raise_if_Inr_iff Let_def
        split: if_splits list.splits)
  let ?raw = "commit_raw env timestamp kind r n h"
  from built obtain e where norm: "normalize_raw env ?raw = Inr e" and kind: "writable_kind kind r = Inr ()"
    by (auto simp: is_ok_iff build_entry_def head Let_def and_then_Inr_iff commit_raw_def raws(2))
  show bounded: "bounded_fields ?raw" using norm by (rule normalize_raw_bounded)
  have kt: "kind_type kind = Inr (fr_type r)" by (rule commit_checks_Inr [OF checks])
  have entry: "normalize_raw env ?raw = Inr (commit_entry env timestamp kind r n h)"
    using normalize_built_entry [OF r kt, where timestamp = timestamp and n = "Suc n" and p = h] bounded
    by (simp add: commit_raw_def commit_entry_def)
  have build: "build_entry env timestamp kind r raws = Inr (?raw, commit_entry env timestamp kind r n h)"
    using kind entry by (simp add: build_entry_def head Let_def commit_raw_def raws(2))
  show small: "length (entry_line ?raw) \<le> LEDGER_LINE_BYTE_CAP" using cap build by blast
  show "plan_commit env timestamp txid record_group kind r (field, identity, destination) s =
      Inr (commit_phases env txid destination r (file_bytes (st_ledger s)) (commit_ledger env timestamp kind r s n h)
             (fl_journal (commit_flight env timestamp txid record_group kind r (field, identity, destination) s n h)),
           commit_entry env timestamp kind r n h)"
    using new raws es \<open>es = []\<close> build small
    by (simp add: plan_commit_def Let_def commit_flight_def commit_ledger_def)
qed

lemma commit_raw_storable:
  assumes "fresh_commit env timestamp txid record_group kind r (field, identity, destination) s n h"
  shows "storable env (commit_raw env timestamp kind r n h)"
proof -
  have checks: "commit_checks env record_group kind r = Inr (field, identity, destination)"
    and r: "writable (env_float env) (JObj (rec_to_json r))" "utf8_json (JObj (rec_to_json r))"
    and time: "utf8_valid timestamp" and hex: "\<forall>s. hex64 (env_sha env s)"
    using assms by (simp_all add: fresh_commit_def recordable_def digests_documented_def)
  from assms obtain raws where "verify_chain_of env raws = Inr h"
    by (auto simp: fresh_commit_def verify_ledger_Inr snapshot_Inr)
  then have head: "utf8_valid h" using hex by (intro ascii_utf8 hex64_ascii verified_head_ascii)
  have kind: "utf8_valid kind" by (rule ascii_utf8, rule kind_ascii, rule commit_checks_Inr [OF checks])
  have hash: "utf8_valid (entry_hash env b)" for b
    unfolding entry_hash_def using hex by (intro ascii_utf8 hex64_ascii) simp
  have literals: "utf8_valid (rt_value LEDGER_ENTRY)" "utf8_valid CURRENT_SCHEMA_VERSION"
    "\<forall>k \<in> set (dict_keys (commit_raw env timestamp kind r n h)). utf8_valid k"
    by (auto simp: commit_raw_def raw_entry_def CURRENT_SCHEMA_VERSION_def byte_in_def intro!: ascii_utf8)
  have "writable (env_float env) (JObj (commit_raw env timestamp kind r n h))"
    using r(1) by (simp add: commit_raw_def raw_entry_def)
  moreover have "utf8_json (JObj (commit_raw env timestamp kind r n h))"
    using r(2) time head kind hash literals unfolding commit_raw_def raw_entry_def Let_def by simp
  ultimately show ?thesis
    unfolding storable_def using utf8_canonical plan_commit_fresh(3) [OF assms] by blast
qed

text \<open>The journal that is written passes the checks of recovery and points back at the record.\<close>

lemma commit_journal_valid:
  assumes "fresh_commit env timestamp txid record_group kind r (field, identity, destination) s n h"
  shows "valid_journal txid (fl_journal (commit_flight env timestamp txid record_group kind r (field, identity, destination) s n h))"
proof -
  let ?j = "fl_journal (commit_flight env timestamp txid record_group kind r (field, identity, destination) s n h)"
  have checks: "commit_checks env record_group kind r = Inr (field, identity, destination)"
    and r: "recordable env r" and txid: "utf8_valid txid" and hex: "\<forall>s. hex64 (env_sha env s)"
    using assms by (simp_all add: fresh_commit_def digests_documented_def)
  from assms obtain raws where "verify_chain_of env raws = Inr h"
    by (auto simp: fresh_commit_def verify_ledger_Inr snapshot_Inr)
  then have head: "hex64 h" using hex by (rule verified_head_ascii)
  from checks obtain c where c: "kind_type kind = Inr (fr_type r)" "group_type record_group = Inr (fr_type r)"
    "identity_text r field = Inr identity"
    "immutable_record_path (env_state_dir env) record_group identity = Inr destination"
    by (rule commit_checks_Inr)
  have texts: "utf8_valid record_group" "utf8_valid kind" "utf8_valid (relative_to_state env destination)"
    using c group_ascii kind_ascii destination_relative(1) ascii_utf8 by blast+
  have identity: "utf8_valid identity" using r c(3) by (rule identity_utf8)
  have prepared: "utf8_valid ''PREPARED''" by (rule ascii_utf8) (simp add: byte_in_def)
  have hashes: "hex64 (env_sha env x)" "hex64 (entry_hash env b)" for x b
    using hex by (simp_all add: entry_hash_def)
  show ?thesis
    unfolding valid_journal_def
  proof (intro conjI)
    show "dict_wf ?j" "set (dict_keys ?j) = set JOURNAL_KEYS"
      by (auto simp: commit_flight_def prepared_journal_def Let_def JOURNAL_KEYS_def JOURNAL_TEXTS_def JOURNAL_HASHES_def)
    show "\<exists>m \<ge> 1. obj_get ?j ''expected_sequence'' = JInt m"
      by (simp add: commit_flight_def prepared_journal_def Let_def obj_get_def commit_entry_def entry_of_def)
    show "\<forall>k \<in> set JOURNAL_TEXTS. \<exists>s. obj_get ?j k = JStr s \<and> utf8_valid s"
      using texts identity prepared txid head hashes hex64_ascii ascii_utf8
      by (simp add: commit_flight_def prepared_journal_def Let_def obj_get_def commit_entry_def entry_of_def
          JOURNAL_TEXTS_def JOURNAL_HASHES_def)
    show "\<forall>k \<in> set JOURNAL_HASHES. hex64 (journal_text ?j k)"
      using head hashes
      by (simp add: commit_flight_def prepared_journal_def Let_def obj_get_def commit_entry_def entry_of_def
          JOURNAL_HASHES_def journal_text_def)
  qed (simp_all add: commit_flight_def prepared_journal_def Let_def obj_get_def)
qed

lemma commit_flight_valid:
  assumes "fresh_commit env timestamp txid record_group kind r (field, identity, destination) s n h"
    "env_sha env (file_bytes (st_ledger s)) \<noteq> env_sha env (commit_ledger env timestamp kind r s n h)"
  shows "valid_flight env (commit_flight env timestamp txid record_group kind r (field, identity, destination) s n h)"
proof -
  let ?fl = "commit_flight env timestamp txid record_group kind r (field, identity, destination) s n h"
  let ?raw = "commit_raw env timestamp kind r n h"
  have checks: "commit_checks env record_group kind r = Inr (field, identity, destination)"
    and r: "recordable env r" and jcs: "jcs_sorts (env_crypto env)" and new: "st_records s destination = None"
    using assms(1) by (simp_all add: fresh_commit_def digests_documented_def)
  have rec: "current_record (env_crypto env) r" "writable (env_float env) (JObj (rec_to_json r))"
    using r by (simp_all add: recordable_def)
  from assms(1) obtain raws es where raws: "snapshot env (st_ledger s) = Inr (raws, h)" "n = length raws"
    "traverse (normalize_raw env) raws = Inr es" and none: "st_txs s = []"
    by (auto simp: fresh_commit_def verify_ledger_Inr)
  from checks obtain c where c: "persisted_record_context record_group kind = Inr c"
    "kind_type kind = Inr (fr_type r)" "group_type record_group = Inr (fr_type r)"
    "immutable_record_path (env_state_dir env) record_group identity = Inr destination"
    "length (record_bytes r) \<le> 4000000"
    by (rule commit_checks_Inr)
  have next_raw: "?raw = next_entry env timestamp kind r raws h" by (simp add: commit_raw_def next_entry_def raws(2))
  have after: "snapshot env (Some (commit_ledger env timestamp kind r s n h))
      = Inr (raws @ [sorted_obj ?raw], entry_hash env (entry_body ?raw))"
    using snapshot_append [OF raws(1), of timestamp kind r] commit_raw_storable [OF assms(1)]
    unfolding next_raw [symmetric] commit_ledger_def by simp
  have entry: "normalize_raw env (sorted_obj ?raw)
      = Inr (entry_of timestamp kind (stored_form r) (Suc n) h (entry_hash env (entry_body ?raw)))"
    unfolding commit_raw_def
    by (rule normalize_stored_entry [OF rec(1) c(2) _ jcs rec(2)])
      (use plan_commit_fresh(2) [OF assms(1)] in \<open>simp add: commit_raw_def\<close>)
  have loaded: "load_record_file env record_group (record_bytes r) = Inr (stored_form r)"
    by (rule load_stored_record [OF r jcs c(3,5)])
  have same_path: "same_path (under_state env (relative_to_state env destination)) destination"
    unfolding destination_relative(2) [OF c(4,3)] by (simp add: same_path_def)
  have journal: "journal_text (fl_journal ?fl) ''record_group'' = record_group"
    "journal_text (fl_journal ?fl) ''ledger_kind'' = kind" "journal_text (fl_journal ?fl) ''record_identity'' = identity"
    "journal_text (fl_journal ?fl) ''record_destination'' = relative_to_state env destination"
    "journal_text (fl_journal ?fl) ''record_sha256'' = env_sha env (record_bytes r)"
    "journal_text (fl_journal ?fl) ''ledger_before_sha256'' = env_sha env (file_bytes (st_ledger s))"
    "journal_text (fl_journal ?fl) ''ledger_after_sha256'' = env_sha env (commit_ledger env timestamp kind r s n h)"
    "journal_text (fl_journal ?fl) ''expected_previous_hash'' = h"
    "journal_text (fl_journal ?fl) ''entry_hash'' = entry_hash env (entry_body ?raw)"
    "journal_sequence (fl_journal ?fl) = int n + 1" "obj_get (fl_journal ?fl) ''state'' = JStr ''PREPARED''"
    by (simp_all add: commit_flight_def prepared_journal_def Let_def journal_text_def journal_sequence_def obj_get_def
        commit_entry_def entry_of_def)
  have destination: "recovery_destination env (fl_journal ?fl) = Inr destination"
    unfolding recovery_destination_def journal using c(1,4) same_path by simp
  have fl: "fl_store ?fl = s" "fl_destination ?fl = destination" "fl_record ?fl = record_bytes r" "fl_txid ?fl = txid"
    "fl_after ?fl = commit_ledger env timestamp kind r s n h" "fl_before ?fl = file_bytes (st_ledger s)"
    by (simp_all add: commit_flight_def Let_def fl_before_def)
  show ?thesis
    unfolding valid_flight_def Let_def fl journal destination
  proof (intro conjI)
    show "\<exists>raws' h' raw h'' es e q. snapshot env (st_ledger s) = Inr (raws', h') \<and> int n + 1 = int (length raws') + 1 \<and> h = h'
        \<and> snapshot env (Some (commit_ledger env timestamp kind r s n h)) = Inr (raws' @ [raw], h'')
        \<and> traverse (normalize_raw env) raws' = Inr es \<and> normalize_raw env raw = Inr e
        \<and> le_entry_hash e = entry_hash env (entry_body ?raw) \<and> le_kind e = kind
        \<and> load_record_file env record_group (record_bytes r) = Inr q \<and> json_same q (le_payload e)"
      using raws after entry loaded stored_record_bytes(2) [OF r jcs]
      by (intro exI conjI) (auto simp: entry_of_def)
  qed (use none new commit_journal_valid [OF assms(1)] assms(2) in simp_all)
qed

section \<open>The verified history after a commit\<close>

lemma flight_after_verifies:
  assumes "fresh_commit env timestamp txid record_group kind r (field, identity, destination) s n h"
    "in_stage (commit_flight env timestamp txid record_group kind r (field, identity, destination) s n h) After t"
  shows "verify_ledger env t = Inr (Suc n, entry_hash env (entry_body (commit_raw env timestamp kind r n h)))"
proof -
  let ?raw = "commit_raw env timestamp kind r n h"
  have checks: "commit_checks env record_group kind r = Inr (field, identity, destination)"
    and r: "recordable env r" and jcs: "jcs_sorts (env_crypto env)" and new: "st_records s destination = None"
    using assms(1) by (simp_all add: fresh_commit_def digests_documented_def)
  have rec: "current_record (env_crypto env) r" "writable (env_float env) (JObj (rec_to_json r))"
    using r by (simp_all add: recordable_def)
  from assms(1) obtain raws es where raws: "snapshot env (st_ledger s) = Inr (raws, h)" "n = length raws"
    "traverse (normalize_raw env) raws = Inr es" and old: "\<forall>e \<in> set es. verify_immutable_record env s e = Inr ()"
    by (auto simp: fresh_commit_def verify_ledger_Inr verify_immutable_records_Inr)
  have kt: "kind_type kind = Inr (fr_type r)" by (rule commit_checks_Inr [OF checks])
  have next_raw: "?raw = next_entry env timestamp kind r raws h" by (simp add: commit_raw_def next_entry_def raws(2))
  have after: "snapshot env (Some (commit_ledger env timestamp kind r s n h))
      = Inr (raws @ [sorted_obj ?raw], entry_hash env (entry_body ?raw))"
    using snapshot_append [OF raws(1), of timestamp kind r] commit_raw_storable [OF assms(1)]
    unfolding next_raw [symmetric] commit_ledger_def by simp
  let ?e = "entry_of timestamp kind (stored_form r) (Suc n) h (entry_hash env (entry_body ?raw))"
  have entry: "normalize_raw env (sorted_obj ?raw) = Inr ?e"
    unfolding commit_raw_def
    by (rule normalize_stored_entry [OF rec(1) kt _ jcs rec(2)])
      (use plan_commit_fresh(2) [OF assms(1)] in \<open>simp add: commit_raw_def\<close>)
  have t: "st_txs t = []" "st_ledger t = Some (commit_ledger env timestamp kind r s n h)"
    "st_records t = (st_records s)(destination := Some (record_bytes r))"
    using assms(2) by (simp_all add: in_stage.simps settled_def fl_records_def commit_flight_def Let_def)
  have "verify_immutable_record env t ?e = Inr ()"
    by (rule verify_new_record [OF checks r jcs]) (simp_all add: entry_of_def t(3))
  moreover have "verify_immutable_record env t e = Inr ()" if "e \<in> set es" for e
    using old that by (intro verify_immutable_record_frame [OF _ new t(3)]) simp
  ultimately have "verify_immutable_records env t (es @ [?e]) = Inr ()"
    by (auto simp: verify_immutable_records_Inr)
  moreover have "traverse (normalize_raw env) (raws @ [sorted_obj ?raw]) = Inr (es @ [?e])"
    using raws(3) entry by (simp add: traverse_append)
  ultimately show ?thesis
    unfolding verify_ledger_Inr t(1,2) using after raws(2) by auto
qed

text \<open>Verification reads the ledger, the records and the transactions, not the index.\<close>

lemma verify_ledger_cong:
  assumes "st_txs t = st_txs s" "st_ledger t = st_ledger s" "st_records t = st_records s"
  shows "verify_ledger env t = verify_ledger env s"
proof -
  have "verify_immutable_record env t = verify_immutable_record env s"
    using assms(3) by (simp add: verify_immutable_record_def fun_eq_iff)
  then show ?thesis
    using assms by (simp add: verify_ledger_def require_recovered_def verify_immutable_records_def)
qed

end
