(* ===== verification/StoreGuarantees.thy ===== *)
theory StoreGuarantees
  imports CommitFacts
begin

text \<open>
  The guarantees of the record store over whole operations: durability of a completed commit, atomicity
  of an interrupted one, idempotence of a repeated one, immutability of published records, and the
  exactness of the rebuilt index.
\<close>

section \<open>Completed commits\<close>

lemma commit_completes:
  assumes "fresh_commit env timestamp txid record_group kind r checked s n h"
    "env_sha env (file_bytes (st_ledger s)) \<noteq> env_sha env (commit_ledger env timestamp kind r s n h)"
  obtains t where "commit env timestamp txid record_group kind r s = (Inr (commit_entry env timestamp kind r n h), t)"
    "in_stage (commit_flight env timestamp txid record_group kind r checked s n h) After t"
    "verify_ledger env t = Inr (Suc n, entry_hash env (entry_body (commit_raw env timestamp kind r n h)))"
proof -
  obtain field identity destination where checked: "checked = (field, identity, destination)" by (cases checked)
  note fresh = assms(1) [unfolded checked]
  let ?fl = "commit_flight env timestamp txid record_group kind r (field, identity, destination) s n h"
  note flight = commit_flight_valid [OF fresh assms(2)]
  have checks: "commit_checks env record_group kind r = Inr (field, identity, destination)"
    and none: "st_txs s = []"
    using fresh by (auto simp: fresh_commit_def verify_ledger_Inr)
  have fl: "fl_txid ?fl = txid" "fl_destination ?fl = destination" "fl_record ?fl = record_bytes r"
    "fl_after ?fl = commit_ledger env timestamp kind r s n h" "fl_before ?fl = file_bytes (st_ledger s)" "fl_store ?fl = s"
    by (simp_all add: commit_flight_def Let_def fl_before_def)
  have "in_stage ?fl Before s" using none by (simp add: in_stage.simps settled_def fl)
  from commit_recovers [OF flight this, of r] obtain t where
    run: "run_phases (commit_phases env txid destination r (file_bytes (st_ledger s))
      (commit_ledger env timestamp kind r s n h) (fl_journal ?fl)) s = (Inr (), t)" and t: "in_stage ?fl After t"
    by (auto simp: recovers_def fl)
  have "commit env timestamp txid record_group kind r s = (Inr (commit_entry env timestamp kind r n h), t)"
    using plan_commit_fresh(1) [OF fresh] run none checks
    by (simp add: commit_def recover_unlocked_def)
  with t flight_after_verifies [OF fresh t] show thesis by (intro that) (simp_all add: checked)
qed

section \<open>Interrupted commits\<close>

abbreviation crashed_recovery :: "storage_env \<Rightarrow> store \<Rightarrow> store \<Rightarrow> bool" where
  "crashed_recovery env s t \<equiv> recovery_interrupted env (sort (dict_keys (st_txs s))) s t"

lemma crashes_on_track:
  assumes "valid_flight env fl" "on_track fl t" "(crashed_recovery env)\<^sup>*\<^sup>* t u"
  shows "on_track fl u"
  using assms(3,2)
proof (induction rule: rtranclp_induct)
  case (step u v)
  then show ?case using recovery_interrupted_on_track [OF assms(1)] by blast
qed

lemma interrupted_commit_recovers:
  assumes "fresh_commit env timestamp txid record_group kind r checked s n h"
    "env_sha env (file_bytes (st_ledger s)) \<noteq> env_sha env (commit_ledger env timestamp kind r s n h)"
    "plan_commit env timestamp txid record_group kind r checked s = Inr (phases, e)"
    "interrupted phases s t" "(crashed_recovery env)\<^sup>*\<^sup>* t u"
  obtains counts v where "recover_unlocked env u = (Inr counts, v)" "st_txs v = []"
    "st_ledger v = st_ledger s \<and> st_records v = st_records s \<and> verify_ledger env v = Inr (n, h)
     \<or> st_ledger v = Some (commit_ledger env timestamp kind r s n h)
       \<and> st_records v = (st_records s)(snd (snd checked) := Some (record_bytes r))
       \<and> verify_ledger env v = Inr (Suc n, entry_hash env (entry_body (commit_raw env timestamp kind r n h)))"
proof -
  obtain field identity destination where checked: "checked = (field, identity, destination)" by (cases checked)
  note fresh = assms(1) [unfolded checked]
  let ?fl = "commit_flight env timestamp txid record_group kind r (field, identity, destination) s n h"
  note flight = commit_flight_valid [OF fresh assms(2)]
  have none: "st_txs s = []" and sound: "verify_ledger env s = Inr (n, h)"
    using fresh by (auto simp: fresh_commit_def verify_ledger_Inr)
  have fl: "fl_txid ?fl = txid" "fl_destination ?fl = destination" "fl_record ?fl = record_bytes r"
    "fl_after ?fl = commit_ledger env timestamp kind r s n h" "fl_before ?fl = file_bytes (st_ledger s)" "fl_store ?fl = s"
    by (simp_all add: commit_flight_def Let_def fl_before_def)
  have phases: "phases = commit_phases env txid destination r (file_bytes (st_ledger s))
      (commit_ledger env timestamp kind r s n h) (fl_journal ?fl)"
    using assms(3) plan_commit_fresh(1) [OF fresh] by (simp add: checked)
  have "in_stage ?fl Before s" using none by (simp add: in_stage.simps settled_def fl)
  from commit_recovers [OF flight this, of r] assms(4) have "on_track ?fl t"
    by (auto simp: recovers_def fl phases)
  then have "on_track ?fl u" by (rule crashes_on_track [OF flight _ assms(5)])
  then obtain counts v where rec: "recover_unlocked env u = (Inr counts, v)"
    and v: "in_stage ?fl Before v \<or> in_stage ?fl After v" by (rule on_track_recovers [OF flight])
  from v show thesis
  proof
    assume before: "in_stage ?fl Before v"
    then have v': "st_txs v = []" "st_ledger v = st_ledger s" "st_records v = st_records s"
      by (simp_all add: in_stage.simps settled_def fl)
    with none have "verify_ledger env v = verify_ledger env s" by (intro verify_ledger_cong) simp_all
    with v' sound show thesis by (intro that [OF rec]) simp_all
  next
    assume after: "in_stage ?fl After v"
    then have "st_txs v = []" "st_ledger v = Some (commit_ledger env timestamp kind r s n h)"
      "st_records v = (st_records s)(destination := Some (record_bytes r))"
      by (simp_all add: in_stage.simps settled_def fl fl_records_def)
    with flight_after_verifies [OF fresh after] show thesis by (intro that [OF rec]) (simp_all add: checked)
  qed
qed

section \<open>Published records stay\<close>

lemma run_phases_preserve:
  assumes "\<forall>p \<in> set ps. \<forall>s steps. p s = Inr steps \<longrightarrow> I s \<longrightarrow> I (do_steps steps s)" "I s"
  shows "I (snd (run_phases ps s))"
  using assms by (induction ps arbitrary: s) (auto split: sum.split)

lemma ensure_index_steps:
  "ensure_index env s raws = Inr steps \<Longrightarrow> steps = [] \<or> (\<exists>bytes. steps = [WriteIndex bytes])"
  by (auto simp: ensure_index_def and_then_Inr_iff Let_def split: if_splits)

lemma rebuild_index_steps:
  "rebuild_index env s = Inr steps \<Longrightarrow> steps = [] \<or> (\<exists>bytes. steps = [WriteIndex bytes])"
  by (auto simp: rebuild_index_def and_then_Inr_iff dest: ensure_index_steps)

lemma commit_phases_keep:
  assumes "p \<in> set (commit_phases env txid destination r before after journal)" "p s = Inr steps" "path \<noteq> destination"
  shows "st_records (do_steps steps s) path = st_records s path"
proof -
  have "st_records (do_steps steps s) path = st_records s path"
    if "rebuild_index env s = Inr steps"
    using rebuild_index_steps [OF that] by (auto simp: do_step.simps)
  then show ?thesis
    using assms by (auto simp: commit_phases_def and_then_Inr_iff do_step.simps put_tx_def)
qed

lemma commit_keeps_records:
  assumes "st_txs s = []" "st_records s path = Some bytes"
  shows "st_records (snd (commit env timestamp txid record_group kind r s)) path = Some bytes"
proof (cases "commit_checks env record_group kind r")
  case (Inr checked)
  obtain field identity destination where checked: "checked = (field, identity, destination)" by (cases checked)
  show ?thesis
  proof (cases "plan_commit env timestamp txid record_group kind r checked s")
    case plan: (Inr q)
    obtain phases e where q: "q = (phases, e)" by (cases q)
    have "phases = [] \<or> st_records s destination = None \<and>
        (\<exists>before after journal. phases = commit_phases env txid destination r before after journal)"
      using plan by (auto simp: q checked plan_commit_def and_then_Inr_iff Let_def split: if_splits)
    then have "st_records (snd (run_phases phases s)) path = Some bytes"
    proof
      assume *: "st_records s destination = None \<and>
        (\<exists>before after journal. phases = commit_phases env txid destination r before after journal)"
      with assms(2) have "path \<noteq> destination" by auto
      with * show ?thesis
        by (intro run_phases_preserve [where I = "\<lambda>s. st_records s path = Some bytes"] ballI allI impI)
          (auto simp: commit_phases_keep assms(2))
    qed (simp add: assms(2))
    with Inr plan q assms(1) show ?thesis
      by (auto simp: commit_def recover_unlocked_def split: prod.splits sum.splits)
  qed (use Inr assms in \<open>simp add: commit_def recover_unlocked_def\<close>)
qed (use assms in \<open>simp add: commit_def\<close>)

section \<open>Repeated commits\<close>

lemma fresh_commit_unmatched:
  assumes "fresh_commit env timestamp txid record_group kind r (field, identity, destination) s n h"
    "snapshot env (st_ledger s) = Inr (raws, h)"
  shows "filter (same_identity kind field identity) raws = []"
proof -
  have new: "st_records s destination = None"
    and ok: "is_ok (plan_commit env timestamp txid record_group kind r (field, identity, destination) s)"
    using assms(1) by (simp_all add: fresh_commit_def)
  from ok assms(2) new have "traverse (normalize_raw env) (filter (same_identity kind field identity) raws) = Inr []"
    by (auto simp: plan_commit_def is_ok_iff and_then_Inr_iff resolve_duplicate_def split: if_splits list.splits)
  then show ?thesis by (metis length_0_conv list.size(3) traverse_Inr_length)
qed

lemma commit_raw_same_identity:
  assumes "fresh_commit env timestamp txid record_group kind r (field, identity, destination) s n h"
  shows "same_identity kind field identity (sorted_obj (commit_raw env timestamp kind r n h))"
proof -
  let ?raw = "commit_raw env timestamp kind r n h"
  have checks: "commit_checks env record_group kind r = Inr (field, identity, destination)"
    and r: "current_record (env_crypto env) r"
    using assms by (simp_all add: fresh_commit_def recordable_def)
  have wf: "dict_wf ?raw" unfolding commit_raw_def by (rule raw_entry_get)
  have pwf: "dict_wf (rec_to_json r)" by (rule current_rec_to_json(2) [OF r])
  have "identity_text r field = Inr identity" by (rule commit_checks_Inr [OF checks])
  then have "rec_get r field = Some (FStr identity)"
    by (auto simp: identity_text_Inr rec_value_def split: option.splits)
  then have "dict_get (rec_to_json r) field = Some (JStr identity)"
    using r unfolding current_rec_to_json(1) [OF r]
    by (auto simp: rec_get_def current_record_def Let_def split: if_splits)
  then have "obj_get (rec_to_json r) field = JStr identity" by (simp add: obj_get_def)
  then have member: "obj_get (sorted_obj (rec_to_json r)) field = JStr identity"
    by (simp add: sorted_obj_get [OF pwf])
  have payload: "obj_get (sorted_obj ?raw) ''payload'' = JObj (sorted_obj (rec_to_json r))"
    unfolding sorted_obj_get [OF wf] unfolding commit_raw_def raw_entry_get sorted_json_obj ..
  have kind: "obj_get (sorted_obj ?raw) ''kind'' = JStr kind"
    unfolding sorted_obj_get [OF wf] by (simp add: commit_raw_def raw_entry_get)
  show ?thesis unfolding same_identity_def payload kind using member by (simp add: json_members_def)
qed

lemma commit_again:
  assumes "fresh_commit env timestamp txid record_group kind r checked s n h"
    "in_stage (commit_flight env timestamp txid record_group kind r checked s n h) After t"
  shows "commit env timestamp' txid' record_group kind r t
    = (Inr (entry_of timestamp kind (stored_form r) (Suc n) h
        (entry_hash env (entry_body (commit_raw env timestamp kind r n h)))), t)"
proof -
  obtain field identity destination where checked: "checked = (field, identity, destination)" by (cases checked)
  note fresh = assms(1) [unfolded checked]
  let ?raw = "commit_raw env timestamp kind r n h"
  have checks: "commit_checks env record_group kind r = Inr (field, identity, destination)"
    and r: "recordable env r" and jcs: "jcs_sorts (env_crypto env)"
    using fresh by (simp_all add: fresh_commit_def digests_documented_def)
  have rec: "current_record (env_crypto env) r" "writable (env_float env) (JObj (rec_to_json r))"
    using r by (simp_all add: recordable_def)
  from fresh obtain raws where raws: "snapshot env (st_ledger s) = Inr (raws, h)" "n = length raws"
    by (auto simp: fresh_commit_def verify_ledger_Inr)
  have kt: "kind_type kind = Inr (fr_type r)" by (rule commit_checks_Inr [OF checks])
  have next_raw: "?raw = next_entry env timestamp kind r raws h" by (simp add: commit_raw_def next_entry_def raws(2))
  have t: "st_txs t = []" "st_ledger t = Some (commit_ledger env timestamp kind r s n h)"
    "st_records t destination = Some (record_bytes r)"
    using assms(2) by (simp_all add: checked in_stage.simps settled_def fl_records_def commit_flight_def Let_def)
  have after: "snapshot env (st_ledger t) = Inr (raws @ [sorted_obj ?raw], entry_hash env (entry_body ?raw))"
    using snapshot_append [OF raws(1), of timestamp kind r] commit_raw_storable [OF fresh]
    unfolding next_raw [symmetric] t(2) commit_ledger_def by simp
  let ?e = "entry_of timestamp kind (stored_form r) (Suc n) h (entry_hash env (entry_body ?raw))"
  have entry: "normalize_raw env (sorted_obj ?raw) = Inr ?e"
    unfolding commit_raw_def
    by (rule normalize_stored_entry [OF rec(1) kt _ jcs rec(2)])
      (use plan_commit_fresh(2) [OF fresh] in \<open>simp add: commit_raw_def\<close>)
  have matches: "filter (same_identity kind field identity) (raws @ [sorted_obj ?raw]) = [sorted_obj ?raw]"
    using fresh_commit_unmatched [OF fresh raws(1)] commit_raw_same_identity [OF fresh] by simp
  have "resolve_duplicate t destination r [?e] = Inr ?e"
    using t(3) stored_record_bytes(3) [OF r jcs] by (simp add: resolve_duplicate_def entry_of_def)
  then have "plan_commit env timestamp' txid' record_group kind r (field, identity, destination) t = Inr ([], ?e)"
    using after entry t(3) by (simp add: plan_commit_def matches del: filter_append)
  with checks t(1) show ?thesis by (simp add: commit_def recover_unlocked_def)
qed

section \<open>The rebuilt index\<close>

text \<open>Sequences and kinds of the entries of a verified history.\<close>

lemma normalize_members:
  assumes "normalize_raw env raw = Inr e"
  shows "obj_get raw ''sequence'' = JInt (le_sequence e)" "obj_get raw ''kind'' = JStr (le_kind e)"
proof -
  from assms obtain data source where data: "json_object (py_of_json (JObj raw)) ''ledger_entry'' = Inr data"
    and e: "entry_of_members (env_crypto env) source (dict_without metadata_keys data) = Inr e"
    by (auto simp: normalize_raw_def normalize_ledger_entry_def Let_def and_then_Inr_iff simp del: py_of_json.simps)
  have "data = raw" using data by (rule json_object_identity)
  with e obtain n k where "json_int (obj_get (dict_without metadata_keys raw) ''sequence'') = Some n"
    "json_text (obj_get (dict_without metadata_keys raw) ''kind'') = Some k" "le_sequence e = n" "le_kind e = k"
    by (auto simp: entry_of_members_def and_then_Inr_iff typed_Inr simp del: py_of_json.simps)
  moreover have "obj_get (dict_without metadata_keys raw) ''sequence'' = obj_get raw ''sequence''"
    "obj_get (dict_without metadata_keys raw) ''kind'' = obj_get raw ''kind''"
    by (simp_all add: obj_get_def metadata_keys_def)
  ultimately show "obj_get raw ''sequence'' = JInt (le_sequence e)" "obj_get raw ''kind'' = JStr (le_kind e)"
    by (auto simp: json_int_def json_text_def split: json.splits)
qed

lemma verified_sequence:
  assumes "verify_from env i p raws = Inr h" "k < length raws"
  shows "json_eq (obj_get (raws ! k) ''sequence'') (JInt (int (i + k)))"
  using assms
proof (induction raws arbitrary: i p k)
  case (Cons raw raws)
  then obtain q where q: "verify_entry env i p raw = Inr q" "verify_from env (Suc i) q raws = Inr h"
    by (auto simp: and_then_Inr_iff)
  show ?case
  proof (cases k)
    case 0
    with q(1) show ?thesis by (simp add: verify_entry_Inr)
  next
    case (Suc k')
    with Cons.IH [OF q(2), of k'] Cons.prems(2) show ?thesis by simp
  qed
qed simp

lemma int_text_eq: "num_text (JInt i) = num_text (JInt j) \<Longrightarrow> i = j"
  using int_str_inject by auto

lemma entry_positions:
  assumes "verify_chain_of env raws = Inr h" "traverse (normalize_raw env) raws = Inr es" "k < length raws"
  shows "le_sequence (es ! k) = int k + 1" "obj_get (raws ! k) ''kind'' = JStr (le_kind (es ! k))"
proof -
  have norm: "normalize_raw env (raws ! k) = Inr (es ! k)" by (rule traverse_Inr_nth [OF assms(2,3)])
  have "json_eq (JInt (le_sequence (es ! k))) (JInt (int (1 + k)))"
    using verified_sequence [OF assms(1) [unfolded verify_chain_of_def] assms(3)] normalize_members(1) [OF norm] by simp
  then have "num_text (JInt (le_sequence (es ! k))) = num_text (JInt (int (1 + k)))" by simp
  then show "le_sequence (es ! k) = int k + 1" using int_text_eq by fastforce
  show "obj_get (raws ! k) ''kind'' = JStr (le_kind (es ! k))" by (rule normalize_members(2) [OF norm])
qed

text \<open>The lists the index builds, kind by kind.\<close>

definition listed :: "obj \<Rightarrow> string \<Rightarrow> json list" where
  "listed by_kind kind = (case dict_get by_kind kind of Some (JArr vs) \<Rightarrow> vs | _ \<Rightarrow> [])"

definition only_lists :: "obj \<Rightarrow> bool" where
  "only_lists by_kind \<longleftrightarrow> dict_wf by_kind \<and> (\<forall>v \<in> snd ` set by_kind. \<exists>is. v = JArr (map JInt is))"

lemma only_lists_get: "only_lists d \<Longrightarrow> dict_get d k = Some v \<Longrightarrow> \<exists>is. v = JArr (map JInt is)"
  unfolding only_lists_def by (metis imageI map_of_SomeD snd_conv)

lemma append_sequence_lists:
  assumes "only_lists d"
  shows "only_lists (append_sequence kind n d)"
    "listed (append_sequence kind n d) k = listed d k @ (if k = kind then [JInt n] else [])"
proof -
  have "\<exists>is. listed d kind = map JInt is"
    using only_lists_get [OF assms] by (fastforce simp: listed_def split: option.splits)
  then obtain "is" where "listed d kind = map JInt is" by blast
  then have new: "append_sequence kind n d = dict_set kind (JArr (map JInt (is @ [n]))) d"
    by (simp add: append_sequence_def listed_def)
  have "snd ` set (dict_set kind v d) \<subseteq> insert v (snd ` set d)" for v :: json and d
    by (induction d) auto
  with assms show "only_lists (append_sequence kind n d)"
    unfolding new only_lists_def by (metis dict_wf_set insert_iff subsetD)
  show "listed (append_sequence kind n d) k = listed d k @ (if k = kind then [JInt n] else [])"
    unfolding append_sequence_def by (simp add: listed_def)
qed

lemma index_entries_lists:
  assumes "index_entries env by_kind identities raws = Inr (by_kind', identities')"
    "traverse (normalize_raw env) raws = Inr es" "only_lists by_kind"
  shows "only_lists by_kind'"
    "listed by_kind' k = listed by_kind k @ map (JInt \<circ> le_sequence) (filter (\<lambda>e. le_kind e = k) es)"
proof -
  have "only_lists by_kind' \<and>
      listed by_kind' k = listed by_kind k @ map (JInt \<circ> le_sequence) (filter (\<lambda>e. le_kind e = k) es)"
    using assms
  proof (induction raws arbitrary: by_kind identities es)
    case (Cons raw raws)
    then obtain e es' where e: "normalize_raw env raw = Inr e" "traverse (normalize_raw env) raws = Inr es'" "es = e # es'"
      by (auto simp: and_then_Inr_iff)
    with Cons.prems(1) obtain ids where
      "index_entries env (append_sequence (le_kind e) (le_sequence e) by_kind) ids raws = Inr (by_kind', identities')"
      by (auto simp: and_then_Inr_iff Let_def)
    from Cons.IH [OF this e(2) append_sequence_lists(1) [OF Cons.prems(3)]]
    show ?case by (simp add: append_sequence_lists(2) [OF Cons.prems(3)] e(3))
  qed simp
  then show "only_lists by_kind'"
    "listed by_kind' k = listed by_kind k @ map (JInt \<circ> le_sequence) (filter (\<lambda>e. le_kind e = k) es)" by simp_all
qed

lemma index_entries_Cons:
  assumes "index_entries env by_kind identities (raw # raws) = Inr q"
  obtains e ids where "normalize_raw env raw = Inr e"
    "ids = identities \<or> (\<exists>k. ids = dict_set k (JInt (le_sequence e)) identities)"
    "index_entries env (append_sequence (le_kind e) (le_sequence e) by_kind) ids raws = Inr q"
proof (cases "normalize_raw env raw")
  case (Inr e)
  show thesis
  proof (cases "context_of (le_kind e)")
    case ctx: (Inr ctx)
    let ?ids = "case rec_value (le_payload e) (prc_identity_field ctx) of
      FStr s \<Rightarrow> dict_set (le_kind e @ '':'' @ s) (JInt (le_sequence e)) identities | _ \<Rightarrow> identities"
    have "?ids = identities \<or> (\<exists>k. ?ids = dict_set k (JInt (le_sequence e)) identities)"
      by (auto split: fjson.split)
    moreover have "index_entries env (append_sequence (le_kind e) (le_sequence e) by_kind) ?ids raws = Inr q"
      using assms Inr ctx by (simp add: Let_def)
    ultimately show thesis by (rule that [OF Inr])
  qed (use assms Inr in simp)
qed (use assms in simp)

lemma index_entries_identities:
  assumes "index_entries env by_kind identities raws = Inr (by_kind', identities')" "dict_wf identities"
    "snd ` set identities \<subseteq> range JInt"
  shows "dict_wf identities' \<and> snd ` set identities' \<subseteq> range JInt"
  using assms
proof (induction raws arbitrary: by_kind identities)
  case (Cons raw raws)
  have set: "snd ` set (dict_set k v d) \<subseteq> insert v (snd ` set d)" for k and v :: json and d
    by (induction d) auto
  from Cons.prems(1) obtain e :: ledger_entry and ids where
    ids: "ids = identities \<or> (\<exists>k. ids = dict_set k (JInt (le_sequence e)) identities)" and
    rest: "index_entries env (append_sequence (le_kind e) (le_sequence e) by_kind) ids raws = Inr (by_kind', identities')"
    by (rule index_entries_Cons)
  from ids have "dict_wf ids" by (elim disjE exE) (simp_all add: dict_wf_set Cons.prems(2) del: keys_dict_set)
  moreover from ids have "snd ` set ids \<subseteq> insert (JInt (le_sequence e)) (snd ` set identities)"
    using set by (elim disjE exE) (simp_all add: subset_insertI)
  then have "snd ` set ids \<subseteq> range JInt" by (rule subset_trans) (use Cons.prems(3) in simp)
  ultimately show ?case by (rule Cons.IH [OF rest])
qed simp

text \<open>An object read back equal to a well-formed one has its members.\<close>

lemma json_eq_member:
  assumes "json_eq (JObj d) (JObj e)" "dict_wf d" "dict_wf e"
  shows "rel_option json_eq (dict_get d k) (dict_get e k)"
proof (cases "dict_get d k")
  case (Some v)
  then have "(k, v) \<in> set d" by (rule map_of_SomeD)
  with assms(1) have "case dict_get e k of None \<Rightarrow> False | Some x \<Rightarrow> json_eq v x"
    by (auto simp: list_all_iff)
  with Some show ?thesis by (simp split: option.splits)
next
  case None
  have "set (dict_keys d) \<subseteq> set (dict_keys e)"
  proof
    fix key
    assume "key \<in> set (dict_keys d)"
    then obtain v where "(key, v) \<in> set d" by auto
    with assms(1) obtain x where "dict_get e key = Some x"
      by (auto simp: list_all_iff split: option.splits)
    then show "key \<in> set (dict_keys e)" by (metis domI dom_map_of_conv_image_fst set_map)
  qed
  moreover have "card (set (dict_keys d)) = card (set (dict_keys e))"
    using assms by (simp add: distinct_card del: set_map)
  ultimately have "set (dict_keys d) = set (dict_keys e)" by (intro card_subset_eq) simp_all
  with None show ?thesis by (metis map_of_eq_None_iff option.rel_intros(1) set_map)
qed

lemma json_eq_ints:
  assumes "list_all2 json_eq vs (map JInt is)" "those (map (sequence_of_kind rs kind) vs) = Some ns"
  shows "map int ns = is"
  using assms
proof (induction vs arbitrary: "is" ns)
  case (Cons v vs)
  then obtain i "is'" where i: "is = i # is'" "json_eq v (JInt i)" "list_all2 json_eq vs (map JInt is')"
    by (auto simp: list_all2_Cons1)
  from Cons.prems(2) obtain n ns' where n: "ns = n # ns'" "sequence_of_kind rs kind v = Some n"
    "those (map (sequence_of_kind rs kind) vs) = Some ns'"
    by (auto split: option.splits)
  from n(2) obtain j where j: "v = JInt j" "n = nat j" "1 \<le> j"
    by (auto simp: sequence_of_kind_def split: json.splits if_splits)
  with i(2) have "num_text (JInt j) = num_text (JInt i)" by simp
  then have "j = i" by (rule int_text_eq)
  with j i(1) n(1) Cons.IH [OF i(3) n(3)] show ?case by simp
qed simp

lemma only_lists_wf: "only_lists d \<Longrightarrow> dict_wf d"
  by (simp add: only_lists_def)

text \<open>What the lists of a complete index must hold.\<close>

definition lists_positions :: "obj list \<Rightarrow> obj \<Rightarrow> bool" where
  "lists_positions rs by_kind \<longleftrightarrow> only_lists by_kind \<and>
     (\<forall>k < length rs. \<forall>kind. obj_get (rs ! k) ''kind'' = JStr kind \<longrightarrow> JInt (int k + 1) \<in> set (listed by_kind kind))"

lemma listed_member: "x \<in> set (listed d k) \<Longrightarrow> \<exists>vs. dict_get d k = Some (JArr vs) \<and> x \<in> set vs"
  by (cases "dict_get d k"; cases "the (dict_get d k)") (simp_all add: listed_def)

lemma json_eq_shape:
  "json_eq v (JArr ys) \<Longrightarrow> \<exists>xs. v = JArr xs \<and> list_all2 json_eq xs ys"
  "json_eq v (JObj e) \<Longrightarrow> \<exists>d. v = JObj d"
  by (cases v; simp)+

lemma json_eq_member_at:
  assumes "json_eq (JObj d) (JObj e)" "dict_wf d" "dict_wf e" "dict_get e k = Some x"
  obtains v where "dict_get d k = Some v" "json_eq v x"
  using json_eq_member [OF assms(1-3), of k] assms(4) by (auto simp: option_rel_Some2)

lemma complete_lists_select:
  assumes "lists_positions rs e" "json_eq (JObj d) (JObj e)" "dict_wf d"
    "kind_sequences rs d kind = Some ns" "k < length rs" "obj_get (rs ! k) ''kind'' = JStr kind"
  shows "Suc k \<in> set ns"
proof -
  have lists: "only_lists e" and mem: "JInt (int k + 1) \<in> set (listed e kind)"
    using assms(1,5,6) by (auto simp: lists_positions_def)
  then obtain vs where "dict_get e kind = Some (JArr vs)" "JInt (int k + 1) \<in> set vs"
    using listed_member by blast
  with only_lists_get [OF lists] obtain "is"
    where "is": "dict_get e kind = Some (JArr (map JInt is))" "int k + 1 \<in> set is" by fastforce
  obtain v where v: "dict_get d kind = Some v" "json_eq v (JArr (map JInt is))"
    by (rule json_eq_member_at [OF assms(2,3) only_lists_wf [OF lists] "is"(1)])
  from v json_eq_shape(1) [OF v(2)] obtain vs
    where vs: "dict_get d kind = Some (JArr vs)" "list_all2 json_eq vs (map JInt is)" by blast
  from assms(4) vs(1) have "those (map (sequence_of_kind rs kind) vs) = Some ns" by (simp add: kind_sequences_def)
  from json_eq_ints [OF vs(2) this] "is"(2) have "int (Suc k) \<in> int ` set ns" by (auto simp: add.commute)
  then show ?thesis by (simp only: inj_image_mem_iff inj_of_nat)
qed

lemma index_lists_positions:
  assumes "snapshot env file = Inr (raws, h)" "index_entries env [] [] raws = Inr (by_kind, identities)"
    "traverse (normalize_raw env) raws = Inr es"
  shows "lists_positions raws by_kind"
proof -
  have empty: "only_lists []" by (simp add: only_lists_def)
  note built = index_entries_lists [OF assms(2,3) empty]
  from assms(1) have sound: "verify_chain_of env raws = Inr h" by (simp add: snapshot_Inr)
  have "JInt (int k + 1) \<in> set (listed by_kind kind)"
    if k: "k < length raws" and kind: "obj_get (raws ! k) ''kind'' = JStr kind" for k kind
  proof -
    note pos = entry_positions [OF sound assms(3) k]
    from k traverse_Inr_length [OF assms(3)] have "es ! k \<in> set es" by simp
    with pos(2) kind have "es ! k \<in> set (filter (\<lambda>e. le_kind e = kind) es)" by simp
    then have "JInt (le_sequence (es ! k)) \<in> set (listed by_kind kind)" unfolding built(2) by simp
    then show ?thesis unfolding pos(1) .
  qed
  with built(1) show ?thesis by (simp add: lists_positions_def)
qed

lemma index_entries_normalize:
  "index_entries env by_kind identities raws = Inr q \<Longrightarrow> \<exists>es. traverse (normalize_raw env) raws = Inr es"
proof (induction raws arbitrary: by_kind identities)
  case (Cons raw raws)
  from Cons.prems obtain e :: ledger_entry and ids where "normalize_raw env raw = Inr e"
    "index_entries env (append_sequence (le_kind e) (le_sequence e) by_kind) ids raws = Inr q"
    by (rule index_entries_Cons)
  with Cons.IH show ?case by fastforce
qed simp

text \<open>An index file that reads back as the rebuilt contents selects every entry of a kind.\<close>

lemma select_kinds_normalized:
  assumes "traverse (normalize_raw env) raws = Inr es"
  shows "select_kinds kinds raws = Inr (filter (kind_among kinds) raws)"
proof -
  have "\<forall>raw \<in> set raws. \<exists>k. obj_get raw ''kind'' = JStr k"
    using assms by (induction raws arbitrary: es) (auto simp: and_then_Inr_iff dest: normalize_members(2))
  then show ?thesis
    by (induction raws) (auto simp: in_texts_def kind_among_def)
qed

lemma index_selects_exactly:
  assumes snap: "snapshot env (st_ledger s) = Inr (raws, h)" and data: "index_data env s raws = Inr expected"
    and index: "st_index s = Some bytes" "json_loads (env_float env) keep_last bytes = Some v"
      "json_eq v (JObj expected)" "writable (env_float env) v"
  shows "select_with_index env (env_sha env (file_bytes (st_ledger s))) raws kinds (st_index s)
    = Inr (filter (kind_among kinds) raws)"
proof -
  from data obtain by_kind identities head where entries: "index_entries env [] [] raws = Inr (by_kind, identities)"
    and head: "last_hash raws = Inr head"
    and expected: "expected = [(''schema_version'', JInt INDEX_SCHEMA_VERSION),
          (''ledger_sha256'', JStr (env_sha env (file_bytes (st_ledger s)))),
          (''ledger_size'', JInt (int (length (file_bytes (st_ledger s))))),
          (''ledger_head'', head),
          (''entry_count'', JInt (int (length raws))),
          (''sequences_by_kind'', JObj by_kind),
          (''identity_sequences'', JObj identities)]"
    by (auto simp: index_data_def and_then_Inr_iff Let_def)
  obtain es where es: "traverse (normalize_raw env) raws = Inr es" using index_entries_normalize [OF entries] ..
  note complete = index_lists_positions [OF snap entries es]
  from index(3) obtain d where d: "v = JObj d" by (cases v) auto
  with index(4) have wf: "dict_wf d" by simp
  have "dict_wf expected" by (simp add: expected)
  have "dict_get expected ''sequences_by_kind'' = Some (JObj by_kind)" by (simp add: expected)
  with json_eq_member_at [OF index(3) [unfolded d] wf \<open>dict_wf expected\<close>] obtain w
    where w: "dict_get d ''sequences_by_kind'' = Some w" "json_eq w (JObj by_kind)" by metis
  from w json_eq_shape(2) [OF w(2)] obtain by_kind'
    where stored: "dict_get d ''sequences_by_kind'' = Some (JObj by_kind')" "json_eq (JObj by_kind') (JObj by_kind)"
    by blast
  then have "(''sequences_by_kind'', JObj by_kind') \<in> set d" by (intro map_of_SomeD)
  with index(4) d have wf': "dict_wf by_kind'" by fastforce
  obtain selection where sel: "index_selection env (env_sha env (file_bytes (st_ledger s))) raws kinds (st_index s) = Inr selection"
    by (cases "index_binds (env_sha env (file_bytes (st_ledger s))) head (length raws) d")
      (simp_all add: index_selection_def index(1,2) d head obj_get_def stored json_members_def)
  show ?thesis
  proof (cases selection)
    case None
    with sel show ?thesis by (simp add: select_with_index_def select_kinds_normalized [OF es])
  next
    case (Some "is")
    with sel have found: "index_selection env (env_sha env (file_bytes (st_ledger s))) raws kinds (st_index s) = Inr (Some is)"
      by simp
    then obtain iss where iss: "map (kind_sequences raws by_kind') kinds = map Some iss" "is = concat iss"
      by (auto simp: index_selection_def index d head obj_get_def stored json_members_def those_Some split: if_splits)
    have "Suc k \<in> set is \<longleftrightarrow> kind_among kinds (raws ! k)" if "k < length raws" for k
    proof
      assume "kind_among kinds (raws ! k)"
      then obtain kind where kind: "kind \<in> set kinds" "obj_get (raws ! k) ''kind'' = JStr kind"
        by (auto simp: kind_among_def)
      from kind(1) have "kind_sequences raws by_kind' kind \<in> set (map Some iss)" by (simp flip: iss(1))
      then obtain ns where "kind_sequences raws by_kind' kind = Some ns" "ns \<in> set iss" by auto
      with complete_lists_select [OF complete stored(2) wf' _ that kind(2)] show "Suc k \<in> set is"
        by (auto simp: iss(2))
    qed (use index_selection_Some(3) [OF found, of "Suc k"] in simp)
    then have "filter (\<lambda>i. Suc i \<in> set is) [0..<length raws] = filter (\<lambda>i. kind_among kinds (raws ! i)) [0..<length raws]"
      by (intro filter_cong) auto
    moreover have "\<forall>i \<in> set is. 1 \<le> i \<and> i \<le> length raws" using index_selection_Some(1,2) [OF found] by blast
    ultimately show ?thesis
      using found listed_entries [of "is" raws] by (simp add: select_with_index_def filter_as_positions [symmetric])
  qed
qed

lemma rebuilt_selects:
  assumes "snapshot env (st_ledger s) = Inr (raws, h)" "index_data env s raws = Inr expected"
    "rebuild_index env s = Inr steps" "float_faithful (env_float env)"
    "writable (env_float env) (JObj expected)" "utf8_json (JObj expected)"
  shows "select_with_index env (env_sha env (file_bytes (st_ledger s))) raws kinds (st_index (do_steps steps s))
    = Inr (filter (kind_among kinds) raws)"
proof -
  let ?t = "do_steps steps s"
  have steps: "ensure_index env s raws = Inr steps" using assms(1,3) by (simp add: rebuild_index_def)
  from ensure_index_steps [OF this] have same: "st_ledger ?t = st_ledger s" by (auto simp: do_step.simps)
  have data: "index_data env ?t raws = Inr expected" using assms(2) by (simp add: index_data_def same)
  have "\<exists>bytes v. st_index ?t = Some bytes \<and> json_loads (env_float env) keep_last bytes = Some v \<and>
      json_eq v (JObj expected) \<and> writable (env_float env) v"
  proof (cases steps)
    case Nil
    with steps assms(2) show ?thesis
      by (auto simp: ensure_index_def Let_def loads_writable [OF _ assms(4)] split: if_splits option.splits
          simp del: json_eq.simps)
  next
    case (Cons step rest)
    with steps assms(2) have "steps = [WriteIndex (canonical_bytes (JObj expected) @ [CHR 0x0A])]"
      by (auto simp: ensure_index_def Let_def split: if_splits simp del: json_eq.simps)
    then have "st_index ?t = Some (canonical_bytes (JObj expected) @ [CHR 0x0A])" by (simp add: do_step.simps)
    moreover note loaded = loads_canonical_line [OF assms(5,6)]
    ultimately show ?thesis using json_eq_sorted [OF assms(5)] loads_writable [OF loaded assms(4)] by blast
  qed
  then obtain bytes v where "st_index ?t = Some bytes" "json_loads (env_float env) keep_last bytes = Some v"
    "json_eq v (JObj expected)" "writable (env_float env) v" by blast
  from index_selects_exactly [OF _ data this] assms(1) show ?thesis by (simp add: same)
qed

text \<open>The lists of a bound index are not checked for completeness.\<close>

lemma incomplete_index_hides:
  assumes "json_loads (env_float env) keep_last bytes = Some (JObj d)" "last_hash raws = Inr head"
    "index_binds digest head (length raws) d" "obj_get d ''sequences_by_kind'' = JObj by_kind"
    "\<forall>k \<in> set kinds. dict_get by_kind k = None"
  shows "select_with_index env digest raws kinds (Some bytes) = Inr []"
proof -
  have "those (map (kind_sequences raws by_kind) kinds) = Some (map (\<lambda>_. []) kinds)"
    using assms(5) by (induction kinds) (simp_all add: kind_sequences_def)
  moreover have "concat (map (\<lambda>_. []) kinds) = []" by simp
  ultimately show ?thesis
    using assms by (simp add: select_with_index_def index_selection_def json_members_def)
qed

end
