(* ===== verification/StoreHistories.thy ===== *)
theory StoreHistories
  imports StoreGuarantees
begin

text \<open>
  Whole histories of a state directory: any sequence of commits, refused ones included, and of commits
  cut off at any point, followed by recoveries that may be cut off themselves. Every store of such a
  history verifies, and nothing that was published is changed or lost.
\<close>

section \<open>One step\<close>

text \<open>What a history assumes of a commit: a record the model built, UTF-8 texts, and no collision
  between the ledger's digests before and after.\<close>

definition admissible :: "storage_env \<Rightarrow> string \<Rightarrow> string \<Rightarrow> string \<Rightarrow> forge_record \<Rightarrow> store \<Rightarrow> bool" where
  "admissible env timestamp txid kind r s \<longleftrightarrow>
     digests_documented env \<and> recordable env r \<and> utf8_valid timestamp \<and> utf8_valid txid \<and>
     (\<forall>n h. verify_ledger env s = Inr (n, h) \<longrightarrow>
        env_sha env (file_bytes (st_ledger s)) \<noteq> env_sha env (commit_ledger env timestamp kind r s n h))"

lemma verified_no_transactions: "verify_ledger env s = Inr (n, h) \<Longrightarrow> st_txs s = []"
  by (simp add: verify_ledger_Inr)

lemma plan_commit_cases:
  assumes "plan_commit env timestamp txid record_group kind r (field, identity, destination) s = Inr (phases, e)"
  shows "phases = [] \<or> st_records s destination = None"
  using assms by (auto simp: plan_commit_def and_then_Inr_iff Let_def split: if_splits)

lemma planned_fresh:
  assumes "admissible env timestamp txid kind r s" "verify_ledger env s = Inr (n, h)"
    "commit_checks env record_group kind r = Inr checked"
    "plan_commit env timestamp txid record_group kind r checked s = Inr (phases, e)" "phases \<noteq> []"
  shows "fresh_commit env timestamp txid record_group kind r checked s n h"
proof -
  obtain field identity destination where checked: "checked = (field, identity, destination)" by (cases checked)
  from plan_commit_cases [OF assms(4) [unfolded checked]] assms(5) have "st_records s destination = None" by simp
  with assms show ?thesis by (simp add: fresh_commit_def admissible_def is_ok_def checked)
qed

text \<open>The published state: every record that was there, and the ledger as it was or longer.\<close>

definition extends :: "store \<Rightarrow> store \<Rightarrow> bool" where
  "extends s t \<longleftrightarrow> st_records s \<subseteq>\<^sub>m st_records t \<and> (\<exists>more. file_bytes (st_ledger t) = file_bytes (st_ledger s) @ more)"

lemma extends_refl: "extends s s"
  by (simp add: extends_def)

lemma extends_trans: "extends s t \<Longrightarrow> extends t u \<Longrightarrow> extends s u"
  unfolding extends_def by (metis append.assoc map_le_trans)

lemma extends_same: "st_ledger t = st_ledger s \<Longrightarrow> st_records t = st_records s \<Longrightarrow> extends s t"
  by (simp add: extends_def)

lemma extends_after:
  assumes "fresh_commit env timestamp txid record_group kind r checked s n h"
    "st_ledger t = Some (commit_ledger env timestamp kind r s n h)"
    "st_records t = (st_records s)(snd (snd checked) := Some (record_bytes r))"
  shows "extends s t"
proof -
  have "st_records s (snd (snd checked)) = None" using assms(1) by (simp add: fresh_commit_def)
  with assms(2,3) show ?thesis
    by (auto simp: extends_def map_le_def commit_ledger_def file_bytes_def)
qed

lemma after_flight:
  assumes "in_stage (commit_flight env timestamp txid record_group kind r checked s n h) After t"
  shows "st_ledger t = Some (commit_ledger env timestamp kind r s n h)"
    "st_records t = (st_records s)(snd (snd checked) := Some (record_bytes r))"
  using assms by (cases checked; auto simp: in_stage.simps settled_def fl_records_def commit_flight_def Let_def)+

lemma commit_step:
  assumes "admissible env timestamp txid kind r s" "verify_ledger env s = Inr (n, h)"
    "t = snd (commit env timestamp txid record_group kind r s)"
  shows "extends s t \<and> (\<exists>n' h'. verify_ledger env t = Inr (n', h') \<and> n \<le> n' \<and> n' \<le> Suc n)"
proof (cases "commit_checks env record_group kind r")
  case checked: (Inr checked)
  note none = verified_no_transactions [OF assms(2)]
  show ?thesis
  proof (cases "plan_commit env timestamp txid record_group kind r checked s")
    case plan: (Inr q)
    obtain phases e where q: "q = (phases, e)" by (cases q)
    show ?thesis
    proof (cases "phases = []")
      case True
      with checked plan q none assms(2,3) show ?thesis
        by (simp add: commit_def recover_unlocked_def extends_refl)
    next
      case False
      note fresh = planned_fresh [OF assms(1,2) checked plan [unfolded q] False]
      from assms(1,2) have "env_sha env (file_bytes (st_ledger s)) \<noteq> env_sha env (commit_ledger env timestamp kind r s n h)"
        by (simp add: admissible_def)
      from commit_completes [OF fresh this] obtain u where
        "commit env timestamp txid record_group kind r s = (Inr (commit_entry env timestamp kind r n h), u)"
        and u: "in_stage (commit_flight env timestamp txid record_group kind r checked s n h) After u"
        and v: "verify_ledger env u = Inr (Suc n, entry_hash env (entry_body (commit_raw env timestamp kind r n h)))"
        by blast
      with assms(3) have t: "t = u" by simp
      from extends_after [OF fresh after_flight [OF u]] v show ?thesis unfolding t by simp
    qed
  next
    case (Inl e)
    with checked none assms(2,3) show ?thesis by (simp add: commit_def recover_unlocked_def extends_refl)
  qed
qed (use assms in \<open>simp add: commit_def extends_refl\<close>)

text \<open>A commit cut off at any point, with the recoveries of it that were cut off too.\<close>

definition cut_off ::
  "storage_env \<Rightarrow> string \<Rightarrow> string \<Rightarrow> string \<Rightarrow> string \<Rightarrow> forge_record \<Rightarrow> store \<Rightarrow> store \<Rightarrow> bool"
where
  "cut_off env timestamp txid record_group kind r s u \<longleftrightarrow>
     (\<exists>checked phases e t. commit_checks env record_group kind r = Inr checked \<and>
        plan_commit env timestamp txid record_group kind r checked s = Inr (phases, e) \<and>
        interrupted phases s t \<and> (crashed_recovery env)\<^sup>*\<^sup>* t u)"

lemma interrupted_Nil: "interrupted [] s t \<Longrightarrow> t = s"
  by (auto elim: interrupted.cases)

lemma crashed_recovery_clean:
  "(crashed_recovery env)\<^sup>*\<^sup>* s u \<Longrightarrow> st_txs s = [] \<Longrightarrow> u = s"
proof (induction rule: rtranclp_induct)
  case (step t u)
  then show ?case by (auto elim: recovery_interrupted.cases)
qed simp

lemma cut_off_step:
  assumes "admissible env timestamp txid kind r s" "verify_ledger env s = Inr (n, h)"
    "cut_off env timestamp txid record_group kind r s u"
  obtains counts v n' h' where "recover_unlocked env u = (Inr counts, v)" "extends s v"
    "verify_ledger env v = Inr (n', h')" "n \<le> n'" "n' \<le> Suc n"
proof -
  note none = verified_no_transactions [OF assms(2)]
  from assms(3) obtain checked phases e t where checked: "commit_checks env record_group kind r = Inr checked"
    and plan: "plan_commit env timestamp txid record_group kind r checked s = Inr (phases, e)"
    and run: "interrupted phases s t" "(crashed_recovery env)\<^sup>*\<^sup>* t u"
    by (auto simp: cut_off_def)
  show thesis
  proof (cases "phases = []")
    case True
    with run(1) interrupted_Nil have "t = s" by simp
    with crashed_recovery_clean run(2) none have u: "u = s" by simp
    have "recover_unlocked env u = (Inr (0, 0), u)" using none by (simp add: u recover_unlocked_def)
    with assms(2) show thesis by (intro that [of "(0, 0)" u n h]) (simp_all add: u extends_refl)
  next
    case False
    note fresh = planned_fresh [OF assms(1,2) checked plan False]
    from assms(1,2) have "env_sha env (file_bytes (st_ledger s)) \<noteq> env_sha env (commit_ledger env timestamp kind r s n h)"
      by (simp add: admissible_def)
    from interrupted_commit_recovers [OF fresh this plan run] obtain counts v where
      rec: "recover_unlocked env u = (Inr counts, v)" and
      cases: "st_ledger v = st_ledger s \<and> st_records v = st_records s \<and> verify_ledger env v = Inr (n, h)
       \<or> st_ledger v = Some (commit_ledger env timestamp kind r s n h)
         \<and> st_records v = (st_records s)(snd (snd checked) := Some (record_bytes r))
         \<and> verify_ledger env v = Inr (Suc n, entry_hash env (entry_body (commit_raw env timestamp kind r n h)))"
      by metis
    from cases show thesis
    proof
      assume "st_ledger v = st_ledger s \<and> st_records v = st_records s \<and> verify_ledger env v = Inr (n, h)"
      then show thesis by (intro that [OF rec, of n h]) (simp_all add: extends_same)
    next
      assume "st_ledger v = Some (commit_ledger env timestamp kind r s n h)
         \<and> st_records v = (st_records s)(snd (snd checked) := Some (record_bytes r))
         \<and> verify_ledger env v = Inr (Suc n, entry_hash env (entry_body (commit_raw env timestamp kind r n h)))"
      with extends_after [OF fresh] show thesis
        by (intro that [OF rec, of "Suc n" "entry_hash env (entry_body (commit_raw env timestamp kind r n h))"]) simp_all
    qed
  qed
qed

section \<open>Histories\<close>

definition empty_store :: store where
  "empty_store = \<lparr>st_ledger = None, st_index = None, st_records = Map.empty, st_txs = []\<rparr>"

inductive store_history :: "storage_env \<Rightarrow> store \<Rightarrow> store \<Rightarrow> bool" for env s where
  begun: "store_history env s s"
| committed: "store_history env s t \<Longrightarrow> admissible env timestamp txid kind r t \<Longrightarrow>
    store_history env s (snd (commit env timestamp txid record_group kind r t))"
| recovered: "store_history env s t \<Longrightarrow> admissible env timestamp txid kind r t \<Longrightarrow>
    cut_off env timestamp txid record_group kind r t u \<Longrightarrow>
    store_history env s (snd (recover_unlocked env u))"

lemma history_verifies:
  assumes "store_history env s t" "verify_ledger env s = Inr (n, h)"
  shows "extends s t \<and> (\<exists>n' h'. verify_ledger env t = Inr (n', h') \<and> n \<le> n')"
  using assms(1)
proof (induction rule: store_history.induct)
  case begun
  with assms(2) show ?case by (simp add: extends_refl)
next
  case (committed t timestamp txid kind r record_group)
  then obtain n' h' where v: "verify_ledger env t = Inr (n', h')" "n \<le> n'" and e: "extends s t" by blast
  from commit_step [OF committed.hyps(2) v(1) refl, of record_group] v(2) extends_trans [OF e]
  show ?case by (meson order_trans)
next
  case (recovered t timestamp txid kind r record_group u)
  then obtain n' h' where v: "verify_ledger env t = Inr (n', h')" "n \<le> n'" and e: "extends s t" by blast
  from cut_off_step [OF recovered.hyps(2) v(1) recovered.hyps(3)] obtain counts w n'' h''
    where "recover_unlocked env u = (Inr counts, w)" "extends t w" "verify_ledger env w = Inr (n'', h'')" "n' \<le> n''"
    by metis
  with v(2) extends_trans [OF e] show ?case by auto
qed

lemma empty_store_verifies: "verify_ledger env empty_store = Inr (0, GENESIS)"
  by (simp add: verify_ledger_def require_recovered_def empty_store_def snapshot_def file_bytes_def
      verify_chain_of_def verify_immutable_records_def)

end
