(* ===== verification/Services.thy ===== *)
theory Services
  imports RightsProvenance StoreHistories
begin

text \<open>
  The application services that move the lifecycle: \<open>application/candidates.py\<close> and the freeze of
  \<open>application/evaluation.py\<close>. Each one builds a machine over the store, asks it for authority, builds
  one record from the current observations, and commits it.
\<close>

section \<open>Records from observations\<close>

definition pfield :: "string \<Rightarrow> pyobj \<Rightarrow> pykey \<times> pyobj" where
  "pfield k v = (KStr k, v)"

definition ptext_or_none :: "string option \<Rightarrow> pyobj" where
  "ptext_or_none t = (case t of None \<Rightarrow> PNone | Some s \<Rightarrow> PStr s)"

definition ptexts :: "string list \<Rightarrow> pyobj" where
  "ptexts ts = PSeq (map PStr ts)"

definition pmap :: "('a \<Rightarrow> pyobj) \<Rightarrow> 'a dict \<Rightarrow> pyobj" where
  "pmap f d = PMap (map (\<lambda>(k, v). (KStr k, f v)) d)"

definition pfrozen :: "fjson \<Rightarrow> pyobj" where
  "pfrozen v = py_of_json (thaw_json v)"

text \<open>What a call takes from its surroundings: the clock, and the identifier of its transaction.\<close>

record moment =
  mo_now :: string
  mo_timestamp :: string
  mo_txid :: string

text \<open>\<open>self.record_store.commit(group, kind, record)\<close>, then \<open>return record\<close>.\<close>

definition commit_new ::
  "storage_env \<Rightarrow> moment \<Rightarrow> string \<Rightarrow> string \<Rightarrow> forge_record res \<Rightarrow> store \<Rightarrow> forge_record res \<times> store"
where
  "commit_new env at record_group kind built s =
     (case built of
        Inl e \<Rightarrow> (Inl e, s)
      | Inr r \<Rightarrow>
          (case commit env (mo_timestamp at) (mo_txid at) record_group kind r s of
             (Inl e, s') \<Rightarrow> (Inl e, s')
           | (Inr entry, s') \<Rightarrow> (Inr r, s')))"

section \<open>Epochs\<close>

definition epoch_record ::
  "lifecycle_context \<Rightarrow> forge_config \<Rightarrow> observation \<Rightarrow> moment \<Rightarrow> string \<Rightarrow> string \<Rightarrow> string option
     \<Rightarrow> string list \<Rightarrow> store \<Rightarrow> forge_record res"
where
  "epoch_record ctx cfg obs at generator evaluator_identity parent overlap s =
     and_then (lifecycle_machine ctx obs full_view s) (\<lambda>m.
     and_then (authorize_epoch_begin m parent) (\<lambda>_.
     and_then (ob_content obs (cf_paths cfg ''contracts'')) (\<lambda>contract.
     and_then (cf_resolve cfg (cf_policy cfg ''useful_benefit_objective'')) (\<lambda>objective_path.
     and_then (ob_content obs (cf_paths cfg ''evaluators'')) (\<lambda>evaluator.
     and_then (ob_candidate_paths obs) (\<lambda>candidate_paths.
     and_then (ob_authority_paths obs) (\<lambda>authority_paths.
     and_then (ob_content obs (candidate_paths @ authority_paths)) (\<lambda>baseline.
     and_then (ob_content obs [objective_path]) (\<lambda>objective.
     and_then (ob_identities obs
       (cf_paths cfg ''contracts'' @ cf_paths cfg ''references'' @ cf_paths cfg ''development_evidence'')) (\<lambda>visible.
     and_then (ob_authority obs) (\<lambda>authorities.
     new_record (env_crypto (lc_env ctx)) EPOCH
       [pfield ''baseline_identity'' (PStr baseline),
        pfield ''generator_identity'' (PStr generator),
        pfield ''evaluator_identity'' (PStr (if evaluator_identity = [] then evaluator else evaluator_identity)),
        pfield ''contract_identity'' (PStr contract),
        pfield ''objective_identity'' (PStr objective),
        pfield ''visible_partition_identities'' (pmap PStr visible),
        pfield ''authority_identities'' (pmap PStr authorities),
        pfield ''declared_authority_overlap'' (ptexts (sort overlap)),
        pfield ''parent_epoch'' (ptext_or_none parent),
        pfield ''created_at'' (PStr (mo_now at))])))))))))))"

definition begin_epoch ::
  "lifecycle_context \<Rightarrow> forge_config \<Rightarrow> observation \<Rightarrow> moment \<Rightarrow> string \<Rightarrow> string \<Rightarrow> string option
     \<Rightarrow> string list \<Rightarrow> store \<Rightarrow> forge_record res \<times> store"
where
  "begin_epoch ctx cfg obs at generator evaluator_identity parent overlap s =
     commit_new (lc_env ctx) at ''epochs'' ''epoch''
       (epoch_record ctx cfg obs at generator evaluator_identity parent overlap s) s"

section \<open>Candidates\<close>

record registration =
  rn_changed_files :: "string list"
  rn_hypothesis :: string
  rn_generator :: string
  rn_generator_config :: string
  rn_parent :: "string option"
  rn_expected :: "string option"

definition candidate_record_of ::
  "lifecycle_context \<Rightarrow> forge_config \<Rightarrow> observation \<Rightarrow> moment \<Rightarrow> registration \<Rightarrow> store \<Rightarrow> forge_record res"
where
  "candidate_record_of ctx cfg obs at request s =
     and_then (ob_candidate obs) (\<lambda>current.
     and_then (raise_if (rn_expected request \<notin> {None, Some current}) (ForgeError ''STALE_CANDIDATE'' [])) (\<lambda>_.
     and_then (lifecycle_machine ctx obs full_view s) (\<lambda>m.
     and_then (authorize_candidate_register m (rn_parent request) current None) (\<lambda>epoch.
     and_then (ob_changed_files obs (rn_changed_files request)) (\<lambda>current_files.
     and_then (cf_resolve cfg (cf_policy cfg ''useful_benefit_objective'')) (\<lambda>objective_path.
     and_then (rec_item epoch ''epoch_id'') (\<lambda>epoch_id.
     and_then (ob_content obs [objective_path]) (\<lambda>objective.
     new_record (env_crypto (lc_env ctx)) CANDIDATE
       [pfield ''candidate_id'' (PStr current),
        pfield ''parent_candidate'' (ptext_or_none (rn_parent request)),
        pfield ''changed_files'' (ptexts (sort (dict_keys current_files))),
        pfield ''declared_hypothesis'' (PStr (rn_hypothesis request)),
        pfield ''generator_identity'' (PStr (rn_generator request)),
        pfield ''generator_configuration_identity'' (PStr (rn_generator_config request)),
        pfield ''source_epoch'' (pfrozen epoch_id),
        pfield ''registered_at'' (PStr (mo_now at)),
        pfield ''current_file_identities'' (pmap PStr current_files),
        pfield ''useful_benefit_objective'' (PStr (cf_policy cfg ''useful_benefit_objective'')),
        pfield ''objective_identity'' (PStr objective),
        pfield ''supersedes'' PNone]))))))))"

definition register ::
  "lifecycle_context \<Rightarrow> forge_config \<Rightarrow> observation \<Rightarrow> moment \<Rightarrow> registration \<Rightarrow> store \<Rightarrow> forge_record res \<times> store"
where
  "register ctx cfg obs at request s =
     commit_new (lc_env ctx) at ''candidates'' ''candidate'' (candidate_record_of ctx cfg obs at request s) s"

text \<open>
  The earlier declaration that \<open>refresh\<close> falls back on is looked for in a \<open>list\<close>. A record's fields are
  frozen, their sequences are tuples, and no frozen value is a list.
\<close>

definition listed_files :: "fjson \<Rightarrow> string list" where
  "listed_files v = []"

record refreshed =
  rd_refreshed :: bool
  rd_previous :: string
  rd_candidate :: forge_record

definition refresh ::
  "lifecycle_context \<Rightarrow> forge_config \<Rightarrow> observation \<Rightarrow> moment \<Rightarrow> string \<Rightarrow> string \<Rightarrow> string
     \<Rightarrow> string list option \<Rightarrow> store \<Rightarrow> refreshed res \<times> store"
where
  "refresh ctx cfg obs at hypothesis generator generator_config changed_files s =
     (case and_then (lifecycle_machine ctx obs full_view s) (\<lambda>m.
        case pr_candidate (ma_projection m) of
          None \<Rightarrow> Inl (ForgeError ''NO_CANDIDATE'' [])
        | Some existing \<Rightarrow>
            and_then (ob_candidate obs) (\<lambda>current.
            and_then (rec_item existing ''candidate_id'') (\<lambda>existing_id.
            Inr (existing, py_str existing_id,
              pr_freshness (ma_projection m) = ''CURRENT'' \<and> py_str existing_id = current)))) of
        Inl e \<Rightarrow> (Inl e, s)
      | Inr (existing, existing_id, matches) \<Rightarrow>
          if matches
          then (Inr \<lparr>rd_refreshed = False, rd_previous = existing_id, rd_candidate = existing\<rparr>, s)
          else
            (let declared = (case changed_files of None \<Rightarrow> [] | Some files \<Rightarrow> files);
                 files = (if declared = [] then listed_files (rec_value existing ''changed_files'') else declared) in
             if files = [] then (Inl (ForgeError ''INVALID_CHANGED_FILE'' []), s)
             else
               (case register ctx cfg obs at
                  \<lparr>rn_changed_files = files, rn_hypothesis = hypothesis, rn_generator = generator,
                    rn_generator_config = generator_config, rn_parent = Some existing_id, rn_expected = None\<rparr> s of
                  (Inl e, s') \<Rightarrow> (Inl e, s')
                | (Inr r, s') \<Rightarrow>
                    (Inr \<lparr>rd_refreshed = True, rd_previous = existing_id, rd_candidate = r\<rparr>, s'))))"

section \<open>Dispositions\<close>

text \<open>The assessment is stored with the disposition; \<open>render\<close> writes it as a mapping.\<close>

definition disposition_record ::
  "lifecycle_context \<Rightarrow> forge_config \<Rightarrow> rights_config \<Rightarrow> (assessment \<Rightarrow> pyobj) \<Rightarrow> observation \<Rightarrow> moment
     \<Rightarrow> string \<Rightarrow> string \<Rightarrow> string \<Rightarrow> store \<Rightarrow> forge_record res"
where
  "disposition_record ctx cfg rights render obs at candidate_id disposition reason s =
     and_then (if disposition = ''selected''
       then and_then (enforce_rights_provenance_selection ctx rights obs candidate_id s) (\<lambda>a. Inr (Some a))
       else Inr None) (\<lambda>assessed.
     and_then (lifecycle_machine ctx obs full_view s) (\<lambda>m.
     and_then (authorize_candidate_disposition m candidate_id disposition) (\<lambda>(candidate, evidence).
     new_record (env_crypto (lc_env ctx)) CANDIDATE_DISPOSITION
       ([pfield ''candidate_identity'' (PStr candidate_id),
         pfield ''disposition'' (PStr disposition),
         pfield ''reason'' (PStr reason),
         pfield ''selection_rule'' (PStr (cf_policy cfg ''selection'')),
         pfield ''selection_policy_identity'' (PStr (mi_policy_identity (ma_input m))),
         pfield ''evidence_status'' (PStr (er_status evidence)),
         pfield ''recorded_at'' (PStr (mo_now at))]
        @ (case assessed of
             None \<Rightarrow> []
           | Some a \<Rightarrow> [pfield ''extensions'' (PMap [pfield ''rights_provenance'' (render a)])])))))"

definition dispose ::
  "lifecycle_context \<Rightarrow> forge_config \<Rightarrow> rights_config \<Rightarrow> (assessment \<Rightarrow> pyobj) \<Rightarrow> observation \<Rightarrow> moment
     \<Rightarrow> string \<Rightarrow> string \<Rightarrow> string \<Rightarrow> store \<Rightarrow> forge_record res \<times> store"
where
  "dispose ctx cfg rights render obs at candidate_id disposition reason s =
     commit_new (lc_env ctx) at ''dispositions'' ''disposition''
       (disposition_record ctx cfg rights render obs at candidate_id disposition reason s) s"

section \<open>Freezes\<close>

text \<open>The required workflows of an evidence plan, if it lists any.\<close>

definition plan_requirements :: "json option \<Rightarrow> string list option" where
  "plan_requirements plan =
     (case plan of
        Some (JObj d) \<Rightarrow>
          (case text_list (if ''required_workflows'' \<in> set (dict_keys d) then obj_get d ''required_workflows''
              else obj_get d ''required'') of
             None \<Rightarrow> None
           | Some ts \<Rightarrow> if ts = [] \<or> [] \<in> set ts then None else Some (fromkeys ts))
      | _ \<Rightarrow> None)"

definition FROZEN_PATH_SETS :: "string list" where
  "FROZEN_PATH_SETS = [''candidates'', ''contracts'', ''references'', ''evaluators'', ''protected'']"

definition freeze_record ::
  "lifecycle_context \<Rightarrow> forge_config \<Rightarrow> observation \<Rightarrow> moment \<Rightarrow> string \<Rightarrow> string \<Rightarrow> string \<Rightarrow> store
     \<Rightarrow> forge_record res"
where
  "freeze_record ctx cfg obs at candidate_id environment plan s =
     and_then (cf_resolve cfg plan) (\<lambda>plan_path.
     and_then (lifecycle_machine ctx obs full_view s) (\<lambda>m.
     and_then (authorize_candidate_freeze m candidate_id (plan_requirements (cf_read_plan cfg plan_path)))
       (\<lambda>(candidate, selection).
     and_then (rec_item candidate ''candidate_id'') (\<lambda>cid.
     and_then (ob_content obs (cf_paths cfg ''contracts'')) (\<lambda>contract.
     and_then (ob_content obs (cf_paths cfg ''references'')) (\<lambda>reference.
     and_then (ob_content obs (cf_paths cfg ''evaluators'')) (\<lambda>evaluator.
     and_then (ob_content obs (cf_paths cfg ''acceptance_policies'')) (\<lambda>acceptance.
     and_then (ob_content obs (cf_paths cfg ''protected'')) (\<lambda>protected.
     and_then (rec_item selection ''disposition_id'') (\<lambda>disposition_id.
     and_then (ob_content obs [plan_path]) (\<lambda>plan_identity.
     new_record (env_crypto (lc_env ctx)) FREEZE
       [pfield ''candidate_identity'' (pfrozen cid),
        pfield ''contract_identity'' (PStr contract),
        pfield ''reference_identity'' (PStr reference),
        pfield ''evaluator_identity'' (PStr evaluator),
        pfield ''acceptance_policy_identity'' (PStr acceptance),
        pfield ''protected_identity'' (PStr protected),
        pfield ''selection_record'' (pfrozen disposition_id),
        pfield ''environment'' (PStr environment),
        pfield ''required_evidence_plan'' (PStr plan),
        pfield ''required_evidence_plan_identity'' (PStr plan_identity),
        pfield ''frozen_path_sets''
          (PMap (map (\<lambda>k. pfield k (ptexts (cf_declared_paths cfg k))) FROZEN_PATH_SETS)),
        pfield ''frozen_at'' (PStr (mo_now at))])))))))))))"

definition freeze ::
  "lifecycle_context \<Rightarrow> forge_config \<Rightarrow> observation \<Rightarrow> moment \<Rightarrow> string \<Rightarrow> string \<Rightarrow> string \<Rightarrow> store
     \<Rightarrow> forge_record res \<times> store"
where
  "freeze ctx cfg obs at candidate_id environment plan s =
     commit_new (lc_env ctx) at ''freezes'' ''freeze''
       (freeze_record ctx cfg obs at candidate_id environment plan s) s"

end
