(* ===== verification/StoreGrowth.thy ===== *)
theory StoreGrowth
  imports StoreHistories
begin

text \<open>
  What one commit, completed or cut off, does to the history that is read from the store: nothing, or one
  more entry, whose record is the one committed and whose identity no earlier entry of its kind has.
\<close>

section \<open>The history of a store\<close>

lemma ledger_records_all:
  "ledger_records env s None = Inr es \<longleftrightarrow>
     st_txs s = [] \<and> (\<exists>raws h. snapshot env (st_ledger s) = Inr (raws, h) \<and> traverse (normalize_raw env) raws = Inr es)"
  by (auto simp: ledger_records_def select_entries_def require_recovered_def and_then_Inr_iff raise_if_Inr_iff)

lemma traverse_Inr_in:
  "traverse f xs = Inr ys \<Longrightarrow> y \<in> set ys \<Longrightarrow> \<exists>x \<in> set xs. f x = Inr y"
  by (induction xs arbitrary: ys) (auto simp: res_simps)

lemma history_entry:
  assumes "ledger_records env s None = Inr es" "e \<in> set es"
  shows "valid_record (env_crypto env) (le_payload e)"
    "dict_get LEDGER_KIND_TYPES (le_kind e) = Some (fr_type (le_payload e))"
proof -
  from assms obtain raw where "normalize_raw env raw = Inr e"
    by (auto simp: ledger_records_all dest: traverse_Inr_in)
  then show "valid_record (env_crypto env) (le_payload e)"
    "dict_get LEDGER_KIND_TYPES (le_kind e) = Some (fr_type (le_payload e))"
    unfolding normalize_raw_def by (rule normalize_ledger_entry_payload)+
qed

lemma kinds_distinct: "distinct (map snd LEDGER_KIND_TYPES)"
  by code_simp

lemma kind_of_type:
  assumes "dict_get LEDGER_KIND_TYPES k = Some t" "dict_get LEDGER_KIND_TYPES k' = Some t"
  shows "k = k'"
proof -
  from assms have "(k, t) \<in> set LEDGER_KIND_TYPES" "(k', t) \<in> set LEDGER_KIND_TYPES" by (simp_all add: map_of_SomeD)
  with kinds_distinct show ?thesis by (fastforce simp: distinct_map inj_on_def)
qed

section \<open>Identities of stored records\<close>

text \<open>Parsing a stored record adds no text of its own outside the extensions and the subject.\<close>

lemma preserve_unknowns_get:
  assumes "preserve_unknowns spec fs = Inr fs'" "f \<noteq> ''extensions''" "dict_get fs' f = Some v"
  shows "dict_get fs f = Some v"
  using assms by (auto simp: preserve_unknowns_def Let_def and_then_Inr_iff split: if_splits)

lemma migrate_legacy_fields:
  assumes "migrate_legacy cr t fs restore = Inr r"
  obtains spec migrated where "r = model t migrated LEGACY_SCHEMA_VERSION"
    "preserve_unknowns spec (default_subject t fs) = Inr migrated"
  using assms by (auto simp: migrate_legacy_def and_then_Inr_iff)

lemma parse_record_fields:
  assumes "parse_record cr (py_of_json (JObj payload)) t = Inr r"
  obtains fs source where "r = model t fs source" "fs = dict_without metadata_keys payload"
  | spec fs source where "r = model t fs source"
    "preserve_unknowns spec (default_subject t (dict_without metadata_keys payload)) = Inr fs"
proof -
  from assms obtain data where "json_object (py_of_json (JObj payload)) record_label = Inr data"
    by (auto simp: parse_record_def and_then_Inr_iff simp del: py_of_json.simps)
  moreover from this have "data = payload" by (rule json_object_identity)
  ultimately have "migrate_legacy cr t (dict_without metadata_keys payload) False = Inr r
      \<or> migrate_legacy cr t (dict_without metadata_keys payload) True = Inr r
      \<or> r = model t (dict_without metadata_keys payload) CURRENT_SCHEMA_VERSION"
    using assms by (auto simp: parse_record_def Let_def and_then_Inr_iff simp del: py_of_json.simps split: if_splits)
  then show thesis using that by (auto elim: migrate_legacy_fields)
qed

lemma model_text:
  assumes "rec_value (model t fs source) f = FStr s" "f \<notin> set metadata_keys"
  shows "dict_get fs f = Some (JStr s)"
proof -
  from assms have "dict_get (freeze_fields fs) f = Some (FStr s)"
    by (auto simp: rec_value_def rec_get_def model_def metadata_keys_def split: option.splits)
  then obtain z where "dict_get fs f = Some z" "freeze_json z = FStr s" by auto
  moreover from this have "z = JStr s" using thaw_freeze_json [of z] by simp
  ultimately show ?thesis by simp
qed

lemma default_subject_get: "f \<noteq> ''subject_type'' \<Longrightarrow> dict_get (default_subject t fs) f = dict_get fs f"
  by (simp add: default_subject_def)

lemma parse_record_text:
  assumes "parse_record cr (py_of_json (JObj payload)) t = Inr r" "rec_value r f = FStr s"
    "f \<notin> set metadata_keys" "f \<notin> {''extensions'', ''subject_type''}"
  shows "obj_get payload f = JStr s"
proof -
  have "dict_get (dict_without metadata_keys payload) f = Some (JStr s)"
    using assms(1)
  proof (cases rule: parse_record_fields)
    case (1 fs source)
    with assms(2,3) model_text show ?thesis by blast
  next
    case (2 spec fs source)
    with assms(2,3) model_text have "dict_get fs f = Some (JStr s)" by blast
    moreover from assms(4) have f: "f \<noteq> ''extensions''" "f \<noteq> ''subject_type''" by blast+
    ultimately show ?thesis using preserve_unknowns_get [OF 2(2)] default_subject_get by metis
  qed
  with assms(3) show ?thesis by (simp add: obj_get_def)
qed

text \<open>What a history says of its entries, whichever schema they were written in.\<close>

lemma entry_payload_text:
  assumes "normalize_raw env raw = Inr e" "rec_value (le_payload e) f = FStr s"
    "f \<notin> set metadata_keys" "f \<notin> {''extensions'', ''subject_type''}"
  obtains payload where "json_members (obj_get raw ''payload'') = Some payload" "obj_get payload f = JStr s"
proof -
  from assms(1) obtain data source where "json_object (py_of_json (JObj raw)) ''ledger_entry'' = Inr data"
    and e: "entry_of_members (env_crypto env) source (dict_without metadata_keys data) = Inr e"
    by (auto simp: normalize_raw_def normalize_ledger_entry_def Let_def and_then_Inr_iff simp del: py_of_json.simps)
  then have data: "data = raw" by (intro json_object_identity)
  from e [unfolded data] obtain payload t r where
    "json_members (obj_get (dict_without metadata_keys raw) ''payload'') = Some payload"
    "parse_record (env_crypto env) (py_of_json (JObj payload)) t = Inr r" "le_payload e = r"
    unfolding entry_of_members_def and_then_Inr_iff typed_Inr by (auto simp del: py_of_json.simps)
  moreover have "obj_get (dict_without metadata_keys raw) ''payload'' = obj_get raw ''payload''"
    by (simp add: obj_get_def metadata_keys_def)
  ultimately show thesis using assms(2-4) parse_record_text by (intro that) auto
qed

lemma identity_field_kinds:
  "list_all (\<lambda>p. prc_identity_field (snd p) \<notin> set metadata_keys
     \<and> prc_identity_field (snd p) \<notin> {''extensions'', ''subject_type''}) PERSISTED_RECORD_CONTEXTS"
  by code_simp

lemma identity_field_plain:
  assumes "context_of kind = Inr ctx"
  shows "prc_identity_field ctx \<notin> set metadata_keys" "prc_identity_field ctx \<notin> {''extensions'', ''subject_type''}"
proof -
  from assms have "(kind, ctx) \<in> set PERSISTED_RECORD_CONTEXTS"
    by (auto simp: context_of_def map_of_SomeD split: option.splits)
  with identity_field_kinds show "prc_identity_field ctx \<notin> set metadata_keys"
    "prc_identity_field ctx \<notin> {''extensions'', ''subject_type''}"
    unfolding list_all_iff by fastforce+
qed

text \<open>A fresh commit: no earlier entry of the kind has the identity of the new record.\<close>

lemma fresh_identity:
  assumes "fresh_commit env timestamp txid record_group kind r (field, identity, destination) s n h"
    "ledger_records env s None = Inr es" "x \<in> set es" "le_kind x = kind"
  shows "rec_value (le_payload x) field \<noteq> FStr identity"
proof
  assume found: "rec_value (le_payload x) field = FStr identity"
  from assms(1) have checks: "commit_checks env record_group kind r = Inr (field, identity, destination)"
    by (simp add: fresh_commit_def)
  from checks obtain ctx where ctx: "context_of kind = Inr ctx" "prc_identity_field ctx = field"
    by (rule commit_checks_Inr)
  from assms(2) obtain raws h' where raws: "snapshot env (st_ledger s) = Inr (raws, h')"
    "traverse (normalize_raw env) raws = Inr es" unfolding ledger_records_all by blast
  have "verify_ledger env s = Inr (n, h)" using assms(1) unfolding fresh_commit_def by blast
  then have "h' = h" unfolding verify_ledger_Inr raws(1) by blast
  with raws(1) have "snapshot env (st_ledger s) = Inr (raws, h)" by simp
  then have "filter (same_identity kind field identity) raws = []" by (rule fresh_commit_unmatched [OF assms(1)])
  moreover obtain raw where raw: "raw \<in> set raws" "normalize_raw env raw = Inr x"
    using traverse_Inr_in [OF raws(2) assms(3)] by blast
  moreover obtain payload where "json_members (obj_get raw ''payload'') = Some payload" "obj_get payload field = JStr identity"
    by (rule entry_payload_text [OF raw(2) found identity_field_plain [OF ctx(1), unfolded ctx(2)]])
  then have "same_identity kind field identity raw"
    using normalize_members(2) [OF raw(2)] assms(4) by (simp add: same_identity_def)
  ultimately show False by (auto simp: filter_empty_conv)
qed

section \<open>Growth\<close>

definition grows :: "storage_env \<Rightarrow> string \<Rightarrow> string \<Rightarrow> forge_record \<Rightarrow> ledger_entry list \<Rightarrow> ledger_entry list \<Rightarrow> bool" where
  "grows env record_group kind r es es' \<longleftrightarrow>
     es' = es \<or>
     (\<exists>e field identity destination. es' = es @ [e] \<and> le_payload e = stored_form r \<and> le_kind e = kind
        \<and> commit_checks env record_group kind r = Inr (field, identity, destination)
        \<and> (\<forall>x \<in> set es. le_kind x = kind \<longrightarrow> rec_value (le_payload x) field \<noteq> FStr identity))"

lemma appended_history:
  assumes "fresh_commit env timestamp txid record_group kind r (field, identity, destination) s n h"
    "ledger_records env s None = Inr es" "st_txs t = []"
    "st_ledger t = Some (commit_ledger env timestamp kind r s n h)"
  shows "ledger_records env t None = Inr (es @ [entry_of timestamp kind (stored_form r) (Suc n) h
    (entry_hash env (entry_body (commit_raw env timestamp kind r n h)))])"
proof -
  let ?raw = "commit_raw env timestamp kind r n h"
  have checks: "commit_checks env record_group kind r = Inr (field, identity, destination)"
    and r: "recordable env r" and jcs: "jcs_sorts (env_crypto env)" and sound: "verify_ledger env s = Inr (n, h)"
    using assms(1) by (simp_all add: fresh_commit_def digests_documented_def)
  have rec: "current_record (env_crypto env) r" "writable (env_float env) (JObj (rec_to_json r))"
    using r by (simp_all add: recordable_def)
  from sound obtain raws where raws: "snapshot env (st_ledger s) = Inr (raws, h)" "n = length raws"
    unfolding verify_ledger_Inr by blast
  with assms(2) have es: "traverse (normalize_raw env) raws = Inr es" unfolding ledger_records_all by auto
  have kt: "kind_type kind = Inr (fr_type r)" by (rule commit_checks_Inr [OF checks])
  have next_raw: "?raw = next_entry env timestamp kind r raws h" by (simp add: commit_raw_def next_entry_def raws(2))
  have after: "snapshot env (st_ledger t) = Inr (raws @ [sorted_obj ?raw], entry_hash env (entry_body ?raw))"
    using snapshot_append [OF raws(1), of timestamp kind r] commit_raw_storable [OF assms(1)]
    unfolding next_raw [symmetric] assms(4) commit_ledger_def by simp
  have "normalize_raw env (sorted_obj ?raw)
      = Inr (entry_of timestamp kind (stored_form r) (Suc n) h (entry_hash env (entry_body ?raw)))"
    unfolding commit_raw_def
    by (rule normalize_stored_entry [OF rec(1) kt _ jcs rec(2)])
      (use plan_commit_fresh(2) [OF assms(1)] in \<open>simp add: commit_raw_def\<close>)
  with es have "traverse (normalize_raw env) (raws @ [sorted_obj ?raw])
      = Inr (es @ [entry_of timestamp kind (stored_form r) (Suc n) h (entry_hash env (entry_body ?raw))])"
    by (simp add: traverse_append)
  with after assms(3) show ?thesis unfolding ledger_records_all by blast
qed

lemma fresh_grows:
  assumes "fresh_commit env timestamp txid record_group kind r checked s n h"
    "ledger_records env s None = Inr es" "st_txs t = []"
    "st_ledger t = Some (commit_ledger env timestamp kind r s n h)"
  shows "\<exists>es'. ledger_records env t None = Inr es' \<and> grows env record_group kind r es es'"
proof -
  obtain field identity destination where checked: "checked = (field, identity, destination)" by (cases checked)
  note fresh = assms(1) [unfolded checked]
  have "commit_checks env record_group kind r = Inr (field, identity, destination)"
    using fresh by (simp add: fresh_commit_def)
  with appended_history [OF fresh assms(2-4)] fresh_identity [OF fresh assms(2)] show ?thesis
    by (intro exI conjI) (auto simp: grows_def entry_of_def)
qed

lemma same_history:
  "st_txs t = st_txs s \<Longrightarrow> st_ledger t = st_ledger s \<Longrightarrow> ledger_records env t None = ledger_records env s None"
  by (simp add: ledger_records_def select_entries_def require_recovered_def)

lemma after_flight_clean:
  "in_stage (commit_flight env timestamp txid record_group kind r checked s n h) After t \<Longrightarrow> st_txs t = []"
  by (simp add: in_stage.simps settled_def)

lemma commit_grows:
  assumes "admissible env timestamp txid kind r s" "verify_ledger env s = Inr (n, h)"
    "ledger_records env s None = Inr es" "t = snd (commit env timestamp txid record_group kind r s)"
  shows "\<exists>es'. ledger_records env t None = Inr es' \<and> grows env record_group kind r es es'"
proof (cases "commit_checks env record_group kind r")
  case checked: (Inr checked)
  note none = verified_no_transactions [OF assms(2)]
  show ?thesis
  proof (cases "plan_commit env timestamp txid record_group kind r checked s")
    case plan: (Inr q)
    obtain phases e where q: "q = (phases, e)" by (cases q)
    show ?thesis
    proof (cases "phases = []")
      case True
      with checked plan q none assms(3,4) show ?thesis by (simp add: commit_def recover_unlocked_def grows_def)
    next
      case False
      note fresh = planned_fresh [OF assms(1,2) checked plan [unfolded q] False]
      from assms(1,2) have "env_sha env (file_bytes (st_ledger s)) \<noteq> env_sha env (commit_ledger env timestamp kind r s n h)"
        by (simp add: admissible_def)
      from commit_completes [OF fresh this] obtain u where
        "commit env timestamp txid record_group kind r s = (Inr (commit_entry env timestamp kind r n h), u)"
        and u: "in_stage (commit_flight env timestamp txid record_group kind r checked s n h) After u"
        by blast
      with assms(4) have "t = u" by simp
      with fresh_grows [OF fresh assms(3) after_flight_clean [OF u] after_flight(1) [OF u]] show ?thesis by simp
    qed
  next
    case (Inl e)
    with checked none assms(3,4) show ?thesis by (simp add: commit_def recover_unlocked_def grows_def)
  qed
qed (use assms in \<open>simp add: commit_def grows_def\<close>)

lemma cut_off_grows:
  assumes "admissible env timestamp txid kind r s" "verify_ledger env s = Inr (n, h)"
    "ledger_records env s None = Inr es" "cut_off env timestamp txid record_group kind r s u"
    "v = snd (recover_unlocked env u)"
  shows "\<exists>es'. ledger_records env v None = Inr es' \<and> grows env record_group kind r es es'"
proof -
  note none = verified_no_transactions [OF assms(2)]
  from assms(4) obtain checked phases e t where checked: "commit_checks env record_group kind r = Inr checked"
    and plan: "plan_commit env timestamp txid record_group kind r checked s = Inr (phases, e)"
    and run: "interrupted phases s t" "(crashed_recovery env)\<^sup>*\<^sup>* t u"
    by (auto simp: cut_off_def)
  show ?thesis
  proof (cases "phases = []")
    case True
    with run(1) interrupted_Nil have "t = s" by simp
    with crashed_recovery_clean run(2) none have "u = s" by simp
    with none assms(3,5) show ?thesis by (simp add: recover_unlocked_def grows_def)
  next
    case False
    note fresh = planned_fresh [OF assms(1,2) checked plan False]
    from assms(1,2) have "env_sha env (file_bytes (st_ledger s)) \<noteq> env_sha env (commit_ledger env timestamp kind r s n h)"
      by (simp add: admissible_def)
    from interrupted_commit_recovers [OF fresh this plan run] assms(5) have clean: "st_txs v = []"
      and ledger: "st_ledger v = st_ledger s \<or> st_ledger v = Some (commit_ledger env timestamp kind r s n h)"
      by (metis snd_conv)+
    from ledger show ?thesis
    proof
      assume "st_ledger v = st_ledger s"
      with clean none have "ledger_records env v None = ledger_records env s None" by (intro same_history) simp_all
      with assms(3) show ?thesis by (simp add: grows_def)
    qed (rule fresh_grows [OF fresh assms(3) clean])
  qed
qed

end
