(* ===== verification/Reachability.thy ===== *)
theory Reachability
  imports ProjectionFacts
begin

text \<open>
  Histories built by authorized transitions: a step relation on the ledger, an invariant of the
  histories it reaches, and the projection of every history that satisfies the invariant. The one
  thing the steps ask for that the authorizers do not check is that the identity of a new epoch or
  candidate is not yet in use.
\<close>

section \<open>Steps\<close>

definition epoch_ids :: "forge_record list \<Rightarrow> string list" where
  "epoch_ids rs = map (\<lambda>r. rec_str r ''epoch_id'') (of_type EPOCH rs)"

definition candidate_names :: "forge_record list \<Rightarrow> string list" where
  "candidate_names cs = map (\<lambda>r. rec_str r ''candidate_id'') cs"

definition lifecycle_types :: "record_type set" where
  "lifecycle_types = {EPOCH, CANDIDATE, CANDIDATE_DISPOSITION, FREEZE}"

inductive authorized_record :: "machine \<Rightarrow> forge_record \<Rightarrow> bool" where
  begin_epoch: "authorized_record m r"
    if "fr_type r = EPOCH" "authorize_epoch_begin m parent = Inr u"
      "rec_value r ''parent_epoch'' = opt_text parent"
      "rec_value r ''epoch_id'' = FStr eid" "eid \<notin> set (epoch_ids (history_records (ma_input m)))"
| register: "authorized_record m r"
    if "fr_type r = CANDIDATE" "authorize_candidate_register m parent cid None = Inr epoch"
      "rec_value r ''parent_candidate'' = opt_text parent"
      "rec_value r ''candidate_id'' = FStr cid"
      "rec_value r ''source_epoch'' = rec_value epoch ''epoch_id''"
      "cid \<notin> set (pr_lineage (ma_projection m))"
| dispose: "authorized_record m r"
    if "fr_type r = CANDIDATE_DISPOSITION" "authorize_candidate_disposition m cid d = Inr ce"
      "rec_value r ''candidate_identity'' = FStr cid" "rec_value r ''disposition'' = FStr d"
| freeze: "authorized_record m r"
    if "fr_type r = FREEZE" "authorize_candidate_freeze m cid plan = Inr cd"
      "rec_value r ''candidate_identity'' = FStr cid"
| other: "authorized_record m r"
    if "fr_type r \<notin> lifecycle_types"

inductive_cases authorized_recordE: "authorized_record m r"

inductive reachable :: "ledger_entry list \<Rightarrow> bool" where
  empty: "reachable []"
| extend: "reachable (h @ [e])"
    if "reachable h" "make_machine inp = Inr m" "mi_history inp = h" "mi_native inp = None"
      "authorized_record m (le_payload e)"

section \<open>The invariant\<close>

text \<open>The candidates of one epoch in registration order: fresh identities, each naming the one before.\<close>

fun linked :: "string \<Rightarrow> string option \<Rightarrow> string list \<Rightarrow> forge_record list \<Rightarrow> bool" where
  "linked eid previous seen [] = True"
| "linked eid previous seen (c # cs) =
     (let cid = rec_str c ''candidate_id'' in
      rec_value c ''candidate_id'' = FStr cid
      \<and> cid \<notin> set seen
      \<and> rec_value c ''parent_candidate'' = opt_text previous
      \<and> rec_value c ''source_epoch'' = FStr eid
      \<and> linked eid (Some cid) (cid # seen) cs)"

definition at_most_once :: "record_type \<Rightarrow> forge_record list \<Rightarrow> bool" where
  "at_most_once t rs \<longleftrightarrow>
     distinct (map (\<lambda>r. rec_str r ''candidate_identity'') (of_type t rs))
     \<and> (\<forall>r \<in> set (of_type t rs). rec_value r ''candidate_identity''
          = FStr (rec_str r ''candidate_identity''))"

text \<open>The history up to its last epoch record, that record, and what follows it.\<close>

definition current_epoch_split ::
    "forge_record list \<Rightarrow> forge_record list \<Rightarrow> forge_record \<Rightarrow> forge_record list \<Rightarrow> bool" where
  "current_epoch_split rs before e after \<longleftrightarrow>
     rs = before @ e # after \<and> fr_type e = EPOCH \<and> of_type EPOCH after = []
     \<and> rec_value e ''epoch_id'' = FStr (rec_str e ''epoch_id'')
     \<and> rec_str e ''epoch_id'' \<notin> set (epoch_ids before)
     \<and> (\<forall>c \<in> set (of_type CANDIDATE before). \<exists>s \<in> set (epoch_ids before). rec_value c ''source_epoch'' = FStr s)
     \<and> linked (rec_str e ''epoch_id'') None [] (of_type CANDIDATE after)"

definition coherent_history :: "forge_record list \<Rightarrow> bool" where
  "coherent_history rs \<longleftrightarrow>
     epoch_chain None [] (of_type EPOCH rs)
     \<and> (of_type EPOCH rs = [] \<and> of_type CANDIDATE rs = []
        \<or> (\<exists>before e after. current_epoch_split rs before e after))
     \<and> at_most_once CANDIDATE_DISPOSITION rs
     \<and> at_most_once FREEZE rs
     \<and> (\<forall>d \<in> set (of_type CANDIDATE_DISPOSITION rs). rec_str d ''disposition'' \<in> {''selected'', ''rejected''})"

section \<open>Chains\<close>

lemma opt_text_inject [simp]: "opt_text a = opt_text b \<longleftrightarrow> a = b"
  by (auto simp: opt_text_def split: option.splits)

lemma opt_text_simps [simp]: "opt_text None = FNull" "opt_text (Some s) = FStr s"
  by (simp_all add: opt_text_def)

lemma rec_str_value: "rec_value r k = FStr s \<Longrightarrow> rec_str r k = s"
  by (simp add: rec_str_def)

definition last_name :: "string option \<Rightarrow> string list \<Rightarrow> string option" where
  "last_name previous names = (if names = [] then previous else Some (last names))"

lemma epoch_chain_append:
  "epoch_chain previous known (es @ [e]) \<longleftrightarrow>
     epoch_chain previous known es
     \<and> rec_str e ''epoch_id'' \<notin> set known \<union> set (map (\<lambda>r. rec_str r ''epoch_id'') es)
     \<and> parent_follows (last_name previous (map (\<lambda>r. rec_str r ''epoch_id'') es)) (rec_value e ''parent_epoch'')"
  by (induction es arbitrary: previous known) (auto simp: Let_def last_name_def)

lemma linked_append:
  "linked eid previous seen (cs @ [c]) \<longleftrightarrow>
     linked eid previous seen cs
     \<and> rec_value c ''candidate_id'' = FStr (rec_str c ''candidate_id'')
     \<and> rec_str c ''candidate_id'' \<notin> set seen \<union> set (candidate_names cs)
     \<and> rec_value c ''parent_candidate'' = opt_text (last_name previous (candidate_names cs))
     \<and> rec_value c ''source_epoch'' = FStr eid"
  by (induction cs arbitrary: previous seen) (auto simp: Let_def last_name_def candidate_names_def)

lemma linked_distinct:
  "linked eid previous seen cs \<Longrightarrow>
     distinct (candidate_names cs) \<and> set (candidate_names cs) \<inter> set seen = {}"
proof (induction cs arbitrary: previous seen)
  case (Cons c cs)
  then have "distinct (candidate_names cs)
      \<and> set (candidate_names cs) \<inter> set (rec_str c ''candidate_id'' # seen) = {}"
    by (intro Cons.IH [of "Some (rec_str c ''candidate_id'')"]) (simp add: Let_def)
  with Cons.prems show ?case by (auto simp: Let_def candidate_names_def)
qed (simp add: candidate_names_def)

lemma linked_source: "linked eid previous seen cs \<Longrightarrow> c \<in> set cs \<Longrightarrow> rec_value c ''source_epoch'' = FStr eid"
  by (induction cs arbitrary: previous seen) (auto simp: Let_def)

lemma find_unique:
  assumes "x \<in> set xs" "P x" "\<And>y. y \<in> set xs \<Longrightarrow> P y \<Longrightarrow> y = x"
  shows "List.find P xs = Some x"
proof -
  from assms(1,2) have "List.find P xs \<noteq> None" by (auto simp: find_None_iff)
  then obtain y where y: "List.find P xs = Some y" by auto
  then have "y \<in> set xs" "P y" by (auto simp: find_Some_iff)
  with assms(3) y show ?thesis by simp
qed

lemma known_in_lineage:
  assumes "distinct (candidate_names active)" "c \<in> set active" "rec_str c ''candidate_id'' = cid"
  shows "known_candidate (old @ active) cid = Some c"
proof -
  from assms have "List.find (\<lambda>r. rec_str r ''candidate_id'' = cid) (rev active) = Some c"
    by (intro find_unique) (auto simp: candidate_names_def distinct_map inj_on_def)
  then show ?thesis by (simp add: known_candidate_def find_append)
qed

lemma linked_candidate_chain:
  assumes "linked eid previous seen cs" "set cs \<subseteq> set active" "distinct (candidate_names active)"
    "\<forall>c \<in> set active. rec_value c ''source_epoch'' = FStr eid"
    "\<forall>p. previous = Some p \<longrightarrow> p \<in> set seen \<and> p \<in> set (candidate_names active)"
  shows "candidate_chain (old @ active) eid previous cs"
  using assms
proof (induction cs arbitrary: previous seen)
  case (Cons c cs)
  have "candidate_chain (old @ active) eid (Some (rec_str c ''candidate_id'')) cs"
    using Cons.prems by (intro Cons.IH [of _ "rec_str c ''candidate_id'' # seen"])
      (auto simp: Let_def candidate_names_def)
  moreover have "parent_in_epoch (old @ active) eid c"
  proof (cases previous)
    case None
    with Cons.prems(1) show ?thesis by (simp add: parent_in_epoch_def Let_def)
  next
    case (Some p)
    with Cons.prems(5) obtain d where "d \<in> set active" "rec_str d ''candidate_id'' = p"
      by (auto simp: candidate_names_def)
    with Cons.prems Some show ?thesis
      by (simp add: parent_in_epoch_def candidate_parent_def Let_def known_in_lineage)
  qed
  ultimately show ?case using Cons.prems
    by (cases previous) (auto simp: Let_def parent_follows_def)
qed simp

text \<open>Walking back from the youngest candidate visits the whole epoch, oldest last.\<close>

lemma linked_walk:
  assumes "linked eid None [] (cs @ [c])" "set (cs @ [c]) \<subseteq> set active" "distinct (candidate_names active)"
    "set seen \<inter> set (candidate_names (cs @ [c])) = {}"
  shows "lineage_walk (old @ active) seen c = (seen @ rev (candidate_names (cs @ [c])), False)"
  using assms
proof (induction cs arbitrary: c seen rule: rev_induct)
  case Nil
  then have "candidate_parent (old @ active) c = None"
    by (simp add: candidate_parent_def Let_def)
  with Nil show ?case by (subst lineage_walk.simps) (simp add: Let_def candidate_names_def)
next
  case (snoc d cs)
  have "rec_value c ''parent_candidate'' = opt_text (last_name None (candidate_names (cs @ [d])))"
    using snoc.prems(1) unfolding linked_append by blast
  then have "candidate_parent (old @ active) c = Some d"
    using snoc.prems(2,3) by (simp add: candidate_parent_def last_name_def candidate_names_def known_in_lineage)
  moreover have "rec_str c ''candidate_id'' \<notin> set (candidate_names (cs @ [d]))"
    using snoc.prems(1) unfolding linked_append by blast
  moreover from snoc.prems(1) have "linked eid None [] (cs @ [d])" unfolding linked_append by blast
  ultimately show ?case using snoc.prems snoc.IH [of d "seen @ [rec_str c ''candidate_id'']"]
    by (subst lineage_walk.simps) (auto simp: Let_def candidate_names_def)
qed

section \<open>The projection of a coherent history\<close>

lemma enumerate_filter_append:
  "filter P (enumerate n (xs @ ys)) = filter P (enumerate n xs) @ filter P (enumerate (n + length xs) ys)"
  by (simp add: enumerate_append_eq)

lemma find_epoch_None:
  assumes "eid \<notin> set (epoch_ids before)"
  shows "List.find (\<lambda>(i, r). rec_value r ''epoch_id'' = FStr eid)
    (filter (\<lambda>(i, r). fr_type r = EPOCH) (enumerate n before)) = None"
  using assms by (induction before arbitrary: n) (auto simp: epoch_ids_def of_type_def rec_str_value split: if_splits)

lemma superseded_after_split:
  assumes split: "current_epoch_split (history_records inp) before e after"
  shows "superseded_candidate_after inp (rec_str e ''epoch_id'') = Inr False"
proof -
  let ?eid = "rec_str e ''epoch_id''" and ?n = "length before"
  have rs: "history_records inp = before @ e # after" and e: "fr_type e = EPOCH"
    "rec_value e ''epoch_id'' = FStr ?eid" "?eid \<notin> set (epoch_ids before)"
    and linked: "linked ?eid None [] (of_type CANDIDATE after)"
    using split unfolding current_epoch_split_def by blast+
  have "List.find (\<lambda>(i, r). feq (rec_value r ''epoch_id'') (FStr ?eid)) (indexed_records inp EPOCH)
      = Some (?n, e)"
    unfolding indexed_records_def rs
    by (simp only: enumerate_filter_append find_append feq_text find_epoch_None [OF e(3)])
      (simp add: e)
  moreover have "\<not> list_ex (\<lambda>(i, r). ?n < i \<and> \<not> feq (rec_value r ''source_epoch'') (FStr ?eid))
      (indexed_records inp CANDIDATE)"
  proof -
    have "rec_value r ''source_epoch'' = FStr ?eid"
      if "(i, r) \<in> set (enumerate 0 (before @ e # after))" "fr_type r = CANDIDATE" "?n < i" for i r
    proof -
      from that(1) have "(before @ e # after) ! i = r" "i < length (before @ e # after)"
        by (simp_all add: in_set_enumerate_eq)
      with that(3) have "after ! (i - length before - 1) = r" "i - length before - 1 < length after"
        by (auto simp: nth_append nth_Cons')
      then have "r \<in> set after" by (metis nth_mem)
      with that(2) have "r \<in> set (of_type CANDIDATE after)" by simp
      with linked show ?thesis by (rule linked_source)
    qed
    then show ?thesis by (auto simp: list_ex_iff indexed_records_def rs)
  qed
  ultimately show ?thesis by (simp add: superseded_candidate_after_def)
qed

lemma split_active_epoch:
  assumes "current_epoch_split rs before e after"
  shows "last_of (of_type EPOCH rs) = Some e" "of_type EPOCH rs = of_type EPOCH before @ [e]"
    "of_type CANDIDATE rs = of_type CANDIDATE before @ of_type CANDIDATE after"
proof -
  have "of_type t (x # xs) = (if fr_type x = t then [x] else []) @ of_type t xs" for t x xs
    by (simp add: of_type_def)
  with assms show epochs: "of_type EPOCH rs = of_type EPOCH before @ [e]"
    and "of_type CANDIDATE rs = of_type CANDIDATE before @ of_type CANDIDATE after"
    by (simp_all add: current_epoch_split_def)
  from epochs show "last_of (of_type EPOCH rs) = Some e" by (simp add: last_of_def)
qed

lemma split_active_candidates:
  assumes "current_epoch_split rs before e after"
  shows "filter (\<lambda>r. feq (rec_value r ''source_epoch'') (FStr (rec_str e ''epoch_id''))) (of_type CANDIDATE rs)
    = of_type CANDIDATE after"
proof -
  let ?P = "\<lambda>r. rec_value r ''source_epoch'' = FStr (rec_str e ''epoch_id'')"
  have "\<not> ?P c" if "c \<in> set (of_type CANDIDATE before)" for c
  proof -
    from assms that obtain s where "s \<in> set (epoch_ids before)" "rec_value c ''source_epoch'' = FStr s"
      unfolding current_epoch_split_def by blast
    with assms show ?thesis by (auto simp: current_epoch_split_def)
  qed
  moreover have "?P c" if "c \<in> set (of_type CANDIDATE after)" for c
  proof -
    from assms have "linked (rec_str e ''epoch_id'') None [] (of_type CANDIDATE after)"
      unfolding current_epoch_split_def by blast
    with that show ?thesis by (intro linked_source)
  qed
  ultimately show ?thesis
    by (simp add: split_active_epoch(3) [OF assms] filter_empty_conv filter_id_conv)
qed

lemma split_candidate_projection:
  assumes split: "current_epoch_split (history_records inp) before e after"
  defines "active \<equiv> of_type CANDIDATE after"
  shows "\<exists>view. candidate_projection inp (Some e) = Inr view \<and> cv_limitations view = []
    \<and> cv_current view = last_of active \<and> cv_lineage view = candidate_names active"
proof -
  let ?eid = "rec_str e ''epoch_id''" and ?old = "of_type CANDIDATE before"
  have cands: "records_of inp CANDIDATE = ?old @ active"
    using split_active_epoch(3) [OF split] by (simp add: records_of_def active_def)
  have filtered: "filter (\<lambda>r. rec_value r ''source_epoch'' = FStr ?eid) (?old @ active) = active"
    using split_active_candidates [OF split] split_active_epoch(3) [OF split] by (simp add: active_def)
  have linked: "linked ?eid None [] active"
    using split by (simp add: current_epoch_split_def active_def)
  from linked_distinct [OF linked] have distinct: "distinct (candidate_names active)" by simp
  have chain: "candidate_chain (?old @ active) ?eid None active"
    using linked linked_source [OF linked] distinct by (intro linked_candidate_chain) auto
  note facts = superseded_after_split [OF split] filtered chain cands
  show ?thesis
  proof (cases active rule: rev_cases)
    case Nil
    then have "last_of active = None" "candidate_names active = []"
      by (simp_all add: last_of_def candidate_names_def)
    with facts show ?thesis
      by (simp add: candidate_projection_def Let_def no_candidate_view_def del: filter_append)
  next
    case (snoc cs c)
    have "lineage_walk (?old @ active) [] c = (rev (candidate_names active), False)"
      using linked_walk [of ?eid cs c active "[]" ?old] linked distinct snoc by simp
    moreover have "last_of active = Some c" using snoc by (simp add: last_of_def)
    ultimately show ?thesis
      by (simp add: candidate_projection_def Let_def facts del: filter_append)
  qed
qed

lemma distinct_filter_single: "distinct (map f xs) \<Longrightarrow> length (filter (\<lambda>x. f x = c) xs) \<le> 1"
proof (induction xs)
  case (Cons x xs)
  then have "filter (\<lambda>y. f y = c) xs = []" if "f x = c"
    using that by (fastforce simp: filter_empty_conv image_iff)
  with Cons show ?case by auto
qed simp

lemma for_candidate_at_most_once:
  assumes "at_most_once t (history_records inp)"
  shows "length (for_candidate inp t cid) \<le> 1"
proof (cases cid)
  case None
  from assms have "\<forall>r \<in> set (records_of inp t). rec_value r ''candidate_identity'' \<noteq> FNull"
    by (auto simp: at_most_once_def records_of_def)
  with None have "for_candidate inp t cid = []" by (auto simp: for_candidate_def filter_empty_conv)
  then show ?thesis by simp
next
  case (Some c)
  from assms have "rec_value r ''candidate_identity'' = FStr c \<longleftrightarrow> rec_str r ''candidate_identity'' = c"
    if "r \<in> set (records_of inp t)" for r
    using that unfolding at_most_once_def records_of_def by (metis fjson.inject(4))
  then have "for_candidate inp t cid
      = filter (\<lambda>r. rec_str r ''candidate_identity'' = c) (records_of inp t)"
    using Some unfolding for_candidate_def by (intro filter_cong) auto
  moreover from assms have "distinct (map (\<lambda>r. rec_str r ''candidate_identity'') (records_of inp t))"
    by (simp add: at_most_once_def records_of_def)
  ultimately show ?thesis by (simp only: distinct_filter_single)
qed

text \<open>What the projection shows of a coherent history.\<close>

definition shows_history :: "projection \<Rightarrow> forge_record list \<Rightarrow> bool" where
  "shows_history p rs \<longleftrightarrow>
     of_type EPOCH rs = [] \<and> of_type CANDIDATE rs = []
       \<and> pr_active_epoch p = None \<and> pr_candidate p = None \<and> pr_lineage p = []
     \<or> (\<exists>before e after. current_epoch_split rs before e after
         \<and> pr_active_epoch p = Some e
         \<and> pr_candidate p = last_of (of_type CANDIDATE after)
         \<and> pr_lineage p = candidate_names (of_type CANDIDATE after))"

lemma coherent_candidate_view:
  assumes "coherent_history (history_records inp)"
  shows "\<exists>view. candidate_projection inp (last_of (records_of inp EPOCH)) = Inr view
    \<and> cv_limitations view = []"
  using assms split_candidate_projection split_active_epoch(1)
  by (fastforce simp: coherent_history_def records_of_def candidate_projection_def last_of_def
      no_candidate_view_def)

lemma coherent_projection_exists:
  assumes "coherent_history (history_records inp)" "mi_native inp = None"
  obtains p where "project inp = Inr p"
proof -
  obtain view where "candidate_projection inp (last_of (records_of inp EPOCH)) = Inr view"
    using coherent_candidate_view [OF assms(1)] by blast
  with assms(2) that show thesis
    by (auto simp: project_compat compat_projection_def epoch_projection_def evidence_readiness_def
        Let_def last_of_def split: if_splits)
qed

lemma coherent_projection:
  assumes coherent: "coherent_history (history_records inp)" and native: "mi_native inp = None"
    and p: "project inp = Inr p"
  shows "pr_stage p \<noteq> AMBIGUOUS_HISTORY" "shows_history p (history_records inp)"
proof -
  obtain view where view: "candidate_projection inp (pr_active_epoch p) = Inr view"
    and active: "pr_active_epoch p = last_of (records_of inp EPOCH)"
    and c: "pr_candidate p = cv_current view" and l: "pr_lineage p = cv_lineage view"
    and limits: "pr_limitations p = projection_limitations
       (if epoch_chain None [] (records_of inp EPOCH) then [] else [blocker ''EPOCH_LINEAGE_CONFLICT'' []])
       (cv_limitations view) (pr_evidence p)
       (for_candidate inp CANDIDATE_DISPOSITION (candidate_id_of (pr_candidate p)))
       (for_candidate inp FREEZE (candidate_id_of (pr_candidate p)))"
    by (rule compat_projection_parts [OF native p])
  have "cv_limitations view = []"
    using coherent_candidate_view [OF coherent] view active by auto
  moreover have "epoch_chain None [] (records_of inp EPOCH)"
    using coherent by (simp add: coherent_history_def records_of_def)
  moreover have "\<not> 1 < length (for_candidate inp t cid)"
    if "t \<in> {CANDIDATE_DISPOSITION, FREEZE}" for t cid
    using coherent that for_candidate_at_most_once [of t inp cid]
    by (auto simp: coherent_history_def not_less)
  ultimately have "\<not> ambiguous_limitations (pr_limitations p)"
    by (simp add: limits projection_limitations_def ambiguous_limitations_def AMBIGUITY_CODES_def)
  with ambiguous_stage_iff [OF native p] show "pr_stage p \<noteq> AMBIGUOUS_HISTORY" by simp
  from coherent consider "of_type EPOCH (history_records inp) = []" "of_type CANDIDATE (history_records inp) = []"
    | (split) before e after where "current_epoch_split (history_records inp) before e after"
    unfolding coherent_history_def by blast
  then show "shows_history p (history_records inp)"
  proof cases
    case 1
    with active view c l show ?thesis
      by (simp add: shows_history_def records_of_def last_of_def candidate_projection_def no_candidate_view_def)
        (auto simp: no_candidate_view_def)
  next
    case split
    with active have "pr_active_epoch p = Some e"
      using split_active_epoch(1) [OF split] by (simp add: records_of_def)
    with split_candidate_projection [OF split] view c l split show ?thesis
      unfolding shows_history_def by auto
  qed
qed

section \<open>Authorized records keep a history coherent\<close>

text \<open>A machine over a history, as the steps use it.\<close>

definition machine_over :: "machine \<Rightarrow> forge_record list \<Rightarrow> bool" where
  "machine_over m rs \<longleftrightarrow>
     mi_native (ma_input m) = None \<and> history_records (ma_input m) = rs
     \<and> project (ma_input m) = Inr (ma_projection m)"

lemma machine_over_shows:
  "machine_over m rs \<Longrightarrow> coherent_history rs \<Longrightarrow> shows_history (ma_projection m) rs"
  using coherent_projection(2) [of "ma_input m" "ma_projection m"] by (auto simp: machine_over_def)

lemma machine_over_records: "machine_over m rs \<Longrightarrow> records_of (ma_input m) t = of_type t rs"
  by (simp add: machine_over_def records_of_def)

lemma split_append_other:
  assumes "current_epoch_split rs before e after" "fr_type r \<notin> {EPOCH, CANDIDATE}"
  shows "current_epoch_split (rs @ [r]) before e (after @ [r])"
  using assms by (simp add: current_epoch_split_def)

lemma coherent_append_other:
  assumes "coherent_history rs" "fr_type r \<notin> {EPOCH, CANDIDATE}"
    "at_most_once CANDIDATE_DISPOSITION (rs @ [r])" "at_most_once FREEZE (rs @ [r])"
    "fr_type r = CANDIDATE_DISPOSITION \<Longrightarrow> rec_str r ''disposition'' \<in> {''selected'', ''rejected''}"
  shows "coherent_history (rs @ [r])"
proof -
  have "of_type EPOCH (rs @ [r]) = of_type EPOCH rs" "of_type CANDIDATE (rs @ [r]) = of_type CANDIDATE rs"
    using assms(2) by simp_all
  with assms split_append_other [OF _ assms(2)] show ?thesis
    unfolding coherent_history_def by (auto split: if_splits) blast+
qed

lemma at_most_once_append:
  "at_most_once t (rs @ [r]) \<longleftrightarrow>
     at_most_once t rs
     \<and> (fr_type r = t \<longrightarrow> rec_value r ''candidate_identity'' = FStr (rec_str r ''candidate_identity'')
         \<and> (\<forall>x \<in> set (of_type t rs). rec_str x ''candidate_identity'' \<noteq> rec_str r ''candidate_identity''))"
  by (cases "fr_type r = t") (auto simp: at_most_once_def image_iff simp del: in_of_type)

lemma coherent_epoch:
  assumes "coherent_history rs" "shows_history p rs" "fr_type r = EPOCH"
    "rec_value r ''epoch_id'' = FStr eid" "eid \<notin> set (epoch_ids rs)"
    "rec_value r ''parent_epoch'' = opt_text (map_option (\<lambda>e. rec_str e ''epoch_id'') (pr_active_epoch p))"
  shows "coherent_history (rs @ [r])"
proof -
  have last: "last_name None (epoch_ids rs) = map_option (\<lambda>e. rec_str e ''epoch_id'') (pr_active_epoch p)"
    using assms(2) by (auto simp: shows_history_def last_name_def epoch_ids_def split_active_epoch(2))
  have id: "rec_str r ''epoch_id'' = eid" using assms(4) by (rule rec_str_value)
  have "epoch_chain None [] (of_type EPOCH (rs @ [r]))"
    using assms last id by (simp add: coherent_history_def epoch_chain_append epoch_ids_def parent_follows_def)
      (cases "pr_active_epoch p"; simp)
  moreover have "\<exists>s \<in> set (epoch_ids rs). rec_value c ''source_epoch'' = FStr s"
    if c: "c \<in> set (of_type CANDIDATE rs)" for c
  proof -
    from assms(1) c obtain before e after where split: "current_epoch_split rs before e after"
      unfolding coherent_history_def by (metis empty_iff list.set(1))
    from c consider "c \<in> set (of_type CANDIDATE before)" | "c \<in> set (of_type CANDIDATE after)"
      unfolding split_active_epoch(3) [OF split] by auto
    then show ?thesis
    proof cases
      case 1
      with split obtain s where "s \<in> set (epoch_ids before)" "rec_value c ''source_epoch'' = FStr s"
        unfolding current_epoch_split_def by blast
      moreover have "set (epoch_ids before) \<subseteq> set (epoch_ids rs)"
        by (auto simp: epoch_ids_def split_active_epoch(2) [OF split] simp del: in_of_type)
      ultimately show ?thesis by blast
    next
      case 2
      with split have "rec_value c ''source_epoch'' = FStr (rec_str e ''epoch_id'')"
        unfolding current_epoch_split_def by (blast intro: linked_source)
      then show ?thesis by (simp add: epoch_ids_def split_active_epoch(2) [OF split])
    qed
  qed
  then have "current_epoch_split (rs @ [r]) rs r []"
    using assms(3,4,5) id by (simp add: current_epoch_split_def)
  ultimately show ?thesis
    using assms(1,3) by (auto simp: coherent_history_def at_most_once_append)
qed

lemma last_name_last_of:
  "last_name None (candidate_names cs) = candidate_id_of (last_of cs)"
  by (simp add: last_name_def candidate_names_def candidate_id_of_def last_of_def last_map)

lemma coherent_candidate:
  assumes "coherent_history rs" "shows_history p rs" "fr_type r = CANDIDATE"
    "pr_active_epoch p = Some epoch"
    "rec_value r ''source_epoch'' = rec_value epoch ''epoch_id''"
    "rec_value r ''candidate_id'' = FStr cid" "cid \<notin> set (pr_lineage p)"
    "rec_value r ''parent_candidate'' = opt_text (candidate_id_of (pr_candidate p))"
  shows "coherent_history (rs @ [r])"
proof -
  from assms(2,4) obtain before after where split: "current_epoch_split rs before epoch after"
    and c: "pr_candidate p = last_of (of_type CANDIDATE after)"
    and l: "pr_lineage p = candidate_names (of_type CANDIDATE after)"
    by (auto simp: shows_history_def)
  have id: "rec_str r ''candidate_id'' = cid" using assms(6) by (rule rec_str_value)
  have "linked (rec_str epoch ''epoch_id'') None [] (of_type CANDIDATE after @ [r])"
    using split assms(5-8) c l
    by (simp add: linked_append current_epoch_split_def id last_name_last_of)
  with split assms(3) have "current_epoch_split (rs @ [r]) before epoch (after @ [r])"
    by (simp add: current_epoch_split_def)
  then show ?thesis
    using assms(1,3) by (auto simp: coherent_history_def at_most_once_append)
qed

lemma terminal_list_empty:
  assumes "machine_over m rs" "at_most_once t rs" "for_candidate (ma_input m) t (Some cid) = []"
    "x \<in> set (of_type t rs)"
  shows "rec_str x ''candidate_identity'' \<noteq> cid"
proof
  assume "rec_str x ''candidate_identity'' = cid"
  with assms(2,4) have "rec_value x ''candidate_identity'' = FStr cid" by (auto simp: at_most_once_def)
  with assms(1,3,4) show False by (auto simp: for_candidate_def machine_over_records filter_empty_conv)
qed

lemma coherent_disposition:
  assumes m: "machine_over m rs" and rs: "coherent_history rs" and "fr_type r = CANDIDATE_DISPOSITION"
    "authorize_candidate_disposition m cid d = Inr ce"
    "rec_value r ''candidate_identity'' = FStr cid" "rec_value r ''disposition'' = FStr d"
  shows "coherent_history (rs @ [r])"
proof -
  obtain candidate evidence where ce: "ce = (candidate, evidence)" by (cases ce)
  note facts = candidate_disposition_Inr [OF assms(4) [unfolded ce]]
  let ?ds = "for_candidate (ma_input m) CANDIDATE_DISPOSITION (Some cid)"
  have "candidate_id_of (pr_candidate (ma_projection m)) = Some cid"
    using facts(1) names_candidate_str [OF facts(2)] by (simp add: candidate_id_of_def)
  moreover have "pr_disposition_status (ma_projection m) = disposition_status_of
      (for_candidate (ma_input m) CANDIDATE_DISPOSITION (candidate_id_of (pr_candidate (ma_projection m))))"
    using m compat_projection_parts unfolding machine_over_def by metis
  ultimately have "disposition_status_of ?ds = ''undisposed''" using facts(5) by simp
  moreover have "\<forall>d \<in> set ?ds. rec_str d ''disposition'' \<noteq> ''undisposed''"
    using m rs
    by (auto simp: for_candidate_def machine_over_records coherent_history_def simp del: in_of_type)
  ultimately have "?ds = []" by (rule undisposed_iff)
  with m rs assms(5) have "at_most_once CANDIDATE_DISPOSITION (rs @ [r])"
    using terminal_list_empty [OF m] by (simp add: at_most_once_append coherent_history_def rec_str_value)
  moreover have "at_most_once FREEZE (rs @ [r])"
    using rs assms(3) by (simp add: at_most_once_append coherent_history_def)
  ultimately show ?thesis
    using rs assms(3) facts(7) rec_str_value [OF assms(6)] by (intro coherent_append_other) auto
qed

lemma coherent_freeze:
  assumes m: "machine_over m rs" and rs: "coherent_history rs" and "fr_type r = FREEZE"
    "authorize_candidate_freeze m cid plan = Inr cd" "rec_value r ''candidate_identity'' = FStr cid"
  shows "coherent_history (rs @ [r])"
proof -
  obtain candidate disposition where cd: "cd = (candidate, disposition)" by (cases cd)
  note facts = candidate_freeze_Inr [OF assms(4) [unfolded cd]]
  have "candidate_id_of (pr_candidate (ma_projection m)) = Some cid"
    using facts(1) names_candidate_str [OF facts(2)] by (simp add: candidate_id_of_def)
  moreover have "pr_freeze (ma_projection m) = only
      (for_candidate (ma_input m) FREEZE (candidate_id_of (pr_candidate (ma_projection m))))"
    using m compat_projection_parts unfolding machine_over_def by metis
  moreover have once: "at_most_once FREEZE rs" using rs by (simp add: coherent_history_def)
  ultimately have "for_candidate (ma_input m) FREEZE (Some cid) = []"
    using facts(6) for_candidate_at_most_once [of FREEZE "ma_input m" "Some cid"] m
    by (cases "for_candidate (ma_input m) FREEZE (Some cid)") (auto simp: only_def machine_over_def)
  with m once assms(5) have "at_most_once FREEZE (rs @ [r])"
    using terminal_list_empty [OF m] by (simp add: at_most_once_append rec_str_value)
  moreover have "at_most_once CANDIDATE_DISPOSITION (rs @ [r])"
    using rs assms(3) by (simp add: at_most_once_append coherent_history_def)
  ultimately show ?thesis using rs assms(3) by (intro coherent_append_other) auto
qed

theorem authorized_record_coherent:
  assumes m: "machine_over m rs" and rs: "coherent_history rs" and step: "authorized_record m r"
  shows "coherent_history (rs @ [r])"
  using step
proof cases
  case (begin_epoch parent u eid)
  with m have "eid \<notin> set (epoch_ids rs)" by (simp add: machine_over_def)
  with begin_epoch epoch_begin_Inr [OF begin_epoch(2)] show ?thesis
    by (intro coherent_epoch [OF rs machine_over_shows [OF m rs]]) auto
next
  case (register parent cid epoch)
  with candidate_register_Inr(1,2) [OF register(2)] show ?thesis
    by (intro coherent_candidate [OF rs machine_over_shows [OF m rs]]) auto
next
  case (dispose cid d ce)
  with m rs show ?thesis by (intro coherent_disposition)
next
  case (freeze cid plan cd)
  with m rs show ?thesis by (intro coherent_freeze)
next
  case other
  with rs show ?thesis
    by (intro coherent_append_other) (auto simp: lifecycle_types_def at_most_once_append coherent_history_def)
qed

lemma machine_over_make:
  "make_machine inp = Inr m \<Longrightarrow> mi_native inp = None \<Longrightarrow> machine_over m (map le_payload (mi_history inp))"
  using make_machine_Inr by (fastforce simp: machine_over_def)

theorem reachable_coherent: "reachable h \<Longrightarrow> coherent_history (map le_payload h)"
proof (induction rule: reachable.induct)
  case empty
  then show ?case by (simp add: coherent_history_def at_most_once_def)
next
  case (extend h inp m e)
  then have "machine_over m (map le_payload h)" using machine_over_make by blast
  with extend show ?case by (simp add: authorized_record_coherent)
qed

lemma reachable_projection:
  assumes "reachable (mi_history inp)" "mi_native inp = None" "make_machine inp = Inr m"
  shows "pr_stage (ma_projection m) \<noteq> AMBIGUOUS_HISTORY
    \<and> distinct (pr_lineage (ma_projection m))
    \<and> (\<forall>e. pr_active_epoch (ma_projection m) = Some e \<longrightarrow>
         pr_lineage (ma_projection m) = candidate_names
           (filter (\<lambda>r. rec_value r ''source_epoch'' = rec_value e ''epoch_id'') (records_of (ma_input m) CANDIDATE)))"
proof -
  let ?rs = "history_records (ma_input m)"
  have m: "mi_native (ma_input m) = None" "project (ma_input m) = Inr (ma_projection m)"
    and h: "mi_history (ma_input m) = mi_history inp"
    using make_machine_Inr [OF assms(3)] assms(2) by auto
  have coherent: "coherent_history ?rs" using reachable_coherent [OF assms(1)] h by simp
  note facts = coherent_projection [OF coherent m]
  from facts(2) consider "pr_active_epoch (ma_projection m) = None" "pr_lineage (ma_projection m) = []"
    | (epoch) before e after where "current_epoch_split ?rs before e after"
      "pr_active_epoch (ma_projection m) = Some e"
      "pr_lineage (ma_projection m) = candidate_names (of_type CANDIDATE after)"
    unfolding shows_history_def by metis
  then show ?thesis
  proof cases
    case 1
    with facts(1) show ?thesis by simp
  next
    case epoch
    from epoch(1) have id: "rec_value e ''epoch_id'' = FStr (rec_str e ''epoch_id'')"
      and linked: "linked (rec_str e ''epoch_id'') None [] (of_type CANDIDATE after)"
      unfolding current_epoch_split_def by blast+
    from split_active_candidates [OF epoch(1)]
    have "filter (\<lambda>r. rec_value r ''source_epoch'' = rec_value e ''epoch_id'') (records_of (ma_input m) CANDIDATE)
        = of_type CANDIDATE after"
      by (simp add: id records_of_def)
    with epoch facts(1) linked_distinct [OF linked] show ?thesis by simp
  qed
qed

section \<open>Registering an earlier candidate again\<close>

text \<open>
  The authorizer compares the proposed identity with the parent only. A record that repeats the
  identity of an older candidate of the epoch closes a cycle in the parentage.
\<close>

lemma repeated_walk:
  assumes "linked eid (Some cid) known post" "post \<noteq> []"
    "distinct (candidate_names (post @ [r]))" "rec_str r ''candidate_id'' = cid"
    "set seen \<inter> set (candidate_names post) = {}" "cid \<in> set seen" "active = pre @ post @ rest @ [r]"
    "distinct (candidate_names (post @ rest @ [r]))"
  shows "snd (lineage_walk (old @ active) seen (last post))"
  using assms
proof (induction post arbitrary: seen rest rule: rev_induct)
  case (snoc d post)
  have known: "known_candidate (old @ active) (rec_str x ''candidate_id'') = Some x"
    if "x \<in> set (post @ [d] @ rest @ [r])" for x
    using snoc.prems(7,8) that known_in_lineage [of "post @ [d] @ rest @ [r]" x _ "old @ pre"] by simp
  have fresh: "rec_str d ''candidate_id'' \<notin> set seen" using snoc.prems(5) by (simp add: candidate_names_def)
  have linked: "linked eid (Some cid) known post"
    and parent: "rec_value d ''parent_candidate'' = opt_text (last_name (Some cid) (candidate_names post))"
    using snoc.prems(1) unfolding linked_append by blast+
  show ?case
  proof (cases "post = []")
    case True
    with parent snoc.prems(4) known [of r] have "candidate_parent (old @ active) d = Some r"
      by (simp add: candidate_parent_def last_name_def candidate_names_def)
    with fresh snoc.prems(4,6) show ?thesis
      by (subst lineage_walk.simps) (simp add: Let_def lineage_walk.simps [of _ _ r])
  next
    case False
    then have "last_name (Some cid) (candidate_names post) = Some (rec_str (last post) ''candidate_id'')"
      by (simp add: last_name_def candidate_names_def last_map)
    with parent False known [of "last post"] have p: "candidate_parent (old @ active) d = Some (last post)"
      by (simp add: candidate_parent_def)
    have "snd (lineage_walk (old @ active) (seen @ [rec_str d ''candidate_id'']) (last post))"
      using snoc.prems linked False
      by (intro snoc.IH [of _ "d # rest"]) (auto simp: candidate_names_def)
    with p fresh show ?thesis by (subst lineage_walk.simps) (simp add: Let_def)
  qed
qed simp

lemma repeated_identity_cyclic:
  assumes linked: "linked eid None [] cs" and "cid \<in> set (candidate_names cs)"
    and ne: "candidate_id_of (last_of cs) \<noteq> Some cid"
    and r: "rec_str r ''candidate_id'' = cid"
      "rec_value r ''parent_candidate'' = opt_text (candidate_id_of (last_of cs))"
  shows "snd (lineage_walk (old @ cs @ [r]) [] r)"
proof -
  from assms(2) obtain x where "x \<in> set cs" "rec_str x ''candidate_id'' = cid"
    by (auto simp: candidate_names_def)
  then obtain pre post where cs: "cs = pre @ x # post" by (meson split_list)
  have post: "post \<noteq> []"
    using ne cs \<open>rec_str x ''candidate_id'' = cid\<close> by (auto simp: candidate_id_of_def last_of_def)
  have linked_post: "linked eid previous seen (pre @ x # post) \<Longrightarrow>
      \<exists>known. linked eid (Some cid) known post" for previous seen
    using \<open>rec_str x ''candidate_id'' = cid\<close>
    by (induction pre arbitrary: previous seen) (auto simp: Let_def)
  then obtain known where known: "linked eid (Some cid) known post" using linked cs by blast
  from linked_distinct [OF linked] cs r(1) \<open>rec_str x ''candidate_id'' = cid\<close>
  have distinct: "distinct (candidate_names (post @ [r]))" by (auto simp: candidate_names_def)
  have last: "last_of cs = Some (last post)" using post cs by (simp add: last_of_def)
  have "last post \<in> set (post @ [r])" using post by simp
  from known_in_lineage [OF distinct this refl, of "old @ pre @ [x]"]
  have "candidate_parent (old @ cs @ [r]) r = Some (last post)"
    using r(2) by (simp add: candidate_parent_def last [unfolded cs] candidate_id_of_def cs)
  moreover have "snd (lineage_walk (old @ cs @ [r]) [cid] (last post))"
    using known post distinct r(1) cs
    by (intro repeated_walk [where pre = "pre @ [x]" and rest = "[]"]) (auto simp: candidate_names_def)
  ultimately show ?thesis using r(1) by (subst lineage_walk.simps) (simp add: Let_def)
qed

lemma split_of_projection:
  assumes "shows_history p rs" "cid \<in> set (pr_lineage p)"
  obtains before e after where "current_epoch_split rs before e after" "pr_active_epoch p = Some e"
    "pr_candidate p = last_of (of_type CANDIDATE after)"
    "cid \<in> set (candidate_names (of_type CANDIDATE after))"
  using assms by (auto simp: shows_history_def)

lemma repeated_candidate_ambiguous:
  assumes m: "machine_over m rs" and rs: "coherent_history rs"
    and reg: "authorize_candidate_register m parent cid None = Inr epoch"
    and old_id: "cid \<in> set (pr_lineage (ma_projection m))"
    and r: "fr_type r = CANDIDATE" "rec_value r ''candidate_id'' = FStr cid"
      "rec_value r ''parent_candidate'' = opt_text parent"
      "rec_value r ''source_epoch'' = rec_value epoch ''epoch_id''"
    and m': "machine_over m' (rs @ [r])"
  shows "pr_stage (ma_projection m') = AMBIGUOUS_HISTORY"
proof -
  note facts = candidate_register_Inr [OF reg]
  obtain before e after where split: "current_epoch_split rs before e after"
    and e: "pr_active_epoch (ma_projection m) = Some e"
    and c: "pr_candidate (ma_projection m) = last_of (of_type CANDIDATE after)"
    and cid: "cid \<in> set (candidate_names (of_type CANDIDATE after))"
    using split_of_projection [OF machine_over_shows [OF m rs] old_id] .
  let ?eid = "rec_str e ''epoch_id''" and ?old = "of_type CANDIDATE before" and ?cs = "of_type CANDIDATE after"
  from split have id: "rec_value e ''epoch_id'' = FStr ?eid" and linked: "linked ?eid None [] ?cs"
    unfolding current_epoch_split_def by blast+
  have cyclic: "snd (lineage_walk (?old @ ?cs @ [r]) [] r)"
    using linked cid facts(2,3) c r(2,3) rec_str_value [OF r(2)]
    by (intro repeated_identity_cyclic) auto
  have n: "mi_native (ma_input m') = None" and p: "project (ma_input m') = Inr (ma_projection m')"
    and rs': "records_of (ma_input m') t = of_type t (rs @ [r])" for t
    using m' by (simp_all add: machine_over_def records_of_def)
  obtain view where view: "candidate_projection (ma_input m') (pr_active_epoch (ma_projection m')) = Inr view"
    and active: "pr_active_epoch (ma_projection m') = last_of (records_of (ma_input m') EPOCH)"
    and limits: "pr_limitations (ma_projection m') = projection_limitations
       (if epoch_chain None [] (records_of (ma_input m') EPOCH) then [] else [blocker ''EPOCH_LINEAGE_CONFLICT'' []])
       (cv_limitations view) (pr_evidence (ma_projection m'))
       (for_candidate (ma_input m') CANDIDATE_DISPOSITION (candidate_id_of (pr_candidate (ma_projection m'))))
       (for_candidate (ma_input m') FREEZE (candidate_id_of (pr_candidate (ma_projection m'))))"
    by (rule compat_projection_parts [OF n p])
  from active r(1) have "pr_active_epoch (ma_projection m') = Some e"
    using split_active_epoch(1) [OF split] by (simp add: rs')
  moreover have "records_of (ma_input m') CANDIDATE = ?old @ ?cs @ [r]"
    using split_active_epoch(3) [OF split] r(1) by (simp add: rs')
  moreover have "last_of (filter (\<lambda>x. rec_value x ''source_epoch'' = FStr ?eid) (?old @ ?cs @ [r])) = Some r"
    using r(4) facts(1) e id by (simp add: last_of_def)
  ultimately have "lineage_conflict \<in> set (cv_limitations view)"
    using view cyclic by (auto simp: candidate_projection_def Let_def and_then_Inr_iff case_prod_beta)
  then have "lineage_conflict \<in> set (pr_limitations (ma_projection m'))"
    by (simp add: limits projection_limitations_def)
  then have "ambiguous_limitations (pr_limitations (ma_projection m'))"
    by (auto simp: ambiguous_limitations_def list_ex_iff lineage_conflict_def AMBIGUITY_CODES_def
        intro: bexI [of _ lineage_conflict])
  with ambiguous_stage_iff [OF n p] show ?thesis by simp
qed

section \<open>Lineages in general\<close>

text \<open>Whatever the history, the walk never visits an identity twice.\<close>

lemma lineage_walk_distinct:
  "distinct seen \<Longrightarrow> distinct (fst (lineage_walk candidates seen cursor))"
proof (induction candidates seen cursor rule: lineage_walk.induct)
  case (1 candidates seen cursor)
  then show ?case by (subst lineage_walk.simps) (auto simp: Let_def split: option.splits)
qed

lemma lineage_walk_identities:
  "set (fst (lineage_walk candidates seen cursor))
     \<subseteq> set seen \<union> insert (rec_str cursor ''candidate_id'') (set (candidate_names candidates))"
proof (induction candidates seen cursor rule: lineage_walk.induct)
  case (1 candidates seen cursor)
  have "rec_str p ''candidate_id'' \<in> set (candidate_names candidates)"
    if "candidate_parent candidates cursor = Some p" for p
    using candidate_parent_Some [OF that] by (simp add: candidate_names_def)
  note parent = this
  show ?case
  proof (cases "rec_str cursor ''candidate_id'' \<in> set seen")
    case True
    then show ?thesis by (subst lineage_walk.simps) (auto simp: Let_def)
  next
    case False
    show ?thesis
    proof (cases "candidate_parent candidates cursor")
      case None
      with False show ?thesis by (subst lineage_walk.simps) (auto simp: Let_def)
    next
      case (Some p)
      from "1.IH" [OF refl False Some] parent [OF Some] Some False show ?thesis
        by (subst lineage_walk.simps) (auto simp: Let_def)
    qed
  qed
qed

end
