(* ===== verification/ServiceHistories.thy ===== *)
theory ServiceHistories
  imports Services StoreGrowth Reachability
begin

text \<open>
  Lifecycles as the services run them: any sequence of epoch, registration, disposition and freeze calls
  and of commits of other records, each one completed, refused, or cut off and recovered. Every store
  that such a sequence reaches holds a history that the state machine's transition relation reaches.
\<close>

section \<open>Fields of a new record\<close>

lemma as_json_items_get:
  assumes "as_json_items raw path depth = Inr d" "map_of raw (KStr f) = Some v"
  shows "v = PStr s \<Longrightarrow> dict_get d f = Some (JStr s)" "v = PNone \<Longrightarrow> dict_get d f = Some JNull"
proof -
  have "(v = PStr s \<longrightarrow> dict_get d f = Some (JStr s)) \<and> (v = PNone \<longrightarrow> dict_get d f = Some JNull)"
    using assms
  proof (induction raw arbitrary: d)
    case (Cons p raw)
    obtain k x where p: "p = (k, x)" by (cases p)
    with Cons.prems show ?case
      by (cases k) (auto simp: and_then_Inr_iff as_json_value.simps [of x] dest: Cons.IH split: if_splits)
  qed simp
  then show "v = PStr s \<Longrightarrow> dict_get d f = Some (JStr s)" "v = PNone \<Longrightarrow> dict_get d f = Some JNull" by blast+
qed

lemma with_identity_get:
  assumes "with_identity cr t d = Inr fs" "dict_get d f = Some v"
    "v \<noteq> JNull \<or> rs_identity_field (the (record_specs t)) \<noteq> Some f"
  shows "dict_get fs f = Some v"
  using assms
  by (auto simp: with_identity_def spec_of_def and_then_Inr_iff obj_get_def split: option.splits if_splits)

lemma model_get: "f \<notin> set metadata_keys \<Longrightarrow> dict_get fs f = Some v \<Longrightarrow> rec_value (model t fs source) f = freeze_json v"
  by (simp add: rec_value_def rec_get_def model_def metadata_keys_def)

lemma new_record_parts:
  assumes "new_record cr t raw = Inr r"
  obtains d fs where "as_json_items raw record_label 1 = Inr d" "with_identity cr t d = Inr fs"
    "r = model t fs CURRENT_SCHEMA_VERSION"
  using assms by (auto simp: new_record_def and_then_Inr_iff json_object_PMap)

lemma new_record_text:
  assumes "new_record cr t raw = Inr r" "map_of raw (KStr f) = Some (PStr s)" "f \<notin> set metadata_keys"
  shows "rec_value r f = FStr s"
proof -
  from assms(1) obtain d fs where parts: "as_json_items raw record_label 1 = Inr d" "with_identity cr t d = Inr fs"
    "r = model t fs CURRENT_SCHEMA_VERSION" by (rule new_record_parts)
  have "dict_get d f = Some (JStr s)" using as_json_items_get(1) [OF parts(1) assms(2)] by simp
  then have "dict_get fs f = Some (JStr s)" by (intro with_identity_get [OF parts(2)]) simp_all
  then show ?thesis using model_get [OF assms(3)] parts(3) by simp
qed

lemma new_record_null:
  assumes "new_record cr t raw = Inr r" "map_of raw (KStr f) = Some PNone" "f \<notin> set metadata_keys"
    "rs_identity_field (the (record_specs t)) \<noteq> Some f"
  shows "rec_value r f = FNull"
proof -
  from assms(1) obtain d fs where parts: "as_json_items raw record_label 1 = Inr d" "with_identity cr t d = Inr fs"
    "r = model t fs CURRENT_SCHEMA_VERSION" by (rule new_record_parts)
  have "dict_get d f = Some JNull" using as_json_items_get(2) [OF parts(1) assms(2)] by simp
  then have "dict_get fs f = Some JNull" using assms(4) by (intro with_identity_get [OF parts(2)]) simp_all
  then show ?thesis using model_get [OF assms(3)] parts(3) by simp
qed

lemma new_record_optional:
  assumes "new_record cr t raw = Inr r" "map_of raw (KStr f) = Some (ptext_or_none x)" "f \<notin> set metadata_keys"
    "rs_identity_field (the (record_specs t)) \<noteq> Some f"
  shows "rec_value r f = opt_text x"
  using assms new_record_null new_record_text by (cases x) (auto simp: ptext_or_none_def)

text \<open>Text and null fields of a record are the same in its stored form.\<close>

lemma stored_value:
  assumes "current_record cr r" "f \<notin> set metadata_keys" "rec_value r f = opt_text x"
  shows "rec_value (stored_form r) f = opt_text x"
proof -
  have wf: "dict_wf (thaw_fields (fr_fields r))"
    using assms(1) by (simp add: current_record_def Let_def del: keys_thaw_fields)
  have "dict_get (fr_fields (stored_form r)) f = map_option (freeze_json \<circ> sorted_json \<circ> thaw_json) (dict_get (fr_fields r) f)"
    unfolding stored_form_def model_def using dict_get_sorted_obj [OF wf, of f]
    by (simp add: option.map_comp comp_def)
  then show ?thesis
    using assms(2,3) by (auto simp: rec_value_def rec_get_def metadata_keys_def opt_text_def split: option.splits)
qed

lemma stored_text: "current_record cr r \<Longrightarrow> f \<notin> set metadata_keys \<Longrightarrow> rec_value r f = FStr s
    \<Longrightarrow> rec_value (stored_form r) f = FStr s"
  using stored_value [of cr r f "Some s"] by (simp add: opt_text_def)

lemma stored_type [simp]: "fr_type (stored_form r) = fr_type r"
  by (simp add: stored_form_def model_def)

section \<open>Requests\<close>

text \<open>The record each service would commit, as it builds it from the store it sees.\<close>

inductive service_request :: "lifecycle_context \<Rightarrow> store \<Rightarrow> string \<Rightarrow> string \<Rightarrow> forge_record \<Rightarrow> bool" for ctx s where
  begin_epoch: "service_request ctx s ''epochs'' ''epoch'' r"
    if "epoch_record ctx cfg obs at generator evaluator parent overlap s = Inr r"
| register: "service_request ctx s ''candidates'' ''candidate'' r"
    if "candidate_record_of ctx cfg obs at request s = Inr r"
| dispose: "service_request ctx s ''dispositions'' ''disposition'' r"
    if "disposition_record ctx cfg rights render obs at cid disposition reason s = Inr r"
| freeze: "service_request ctx s ''freezes'' ''freeze'' r"
    if "freeze_record ctx cfg obs at cid environment plan s = Inr r"
| other: "service_request ctx s record_group kind r"
    if "fr_type r \<notin> lifecycle_types"

inductive_cases service_requestE: "service_request ctx s record_group kind r"

text \<open>The calls of one history may run in different modes, over one state directory and without an adapter.\<close>

inductive service_history :: "storage_env \<Rightarrow> store \<Rightarrow> bool" for env where
  begun: "service_history env empty_store"
| committed: "service_history env (snd (commit env timestamp txid record_group kind r s))"
    if "service_history env s" "lc_env ctx = env" "lc_native ctx = None"
      "service_request ctx s record_group kind r" "admissible env timestamp txid kind r s"
| recovered: "service_history env (snd (recover_unlocked env u))"
    if "service_history env s" "lc_env ctx = env" "lc_native ctx = None"
      "service_request ctx s record_group kind r" "admissible env timestamp txid kind r s"
      "cut_off env timestamp txid record_group kind r s u"

section \<open>A request is an authorized record\<close>

lemma context_fields:
  "map_of PERSISTED_RECORD_CONTEXTS ''epoch''
     = Some \<lparr>prc_group = ''epochs'', prc_ledger_kind = ''epoch'', prc_record_type = EPOCH, prc_identity_field = ''epoch_id''\<rparr>"
  "map_of PERSISTED_RECORD_CONTEXTS ''candidate''
     = Some \<lparr>prc_group = ''candidates'', prc_ledger_kind = ''candidate'', prc_record_type = CANDIDATE,
         prc_identity_field = ''candidate_id''\<rparr>"
  "map_of LEDGER_KIND_TYPES ''epoch'' = Some EPOCH" "map_of LEDGER_KIND_TYPES ''candidate'' = Some CANDIDATE"
  by (simp_all add: PERSISTED_RECORD_CONTEXTS_def LEDGER_KIND_TYPES_def)

lemma identity_not_repeated:
  assumes "ledger_records env s None = Inr es"
    "commit_checks env record_group kind r = Inr (field, identity, destination)"
    "\<forall>x \<in> set es. le_kind x = kind \<longrightarrow> rec_value (le_payload x) field \<noteq> FStr identity"
    "c \<in> set (map le_payload es)" "fr_type c = fr_type r"
  shows "rec_str c field \<noteq> identity"
proof
  assume same: "rec_str c field = identity"
  from assms(4) obtain x where x: "x \<in> set es" "le_payload x = c" by auto
  from assms(2) obtain ctx where ctx: "persisted_record_context record_group kind = Inr ctx" "context_of kind = Inr ctx"
    "prc_identity_field ctx = field" "kind_type kind = Inr (fr_type r)" by (rule commit_checks_Inr)
  note h = history_entry [OF assms(1) x(1)]
  from ctx(4) have "dict_get LEDGER_KIND_TYPES kind = Some (fr_type c)" using assms(5) by (simp add: kind_type_Inr)
  with h(2) x(2) have kind: "le_kind x = kind" by (intro kind_of_type) simp_all
  from persisted_record_context_Inr(2) [OF ctx(1)] ctx(3,4)
  have "field \<in> set (required_string_fields (fr_type c))"
    using assms(5) by (simp add: context_consistent_def Let_def kind_type_Inr)
  then have "rec_value c field = FStr identity"
    using valid_record_text [of "env_crypto env" c field] h(1) x(2) same
      identity_field_plain(1) [OF ctx(2)] ctx(3) by metis
  with assms(3) x kind show False by blast
qed

lemma shown_lineage:
  assumes "shows_history p rs" "cid \<in> set (pr_lineage p)"
  shows "\<exists>c \<in> set rs. fr_type c = CANDIDATE \<and> rec_str c ''candidate_id'' = cid"
  by (rule split_of_projection [OF assms]) (auto simp: candidate_names_def current_epoch_split_def)

lemma shown_epoch:
  assumes "shows_history p rs" "pr_active_epoch p = Some e"
  shows "rec_value e ''epoch_id'' = FStr (rec_str e ''epoch_id'')"
  using assms by (auto simp: shows_history_def current_epoch_split_def)

lemma authorized_epoch:
  assumes built: "epoch_record ctx cfg obs at generator evaluator parent overlap s = Inr r"
    and ctx: "lc_env ctx = env" "lc_native ctx = None"
    and es: "ledger_records env s None = Inr es" "recordable env r"
    and checks: "commit_checks env record_group ''epoch'' r = Inr (field, identity, destination)"
    and new: "\<forall>x \<in> set es. le_kind x = ''epoch'' \<longrightarrow> rec_value (le_payload x) field \<noteq> FStr identity"
  shows "\<exists>inp m. make_machine inp = Inr m \<and> mi_history inp = es \<and> mi_native inp = None \<and> authorized_record m (stored_form r)"
proof -
  from built obtain m u raw where m: "lifecycle_machine ctx obs full_view s = Inr m"
    and auth: "authorize_epoch_begin m parent = Inr u" and r: "new_record (env_crypto env) EPOCH raw = Inr r"
    and field: "map_of raw (KStr ''parent_epoch'') = Some (ptext_or_none parent)"
    by (auto simp: epoch_record_def and_then_Inr_iff pfield_def ctx(1))
  from m obtain inp where inp: "machine_inputs ctx obs full_view s = Inr inp" "make_machine inp = Inr m"
    by (rule lifecycle_machine_Inr)
  have h: "mi_history inp = es" "mi_native inp = None"
    using machine_inputs_Inr [OF inp(1)] ctx es(1) by (simp_all add: full_view_def)
  have rec: "current_record (env_crypto env) r" using es(2) by (simp add: recordable_def)
  have type: "fr_type r = EPOCH" using new_record_valid(2) [OF r] .
  from checks obtain c where c: "context_of ''epoch'' = Inr c" "prc_identity_field c = field"
    "identity_text r field = Inr identity" by (rule commit_checks_Inr)
  then have f: "field = ''epoch_id''" by (auto simp: context_of_def context_fields)
  with c(3) have id: "rec_value r ''epoch_id'' = FStr identity" by (simp add: identity_text_Inr)
  have "rec_value r ''parent_epoch'' = opt_text parent"
    using r field by (rule new_record_optional) (simp_all add: metadata_keys_def spec_epoch_def default_spec_def)
  then have "rec_value (stored_form r) ''parent_epoch'' = opt_text parent"
    by (intro stored_value [OF rec]) (simp_all add: metadata_keys_def)
  moreover have "rec_value (stored_form r) ''epoch_id'' = FStr identity"
    using id by (intro stored_text [OF rec]) (simp_all add: metadata_keys_def)
  moreover have "rec_str c ''epoch_id'' \<noteq> identity" if "c \<in> set (of_type EPOCH (map le_payload es))" for c
  proof -
    from that have "c \<in> set (map le_payload es)" "fr_type c = fr_type r" by (simp_all only: in_of_type type)
    from identity_not_repeated [OF es(1) checks new this] show ?thesis unfolding f .
  qed
  then have "list_all (\<lambda>c. rec_str c ''epoch_id'' \<noteq> identity) (of_type EPOCH (map le_payload es))"
    unfolding list_all_iff by (intro ballI)
  then have "identity \<notin> set (map (\<lambda>r. rec_str r ''epoch_id'') (of_type EPOCH (map le_payload es)))"
    by (induction "of_type EPOCH (map le_payload es)") (auto simp: list_all_iff)
  then have "identity \<notin> set (epoch_ids (history_records (ma_input m)))"
    using make_machine_Inr(5) [OF inp(2)] h(1) by (simp add: epoch_ids_def)
  ultimately have "authorized_record m (stored_form r)"
    using auth type by (intro authorized_record.begin_epoch) simp_all
  with inp(2) h show ?thesis by blast
qed

lemma authorized_candidate:
  assumes built: "candidate_record_of ctx cfg obs at request s = Inr r"
    and ctx: "lc_env ctx = env" "lc_native ctx = None"
    and es: "ledger_records env s None = Inr es" "recordable env r" "reachable es"
    and checks: "commit_checks env record_group ''candidate'' r = Inr (field, identity, destination)"
    and new: "\<forall>x \<in> set es. le_kind x = ''candidate'' \<longrightarrow> rec_value (le_payload x) field \<noteq> FStr identity"
  shows "\<exists>inp m. make_machine inp = Inr m \<and> mi_history inp = es \<and> mi_native inp = None \<and> authorized_record m (stored_form r)"
proof -
  from built obtain m current epoch epoch_id raw where m: "lifecycle_machine ctx obs full_view s = Inr m"
    and auth: "authorize_candidate_register m (rn_parent request) current None = Inr epoch"
    and r: "new_record (env_crypto env) CANDIDATE raw = Inr r"
    and fields: "map_of raw (KStr ''parent_candidate'') = Some (ptext_or_none (rn_parent request))"
      "map_of raw (KStr ''candidate_id'') = Some (PStr current)"
      "map_of raw (KStr ''source_epoch'') = Some (pfrozen epoch_id)" "rec_item epoch ''epoch_id'' = Inr epoch_id"
    by (auto simp: candidate_record_of_def and_then_Inr_iff pfield_def ctx(1))
  from m obtain inp where inp: "machine_inputs ctx obs full_view s = Inr inp" "make_machine inp = Inr m"
    by (rule lifecycle_machine_Inr)
  have h: "mi_history inp = es" "mi_native inp = None"
    using machine_inputs_Inr [OF inp(1)] ctx es(1) by (simp_all add: full_view_def)
  have shown: "shows_history (ma_projection m) (map le_payload es)"
    using machine_over_shows [OF machine_over_make [OF inp(2) h(2)]] reachable_coherent [OF es(3)] h(1) by simp
  have rec: "current_record (env_crypto env) r" using es(2) by (simp add: recordable_def)
  have type: "fr_type r = CANDIDATE" using new_record_valid(2) [OF r] .
  have source: "rec_value epoch ''epoch_id'' = FStr (rec_str epoch ''epoch_id'')"
    using shown_epoch [OF shown] candidate_register_Inr(1) [OF auth] by blast
  then have "epoch_id = FStr (rec_str epoch ''epoch_id'')"
    using fields(4) by (auto simp: rec_item_def rec_value_def split: option.splits)
  with fields(3) have source': "map_of raw (KStr ''source_epoch'') = Some (PStr (rec_str epoch ''epoch_id''))"
    by (simp add: pfrozen_def)
  have id: "rec_value r ''candidate_id'' = FStr current"
    using r fields(2) by (rule new_record_text) (simp add: metadata_keys_def)
  from checks obtain c where c: "context_of ''candidate'' = Inr c" "prc_identity_field c = field"
    "identity_text r field = Inr identity" by (rule commit_checks_Inr)
  then have f: "field = ''candidate_id''" by (auto simp: context_of_def context_fields)
  with c(3) id have same: "identity = current" by (simp add: identity_text_Inr)
  have "rec_value (stored_form r) ''parent_candidate'' = opt_text (rn_parent request)"
    using new_record_optional [OF r fields(1)]
    by (intro stored_value [OF rec]) (simp_all add: metadata_keys_def spec_candidate_def default_spec_def)
  moreover have "rec_value (stored_form r) ''candidate_id'' = FStr current"
    using id by (intro stored_text [OF rec]) (simp_all add: metadata_keys_def)
  moreover have "rec_value (stored_form r) ''source_epoch'' = rec_value epoch ''epoch_id''"
    unfolding source using new_record_text [OF r source'] by (intro stored_text [OF rec]) (simp_all add: metadata_keys_def)
  moreover have "current \<notin> set (pr_lineage (ma_projection m))"
    using shown_lineage [OF shown, of current] identity_not_repeated [OF es(1) checks new] f type same by auto
  ultimately have "authorized_record m (stored_form r)"
    using auth type by (intro authorized_record.register) simp_all
  with inp(2) h show ?thesis by blast
qed

lemma authorized_disposition:
  assumes built: "disposition_record ctx cfg rights render obs at cid disposition reason s = Inr r"
    and ctx: "lc_env ctx = env" "lc_native ctx = None"
    and es: "ledger_records env s None = Inr es" "recordable env r"
  shows "\<exists>inp m. make_machine inp = Inr m \<and> mi_history inp = es \<and> mi_native inp = None \<and> authorized_record m (stored_form r)"
proof -
  from built obtain m ce raw where m: "lifecycle_machine ctx obs full_view s = Inr m"
    and auth: "authorize_candidate_disposition m cid disposition = Inr ce"
    and r: "new_record (env_crypto env) CANDIDATE_DISPOSITION raw = Inr r"
    and fields: "map_of raw (KStr ''candidate_identity'') = Some (PStr cid)"
      "map_of raw (KStr ''disposition'') = Some (PStr disposition)"
    by (auto simp: disposition_record_def and_then_Inr_iff pfield_def ctx(1))
  from m obtain inp where inp: "machine_inputs ctx obs full_view s = Inr inp" "make_machine inp = Inr m"
    by (rule lifecycle_machine_Inr)
  have h: "mi_history inp = es" "mi_native inp = None"
    using machine_inputs_Inr [OF inp(1)] ctx es(1) by (simp_all add: full_view_def)
  have rec: "current_record (env_crypto env) r" using es(2) by (simp add: recordable_def)
  have "rec_value (stored_form r) ''candidate_identity'' = FStr cid"
    "rec_value (stored_form r) ''disposition'' = FStr disposition"
    using new_record_text [OF r fields(1)] new_record_text [OF r fields(2)]
    by (auto intro: stored_text [OF rec] simp: metadata_keys_def)
  then have "authorized_record m (stored_form r)"
    using auth new_record_valid(2) [OF r] by (intro authorized_record.dispose) simp_all
  with inp(2) h show ?thesis by blast
qed

lemma authorized_freeze:
  assumes built: "freeze_record ctx cfg obs at cid environment plan s = Inr r"
    and ctx: "lc_env ctx = env" "lc_native ctx = None"
    and es: "ledger_records env s None = Inr es" "recordable env r"
  shows "\<exists>inp m. make_machine inp = Inr m \<and> mi_history inp = es \<and> mi_native inp = None \<and> authorized_record m (stored_form r)"
proof -
  from built obtain m candidate selection requirements named raw where m: "lifecycle_machine ctx obs full_view s = Inr m"
    and auth: "authorize_candidate_freeze m cid requirements = Inr (candidate, selection)"
    and named: "rec_item candidate ''candidate_id'' = Inr named"
    and r: "new_record (env_crypto env) FREEZE raw = Inr r"
    and field: "map_of raw (KStr ''candidate_identity'') = Some (pfrozen named)"
    by (auto simp: freeze_record_def and_then_Inr_iff pfield_def ctx(1))
  from m obtain inp where inp: "machine_inputs ctx obs full_view s = Inr inp" "make_machine inp = Inr m"
    by (rule lifecycle_machine_Inr)
  have h: "mi_history inp = es" "mi_native inp = None"
    using machine_inputs_Inr [OF inp(1)] ctx es(1) by (simp_all add: full_view_def)
  have rec: "current_record (env_crypto env) r" using es(2) by (simp add: recordable_def)
  have "rec_value candidate ''candidate_id'' = FStr cid"
    using candidate_freeze_Inr(2) [OF auth] by (simp add: names_candidate_def)
  with named have "named = FStr cid" by (auto simp: rec_item_def rec_value_def split: option.splits)
  with field have "map_of raw (KStr ''candidate_identity'') = Some (PStr cid)" by (simp add: pfrozen_def)
  then have "rec_value (stored_form r) ''candidate_identity'' = FStr cid"
    using new_record_text [OF r] by (auto intro: stored_text [OF rec] simp: metadata_keys_def)
  then have "authorized_record m (stored_form r)"
    using auth new_record_valid(2) [OF r] by (intro authorized_record.freeze) simp_all
  with inp(2) h show ?thesis by blast
qed

text \<open>A machine over a coherent history can always be built.\<close>

definition bare_input :: "ledger_entry list \<Rightarrow> machine_input" where
  "bare_input h =
     \<lparr>mi_sha = (\<lambda>s. s), mi_mode = ''development'', mi_history = h, mi_current_candidate = [],
       mi_current_authority = [], mi_freeze_bindings = [], mi_policy_identity = [], mi_required = [],
       mi_policy_error = None, mi_freshness = [], mi_comparability = [], mi_environment_keys = [],
       mi_environment_identities = [], mi_policy_identities = [], mi_native = None\<rparr>"

lemma machine_exists:
  assumes "reachable (mi_history inp)" "mi_native inp = None" "mi_mode inp \<in> {''development'', ''evaluator''}"
  obtains m where "make_machine inp = Inr m"
proof -
  have "coherent_history (history_records (normalized_input inp))" "mi_native (normalized_input inp) = None"
    using reachable_coherent [OF assms(1)] assms(2) by (simp_all add: normalized_input_def)
  then obtain p where "project (normalized_input inp) = Inr p" by (rule coherent_projection_exists)
  with assms(3) show thesis by (intro that) (auto simp: make_machine_def)
qed

lemma authorized_other:
  assumes "reachable es" "fr_type r \<notin> lifecycle_types"
  shows "\<exists>inp m. make_machine inp = Inr m \<and> mi_history inp = es \<and> mi_native inp = None \<and> authorized_record m (stored_form r)"
proof -
  obtain m where "make_machine (bare_input es) = Inr m"
    by (rule machine_exists [of "bare_input es"]) (simp_all add: bare_input_def assms(1))
  moreover have "authorized_record m (stored_form r)" using assms(2) by (intro authorized_record.other) simp
  moreover have "mi_history (bare_input es) = es" "mi_native (bare_input es) = None" by (simp_all add: bare_input_def)
  ultimately show ?thesis by blast
qed

lemma request_authorized:
  assumes "service_request ctx s record_group kind r" "lc_env ctx = env" "lc_native ctx = None"
    "ledger_records env s None = Inr es" "recordable env r" "reachable es"
    "commit_checks env record_group kind r = Inr (field, identity, destination)"
    "\<forall>x \<in> set es. le_kind x = kind \<longrightarrow> rec_value (le_payload x) field \<noteq> FStr identity"
  shows "\<exists>inp m. make_machine inp = Inr m \<and> mi_history inp = es \<and> mi_native inp = None \<and> authorized_record m (stored_form r)"
  using assms(1)
proof cases
  case (begin_epoch cfg obs at generator evaluator parent overlap)
  with assms(2-) show ?thesis by (intro authorized_epoch) simp_all
next
  case (register cfg obs at request)
  with assms(2-) show ?thesis by (intro authorized_candidate) simp_all
next
  case (dispose cfg rights render obs at cid disposition reason)
  with assms(2-) show ?thesis by (intro authorized_disposition)
next
  case (freeze cfg obs at cid environment plan)
  with assms(2-) show ?thesis by (intro authorized_freeze)
next
  case other
  with assms(6) show ?thesis by (intro authorized_other)
qed

section \<open>Histories of services\<close>

lemma grows_reachable:
  assumes "service_request ctx s record_group kind r" "lc_env ctx = env" "lc_native ctx = None"
    "ledger_records env s None = Inr es" "recordable env r" "reachable es" "grows env record_group kind r es es'"
  shows "reachable es'"
proof (cases "es' = es")
  case False
  with assms(7) obtain e field identity destination where e: "es' = es @ [e]" "le_payload e = stored_form r"
    "commit_checks env record_group kind r = Inr (field, identity, destination)"
    "\<forall>x \<in> set es. le_kind x = kind \<longrightarrow> rec_value (le_payload x) field \<noteq> FStr identity"
    unfolding grows_def by blast
  from request_authorized [OF assms(1-6) e(3,4)] obtain inp m where
    "make_machine inp = Inr m" "mi_history inp = es" "mi_native inp = None" "authorized_record m (le_payload e)"
    unfolding e(2) by blast
  then show ?thesis unfolding e(1) using assms(6) by (intro reachable.extend)
qed (use assms in simp)

theorem service_history_reachable:
  assumes "service_history env s"
  shows "\<exists>n h es. verify_ledger env s = Inr (n, h) \<and> ledger_records env s None = Inr es \<and> reachable es"
  using assms
proof (induction rule: service_history.induct)
  case begun
  have "ledger_records env empty_store None = Inr []"
    by (simp add: ledger_records_all empty_store_def snapshot_def file_bytes_def verify_chain_of_def)
  with empty_store_verifies reachable.empty show ?case by blast
next
  case (committed s ctx record_group kind r timestamp txid)
  then obtain n h es where s: "verify_ledger env s = Inr (n, h)" "ledger_records env s None = Inr es" "reachable es" by blast
  from committed(5) have r: "recordable env r" by (simp add: admissible_def)
  from commit_grows [OF committed(5) s(1,2) refl] obtain es'
    where es': "ledger_records env (snd (commit env timestamp txid record_group kind r s)) None = Inr es'"
      "grows env record_group kind r es es'" by blast
  have "reachable es'" by (rule grows_reachable [OF committed(4,2,3) s(2) r s(3) es'(2)])
  with es'(1) commit_step [OF committed(5) s(1) refl] show ?case by blast
next
  case (recovered s ctx record_group kind r timestamp txid u)
  then obtain n h es where s: "verify_ledger env s = Inr (n, h)" "ledger_records env s None = Inr es" "reachable es" by blast
  from recovered(5) have r: "recordable env r" by (simp add: admissible_def)
  from cut_off_grows [OF recovered(5) s(1,2) recovered(6) refl] obtain es'
    where es': "ledger_records env (snd (recover_unlocked env u)) None = Inr es'"
      "grows env record_group kind r es es'" by blast
  have "reachable es'" by (rule grows_reachable [OF recovered(4,2,3) s(2) r s(3) es'(2)])
  moreover from cut_off_step [OF recovered(5) s(1) recovered(6)]
  have "\<exists>n h. verify_ledger env (snd (recover_unlocked env u)) = Inr (n, h)" by (metis snd_conv)
  ultimately show ?case using es'(1) by blast
qed

end
