(* ===== verification/ServiceFacts.thy ===== *)
theory ServiceFacts
  imports ServiceHistories
begin

text \<open>
  What the services guarantee beyond their history: the machine of a later call, and the two places where
  a call does less, or more, than it means to. An authority is granted over the history that was read,
  and the commit that uses it does not ask again.
\<close>

section \<open>Calls on a store of services\<close>

lemma service_history_machine:
  assumes "service_history env s" "machine_inputs ctx obs view s = Inr inp" "mv_kinds view = None"
    "lc_env ctx = env" "lc_native ctx = None" "lc_mode ctx \<in> {''development'', ''evaluator''}"
  shows "\<exists>m. lifecycle_machine ctx obs view s = Inr m \<and> pr_stage (ma_projection m) \<noteq> AMBIGUOUS_HISTORY
    \<and> distinct (pr_lineage (ma_projection m))"
proof -
  obtain es where es: "ledger_records env s None = Inr es" "reachable es"
    using service_history_reachable [OF assms(1)] by blast
  note inp = machine_inputs_Inr [OF assms(2,3), unfolded assms(4,5)]
  with es have "mi_history inp = es" by simp
  with es(2) have r: "reachable (mi_history inp)" by simp
  then obtain m where m: "make_machine inp = Inr m"
    using assms(6) unfolding inp(3) [symmetric] by (rule machine_exists [OF _ inp(2)])
  with reachable_projection [OF r inp(2) m] assms(2) show ?thesis by (simp add: lifecycle_machine_def)
qed

section \<open>Refreshing without files\<close>

lemma refresh_without_files:
  assumes "refresh ctx cfg obs at hypothesis generator generator_config None s = (outcome, t)"
  shows "t = s" "outcome = Inr x \<Longrightarrow> \<not> rd_refreshed x"
  using assms by (auto simp: refresh_def listed_files_def Let_def split: sum.splits if_splits prod.splits)

section \<open>Two dispositions authorized over one history\<close>

lemma candidate_kept:
  assumes shown: "shows_history p rs" "pr_candidate p = Some c"
    and m: "mi_native (ma_input m') = None" "project (ma_input m') = Inr (ma_projection m')"
      "history_records (ma_input m') = rs @ [r, r']" "fr_type r \<notin> {EPOCH, CANDIDATE}" "fr_type r' \<notin> {EPOCH, CANDIDATE}"
  shows "pr_candidate (ma_projection m') = Some c"
proof -
  from shown obtain before e after where split: "current_epoch_split rs before e after"
    and c: "last_of (of_type CANDIDATE after) = Some c" by (auto simp: shows_history_def)
  from split_append_other [OF split_append_other [OF split m(4)] m(5)]
  have split': "current_epoch_split (history_records (ma_input m')) before e (after @ [r, r'])"
    using m(3) by simp
  obtain view where view: "candidate_projection (ma_input m') (pr_active_epoch (ma_projection m')) = Inr view"
    "pr_active_epoch (ma_projection m') = last_of (records_of (ma_input m') EPOCH)"
    "pr_candidate (ma_projection m') = cv_current view"
    by (rule compat_projection_parts [OF m(1,2)])
  have "pr_active_epoch (ma_projection m') = Some e"
    using view(2) split_active_epoch(1) [OF split'] by (simp add: records_of_def)
  with split_candidate_projection [OF split'] view(1,3)
  have "pr_candidate (ma_projection m') = last_of (of_type CANDIDATE (after @ [r, r']))" by auto
  with c m(4,5) show ?thesis by (simp add: of_type_def)
qed

lemma repeated_disposition_ambiguous:
  assumes m: "machine_over m rs" and rs: "coherent_history rs"
    and auth: "authorize_candidate_disposition m cid d = Inr ce"
    and r: "fr_type r = CANDIDATE_DISPOSITION" "rec_value r ''candidate_identity'' = FStr cid"
      "fr_type r' = CANDIDATE_DISPOSITION" "rec_value r' ''candidate_identity'' = FStr cid"
    and m': "machine_over m' (rs @ [r, r'])"
  shows "pr_stage (ma_projection m') = AMBIGUOUS_HISTORY"
proof -
  obtain candidate evidence where ce: "ce = (candidate, evidence)" by (cases ce)
  note facts = candidate_disposition_Inr [OF auth [unfolded ce]]
  have n: "mi_native (ma_input m') = None" and p: "project (ma_input m') = Inr (ma_projection m')"
    and rs': "history_records (ma_input m') = rs @ [r, r']" using m' by (simp_all add: machine_over_def)
  have "pr_candidate (ma_projection m') = Some candidate"
    by (rule candidate_kept [OF machine_over_shows [OF m rs] facts(1) n p rs']) (simp_all add: r)
  then have cid: "candidate_id_of (pr_candidate (ma_projection m')) = Some cid"
    using names_candidate_str [OF facts(2)] by (simp add: candidate_id_of_def)
  obtain view where "candidate_projection (ma_input m') (pr_active_epoch (ma_projection m')) = Inr view"
    and limits: "pr_limitations (ma_projection m') = projection_limitations
       (if epoch_chain None [] (records_of (ma_input m') EPOCH) then [] else [blocker ''EPOCH_LINEAGE_CONFLICT'' []])
       (cv_limitations view) (pr_evidence (ma_projection m'))
       (for_candidate (ma_input m') CANDIDATE_DISPOSITION (candidate_id_of (pr_candidate (ma_projection m'))))
       (for_candidate (ma_input m') FREEZE (candidate_id_of (pr_candidate (ma_projection m'))))"
    by (rule compat_projection_parts [OF n p])
  have "1 < length (for_candidate (ma_input m') CANDIDATE_DISPOSITION (Some cid))"
    using r by (simp add: for_candidate_def records_of_def rs' of_type_def)
  then have "blocker ''CANDIDATE_DISPOSITION_CONFLICT'' [] \<in> set (pr_limitations (ma_projection m'))"
    unfolding limits cid by (simp add: projection_limitations_def)
  then have "ambiguous_limitations (pr_limitations (ma_projection m'))"
    unfolding ambiguous_limitations_def list_ex_iff
    by (intro bexI [of _ "blocker ''CANDIDATE_DISPOSITION_CONFLICT'' []"]) (simp_all add: AMBIGUITY_CODES_def)
  with ambiguous_stage_iff [OF n p] show ?thesis by simp
qed

end
