(* ===== verification/RecordGuarantees.thy ===== *)
theory RecordGuarantees
  imports StoredRecords
begin

text \<open>
  What a record read from untrusted JSON is known to be: of the type its trusted context asks for,
  with the fields of that type, claiming no authority it may not claim, and named by its content.
\<close>

section \<open>Types of fields\<close>

text \<open>The members of a record of a type, independently of the order in which they are checked.\<close>

definition typed_fields :: "record_type \<Rightarrow> obj \<Rightarrow> bool" where
  "typed_fields t fs \<longleftrightarrow> (\<exists>spec. record_specs t = Some spec
     \<and> set (rs_required spec) \<subseteq> set (dict_keys fs) \<and> set (dict_keys fs) \<subseteq> set (rs_allowed spec)
     \<and> (\<forall>f \<in> set (required_string_fields t). \<exists>s. dict_get fs f = Some (JStr s) \<and> s \<noteq> [])
     \<and> (\<forall>f \<in> set (required_object_fields t). \<exists>d. dict_get fs f = Some (JObj d))
     \<and> (\<forall>f. rs_status_field spec = Some f \<longrightarrow> (\<exists>s \<in> set STATUS_VALUES. dict_get fs f = Some (JStr s))))"

lemma validated_typed:
  assumes "validate_fields cr t fs = Inr u"
  shows "typed_fields t fs"
proof -
  from assms obtain spec where spec: "record_specs t = Some spec"
    "set (rs_required spec) \<subseteq> set (dict_keys fs)" "set (dict_keys fs) \<subseteq> set (rs_allowed spec)"
    by (rule validate_fields_keys)
  moreover have "\<exists>s. dict_get fs f = Some (JStr s) \<and> s \<noteq> []" if "f \<in> set (required_string_fields t)" for f
    using validate_fields_text [OF assms that] by metis
  moreover have "\<exists>d. dict_get fs f = Some (JObj d)" if "f \<in> set (required_object_fields t)" for f
    using validate_fields_object [OF assms that] by metis
  moreover have "\<exists>s \<in> set STATUS_VALUES. dict_get fs f = Some (JStr s)" if "rs_status_field spec = Some f" for f
    using validate_fields_status [OF assms spec(1) that] by metis
  ultimately show ?thesis unfolding typed_fields_def by blast
qed

section \<open>Claims of authority\<close>

definition no_assurance :: "obj \<Rightarrow> bool" where
  "no_assurance fs \<longleftrightarrow> obj_get fs ''assurance_status'' = JNull \<and> obj_get fs ''conformance_status'' = JNull"

lemma claims_assurance_iff: "claims_assurance fs \<longleftrightarrow> \<not> no_assurance fs"
  by (auto simp: claims_assurance_def no_assurance_def)

lemma receipt_never_passes:
  "validate_fields cr EXECUTION_RECEIPT_BINDING fs = Inr u \<Longrightarrow> obj_get fs ''status'' \<noteq> JStr ''PASS''"
  by (auto simp: validate_fields_def Let_def res_simps validate_execution_receipt_binding_def)

lemma verifier_result_not_independent:
  "validate_fields cr VERIFIER_RESULT fs = Inr u \<Longrightarrow> obj_get fs ''independent_evaluation'' = JBool False"
  by (auto simp: validate_fields_def Let_def res_simps)

lemma observations_claim_nothing:
  "validate_fields cr COMPILER_EXPERIMENT fs = Inr u \<Longrightarrow> no_assurance fs"
  "validate_fields cr COMPILER_CANDIDATE fs = Inr u \<Longrightarrow> no_assurance fs"
  "validate_fields cr CONCEPT_EVALUATION fs = Inr u \<Longrightarrow> no_assurance fs"
  by (auto simp: validate_fields_def Let_def res_simps validate_compiler_experiment_def
      validate_compiler_candidate_def validate_concept_evaluation_def claims_assurance_iff split: json.splits)

lemma text_list_Nil: "texts_or ne e v = Inr [] \<Longrightarrow> v = JArr []"
  by (auto simp: texts_or_def text_list_Some res_simps split: option.splits json.splits if_splits)

lemma assurance_pass_unreserved:
  assumes "validate_fields cr EXECUTION_ASSURANCE fs = Inr u" "obj_get fs ''assurance_status'' = JStr ''PASS''"
  shows "obj_get fs ''unmet_properties'' = JArr []" "obj_get fs ''reasons'' = JArr []"
proof -
  have "validate_execution_assurance fs = Inr ()"
    using assms(1) by (auto simp: validate_fields_def Let_def res_simps)
  then obtain unmet reasons where "texts_or False malformed (obj_get fs ''unmet_properties'') = Inr unmet"
    "texts_or True malformed (obj_get fs ''reasons'') = Inr reasons" "unmet = []" "reasons = []"
    using assms(2) by (auto simp: validate_execution_assurance_def Let_def res_simps)
  then show "obj_get fs ''unmet_properties'' = JArr []" "obj_get fs ''reasons'' = JArr []"
    by (auto dest: text_list_Nil)
qed

section \<open>The trusted context\<close>

lemma parse_record_context:
  assumes "parse_record cr (py_of_json (JObj raw)) t = Inr r"
  shows "fr_type r = t"
    "obj_get raw ''record_type'' = JNull \<and> obj_get raw ''schema_version'' = JNull
     \<or> obj_get raw ''record_type'' = JStr (rt_value t)
       \<and> obj_get raw ''schema_version'' \<in> {JStr LEGACY_SCHEMA_VERSION, JStr CURRENT_SCHEMA_VERSION}"
proof -
  show "fr_type r = t" by (rule parse_record_valid [OF assms])
  have "json_object (py_of_json (JObj raw)) record_label = Inr data \<Longrightarrow> data = raw" for data
    by (rule json_object_identity)
  with assms show "obj_get raw ''record_type'' = JNull \<and> obj_get raw ''schema_version'' = JNull
     \<or> obj_get raw ''record_type'' = JStr (rt_value t)
       \<and> obj_get raw ''schema_version'' \<in> {JStr LEGACY_SCHEMA_VERSION, JStr CURRENT_SCHEMA_VERSION}"
    by (auto simp: parse_record_def Let_def and_then_Inr_iff simp del: py_of_json.simps split: if_splits)
qed

section \<open>Identities name contents\<close>

text \<open>What an identity of a record covers.\<close>

definition named_content :: "record_type \<Rightarrow> obj \<Rightarrow> obj" where
  "named_content t fs =
     (case record_specs t of
        None \<Rightarrow> []
      | Some spec \<Rightarrow>
          (case rs_identity_field spec of
             None \<Rightarrow> []
           | Some f \<Rightarrow> current_projection t (dict_without (identity_excluded spec f) fs)))"

lemma derived_identity:
  assumes "derive_record_identity cr t (py_fields fs) = Inr e" "bounded_fields fs"
  obtains prefix where "e = prefix @ cr_sha cr (canonical_bytes (JObj (named_content t fs)))"
    "\<forall>gs e'. bounded_fields gs \<longrightarrow> derive_record_identity cr t (py_fields gs) = Inr e' \<longrightarrow>
       e' = prefix @ cr_sha cr (canonical_bytes (JObj (named_content t gs)))"
proof -
  from assms(1) obtain spec prefix f where spec: "record_specs t = Some spec"
    "rs_identity_prefix spec = Some prefix" "rs_identity_field spec = Some f"
    by (auto simp: derive_record_identity_def identity_projection_def spec_of_Inr and_then_Inr_iff split: option.splits)
  have colon: "after_first_colon (local_json_identity sha v) = sha (canonical_bytes v)" for sha v
    by (simp add: after_first_colon_def local_json_identity_def)
  have "e' = prefix @ cr_sha cr (canonical_bytes (JObj (named_content t gs)))"
    if "bounded_fields gs" "derive_record_identity cr t (py_fields gs) = Inr e'" for gs e'
    using that derive_record_identity_normal [OF that(1) spec(1,3,2), of cr]
    by (simp add: named_content_def spec colon)
  with assms show thesis by (intro that [of prefix]) auto
qed

lemma same_identity_same_content:
  assumes "derive_record_identity cr t (py_fields fs) = Inr e" "derive_record_identity cr t (py_fields gs) = Inr e"
    "bounded_fields fs" "bounded_fields gs"
    "writable fr (JObj (named_content t fs))" "writable fr (JObj (named_content t gs))"
    "inj_on (cr_sha cr) {canonical_bytes (JObj (named_content t fs)), canonical_bytes (JObj (named_content t gs))}"
  shows "sorted_obj (named_content t fs) = sorted_obj (named_content t gs)"
proof -
  obtain prefix where "e = prefix @ cr_sha cr (canonical_bytes (JObj (named_content t fs)))"
    "e = prefix @ cr_sha cr (canonical_bytes (JObj (named_content t gs)))"
    using derived_identity [OF assms(1,3)] assms(2,4) by metis
  then have "cr_sha cr (canonical_bytes (JObj (named_content t fs))) = cr_sha cr (canonical_bytes (JObj (named_content t gs)))"
    by simp
  then have "canonical_bytes (JObj (named_content t fs)) = canonical_bytes (JObj (named_content t gs))"
    by (rule inj_onD [OF assms(7)]) simp_all
  from ledger_reader.canonical_bytes_inject [OF assms(5,6) this] show ?thesis
    by (simp add: sorted_json_obj del: sorted_json.simps)
qed

lemma same_content_same_identity:
  assumes "bounded_fields fs" "bounded_fields gs" "named_content t fs = named_content t gs"
  shows "derive_record_identity cr t (py_fields fs) = derive_record_identity cr t (py_fields gs)"
proof (cases "record_specs t")
  case (Some spec)
  with assms show ?thesis
    by (cases "rs_identity_field spec"; cases "rs_identity_prefix spec")
      (simp_all add: derive_record_identity_def identity_projection_def spec_of_def named_content_def
        project_fields_normal current_projection_def)
qed (simp add: derive_record_identity_def spec_of_def)

end
