(* ===== verification/Examples.thy ===== *)
theory Examples
  imports Reachability
begin

text \<open>
  A small concrete history (one epoch, candidates, a passing check, its selection and freeze) on
  which the properties of the lifecycle are instantiated. Only the fields the lifecycle reads are
  given.
\<close>

definition ex_record :: "record_type \<Rightarrow> fobj \<Rightarrow> forge_record" where
  "ex_record t fs =
     \<lparr>fr_type = t, fr_schema = CURRENT_SCHEMA_VERSION, fr_fields = fs, fr_source = CURRENT_SCHEMA_VERSION\<rparr>"

definition ex_entry :: "forge_record \<Rightarrow> ledger_entry" where
  "ex_entry r =
     \<lparr>le_sequence = 1, le_timestamp = ''t'', le_kind = rt_value (fr_type r), le_previous_hash = ''p'',
      le_payload = r, le_entry_hash = ''h'', le_schema = CURRENT_SCHEMA_VERSION,
      le_source = CURRENT_SCHEMA_VERSION\<rparr>"

definition ex_epoch :: forge_record where
  "ex_epoch = ex_record EPOCH
     [(''epoch_id'', FStr ''epoch:1''), (''parent_epoch'', FNull),
      (''authority_identities'', FMap [(''contracts'', FStr ''a1'')])]"

definition ex_candidate :: "string \<Rightarrow> string option \<Rightarrow> forge_record" where
  "ex_candidate cid parent = ex_record CANDIDATE
     [(''candidate_id'', FStr cid), (''parent_candidate'', opt_text parent),
      (''source_epoch'', FStr ''epoch:1''), (''changed_files'', FTuple [FStr ''a.py''])]"

definition ex_result :: "string \<Rightarrow> string \<Rightarrow> string \<Rightarrow> forge_record" where
  "ex_result cid workflow status = ex_record WORKFLOW_RESULT
     [(''candidate_identity'', FStr cid), (''subject_type'', FStr ''candidate''),
      (''workflow'', FStr workflow), (''status'', FStr status), (''environment'', FMap [])]"

definition ex_disposition :: "string \<Rightarrow> string \<Rightarrow> forge_record" where
  "ex_disposition cid d = ex_record CANDIDATE_DISPOSITION
     [(''candidate_identity'', FStr cid), (''disposition'', FStr d), (''evidence_status'', FStr ''PASS''),
      (''selection_policy_identity'', FStr ''policy''), (''disposition_id'', FStr ''d1'')]"

definition ex_freeze :: "string \<Rightarrow> forge_record" where
  "ex_freeze cid = ex_record FREEZE
     [(''candidate_identity'', FStr cid), (''selection_record'', FStr ''d1''),
      (''contract_identity'', FStr ''c1''), (''freeze_id'', FStr ''f1'')]"

definition ex_input :: "string \<Rightarrow> forge_record list \<Rightarrow> string \<Rightarrow> machine_input" where
  "ex_input mode rs current =
     \<lparr>mi_sha = (\<lambda>s. replicate 64 (CHR ''0'')), mi_mode = mode, mi_history = map ex_entry rs,
      mi_current_candidate = current, mi_current_authority = [(''contracts'', ''a1'')],
      mi_freeze_bindings = [(''contract_identity'', ''c1'')], mi_policy_identity = ''policy'',
      mi_required = [''tests''], mi_policy_error = None, mi_freshness = [], mi_comparability = [],
      mi_environment_keys = [], mi_environment_identities = [], mi_policy_identities = [],
      mi_native = None\<rparr>"

definition ok_value :: "'a res \<Rightarrow> 'a" where
  "ok_value m = (case m of Inr x \<Rightarrow> x)"

definition ex_machine :: "string \<Rightarrow> forge_record list \<Rightarrow> string \<Rightarrow> machine" where
  "ex_machine mode rs current = ok_value (make_machine (ex_input mode rs current))"

definition ex_ready_history :: "forge_record list" where
  "ex_ready_history = [ex_epoch, ex_candidate ''A'' None, ex_result ''A'' ''tests'' ''PASS'']"

definition ex_frozen_history :: "forge_record list" where
  "ex_frozen_history = ex_ready_history @ [ex_disposition ''A'' ''selected'', ex_freeze ''A'']"

definition ex_lineage_history :: "forge_record list" where
  "ex_lineage_history = [ex_epoch, ex_candidate ''A'' None, ex_candidate ''B'' (Some ''A'')]"

text \<open>The content of \<open>A\<close> registered again after \<open>B\<close>.\<close>

definition ex_reverted_history :: "forge_record list" where
  "ex_reverted_history = ex_lineage_history @ [ex_candidate ''A'' (Some ''B'')]"

section \<open>Evaluated facts\<close>

lemma ex_no_native: "mi_native (ex_input mode rs current) = None"
  by (simp add: ex_input_def)

lemma ok_value_Inr: "is_ok m \<Longrightarrow> m = Inr (ok_value m)"
  by (cases m) (simp_all add: ok_value_def)

lemma ex_machine_ok: "is_ok (make_machine (ex_input mode rs current)) \<Longrightarrow>
    make_machine (ex_input mode rs current) = Inr (ex_machine mode rs current)"
  unfolding ex_machine_def by (rule ok_value_Inr)

lemma ex_ready_machine:
  "make_machine (ex_input ''development'' ex_ready_history ''A'')
   = Inr (ex_machine ''development'' ex_ready_history ''A'')"
  by (rule ex_machine_ok) code_simp

lemma ex_lineage_machine:
  "make_machine (ex_input ''evaluator'' ex_lineage_history ''A'')
   = Inr (ex_machine ''evaluator'' ex_lineage_history ''A'')"
  by (rule ex_machine_ok) code_simp

lemma ex_ready_required: "mi_required (ma_input (ex_machine ''development'' ex_ready_history ''A'')) = [''tests'']"
  by code_simp

lemma ex_ready_selected:
  "authorize_candidate_disposition (ex_machine ''development'' ex_ready_history ''A'') ''A'' ''selected''
   = Inr (ex_candidate ''A'' None, pr_evidence (ma_projection (ex_machine ''development'' ex_ready_history ''A'')))"
  by code_simp

section \<open>A reachable history\<close>

definition ex_dev :: "forge_record list \<Rightarrow> string \<Rightarrow> machine" where
  "ex_dev rs current = ex_machine ''development'' rs current"

lemma ex_step:
  assumes "reachable (map ex_entry rs)" "is_ok (make_machine (ex_input ''development'' rs current))"
    "authorized_record (ex_dev rs current) r"
  shows "reachable (map ex_entry (rs @ [r]))"
proof -
  have "reachable (map ex_entry rs @ [ex_entry r])"
  proof (rule reachable.extend [OF assms(1)])
    show "make_machine (ex_input ''development'' rs current) = Inr (ex_dev rs current)"
      using ex_machine_ok [OF assms(2)] by (simp add: ex_dev_def)
    show "authorized_record (ex_dev rs current) (le_payload (ex_entry r))"
      using assms(3) by (simp add: ex_entry_def)
  qed (simp_all add: ex_input_def)
  then show ?thesis by simp
qed

lemma ex_epoch_authorized: "authorized_record (ex_dev [] ''A'') ex_epoch"
proof (rule authorized_record.begin_epoch)
  show "authorize_epoch_begin (ex_dev [] ''A'') None = Inr ()" by code_simp
  show "rec_value ex_epoch ''epoch_id'' = FStr ''epoch:1''" by code_simp
qed code_simp+

lemma ex_first_authorized: "authorized_record (ex_dev [ex_epoch] ''A'') (ex_candidate ''A'' None)"
proof (rule authorized_record.register)
  show "authorize_candidate_register (ex_dev [ex_epoch] ''A'') None ''A'' None = Inr ex_epoch" by code_simp
qed code_simp+

lemma ex_second_authorized:
  "authorized_record (ex_dev [ex_epoch, ex_candidate ''A'' None] ''B'') (ex_candidate ''B'' (Some ''A''))"
proof (rule authorized_record.register)
  show "authorize_candidate_register (ex_dev [ex_epoch, ex_candidate ''A'' None] ''B'') (Some ''A'') ''B'' None
      = Inr ex_epoch" by code_simp
qed code_simp+

lemma ex_lineage_reachable: "reachable (mi_history (ex_input mode ex_lineage_history current))"
proof -
  have "reachable (map ex_entry [])" by (simp add: reachable.empty)
  then have "reachable (map ex_entry ([] @ [ex_epoch]))"
    by (rule ex_step [OF _ _ ex_epoch_authorized]) code_simp
  then have "reachable (map ex_entry ([ex_epoch] @ [ex_candidate ''A'' None]))"
    by (intro ex_step [OF _ _ ex_first_authorized]) (simp, code_simp)
  then have "reachable (map ex_entry ([ex_epoch, ex_candidate ''A'' None] @ [ex_candidate ''B'' (Some ''A'')]))"
    by (intro ex_step [OF _ _ ex_second_authorized]) (simp, code_simp)
  then show ?thesis by (simp add: ex_input_def ex_lineage_history_def)
qed

definition ex_selected_history :: "forge_record list" where
  "ex_selected_history = ex_ready_history @ [ex_disposition ''A'' ''selected'']"

lemma ex_selected_machine:
  "make_machine (ex_input ''development'' ex_selected_history ''A'')
   = Inr (ex_machine ''development'' ex_selected_history ''A'')"
  by (rule ex_machine_ok) code_simp

lemma ex_selected_freeze:
  "authorize_candidate_freeze (ex_machine ''development'' ex_selected_history ''A'') ''A'' (Some [''tests''])
   = Inr (ex_candidate ''A'' None, ex_disposition ''A'' ''selected'')"
  by code_simp

lemma ex_frozen_machine:
  "make_machine (ex_input ''evaluator'' ex_frozen_history ''A'')
   = Inr (ex_machine ''evaluator'' ex_frozen_history ''A'')"
  by (rule ex_machine_ok) code_simp

lemma ex_frozen_entry:
  "authorize_evaluator_entry (ex_machine ''evaluator'' ex_frozen_history ''A'') (Some ''A'')
   = Inr (ex_freeze ''A'', ex_candidate ''A'' None)"
  by code_simp

section \<open>Returning to former content\<close>

lemma ex_lineage_dev_machine:
  "make_machine (ex_input ''development'' ex_lineage_history ''A'')
   = Inr (ex_machine ''development'' ex_lineage_history ''A'')"
  by (rule ex_machine_ok) code_simp

lemma ex_revert_authorized:
  "authorize_candidate_register (ex_machine ''development'' ex_lineage_history ''A'') (Some ''B'') ''A'' None
   = Inr ex_epoch"
  by code_simp

lemma ex_revert_in_lineage:
  "''A'' \<in> set (pr_lineage (ma_projection (ex_machine ''development'' ex_lineage_history ''A'')))"
  by code_simp

lemma ex_revert_entry:
  "fr_type (le_payload (ex_entry (ex_candidate ''A'' (Some ''B'')))) = CANDIDATE"
  "rec_value (le_payload (ex_entry (ex_candidate ''A'' (Some ''B'')))) ''candidate_id'' = FStr ''A''"
  "rec_value (le_payload (ex_entry (ex_candidate ''A'' (Some ''B'')))) ''parent_candidate'' = opt_text (Some ''B'')"
  "rec_value (le_payload (ex_entry (ex_candidate ''A'' (Some ''B'')))) ''source_epoch'' = rec_value ex_epoch ''epoch_id''"
  by code_simp+

lemma ex_reverted_machine:
  "make_machine (ex_input ''development'' ex_reverted_history ''A'')
   = Inr (ex_machine ''development'' ex_reverted_history ''A'')"
  by (rule ex_machine_ok) code_simp

lemma ex_reverted_extends:
  "mi_history (ex_input mode ex_reverted_history c)
   = mi_history (ex_input mode' ex_lineage_history c') @ [ex_entry (ex_candidate ''A'' (Some ''B''))]"
  by (simp add: ex_input_def ex_reverted_history_def)

lemma ex_reverted_ambiguous:
  "pr_stage (ma_projection (ex_machine ''development'' ex_reverted_history ''A'')) = AMBIGUOUS_HISTORY"
  by code_simp

section \<open>Verifier actions\<close>

definition ex_action :: forge_record where
  "ex_action = ex_record VERIFIER_ACTION
     [(''action_id'', FStr ''act''), (''candidate_identity'', FStr ''A''), (''freeze_identity'', FNull),
      (''mode'', FStr ''development'')]"

definition ex_action_result :: forge_record where
  "ex_action_result = ex_record VERIFIER_RESULT [(''action_id'', FStr ''act'')]"

definition ex_action_history :: "ledger_entry list" where
  "ex_action_history = [ex_entry ex_action]"

lemma ex_action_authorized:
  "authorize_terminal_result ex_action_history ''act'' ''A'' None ''development'' = Inr ex_action"
  by code_simp

lemma ex_action_result_facts:
  "fr_type (le_payload (ex_entry ex_action_result)) = VERIFIER_RESULT"
  "rec_value (le_payload (ex_entry ex_action_result)) ''action_id'' = FStr ''act''"
  by code_simp+

section \<open>Records\<close>

text \<open>A digest that only counts, which is enough to compute identities.\<close>

definition ex_crypto :: crypto where
  "ex_crypto = \<lparr>cr_sha = (\<lambda>s. nat_digits (length s)), cr_jcs = (\<lambda>v. Inr (canonical_bytes v))\<rparr>"

definition ex_disposition_raw :: "(pykey \<times> pyobj) list" where
  "ex_disposition_raw =
     [(KStr ''candidate_identity'', PStr ''A''), (KStr ''disposition'', PStr ''selected''),
      (KStr ''reason'', PStr ''r''), (KStr ''selection_rule'', PStr ''s''),
      (KStr ''selection_policy_identity'', PStr ''p''), (KStr ''evidence_status'', PStr ''PASS''),
      (KStr ''recorded_at'', PStr ''t'')]"

definition ex_disposition_record :: forge_record where
  "ex_disposition_record = ok_value (new_record ex_crypto CANDIDATE_DISPOSITION ex_disposition_raw)"

lemma ex_disposition_new:
  "new_record ex_crypto CANDIDATE_DISPOSITION ex_disposition_raw = Inr ex_disposition_record"
  unfolding ex_disposition_record_def by (rule ok_value_Inr) code_simp

end
