(* ===== verification/ExampleStore.thy ===== *)
theory ExampleStore
  imports StoreHistories RecordGuarantees Examples
begin

text \<open>
  A concrete store on which the properties of the ledger and the record store are instantiated: a
  digest of 64 hexadecimal digits, a disposition committed to an empty state directory, and the same
  commit cut off after its record was published.
\<close>

section \<open>The parameters\<close>

text \<open>The bytes of a text folded by exclusive or into eight, written bit by bit.\<close>

fun ex_xor :: "char \<Rightarrow> char \<Rightarrow> char" where
  "ex_xor (Char a0 a1 a2 a3 a4 a5 a6 a7) (Char b0 b1 b2 b3 b4 b5 b6 b7) =
     Char (a0 \<noteq> b0) (a1 \<noteq> b1) (a2 \<noteq> b2) (a3 \<noteq> b3) (a4 \<noteq> b4) (a5 \<noteq> b5) (a6 \<noteq> b6) (a7 \<noteq> b7)"

fun ex_fold :: "string \<Rightarrow> string \<Rightarrow> string" where
  "ex_fold [] cs = cs"
| "ex_fold (q # qs) [] = q # qs"
| "ex_fold (q # qs) (c # cs) = ex_fold (qs @ [ex_xor q c]) cs"

definition ex_bit :: "bool \<Rightarrow> char" where
  "ex_bit b = (if b then CHR ''1'' else CHR ''0'')"

fun ex_bits :: "char \<Rightarrow> string" where
  "ex_bits (Char b0 b1 b2 b3 b4 b5 b6 b7) =
     [ex_bit b0, ex_bit b1, ex_bit b2, ex_bit b3, ex_bit b4, ex_bit b5, ex_bit b6, ex_bit b7]"

definition ex_sha :: "string \<Rightarrow> string" where
  "ex_sha s = concat (map ex_bits (ex_fold ''01234567'' s))"

definition ex_env :: storage_env where
  "ex_env = \<lparr>env_crypto = \<lparr>cr_sha = ex_sha, cr_jcs = (\<lambda>v. Inr (canonical_bytes v))\<rparr>,
     env_float = (\<lambda>t. ''0.5''), env_state_dir = ''/s''\<rparr>"

lemma ex_fold_length: "q \<noteq> [] \<Longrightarrow> length (ex_fold q s) = length q"
  by (induction q s rule: ex_fold.induct) auto

lemma ex_bits_hex: "length (ex_bits c) = 8 \<and> list_all (\<lambda>c. c \<in> set ''0123456789abcdef'') (ex_bits c)"
  by (cases c) (simp add: ex_bit_def)

lemma ex_sha_hex: "hex64 (ex_sha s)"
proof -
  have "length (concat (map ex_bits cs)) = 8 * length cs \<and>
      list_all (\<lambda>c. c \<in> set ''0123456789abcdef'') (concat (map ex_bits cs))" for cs
    using ex_bits_hex by (induction cs) auto
  then show ?thesis using ex_fold_length [of "''01234567''" s] by (simp add: hex64_def ex_sha_def)
qed

lemma ex_digests: "digests_documented ex_env"
  using ex_sha_hex by (simp add: digests_documented_def ex_env_def jcs_sorts_def canonical_sorted)

lemma ex_floats: "float_faithful (env_float ex_env)"
proof -
  have "writable (\<lambda>t. ''0.5'') (JFloat ''0.5'')" by code_simp
  then show ?thesis by (simp add: float_faithful_def ex_env_def)
qed

text \<open>Code equations on the bits of a character, for evaluation.\<close>

fun ascii_char :: "char \<Rightarrow> bool" where
  "ascii_char (Char b0 b1 b2 b3 b4 b5 b6 b7) = (\<not> b7)"

fun control_char :: "char \<Rightarrow> bool" where
  "control_char (Char b0 b1 b2 b3 b4 b5 b6 b7) = (\<not> b5 \<and> \<not> b6 \<and> \<not> b7)"

lemma char_bits:
  "ascii_char c \<longleftrightarrow> byte_in 0 127 c" "control_char c \<longleftrightarrow> of_char c < (32 :: nat)"
proof -
  obtain b0 b1 b2 b3 b4 b5 b6 b7 where c: "c = Char b0 b1 b2 b3 b4 b5 b6 b7" by (cases c)
  show "ascii_char c \<longleftrightarrow> byte_in 0 127 c" "control_char c \<longleftrightarrow> of_char c < (32 :: nat)"
    by (simp_all add: c byte_in_def of_bool_def)
qed

lemma utf8_valid_code [code]:
  "utf8_valid [] = True"
  "utf8_valid (c # cs) =
     (if ascii_char c then utf8_valid cs
      else (case utf8_step (c # cs) of None \<Rightarrow> False | Some r \<Rightarrow> utf8_valid r))"
proof -
  have "utf8_step (c # cs) = Some cs" if "ascii_char c"
    using that by (simp add: char_bits utf8_step_def lead_length_def second_ok_def)
  then show "utf8_valid (c # cs) =
     (if ascii_char c then utf8_valid cs
      else (case utf8_step (c # cs) of None \<Rightarrow> False | Some r \<Rightarrow> utf8_valid r))"
    by (subst utf8_valid.simps) simp
qed (simp add: utf8_valid.simps)

lemma escape_char_code [code]:
  "escape_char c =
     (if control_char c
      then if c = CHR 0x0A then [CHR 0x5C, CHR ''n'']
           else if c = CHR 0x0D then [CHR 0x5C, CHR ''r'']
           else if c = CHR 0x09 then [CHR 0x5C, CHR ''t'']
           else if c = CHR 0x0C then [CHR 0x5C, CHR ''f'']
           else if c = CHR 0x08 then [CHR 0x5C, CHR ''b'']
           else [CHR 0x5C, CHR ''u'', CHR ''0'', CHR ''0'',
              hex_char (of_char c div 16), hex_char (of_char c mod 16)]
      else if c = CHR 0x22 then [CHR 0x5C, CHR 0x22]
      else if c = CHR 0x5C then [CHR 0x5C, CHR 0x5C]
      else [c])"
  by (auto simp: escape_char_def char_bits)

text \<open>The byte limits, compared by counting down.\<close>

fun exceeds :: "string \<Rightarrow> int \<Rightarrow> bool" where
  "exceeds [] n = (n < 0)"
| "exceeds (c # cs) n = exceeds cs (n - 1)"

lemma exceeds_iff: "exceeds cs n \<longleftrightarrow> n < int (length cs)"
  by (induction cs n rule: exceeds.induct) auto

definition read_record_json :: "(string \<Rightarrow> string) \<Rightarrow> string \<Rightarrow> json res" where
  "read_record_json fr bytes = read_json fr 4000000 bytes"

lemma caps_counted [code_unfold]:
  "IMMUTABLE_RECORD_BYTE_CAP < length cs \<longleftrightarrow> exceeds cs 4000000"
  "LEDGER_LINE_BYTE_CAP < length cs \<longleftrightarrow> exceeds cs 16000000"
  "read_json fr 4000000 bytes = read_record_json fr bytes"
  by (simp_all add: exceeds_iff IMMUTABLE_RECORD_BYTE_CAP_def LEDGER_LINE_BYTE_CAP_def read_record_json_def)

lemma read_record_json_code [code]:
  "read_record_json fr bytes =
     (if exceeds bytes 4000000 then Inl PyValueError
      else (case json_loads fr no_duplicates bytes of None \<Rightarrow> Inl PyValueError | Some v \<Rightarrow> Inr v))"
  by (simp add: read_record_json_def read_json_def exceeds_iff)

section \<open>A commit to an empty store\<close>

abbreviation ex_store :: store where
  "ex_store \<equiv> empty_store"

definition ex_new_record :: forge_record where
  "ex_new_record = ok_value (new_record (env_crypto ex_env) CANDIDATE_DISPOSITION ex_disposition_raw)"

lemma ex_record_new:
  "new_record (env_crypto ex_env) CANDIDATE_DISPOSITION ex_disposition_raw = Inr ex_new_record"
  unfolding ex_new_record_def by (rule ok_value_Inr) code_simp

lemma ex_recordable: "recordable ex_env ex_new_record"
proof -
  have "current_record (env_crypto ex_env) ex_new_record"
    using new_record_current [OF ex_record_new] by (simp add: ex_disposition_raw_def)
  moreover have "writable (env_float ex_env) (JObj (rec_to_json ex_new_record))" by code_simp
  moreover have "utf8_json (JObj (rec_to_json ex_new_record))" by code_simp
  ultimately show ?thesis by (simp add: recordable_def)
qed

abbreviation ex_checked :: "string \<times> string \<times> string" where
  "ex_checked \<equiv> ok_value (commit_checks ex_env ''dispositions'' ''disposition'' ex_new_record)"

lemma ex_fresh:
  "fresh_commit ex_env ''now'' ''tx'' ''dispositions'' ''disposition'' ex_new_record ex_checked ex_store 0 GENESIS"
proof -
  have "is_ok (commit_checks ex_env ''dispositions'' ''disposition'' ex_new_record)" by code_simp
  then have "commit_checks ex_env ''dispositions'' ''disposition'' ex_new_record = Inr ex_checked"
    by (rule ok_value_Inr)
  moreover have "is_ok (plan_commit ex_env ''now'' ''tx'' ''dispositions'' ''disposition'' ex_new_record ex_checked ex_store)"
    by code_simp
  moreover have "utf8_valid ''now''" "utf8_valid ''tx''" by code_simp+
  ultimately show ?thesis
    using ex_digests ex_recordable empty_store_verifies by (simp add: fresh_commit_def empty_store_def)
qed

lemma ex_distinct_ledgers:
  "env_sha ex_env (file_bytes (st_ledger ex_store))
    \<noteq> env_sha ex_env (commit_ledger ex_env ''now'' ''disposition'' ex_new_record ex_store 0 GENESIS)"
  by code_simp

lemma ex_admissible: "admissible ex_env ''now'' ''tx'' ''disposition'' ex_new_record ex_store"
  using ex_digests ex_recordable ex_distinct_ledgers ex_fresh
  by (simp add: admissible_def empty_store_verifies fresh_commit_def)

definition ex_committed :: store where
  "ex_committed = snd (commit ex_env ''now'' ''tx'' ''dispositions'' ''disposition'' ex_new_record ex_store)"

section \<open>The same commit cut off\<close>

definition ex_phases :: "phase list" where
  "ex_phases = fst (ok_value (plan_commit ex_env ''now'' ''tx'' ''dispositions'' ''disposition'' ex_new_record ex_checked ex_store))"

lemma ex_planned:
  "plan_commit ex_env ''now'' ''tx'' ''dispositions'' ''disposition'' ex_new_record ex_checked ex_store
    = Inr (ex_phases, snd (ok_value (plan_commit ex_env ''now'' ''tx'' ''dispositions'' ''disposition'' ex_new_record ex_checked ex_store)))"
proof -
  have "is_ok (plan_commit ex_env ''now'' ''tx'' ''dispositions'' ''disposition'' ex_new_record ex_checked ex_store)"
    using ex_fresh by (simp add: fresh_commit_def)
  then show ?thesis unfolding ex_phases_def by (metis ok_value_Inr prod.collapse)
qed

lemma run_phases_interrupted:
  "run_phases (take k ps) s = (Inr (), t) \<Longrightarrow> interrupted ps s t"
proof (induction ps arbitrary: k s)
  case (Cons p ps)
  show ?case
  proof (cases k)
    case (Suc k')
    with Cons.prems obtain steps where "p s = Inr steps" "run_phases (take k' ps) (do_steps steps s) = (Inr (), t)"
      by (auto split: sum.splits)
    then show ?thesis by (blast intro: interrupted.later Cons.IH)
  qed (use Cons.prems in \<open>auto intro: interrupted.here\<close>)
qed (auto intro: interrupted.here)

text \<open>The record is published and the ledger is not.\<close>

definition ex_cut :: store where
  "ex_cut = snd (run_phases (take 5 ex_phases) ex_store)"

lemma ex_interrupted: "interrupted ex_phases ex_store ex_cut"
proof -
  have "fst (run_phases (take 5 ex_phases) ex_store) = Inr ()" by code_simp
  then have "run_phases (take 5 ex_phases) ex_store = (Inr (), ex_cut)" by (simp add: ex_cut_def prod_eq_iff)
  then show ?thesis by (rule run_phases_interrupted)
qed

lemma ex_cut_off: "cut_off ex_env ''now'' ''tx'' ''dispositions'' ''disposition'' ex_new_record ex_store ex_cut"
proof -
  have "commit_checks ex_env ''dispositions'' ''disposition'' ex_new_record = Inr ex_checked"
    using ex_fresh by (simp add: fresh_commit_def)
  then show ?thesis unfolding cut_off_def using ex_planned ex_interrupted by (meson rtranclp.rtrancl_refl)
qed

lemma ex_history: "store_history ex_env ex_store (snd (recover_unlocked ex_env ex_cut))"
  by (rule store_history.recovered [OF store_history.begun ex_admissible ex_cut_off])

section \<open>An index that hides an entry\<close>

text \<open>The ledger after the commit, and an index that names its digest, head and length and lists nothing.\<close>

lemma ex_storable: "storable ex_env (commit_raw ex_env ''now'' ''disposition'' ex_new_record 0 GENESIS)"
proof (cases ex_checked rule: prod_cases3)
  case (fields field identity destination)
  with ex_fresh show ?thesis by (intro commit_raw_storable) simp
qed

definition ex_raws :: "obj list" where
  "ex_raws = [sorted_obj (commit_raw ex_env ''now'' ''disposition'' ex_new_record 0 GENESIS)]"

definition ex_hiding_index :: obj where
  "ex_hiding_index =
     [(''schema_version'', JInt 1), (''ledger_sha256'', JStr ''d''),
      (''ledger_head'', obj_get (hd ex_raws) ''entry_hash''), (''entry_count'', JInt 1),
      (''sequences_by_kind'', JObj [])]"

lemma ex_hiding_index_loads:
  "json_loads (env_float ex_env) keep_last (canonical_bytes (JObj ex_hiding_index)) = Some (JObj (sorted_obj ex_hiding_index))"
proof -
  have "writable (env_float ex_env) (JObj ex_hiding_index)" by code_simp
  moreover have "utf8_json (JObj ex_hiding_index)" by code_simp
  ultimately show ?thesis
    using ledger_reader.loads_canonical [of "env_float ex_env" "JObj ex_hiding_index" "[]", OF _ utf8_canonical]
    by (simp add: sorted_json_obj del: sorted_json.simps canonical_bytes.simps)
qed

lemma ex_hiding_index_binds:
  "last_hash ex_raws = Inr (obj_get (hd ex_raws) ''entry_hash'')"
  "index_binds ''d'' (obj_get (hd ex_raws) ''entry_hash'') (length ex_raws) (sorted_obj ex_hiding_index)"
  "obj_get (sorted_obj ex_hiding_index) ''sequences_by_kind'' = JObj []"
  by code_simp+

lemma ex_hidden_verified: "is_ok (verify_chain_of ex_env ex_raws)"
  by code_simp

lemma ex_hidden_kind: "filter (kind_among [''disposition'']) ex_raws = ex_raws"
  by (simp add: ex_raws_def kind_among_def) code_simp

section \<open>An assessment\<close>

definition ex_assessment_raw :: "(pykey \<times> pyobj) list" where
  "ex_assessment_raw =
     [(KStr ''project_identity'', PStr ''p''), (KStr ''candidate_identity'', PStr ''A''),
      (KStr ''binding_identity'', PStr ''b''), (KStr ''action_kind'', PStr ''workflow_action''),
      (KStr ''action_identity'', PStr ''act''), (KStr ''requested_properties'', PSeq [PStr ''runner_capability'']),
      (KStr ''unmet_properties'', PSeq []), (KStr ''reasons'', PSeq []), (KStr ''assurance_status'', PStr ''PASS''),
      (KStr ''policy_identity'', PStr ''q''), (KStr ''assessed_at'', PStr ''t'')]"

definition ex_assessment :: forge_record where
  "ex_assessment = ok_value (new_record (env_crypto ex_env) EXECUTION_ASSURANCE ex_assessment_raw)"

lemma ex_assessment_new:
  "new_record (env_crypto ex_env) EXECUTION_ASSURANCE ex_assessment_raw = Inr ex_assessment"
  unfolding ex_assessment_def by (rule ok_value_Inr) code_simp

lemma ex_assessment_parses:
  "parse_record (env_crypto ex_env) (py_of_json (JObj (rec_to_json ex_assessment))) EXECUTION_ASSURANCE = Inr ex_assessment"
  by (rule new_record_parses [OF ex_assessment_new]) (simp add: ex_assessment_raw_def)

lemma ex_assessment_passes:
  "obj_get (thaw_fields (fr_fields ex_assessment)) ''assurance_status'' = JStr ''PASS''"
  by code_simp

section \<open>Two histories of one head\<close>

text \<open>The same entry with its members in the order in which it is built.\<close>

definition ex_raws_built :: "obj list" where
  "ex_raws_built = [commit_raw ex_env ''now'' ''disposition'' ex_new_record 0 GENESIS]"

lemma ex_same_head: "verify_chain_of ex_env ex_raws_built = verify_chain_of ex_env ex_raws"
  by code_simp

lemma ex_same_content:
  "(\<lambda>e. canonical_bytes (JObj (entry_body e))) ` (set ex_raws \<union> set ex_raws_built)
    = {canonical_bytes (JObj (entry_body (hd ex_raws)))}"
proof -
  have "canonical_bytes (JObj (entry_body (hd ex_raws_built))) = canonical_bytes (JObj (entry_body (hd ex_raws)))"
    by code_simp
  then show ?thesis by (simp add: ex_raws_def ex_raws_built_def)
qed

lemma ex_head_not_genesis:
  "GENESIS \<noteq> env_sha ex_env (canonical_bytes (JObj (entry_body (hd ex_raws))))"
  by code_simp

lemma ex_raws_read: "\<forall>e \<in> set ex_raws \<union> set ex_raws_built. writable (env_float ex_env) (JObj e)"
proof -
  have "writable (env_float ex_env) (JObj (hd ex_raws))" "writable (env_float ex_env) (JObj (hd ex_raws_built))"
    by code_simp+
  then show ?thesis by (simp add: ex_raws_def ex_raws_built_def)
qed

section \<open>The index of a ledger of one entry\<close>

definition ex_filled :: store where
  "ex_filled = empty_store\<lparr>st_ledger := Some (commit_ledger ex_env ''now'' ''disposition'' ex_new_record empty_store 0 GENESIS)\<rparr>"

lemma ex_filled_snapshot:
  "snapshot ex_env (st_ledger ex_filled)
    = Inr (ex_raws, entry_hash ex_env (entry_body (commit_raw ex_env ''now'' ''disposition'' ex_new_record 0 GENESIS)))"
proof -
  have "snapshot ex_env None = Inr ([], GENESIS)"
    by (simp add: snapshot_Inr file_bytes_def verify_chain_of_def)
  moreover have "next_entry ex_env ''now'' ''disposition'' ex_new_record [] GENESIS
      = commit_raw ex_env ''now'' ''disposition'' ex_new_record 0 GENESIS"
    by (simp add: next_entry_def commit_raw_def)
  ultimately show ?thesis
    using snapshot_append [of ex_env None "[]" GENESIS "''now''" "''disposition''" ex_new_record] ex_storable
    by (simp add: ex_filled_def ex_raws_def commit_ledger_def empty_store_def file_bytes_def)
qed

definition ex_index :: obj where
  "ex_index = ok_value (index_data ex_env ex_filled ex_raws)"

lemma ex_index_data: "index_data ex_env ex_filled ex_raws = Inr ex_index"
  unfolding ex_index_def by (rule ok_value_Inr) code_simp

lemma ex_index_written: "writable (env_float ex_env) (JObj ex_index)" "utf8_json (JObj ex_index)"
  by code_simp+

lemma ex_rebuild:
  "rebuild_index ex_env ex_filled = Inr [WriteIndex (canonical_bytes (JObj ex_index) @ [CHR 0x0A])]"
proof -
  have "st_index ex_filled = None" by (simp add: ex_filled_def empty_store_def)
  then show ?thesis by (simp add: rebuild_index_def ex_filled_snapshot ensure_index_def ex_index_data Let_def)
qed

section \<open>A journal\<close>

definition ex_journal :: obj where
  "ex_journal = prepared_journal ex_env ''tx'' ''dispositions'' ''disposition'' ''i'' ''/s/records/dispositions/i.json''
     ex_new_record [] ''x'' (commit_entry ex_env ''now'' ''disposition'' ex_new_record 0 GENESIS)"

lemma ex_journal_valid: "valid_journal ''tx'' ex_journal"
proof -
  have "list_all (\<lambda>k. case obj_get ex_journal k of JStr s \<Rightarrow> utf8_valid s | _ \<Rightarrow> False) JOURNAL_TEXTS"
    "list_all (\<lambda>k. hex64 (journal_text ex_journal k)) JOURNAL_HASHES"
    "obj_get ex_journal ''expected_sequence'' = JInt 1" "dict_wf ex_journal"
    "set (dict_keys ex_journal) = set JOURNAL_KEYS"
    "obj_get ex_journal ''schema_version'' = JInt TRANSACTION_SCHEMA_VERSION"
    "obj_get ex_journal ''transaction_id'' = JStr ''tx''" "obj_get ex_journal ''state'' = JStr ''PREPARED''"
    by code_simp+
  then show ?thesis
    by (simp add: valid_journal_def list_all_iff del: set_map) (fastforce split: json.splits)
qed

end
