(* ===== verification/ExampleServices.thy ===== *)
theory ExampleServices
  imports ServiceFacts ExampleStore
begin

text \<open>
  Concrete service calls: an epoch begun in an empty state directory, on which the properties of the
  services are instantiated.
\<close>

definition ex_service_observation :: observation where
  "ex_service_observation =
     \<lparr>ob_policy = Inr (''policy:1'', [''unit''], None),
      ob_envelopes = Inr ([], [], []),
      ob_candidate = Inr ''candidate:1'',
      ob_authority = Inr [(''contracts'', ''c1'')],
      ob_freeze_bindings = (\<lambda>c f. Inr []),
      ob_content = (\<lambda>paths. Inr ''content:1''),
      ob_identities = (\<lambda>paths. Inr [(''spec.md'', ''content:2'')]),
      ob_changed_files = (\<lambda>files. Inr [(''a.py'', ''content:3'')]),
      ob_candidate_paths = Inr [''src''],
      ob_authority_paths = Inr [''contracts'']\<rparr>"

definition ex_config :: forge_config where
  "ex_config =
     \<lparr>cf_paths = (\<lambda>k. [k]), cf_declared_paths = (\<lambda>k. [k]), cf_policy = (\<lambda>k. k @ ''.md''),
      cf_resolve = Inr, cf_read_plan = (\<lambda>p. Some (JObj [(''required'', JArr [JStr ''unit''])]))\<rparr>"

definition ex_context :: lifecycle_context where
  "ex_context = \<lparr>lc_env = ex_env, lc_mode = ''development'', lc_native = None, lc_status_aggregate = None\<rparr>"

definition ex_moment :: moment where
  "ex_moment = \<lparr>mo_now = ''noon'', mo_timestamp = ''now'', mo_txid = ''tx''\<rparr>"

definition ex_epoch_built :: "forge_record res" where
  "ex_epoch_built = epoch_record ex_context ex_config ex_service_observation ex_moment ''gen'' ''eval'' None [] empty_store"

definition ex_epoch_record :: forge_record where
  "ex_epoch_record = ok_value ex_epoch_built"

lemma ex_epoch_built:
  "epoch_record ex_context ex_config ex_service_observation ex_moment ''gen'' ''eval'' None [] empty_store
    = Inr ex_epoch_record"
  unfolding ex_epoch_record_def ex_epoch_built_def [symmetric] by (rule ok_value_Inr) code_simp

lemma ex_epoch_recordable: "recordable ex_env ex_epoch_record"
proof -
  have "validate_fields (env_crypto ex_env) (fr_type ex_epoch_record) (thaw_fields (fr_fields ex_epoch_record)) = Inr ()"
    "check_current_identity (env_crypto ex_env) (fr_type ex_epoch_record) (thaw_fields (fr_fields ex_epoch_record)) = Inr ()"
    by code_simp+
  moreover have "bounded_fields (thaw_fields (fr_fields ex_epoch_record))"
    "dict_wf (thaw_fields (fr_fields ex_epoch_record))"
    "fr_schema ex_epoch_record = CURRENT_SCHEMA_VERSION" "fr_source ex_epoch_record = CURRENT_SCHEMA_VERSION"
    by code_simp+
  moreover have "writable (env_float ex_env) (JObj (rec_to_json ex_epoch_record))" by code_simp
  moreover have "utf8_json (JObj (rec_to_json ex_epoch_record))" by code_simp
  ultimately show ?thesis by (simp add: recordable_def current_record_def Let_def)
qed

definition ex_epoch_store :: store where
  "ex_epoch_store = snd (commit ex_env ''now'' ''tx'' ''epochs'' ''epoch'' ex_epoch_record empty_store)"

lemma ex_epoch_checked:
  obtains field identity destination where
    "commit_checks ex_env ''epochs'' ''epoch'' ex_epoch_record = Inr (field, identity, destination)"
    "is_ok (plan_commit ex_env ''now'' ''tx'' ''epochs'' ''epoch'' ex_epoch_record (field, identity, destination) empty_store)"
proof -
  let ?checked = "commit_checks ex_env ''epochs'' ''epoch'' ex_epoch_record"
  have "is_ok ?checked" by code_simp
  then have "?checked = Inr (ok_value ?checked)" by (rule ok_value_Inr)
  moreover have "is_ok (plan_commit ex_env ''now'' ''tx'' ''epochs'' ''epoch'' ex_epoch_record (ok_value ?checked) empty_store)"
    by code_simp
  ultimately show thesis by (metis prod_cases3 that)
qed

lemma ex_epoch_admissible: "admissible ex_env ''now'' ''tx'' ''epoch'' ex_epoch_record empty_store"
proof -
  have "env_sha ex_env (file_bytes (st_ledger empty_store))
      \<noteq> env_sha ex_env (commit_ledger ex_env ''now'' ''epoch'' ex_epoch_record empty_store 0 GENESIS)"
    by code_simp
  moreover have "utf8_valid ''now''" "utf8_valid ''tx''" by code_simp+
  ultimately show ?thesis
    using ex_digests ex_epoch_recordable by (simp add: admissible_def empty_store_verifies)
qed

lemma ex_service_history: "service_history ex_env ex_epoch_store"
  unfolding ex_epoch_store_def
proof (rule service_history.committed [where ctx = ex_context])
  show "service_history ex_env empty_store" by (rule service_history.begun)
  show "service_request ex_context empty_store ''epochs'' ''epoch'' ex_epoch_record"
    by (rule service_request.begin_epoch [OF ex_epoch_built])
qed (simp_all add: ex_context_def ex_epoch_admissible)

lemma ex_epoch_entries:
  obtains e where "ledger_records ex_env ex_epoch_store None = Inr [e]" "le_payload e = stored_form ex_epoch_record"
proof -
  obtain field identity destination where
    checks: "commit_checks ex_env ''epochs'' ''epoch'' ex_epoch_record = Inr (field, identity, destination)"
    and planned: "is_ok (plan_commit ex_env ''now'' ''tx'' ''epochs'' ''epoch'' ex_epoch_record (field, identity, destination) empty_store)"
    by (rule ex_epoch_checked)
  have fresh: "fresh_commit ex_env ''now'' ''tx'' ''epochs'' ''epoch'' ex_epoch_record (field, identity, destination) empty_store 0 GENESIS"
    using ex_epoch_admissible checks planned
    by (simp add: fresh_commit_def admissible_def empty_store_verifies) (simp add: empty_store_def)
  have "env_sha ex_env (file_bytes (st_ledger empty_store))
      \<noteq> env_sha ex_env (commit_ledger ex_env ''now'' ''epoch'' ex_epoch_record empty_store 0 GENESIS)"
    using ex_epoch_admissible by (simp add: admissible_def empty_store_verifies)
  from commit_completes [OF fresh this] obtain t where t: "ex_epoch_store = t"
    "in_stage (commit_flight ex_env ''now'' ''tx'' ''epochs'' ''epoch'' ex_epoch_record (field, identity, destination) empty_store 0 GENESIS) After t"
    unfolding ex_epoch_store_def by (metis snd_conv)
  have "ledger_records ex_env empty_store None = Inr []"
    by (simp add: ledger_records_all empty_store_def snapshot_def file_bytes_def verify_chain_of_def)
  from appended_history [OF fresh this after_flight_clean [OF t(2)] after_flight(1) [OF t(2)]]
  show thesis unfolding t(1) [symmetric] append_Nil by (rule that) (simp add: entry_of_def)
qed

text \<open>The machine of a call on that store.\<close>

lemma ex_service_inputs: "\<exists>inp. machine_inputs ex_context ex_service_observation full_view ex_epoch_store = Inr inp"
proof -
  obtain e where "ledger_records ex_env ex_epoch_store None = Inr [e]" by (rule ex_epoch_entries)
  then show ?thesis
    by (simp add: machine_inputs_def ex_context_def ex_service_observation_def full_view_def)
qed

section \<open>Two dispositions authorized over one history\<close>

definition ex_contested_history :: "forge_record list" where
  "ex_contested_history = ex_ready_history @ [ex_disposition ''A'' ''selected'', ex_disposition ''A'' ''rejected'']"

lemma ex_ready_reachable: "reachable (mi_history (ex_input mode ex_ready_history current))"
proof -
  have "reachable (map ex_entry [])" by (simp add: reachable.empty)
  then have "reachable (map ex_entry ([] @ [ex_epoch]))"
    by (rule ex_step [OF _ _ ex_epoch_authorized]) code_simp
  then have "reachable (map ex_entry ([ex_epoch] @ [ex_candidate ''A'' None]))"
    by (intro ex_step [OF _ _ ex_first_authorized]) (simp, code_simp)
  moreover have "fr_type (ex_result ''A'' ''tests'' ''PASS'') \<notin> lifecycle_types" by code_simp
  then have "authorized_record (ex_dev [ex_epoch, ex_candidate ''A'' None] ''A'') (ex_result ''A'' ''tests'' ''PASS'')"
    by (rule authorized_record.other)
  ultimately have "reachable (map ex_entry ([ex_epoch, ex_candidate ''A'' None] @ [ex_result ''A'' ''tests'' ''PASS'']))"
    by (intro ex_step) (simp, code_simp, simp)
  then show ?thesis by (simp add: ex_input_def ex_ready_history_def)
qed

lemma ex_ready_rejected:
  "authorize_candidate_disposition (ex_machine ''development'' ex_ready_history ''A'') ''A'' ''rejected''
   = Inr (ex_candidate ''A'' None, pr_evidence (ma_projection (ex_machine ''development'' ex_ready_history ''A'')))"
  by code_simp

lemma ex_contested_machine:
  "make_machine (ex_input ''development'' ex_contested_history ''A'')
   = Inr (ex_machine ''development'' ex_contested_history ''A'')"
  by (rule ex_machine_ok) code_simp

lemma ex_contested_entries:
  "mi_history (ex_input mode ex_contested_history c) = mi_history (ex_input mode' ex_ready_history c')
     @ [ex_entry (ex_disposition ''A'' ''selected''), ex_entry (ex_disposition ''A'' ''rejected'')]"
  "fr_type (le_payload (ex_entry (ex_disposition c d))) = CANDIDATE_DISPOSITION"
  "rec_value (le_payload (ex_entry (ex_disposition c d))) ''candidate_identity'' = FStr c"
  "rec_value (le_payload (ex_entry (ex_disposition c d))) ''disposition'' = FStr d"
  by (simp_all add: ex_input_def ex_contested_history_def ex_entry_def ex_disposition_def ex_record_def
      rec_value_def rec_get_def)

section \<open>Rights\<close>

definition ex_manifest :: obj where
  "ex_manifest =
     [(''schema_version'', JStr ''0.2.0''),
      (''artifact'', JObj [(''id'', JStr ''A'')]),
      (''rights'', JObj [(''rights_basis'', JStr ''owned''), (''third_party_material'', JStr ''none''),
         (''sources'', JArr [JObj [(''license_status'', JStr ''compatible'')]])]),
      (''review'', JObj [(''provenance_validation'', JStr ''passed''), (''human_acceptance'', JStr ''accepted'')])]"

definition ex_rights :: rights_config where
  "ex_rights =
     \<lparr>rg_mode = ''enforced'', rg_manifest = Some ''rights.json'', rg_resolve = Inr,
      rg_read = (\<lambda>p. Some (Some (JObj ex_manifest))), rg_schema_errors = (\<lambda>v m. []), rg_project = ''p''\<rparr>"

lemma ex_rights_enforced:
  "\<exists>result. enforce_rights_provenance_selection ex_context ex_rights ex_service_observation ''A'' empty_store = Inr result"
proof -
  have "is_ok (enforce_rights_provenance_selection ex_context ex_rights ex_service_observation ''A'' empty_store)"
    by code_simp
  then show ?thesis by (simp add: is_ok_iff)
qed

lemma ex_refresh:
  "\<exists>outcome t. refresh ex_context ex_config ex_service_observation ex_moment ''h'' ''g'' ''gc'' None empty_store = (outcome, t)"
  by (meson surj_pair)

end
