(* ===== verification/VerifierSupport.thy ===== *)
theory VerifierSupport
  imports Services
begin

text \<open>
  \<open>verifier_support.py\<close> and \<open>verifier_disclosure.py\<close>: the parameters of a batch, the redaction of
  status-only results, and the terminal UNKNOWN results of actions that could not finish. The members
  of a result are JSON values before they become a record. \<open>changed_path_identity\<close> reads the project
  and is left to the observer.
\<close>

section \<open>Declarations\<close>

record workflow =
  wf_name :: string
  wf_category :: string
  wf_mode :: string
  wf_command :: "string list"
  wf_provider_protocol :: bool
  wf_provider_id :: "string option"
  wf_environment :: "string dict"
  wf_disclosure :: string
  wf_subject :: string

record provider =
  pv_id :: string
  pv_name :: string
  pv_identity :: "string option"
  pv_version :: "string option"
  pv_command :: "string list"
  pv_transport :: string
  pv_required :: bool
  pv_capabilities :: "string list"
  pv_supported :: "string list"
  pv_unsupported :: "string list"
  pv_limitations :: "string list"
  pv_executable_identity :: "string option"
  pv_descriptor :: "string option"
  pv_environment :: "string dict"
  pv_module_roots :: "string list"
  pv_python_packages :: "string list"

text \<open>The fields of \<open>Verifier\<close>; durations are texts of finite floats, as in the JSON model.\<close>

record verifier =
  vf_id :: string
  vf_version :: string
  vf_workflow :: string
  vf_provider :: string
  vf_method :: string
  vf_claim :: string
  vf_category :: string
  vf_modes :: "string list"
  vf_languages :: "string list"
  vf_artifact_types :: "string list"
  vf_scopes :: "string list"
  vf_input_kinds :: "string list"
  vf_limitations :: "string list"
  vf_assumptions :: "string list"
  vf_timeout :: string
  vf_cost :: string
  vf_uncertainty_classes :: "string list"
  vf_tags :: "string list"
  vf_parameter_keys :: "string list"
  vf_disclosure :: string

section \<open>Parameters of a batch\<close>

definition BATCH_SHARED_KEY :: string where
  "BATCH_SHARED_KEY = ''shared''"

definition BATCH_BY_VERIFIER_KEY :: string where
  "BATCH_BY_VERIFIER_KEY = ''by_verifier''"

definition BATCH_PARAMETER_KEYS :: "string list" where
  "BATCH_PARAMETER_KEYS = [BATCH_SHARED_KEY, BATCH_BY_VERIFIER_KEY]"

text \<open>\<open>supplied.get(key, {})\<close>, which must be an object.\<close>

definition object_or_empty :: "obj \<Rightarrow> string \<Rightarrow> obj res" where
  "object_or_empty d k =
     (case dict_get d k of
        None \<Rightarrow> Inr []
      | Some (JObj members) \<Rightarrow> Inr members
      | Some _ \<Rightarrow> Inl PyValueError)"

definition own_parameters :: "string \<times> json \<Rightarrow> (string \<times> obj) res" where
  "own_parameters kv = (case kv of (k, JObj members) \<Rightarrow> Inr (k, members) | _ \<Rightarrow> Inl PyValueError)"

definition resolve_batch_parameters :: "string list \<Rightarrow> obj option \<Rightarrow> (obj \<times> obj dict) res" where
  "resolve_batch_parameters verifier_ids supplied_or_none =
     (let supplied = (case supplied_or_none of None \<Rightarrow> [] | Some d \<Rightarrow> d); keys = set (dict_keys supplied) in
      if set BATCH_PARAMETER_KEYS \<inter> keys = {} then Inr (supplied, [])
      else and_then (raise_if (\<not> keys \<subseteq> set BATCH_PARAMETER_KEYS) PyValueError) (\<lambda>_.
           and_then (object_or_empty supplied BATCH_SHARED_KEY) (\<lambda>shared.
           and_then (object_or_empty supplied BATCH_BY_VERIFIER_KEY) (\<lambda>by_verifier.
           and_then (raise_if (\<not> set (dict_keys by_verifier) \<subseteq> set verifier_ids) PyValueError) (\<lambda>_.
           and_then (traverse own_parameters by_verifier) (\<lambda>per.
           Inr (shared, per)))))))"

definition parameters_for_verifier :: "string \<Rightarrow> obj \<Rightarrow> obj dict \<Rightarrow> obj" where
  "parameters_for_verifier verifier_id shared per_verifier =
     dict_update shared (case dict_get per_verifier verifier_id of None \<Rightarrow> [] | Some own \<Rightarrow> own)"

section \<open>Redaction\<close>

definition empty_envelope :: "json \<Rightarrow> json" where
  "empty_envelope identity = JObj
     [(''paths'', JArr []), (''path_identities'', JObj []), (''additional_identities'', JObj []),
      (''complete'', JBool False), (''identity'', identity)]"

definition envelope_identity :: "obj \<Rightarrow> json" where
  "envelope_identity result =
     (case obj_get result ''dependency_envelope'' of
        JObj envelope \<Rightarrow> obj_get envelope ''identity''
      | _ \<Rightarrow> JNull)"

definition status_only_members :: "json \<Rightarrow> obj" where
  "status_only_members identity =
     [(''summary'', JStr ''status-only evaluator verifier result''),
      (''witnesses'', JArr []),
      (''assumptions'', JArr []),
      (''limitations'', JArr [JStr ''status-only evaluator disclosure withholds repair-enabling details'']),
      (''unsupported_constructs'', JArr []),
      (''dependency_envelope'', empty_envelope identity),
      (''stderr_diagnostic'', JStr ''''),
      (''returncode'', JNull),
      (''operational_error'', JNull)]"

definition redact_status_only_result :: "obj \<Rightarrow> obj" where
  "redact_status_only_result result = dict_update result (status_only_members (envelope_identity result))"

section \<open>Terminal results of actions that did not finish\<close>

text \<open>A member of a result: a value of its own, or the action's field of the same name.\<close>

definition result_member :: "forge_record \<Rightarrow> string \<times> json option \<Rightarrow> (string \<times> json) res" where
  "result_member action kv =
     (case kv of
        (k, Some v) \<Rightarrow> Inr (k, v)
      | (k, None) \<Rightarrow> and_then (rec_item action k) (\<lambda>v. Inr (k, thaw_json v)))"

definition jtexts :: "string list \<Rightarrow> json" where
  "jtexts ts = JArr (map JStr ts)"

definition evidence_class :: "bool \<Rightarrow> json" where
  "evidence_class development = JStr (if development then ''development_evidence'' else ''local_evaluator_evidence'')"

definition operational_error :: "string \<Rightarrow> string \<Rightarrow> json" where
  "operational_error code message = JObj [(''code'', JStr code), (''message'', JStr message)]"

text \<open>\<open>identities\<close> holds the identities that \<open>_material_identities\<close> always computes; a key it lacks is a
  \<open>KeyError\<close>.\<close>

definition identity_item :: "string dict \<Rightarrow> string \<Rightarrow> json res" where
  "identity_item identities k = (case dict_get identities k of None \<Rightarrow> Inl (PyKeyError k) | Some v \<Rightarrow> Inr (JStr v))"

definition terminal_unknown_result ::
  "forge_record \<Rightarrow> verifier \<Rightarrow> provider \<Rightarrow> string dict \<Rightarrow> string \<Rightarrow> string \<Rightarrow> string \<Rightarrow> string \<Rightarrow> obj res"
where
  "terminal_unknown_result action verifier provider identities code message recorded_at duration =
     and_then (identity_item identities ''verifier_identity'') (\<lambda>verifier_identity.
     and_then (identity_item identities ''provider_configuration_identity'') (\<lambda>provider_configuration.
     and_then (identity_item identities ''configuration_identity'') (\<lambda>configuration.
     and_then (identity_item identities ''policy_identity'') (\<lambda>policy.
     and_then (identity_item identities ''environment_identity'') (\<lambda>environment.
     and_then (rec_item action ''mode'') (\<lambda>mode.
     and_then (traverse (result_member action)
       [(''action_id'', None),
        (''verifier_id'', Some (JStr (vf_id verifier))),
        (''verifier_version'', Some (JStr (vf_version verifier))),
        (''verifier_identity'', Some verifier_identity),
        (''claim'', Some (JStr (vf_claim verifier))),
        (''category'', Some (JStr (vf_category verifier))),
        (''provider_id'', Some (JStr (pv_id provider))),
        (''provider_configuration_identity'', Some provider_configuration),
        (''provider_executable_identity'', Some JNull),
        (''provider_identity'', Some JNull),
        (''provider_response_identity'', Some JNull),
        (''method'', Some (JStr (vf_method verifier))),
        (''mode'', None),
        (''evidence_class'', Some (evidence_class (mode = FStr ''development''))),
        (''independent_evaluation'', Some (JBool False)),
        (''iterative_development_overlap'', Some (JBool False)),
        (''epoch_identity'', None),
        (''candidate_identity'', None),
        (''candidate_parent_identity'', None),
        (''freeze_identity'', None),
        (''supersedes_output_identity'', None),
        (''input_identities'', None),
        (''configuration_identity'', Some configuration),
        (''policy_identity'', Some policy),
        (''environment_identity'', Some environment),
        (''status'', Some (JStr ''UNKNOWN'')),
        (''summary'', Some (JStr ''verifier action ended without a normal provider result'')),
        (''witnesses'', Some (JArr [])),
        (''assumptions'', Some (jtexts (vf_assumptions verifier))),
        (''limitations'', Some (jtexts (vf_limitations verifier
           @ [''terminal operational failure '' @ code @ '': '' @ message]))),
        (''unsupported_constructs'', Some (jtexts [''interrupted-verifier-action''])),
        (''dependency_envelope'', Some (empty_envelope JNull)),
        (''duration_seconds'', Some (JFloat duration)),
        (''stderr_diagnostic'', Some (JStr '''')),
        (''returncode'', Some JNull),
        (''operational_error'', Some (operational_error code message)),
        (''disclosure'', Some (JStr (vf_disclosure verifier))),
        (''recorded_at'', Some (JStr recorded_at))]) (\<lambda>result.
     Inr (if mode = FStr ''evaluator'' \<and> vf_disclosure verifier = ''status-only''
          then redact_status_only_result result else result))))))))"

definition stranded_error :: json where
  "stranded_error = operational_error ''VERIFIER_ACTION_STRANDED''
     ''action recovered after process interruption; provider outcome is unknown''"

definition recovered_members :: "bool \<Rightarrow> string \<Rightarrow> (string \<times> json option) list" where
  "recovered_members development recorded_at =
       [(''action_id'', None),
        (''verifier_id'', None),
        (''verifier_version'', None),
        (''verifier_identity'', None),
        (''claim'', Some (JStr ''verifier execution completion'')),
        (''category'', Some (JStr ''operational_recovery'')),
        (''provider_id'', None),
        (''provider_configuration_identity'', None),
        (''provider_executable_identity'', Some JNull),
        (''provider_identity'', Some JNull),
        (''provider_response_identity'', Some JNull),
        (''method'', None),
        (''mode'', None),
        (''evidence_class'', Some (evidence_class (development))),
        (''independent_evaluation'', Some (JBool False)),
        (''iterative_development_overlap'', Some (JBool False)),
        (''epoch_identity'', None),
        (''candidate_identity'', None),
        (''candidate_parent_identity'', None),
        (''freeze_identity'', None),
        (''supersedes_output_identity'', None),
        (''input_identities'', None),
        (''configuration_identity'', None),
        (''policy_identity'', None),
        (''environment_identity'', None),
        (''status'', Some (JStr ''UNKNOWN'')),
        (''summary'', Some (JStr ''verifier action was recovered without a trustworthy provider outcome'')),
        (''witnesses'', Some (JArr [])),
        (''assumptions'', Some (JArr [])),
        (''limitations'', Some (jtexts
          [''the process ended after the verifier action became durable'',
           ''provider execution may have begun, but no trustworthy terminal output survived''])),
        (''unsupported_constructs'', Some (jtexts [''interrupted-verifier-action''])),
        (''dependency_envelope'', Some (empty_envelope JNull)),
        (''duration_seconds'', Some (JFloat ''0.0'')),
        (''stderr_diagnostic'', Some (JStr '''')),
        (''returncode'', Some JNull),
        (''operational_error'', Some stranded_error),
        (''disclosure'', Some (JStr (if development then ''full'' else ''status-only''))),
        (''recorded_at'', Some (JStr recorded_at))]"

definition recovered_terminal_unknown_result :: "forge_record \<Rightarrow> string \<Rightarrow> obj res" where
  "recovered_terminal_unknown_result action recorded_at =
     and_then (rec_item action ''mode'') (\<lambda>mode.
     and_then (traverse (result_member action) (recovered_members (mode = FStr ''development'') recorded_at)) (\<lambda>result.
     Inr (if mode = FStr ''evaluator''
          then dict_set ''operational_error'' stranded_error (redact_status_only_result result)
          else result)))"

text \<open>The members handed to \<open>new_record\<close>.\<close>

definition as_fields :: "obj \<Rightarrow> (pykey \<times> pyobj) list" where
  "as_fields d = map (\<lambda>(k, v). (KStr k, py_of_json v)) d"

definition verifier_result_record :: "crypto \<Rightarrow> obj res \<Rightarrow> forge_record res" where
  "verifier_result_record cr built = and_then built (\<lambda>d. new_record cr VERIFIER_RESULT (as_fields d))"

end
