(* ===== verification/VerifierRecovery.thy ===== *)
theory VerifierRecovery
  imports VerifierSupport ServiceHistories
begin

text \<open>
  \<open>application/recovery.py\<close>: at start-up the store is recovered, and every verifier action that a lost
  process left without a terminal result gets one, of status UNKNOWN. The lock of an action that still
  executes elsewhere is the parameter \<open>busy\<close>; the clock and the transaction's identifier are taken once
  for each action that is recovered.
\<close>

section \<open>Recovery\<close>

definition RECOVERY_KINDS :: "string list" where
  "RECOVERY_KINDS = [''verifier_action'', ''verifier_result'']"

definition action_busy :: py_error where
  "action_busy = ForgeError ''ACTION_EXECUTION_BUSY'' []"

text \<open>\<open>action_execution(action_id, timeout=0)\<close> up to the point where the lock is held.\<close>

definition enter_action :: "(string \<Rightarrow> bool) \<Rightarrow> string \<Rightarrow> unit res" where
  "enter_action busy action_id =
     and_then (safe_record_identity action_id) (\<lambda>_. raise_if (busy action_id) action_busy)"

definition recovered_result ::
  "crypto \<Rightarrow> ledger_entry list \<Rightarrow> forge_record \<Rightarrow> string \<Rightarrow> string \<Rightarrow> forge_record res"
where
  "recovered_result cr results action action_id now =
     and_then (rec_item action ''candidate_identity'') (\<lambda>candidate_id.
     and_then (rec_item action ''freeze_identity'') (\<lambda>freeze_id.
     and_then (rec_item action ''mode'') (\<lambda>mode.
     and_then (terminal_result_for_recorded_action action results action_id (py_str candidate_id)
       (if freeze_id \<noteq> FNull then Some (py_str freeze_id) else None) (py_str mode)) (\<lambda>_.
     verifier_result_record cr (recovered_terminal_unknown_result action now)))))"

definition recover_action ::
  "storage_env \<Rightarrow> (string \<Rightarrow> bool) \<Rightarrow> moment \<Rightarrow> ledger_entry list \<Rightarrow> forge_record \<Rightarrow> string \<Rightarrow> store
     \<Rightarrow> ledger_entry res \<times> store"
where
  "recover_action env busy at results action action_id s =
     (case and_then (enter_action busy action_id) (\<lambda>_.
        recovered_result (env_crypto env) results action action_id (mo_now at)) of
        Inl e \<Rightarrow> (Inl e, s)
      | Inr r \<Rightarrow>
          if fr_type r \<noteq> VERIFIER_RESULT then (Inl (ForgeError ''RECOVERY_ACTION_MALFORMED'' []), s)
          else commit env (mo_timestamp at) (mo_txid at) ''verifier-results'' ''verifier_result'' r s)"

definition error_code :: "py_error \<Rightarrow> string option" where
  "error_code e = (case e of ForgeError code ds \<Rightarrow> Some code | _ \<Rightarrow> None)"

fun recover_actions ::
  "storage_env \<Rightarrow> (string \<Rightarrow> bool) \<Rightarrow> (string \<Rightarrow> moment) \<Rightarrow> ledger_entry list \<Rightarrow> string list
     \<Rightarrow> ledger_entry list \<Rightarrow> store \<Rightarrow> unit res \<times> store"
where
  "recover_actions env busy at results terminal [] s = (Inr (), s)"
| "recover_actions env busy at results terminal (entry # entries) s =
     (let action = le_payload entry in
      if fr_type action \<noteq> VERIFIER_ACTION then (Inl (ForgeError ''RECOVERY_ACTION_MALFORMED'' []), s)
      else
        (case rec_item action ''action_id'' of
           Inl e \<Rightarrow> (Inl e, s)
         | Inr v \<Rightarrow>
             let action_id = py_str v in
             if action_id \<in> set terminal then recover_actions env busy at results terminal entries s
             else
               (case recover_action env busy (at action_id) results action action_id s of
                  (Inl e, s') \<Rightarrow>
                    if error_code e = Some ''ACTION_EXECUTION_BUSY''
                    then recover_actions env busy at results terminal entries s'
                    else (Inl e, s')
                | (Inr entered, s') \<Rightarrow>
                    recover_actions env busy at (results @ [entered]) (action_id # terminal) entries s')))"

definition of_kind :: "string \<Rightarrow> ledger_entry list \<Rightarrow> ledger_entry list" where
  "of_kind kind es = filter (\<lambda>e. le_kind e = kind) es"

definition recover_stranded_verifier_actions ::
  "storage_env \<Rightarrow> (string \<Rightarrow> bool) \<Rightarrow> (string \<Rightarrow> moment) \<Rightarrow> store \<Rightarrow> unit res \<times> store"
where
  "recover_stranded_verifier_actions env busy at s =
     (case and_then (ledger_records_for env s RECOVERY_KINDS) (\<lambda>entries.
        let results = of_kind ''verifier_result'' entries in
        and_then (traverse (\<lambda>e. rec_item (le_payload e) ''action_id'') results) (\<lambda>ids.
        Inr (of_kind ''verifier_action'' entries, results, map py_str ids))) of
        Inl e \<Rightarrow> (Inl e, s)
      | Inr (actions, results, terminal) \<Rightarrow> recover_actions env busy at results terminal actions s)"

definition recover_service ::
  "storage_env \<Rightarrow> (string \<Rightarrow> bool) \<Rightarrow> (string \<Rightarrow> moment) \<Rightarrow> bool \<Rightarrow> store \<Rightarrow> unit res \<times> store"
where
  "recover_service env busy at recover_storage s =
     (if recover_storage
      then (case recover env s of
              (Inl e, s') \<Rightarrow> (Inl e, s')
            | (Inr counts, s') \<Rightarrow> recover_stranded_verifier_actions env busy at s')
      else recover_stranded_verifier_actions env busy at s)"

section \<open>The recovered result\<close>

definition filled_member :: "obj \<Rightarrow> string \<times> json option \<Rightarrow> string \<times> json" where
  "filled_member fs kv = (fst kv, case snd kv of Some v \<Rightarrow> v | None \<Rightarrow> obj_get fs (fst kv))"

lemma result_member_filled:
  assumes "snd kv = None \<Longrightarrow> fst kv \<in> set (dict_keys (fr_fields r)) \<and> fst kv \<notin> set metadata_keys"
  shows "result_member r kv = Inr (filled_member (thaw_fields (fr_fields r)) kv)"
proof (cases "snd kv")
  case None
  with assms obtain v where "dict_get (fr_fields r) (fst kv) = Some v" "fst kv \<notin> set metadata_keys"
    by (metis dict_get_None_iff option.exhaust)
  with None show ?thesis
    by (cases kv) (simp add: result_member_def filled_member_def rec_item_def rec_get_def metadata_keys_def obj_get_def)
qed (cases kv; simp add: result_member_def filled_member_def)

lemma result_members_filled:
  assumes "\<And>k. (k, None) \<in> set kvs \<Longrightarrow> k \<in> set (dict_keys (fr_fields r)) \<and> k \<notin> set metadata_keys"
  shows "traverse (result_member r) kvs = Inr (map (filled_member (thaw_fields (fr_fields r))) kvs)"
proof -
  have "result_member r kv = Inr (filled_member (thaw_fields (fr_fields r)) kv)" if "kv \<in> set kvs" for kv
    using that assms [of "fst kv"] by (intro result_member_filled) (metis prod.collapse)
  then show ?thesis by (induction kvs) (simp_all add: and_then_Inr_iff)
qed

end
