(* ===== verification/RecoveryFacts.thy ===== *)
theory RecoveryFacts
  imports VerifierRecovery
begin

text \<open>
  What a recovered result is, and what a whole recovery does: the result of every valid action can be
  built, it is UNKNOWN and names the action, and the recovery is a fold of commits over the actions
  that are idle and have no result.
\<close>

section \<open>Updated dictionaries\<close>

lemma dict_get_update:
  "dict_wf e \<Longrightarrow> dict_get (dict_update d e) k = (if k \<in> set (dict_keys e) then dict_get e k else dict_get d k)"
proof (induction e arbitrary: d)
  case (Cons p e)
  have "dict_get (dict_update (dict_set (fst p) (snd p) d) e) k
      = (if k \<in> set (dict_keys e) then dict_get e k else dict_get (dict_set (fst p) (snd p) d) k)"
    using Cons.prems by (intro Cons.IH) simp
  moreover have "dict_update d (p # e) = dict_update (dict_set (fst p) (snd p) d) e" by (simp add: dict_update_def)
  ultimately show ?case using Cons.prems by (cases p) auto
qed (simp add: dict_update_def)

lemma dict_update_keys: "set (dict_keys (dict_update d e)) = set (dict_keys d) \<union> set (dict_keys e)"
  by (induction e arbitrary: d) (auto simp: dict_update_def simp del: set_map)

lemma dict_update_wf: "dict_wf d \<Longrightarrow> dict_wf (dict_update d e)"
  by (induction e arbitrary: d) (simp_all add: dict_update_def)

lemma dict_update_bounded: "bounded_fields d \<Longrightarrow> bounded_fields e \<Longrightarrow> bounded_fields (dict_update d e)"
proof (induction e arbitrary: d)
  case (Cons p e)
  from Cons.prems have "bounded_fields (dict_set (fst p) (snd p) d)" "bounded_fields e"
    by (auto simp: bounded_fields_def intro: bounded_fields_set [unfolded bounded_fields_def])
  from Cons.IH [OF this] show ?case by (simp add: dict_update_def)
qed (simp add: dict_update_def)

section \<open>Building a verifier result\<close>

lemma verifier_result_required:
  "list_all (\<lambda>f. f \<in> set (rs_required spec_verifier_result)) strings_verifier_result"
  "''extensions'' \<notin> set (rs_required spec_verifier_result)"
  by code_simp+

lemma validate_verifier_result:
  assumes "set (dict_keys fs) = set (rs_required spec_verifier_result)"
    "\<forall>f \<in> set strings_verifier_result. is_text (obj_get fs f)"
    "is_obj (obj_get fs ''input_identities'')" "is_obj (obj_get fs ''dependency_envelope'')"
    "obj_get fs ''mode'' \<in> {JStr ''development'', JStr ''evaluator''}"
    "obj_get fs ''status'' \<in> JStr ` set STATUS_VALUES"
    "obj_get fs ''independent_evaluation'' = JBool False"
  shows "validate_fields cr VERIFIER_RESULT fs = Inr ()"
proof -
  have "obj_get fs ''extensions'' = JNull"
  proof -
    have "''extensions'' \<notin> set (dict_keys fs)" unfolding assms(1) by (rule verifier_result_required(2))
    then have "dict_get fs ''extensions'' = None" by (simp only: dict_get_None_iff not_False_eq_True)
    then show ?thesis by (simp add: obj_get_def)
  qed
  moreover have "status_is_valid VERIFIER_RESULT fs = Inr ()"
    using assms(6) by (auto simp: status_is_valid_def spec_of_def spec_verifier_result_def require_in_def in_texts_def res_simps)
  moreover have "require_in (obj_get fs ''mode'') [''development'', ''evaluator''] e = Inr ()" for e
    using assms(5) by (auto simp: require_in_def in_texts_def res_simps)
  ultimately show ?thesis
    using assms by (simp add: validation_simps rs_allowed_def del: set_map)
qed

lemma new_verifier_result:
  assumes "bounded_fields d" "dict_wf d"
    "set (dict_keys d) = set (rs_required spec_verifier_result) - {''output_identity''}"
    "\<forall>f \<in> set strings_verifier_result - {''output_identity''}. is_text (obj_get d f)"
    "is_obj (obj_get d ''input_identities'')" "is_obj (obj_get d ''dependency_envelope'')"
    "obj_get d ''mode'' \<in> {JStr ''development'', JStr ''evaluator''}"
    "obj_get d ''status'' \<in> JStr ` set STATUS_VALUES"
    "obj_get d ''independent_evaluation'' = JBool False"
  obtains r where "new_record cr VERIFIER_RESULT (as_fields d) = Inr r" "fr_type r = VERIFIER_RESULT"
    "\<And>k. k \<in> set (dict_keys d) \<Longrightarrow> rec_value r k = freeze_json (obj_get d k)"
proof -
  let ?id = "''output_identity''"
  have spec: "record_specs VERIFIER_RESULT = Some spec_verifier_result"
    "rs_identity_field spec_verifier_result = Some ?id"
    "rs_identity_prefix spec_verifier_result = Some ''forge-json-sha256-v1:''"
    by (simp_all add: spec_verifier_result_def default_spec_def)
  have no_meta: "\<not> has_key (as_fields d) ''record_type''" "\<not> has_key (as_fields d) ''schema_version''"
  proof -
    have "''record_type'' \<notin> set (rs_required spec_verifier_result)" "''schema_version'' \<notin> set (rs_required spec_verifier_result)"
      by code_simp+
    with assms(3) show "\<not> has_key (as_fields d) ''record_type''" "\<not> has_key (as_fields d) ''schema_version''"
      by (force simp: has_key_def as_fields_def)+
  qed
  have object: "json_object (PMap (as_fields d)) record_label = Inr d"
    using json_object_embed [OF assms(1)] by (simp add: as_fields_def)
  have fresh: "?id \<notin> set (dict_keys d)" using assms(3) by (simp del: set_map)
  then have none: "obj_get d ?id = JNull" by (metis dict_get_None_iff obj_get_def option.simps(4))
  obtain v where e: "derive_record_identity cr VERIFIER_RESULT (py_fields d) = Inr v" "v \<noteq> []"
    using derive_record_identity_normal [OF assms(1) spec] by blast
  let ?v = v let ?fs = "dict_set ?id (JStr ?v) d"
  have identity: "with_identity cr VERIFIER_RESULT d = Inr ?fs"
    using e none spec by (simp add: with_identity_def spec_of_def)
  have get: "obj_get ?fs k = (if k = ?id then JStr ?v else obj_get d k)" for k by (simp add: obj_get_def)
  have valid: "validate_fields cr VERIFIER_RESULT ?fs = Inr ()"
  proof (rule validate_verifier_result)
    show "set (dict_keys ?fs) = set (rs_required spec_verifier_result)"
      using assms(3) fresh by (auto simp: spec_verifier_result_def default_spec_def simp del: set_map)
    show "\<forall>f \<in> set strings_verifier_result. is_text (obj_get ?fs f)"
      using assms(4) e(2) by (auto simp: get is_text_iff)
  qed (use assms in \<open>simp_all add: get\<close>)
  let ?r = "model VERIFIER_RESULT ?fs CURRENT_SCHEMA_VERSION"
  have "new_record cr VERIFIER_RESULT (as_fields d) = Inr ?r"
    using no_meta by (simp add: new_record_def object identity valid)
  moreover have "rec_value ?r k = freeze_json (obj_get d k)" if "k \<in> set (dict_keys d)" for k
  proof -
    have "k \<notin> set metadata_keys"
      using validated_no_metadata [OF valid] that by (auto simp del: set_map)
    moreover from that obtain v where "dict_get d k = Some v" by (metis dict_get_None_iff option.exhaust)
    moreover from that fresh have "k \<noteq> ?id" by blast
    ultimately show ?thesis by (simp add: model_get obj_get_def)
  qed
  moreover have "fr_type ?r = VERIFIER_RESULT" by (simp add: model_def)
  ultimately show thesis by (intro that)
qed

section \<open>The recovered result of a valid action\<close>

lemma recovered_members_keys:
  "map fst (recovered_members development now) = map fst (recovered_members True [])"
  "distinct (map fst (recovered_members True []))"
  "set (map fst (recovered_members True [])) = set (rs_required spec_verifier_result) - {''output_identity''}"
  "set (map fst (filter (\<lambda>kv. snd kv = None) (recovered_members development now)))
     \<subseteq> set (rs_required spec_verifier_action)"
  by (simp_all add: recovered_members_def spec_verifier_result_def spec_verifier_action_def default_spec_def) code_simp+

lemma get_filled:
  "dict_get (map (filled_member fs) kvs) k
     = map_option (\<lambda>src. case src of Some v \<Rightarrow> v | None \<Rightarrow> obj_get fs k) (map_of kvs k)"
  by (induction kvs) (auto simp: filled_member_def split_def)

lemma keys_filled: "dict_keys (map (filled_member fs) kvs) = map fst kvs"
  by (simp add: filled_member_def comp_def)

text \<open>The action's fields are within the nesting limit, as those of every record read from the ledger.\<close>

definition copyable :: "forge_record \<Rightarrow> bool" where
  "copyable action \<longleftrightarrow>
     (\<forall>k \<in> set (rs_required spec_verifier_action). json_depth (obj_get (thaw_fields (fr_fields action)) k) \<le> 63)"

lemma recovered_members_bounded:
  "list_all (\<lambda>kv. case snd kv of None \<Rightarrow> True | Some v \<Rightarrow> json_depth v \<le> 63) (recovered_members development now)"
  by (simp add: recovered_members_def jtexts_def empty_envelope_def evidence_class_def stranded_error_def operational_error_def)

lemma status_only_bounded: "json_depth identity \<le> 60 \<Longrightarrow> bounded_fields (status_only_members identity)"
  by (simp add: bounded_fields_def status_only_members_def empty_envelope_def)

lemma recovered_texts:
  assumes "now \<noteq> []"
  shows "list_all (\<lambda>f. case map_of (recovered_members development now) f of
      Some None \<Rightarrow> f \<in> set strings_verifier_action
    | Some (Some v) \<Rightarrow> is_text v
    | None \<Rightarrow> f = ''output_identity'') strings_verifier_result"
  using assms by (simp add: strings_verifier_result_def strings_verifier_action_def recovered_members_def evidence_class_def)

lemma recovered_other_members:
  "map_of (recovered_members development now) ''input_identities'' = Some None"
  "map_of (recovered_members development now) ''mode'' = Some None"
  "map_of (recovered_members development now) ''action_id'' = Some None"
  "map_of (recovered_members development now) ''candidate_identity'' = Some None"
  "map_of (recovered_members development now) ''freeze_identity'' = Some None"
  "map_of (recovered_members development now) ''dependency_envelope'' = Some (Some (empty_envelope JNull))"
  "map_of (recovered_members development now) ''status'' = Some (Some (JStr ''UNKNOWN''))"
  "map_of (recovered_members development now) ''independent_evaluation'' = Some (Some (JBool False))"
  by (simp_all add: recovered_members_def)

lemma status_only_keys:
  "map fst (status_only_members identity) = [''summary'', ''witnesses'', ''assumptions'', ''limitations'',
     ''unsupported_constructs'', ''dependency_envelope'', ''stderr_diagnostic'', ''returncode'', ''operational_error'']"
  by (simp add: status_only_members_def)

lemma redacted_get:
  "obj_get (redact_status_only_result d) k =
     (if k \<in> set (dict_keys (status_only_members JNull))
      then obj_get (status_only_members (envelope_identity d)) k else obj_get d k)"
proof -
  have "dict_wf (status_only_members (envelope_identity d))" by (simp add: status_only_keys)
  from dict_get_update [OF this] show ?thesis
    by (simp add: redact_status_only_result_def obj_get_def status_only_keys)
qed

lemma redacted_keys:
  "set (dict_keys (redact_status_only_result d)) = set (dict_keys d) \<union> set (dict_keys (status_only_members JNull))"
  by (simp only: redact_status_only_result_def dict_update_keys status_only_keys)

text \<open>The members of the recovered result, before and after the redaction in evaluator mode.\<close>

definition unredacted :: "forge_record \<Rightarrow> string \<Rightarrow> obj" where
  "unredacted action now =
     map (filled_member (thaw_fields (fr_fields action))) (recovered_members (rec_value action ''mode'' = FStr ''development'') now)"

lemma unredacted_get:
  "obj_get (unredacted action now) k =
     (case map_of (recovered_members (rec_value action ''mode'' = FStr ''development'') now) k of
        None \<Rightarrow> JNull | Some (Some v) \<Rightarrow> v | Some None \<Rightarrow> obj_get (thaw_fields (fr_fields action)) k)"
  by (simp add: unredacted_def obj_get_def [of "map f xs" for f xs] get_filled split: option.splits)

lemma recovered_result_members:
  assumes "valid_record cr action" "fr_type action = VERIFIER_ACTION"
  shows "recovered_terminal_unknown_result action now = Inr
    (if rec_value action ''mode'' = FStr ''evaluator''
     then dict_set ''operational_error'' stranded_error (redact_status_only_result (unredacted action now))
     else unredacted action now)"
proof -
  let ?fs = "thaw_fields (fr_fields action)"
  have valid: "validate_fields cr VERIFIER_ACTION ?fs = Inr ()" using assms by (simp add: valid_record_def)
  from validate_fields_keys [OF this] have keys: "set (rs_required spec_verifier_action) \<subseteq> set (dict_keys (fr_fields action))"
    by auto
  have present: "k \<in> set (dict_keys (fr_fields action)) \<and> k \<notin> set metadata_keys"
    if "(k, None) \<in> set (recovered_members development now)" for k development
  proof -
    from that have "k \<in> set (map fst (filter (\<lambda>kv. snd kv = None) (recovered_members development now)))" by force
    with recovered_members_keys(4) keys have "k \<in> set (dict_keys (fr_fields action))" by blast
    moreover from this validated_no_metadata [OF valid] have "k \<notin> set metadata_keys" by auto
    ultimately show ?thesis ..
  qed
  have "''mode'' \<in> set (dict_keys (fr_fields action))" using keys by (force simp: spec_verifier_action_def)
  then have "rec_item action ''mode'' = Inr (rec_value action ''mode'')"
    by (auto simp: rec_item_def rec_value_def rec_get_def dict_get_None_iff split: option.splits)
  moreover have "traverse (result_member action) (recovered_members development now)
      = Inr (map (filled_member ?fs) (recovered_members development now))" for development
    using present by (rule result_members_filled)
  ultimately show ?thesis by (simp add: recovered_terminal_unknown_result_def unredacted_def)
qed

lemma unredacted_shape:
  assumes "copyable action"
  shows "set (dict_keys (unredacted action now)) = set (rs_required spec_verifier_result) - {''output_identity''}"
    "dict_wf (unredacted action now)" "bounded_fields (unredacted action now)"
proof -
  let ?dev = "rec_value action ''mode'' = FStr ''development''"
  let ?kvs = "recovered_members ?dev now"
  have keys: "dict_keys (unredacted action now) = map fst ?kvs" by (simp only: unredacted_def keys_filled)
  show "set (dict_keys (unredacted action now)) = set (rs_required spec_verifier_result) - {''output_identity''}"
    "dict_wf (unredacted action now)"
    unfolding keys using recovered_members_keys(1) [of ?dev now] recovered_members_keys(2,3) by simp_all
  have "json_depth (snd (filled_member (thaw_fields (fr_fields action)) kv)) \<le> 63" if kv: "kv \<in> set ?kvs" for kv
  proof (cases "snd kv")
    case None
    with kv have "fst kv \<in> set (map fst (filter (\<lambda>kv. snd kv = None) ?kvs))" by auto
    with recovered_members_keys(4) [of ?dev now] have "fst kv \<in> set (rs_required spec_verifier_action)" by blast
    with assms None show ?thesis by (simp add: filled_member_def copyable_def)
  next
    case (Some v)
    with recovered_members_bounded [of ?dev now] kv show ?thesis by (auto simp: filled_member_def list_all_iff)
  qed
  then show "bounded_fields (unredacted action now)" by (auto simp: unredacted_def bounded_fields_def list_all_iff)
qed

lemma unredacted_values:
  assumes "valid_record cr action" "fr_type action = VERIFIER_ACTION" "now \<noteq> []"
  shows "\<forall>f \<in> set strings_verifier_result - {''output_identity''}. is_text (obj_get (unredacted action now) f)"
    "is_obj (obj_get (unredacted action now) ''input_identities'')"
    "is_obj (obj_get (unredacted action now) ''dependency_envelope'')"
    "obj_get (unredacted action now) ''mode'' \<in> {JStr ''development'', JStr ''evaluator''}"
    "obj_get (unredacted action now) ''status'' = JStr ''UNKNOWN''"
    "obj_get (unredacted action now) ''independent_evaluation'' = JBool False"
    "envelope_identity (unredacted action now) = JNull"
proof -
  let ?fs = "thaw_fields (fr_fields action)"
  have valid: "validate_fields cr VERIFIER_ACTION ?fs = Inr ()" using assms by (simp add: valid_record_def)
  have is_t: "is_text (obj_get ?fs f)" if "f \<in> set strings_verifier_action" for f
  proof -
    from that have "f \<in> set (required_string_fields VERIFIER_ACTION)" by simp
    with valid obtain s where "dict_get ?fs f = Some (JStr s)" "s \<noteq> []" by (rule validate_fields_text)
    then have "obj_get ?fs f = JStr s" by (simp only: obj_get_def option.simps)
    with \<open>s \<noteq> []\<close> show ?thesis by simp
  qed
  show "\<forall>f \<in> set strings_verifier_result - {''output_identity''}. is_text (obj_get (unredacted action now) f)"
  proof
    fix f assume f: "f \<in> set strings_verifier_result - {''output_identity''}"
    with recovered_texts [OF assms(3), of "rec_value action ''mode'' = FStr ''development''"] is_t
    show "is_text (obj_get (unredacted action now) f)"
      unfolding unredacted_get by (auto simp: list_all_iff split: option.splits)
  qed
  have "is_obj (obj_get ?fs ''input_identities'')"
  proof -
    have "''input_identities'' \<in> set (required_object_fields VERIFIER_ACTION)" by simp
    with valid obtain e where "dict_get ?fs ''input_identities'' = Some (JObj e)" by (rule validate_fields_object)
    then have "obj_get ?fs ''input_identities'' = JObj e" by (simp only: obj_get_def option.simps)
    then show ?thesis by simp
  qed
  then show "is_obj (obj_get (unredacted action now) ''input_identities'')"
    by (simp add: unredacted_get recovered_other_members)
  have "is_text (obj_get ?fs ''mode'')" by (rule is_t) (simp add: strings_verifier_action_def)
  then obtain m where "obj_get ?fs ''mode'' = JStr m" by (auto simp: is_text_iff)
  with valid have "obj_get ?fs ''mode'' \<in> {JStr ''development'', JStr ''evaluator''}"
    by (auto simp: validation_simps require_in_def in_texts_def)
  then show "obj_get (unredacted action now) ''mode'' \<in> {JStr ''development'', JStr ''evaluator''}"
    by (simp add: unredacted_get recovered_other_members)
qed (simp_all add: unredacted_get recovered_other_members empty_envelope_def envelope_identity_def obj_get_def [of "[x, y, z, u, v]" for x y z u v])

lemma recovered_record:
  assumes "valid_record cr action" "fr_type action = VERIFIER_ACTION" "copyable action" "now \<noteq> []"
  obtains r where "verifier_result_record cr (recovered_terminal_unknown_result action now) = Inr r"
    "fr_type r = VERIFIER_RESULT" "rec_value r ''status'' = FStr ''UNKNOWN''"
    "rec_value r ''action_id'' = rec_value action ''action_id''"
proof -
  let ?u = "unredacted action now"
  define d where "d = (if rec_value action ''mode'' = FStr ''evaluator''
     then dict_set ''operational_error'' stranded_error (redact_status_only_result ?u) else ?u)"
  note shape = unredacted_shape [OF assms(3), of now] and vals = unredacted_values [OF assms(1,2,4)]
  let ?hidden = "set (dict_keys (status_only_members JNull))"
  have get: "obj_get d k = obj_get ?u k" if "k \<notin> ?hidden" for k
  proof -
    from that have "k \<noteq> ''operational_error''" by (auto simp: status_only_keys)
    with that redacted_get [of ?u k] show ?thesis by (simp add: d_def obj_get_def)
  qed
  have "set (dict_keys d) = set (dict_keys ?u)"
  proof -
    have "?hidden \<subseteq> set (rs_required spec_verifier_result) - {''output_identity''}"
      unfolding status_only_keys by code_simp
    then show ?thesis unfolding d_def using shape(1)
      by (auto simp: redacted_keys status_only_keys simp del: set_map)
  qed
  with shape(1) have keys: "set (dict_keys d) = set (rs_required spec_verifier_result) - {''output_identity''}" by simp
  have wf: "dict_wf d" unfolding d_def redact_status_only_result_def using shape(2) dict_update_wf by auto
  have bounded: "bounded_fields d"
    unfolding d_def redact_status_only_result_def using shape(3)
    by (auto intro!: bounded_fields_set dict_update_bounded status_only_bounded
        simp: vals(7) stranded_error_def operational_error_def)
  have texts: "\<forall>f \<in> set strings_verifier_result - {''output_identity''}. is_text (obj_get d f)"
  proof
    fix f assume f: "f \<in> set strings_verifier_result - {''output_identity''}"
    show "is_text (obj_get d f)"
    proof (cases "f \<in> ?hidden")
      case True
      with f have "f = ''summary''" unfolding status_only_keys strings_verifier_result_def by auto
      moreover from this f vals(1) have "is_text (obj_get ?u ''summary'')" by blast
      ultimately show ?thesis
        by (simp add: d_def obj_get_def [of "dict_set k v e" for k v e] redacted_get status_only_keys
            flip: obj_get_def) (simp add: status_only_members_def obj_get_def)
    qed (use get vals(1) f in simp)
  qed
  have envelope: "is_obj (obj_get d ''dependency_envelope'')"
    using vals(3) by (simp add: d_def obj_get_def [of "dict_set k v e" for k v e] redacted_get status_only_keys
        flip: obj_get_def) (simp add: status_only_members_def obj_get_def empty_envelope_def)
  have plain: "obj_get d k = obj_get ?u k"
    if "k \<in> {''input_identities'', ''mode'', ''status'', ''independent_evaluation'', ''action_id''}" for k
    using that by (intro get) (auto simp: status_only_keys)
  obtain r where r: "new_record cr VERIFIER_RESULT (as_fields d) = Inr r" "fr_type r = VERIFIER_RESULT"
    "\<And>k. k \<in> set (dict_keys d) \<Longrightarrow> rec_value r k = freeze_json (obj_get d k)"
    by (rule new_verifier_result [OF bounded wf keys texts _ envelope, of cr])
      (use plain vals in \<open>simp_all add: STATUS_VALUES_def\<close>)
  have "''status'' \<in> set (dict_keys d)" "''action_id'' \<in> set (dict_keys d)"
    unfolding keys by (simp_all add: spec_verifier_result_def)
  then have "rec_value r ''status'' = FStr ''UNKNOWN''"
    "rec_value r ''action_id'' = freeze_json (obj_get (thaw_fields (fr_fields action)) ''action_id'')"
    using plain vals(5) by (simp_all add: r(3) unredacted_get recovered_other_members)
  moreover have "freeze_json (obj_get (thaw_fields (fr_fields action)) k) = rec_value action k"
    if "k \<notin> set metadata_keys" for k
    using that by (auto simp: obj_get_def rec_value_def rec_get_def metadata_keys_def split: option.splits)
  ultimately show thesis
    using r(1,2) recovered_result_members [OF assms(1,2), of now]
    by (intro that [of r]) (simp_all add: verifier_result_record_def d_def metadata_keys_def)
qed

end
