(* ===== verification/RecoveryRuns.thy ===== *)
theory RecoveryRuns
  imports RecoveryFacts
begin

text \<open>
  Whole recoveries: over a verified history the recovery commits one UNKNOWN result for every action
  that is idle and has no result, in the order of the history, and nothing else can stop it than the
  store refusing a commit.
\<close>

section \<open>Actions of a history\<close>

lemma parse_record_value:
  assumes "parse_record cr (py_of_json (JObj payload)) t = Inr r"
    "dict_get (thaw_fields (fr_fields r)) f = Some v" "f \<notin> set metadata_keys" "f \<notin> {''extensions'', ''subject_type''}"
  shows "dict_get payload f = Some v"
  using assms(1)
proof (cases rule: parse_record_fields)
  case (1 fs source)
  with assms(2,3) show ?thesis by (simp add: model_def split: if_splits)
next
  case (2 spec fs source)
  then have "dict_get fs f = Some v" using assms(2) by (simp add: model_def)
  moreover have f: "f \<noteq> ''extensions''" "f \<noteq> ''subject_type''" using assms(4) by simp_all
  ultimately have "dict_get (default_subject t (dict_without metadata_keys payload)) f = Some v"
    using preserve_unknowns_get [OF 2(2)] by blast
  then show ?thesis using default_subject_get [OF f(2)] assms(3) by (simp split: if_splits)
qed

lemma required_action_plain:
  "k \<in> set (rs_required spec_verifier_action) \<Longrightarrow> k \<notin> set metadata_keys \<and> k \<notin> {''extensions'', ''subject_type''}"
  by (auto simp: spec_verifier_action_def metadata_keys_def)

lemma history_copyable:
  assumes "ledger_records env s None = Inr es" "e \<in> set es"
  shows "copyable (le_payload e)"
proof -
  from assms obtain raw where "normalize_raw env raw = Inr e"
    by (auto simp: ledger_records_all dest: traverse_Inr_in)
  then obtain data source where "json_object (py_of_json (JObj raw)) ''ledger_entry'' = Inr data"
    and e: "entry_of_members (env_crypto env) source (dict_without metadata_keys data) = Inr e"
    by (auto simp: normalize_raw_def normalize_ledger_entry_def Let_def and_then_Inr_iff simp del: py_of_json.simps)
  from e obtain payload t r where "parse_record (env_crypto env) (py_of_json (JObj payload)) t = Inr r" "le_payload e = r"
    unfolding entry_of_members_def and_then_Inr_iff typed_Inr by (auto simp del: py_of_json.simps)
  then have p: "parse_record (env_crypto env) (py_of_json (JObj payload)) t = Inr (le_payload e)" by (simp only:)
  then obtain data where data: "json_object (py_of_json (JObj payload)) record_label = Inr data"
    by (auto simp: parse_record_def and_then_Inr_iff simp del: py_of_json.simps)
  then have "data = payload" by (rule json_object_identity)
  with json_object_bounded [OF data] have bounded: "bounded_fields payload" by simp
  show ?thesis
    unfolding copyable_def
  proof
    fix k assume "k \<in> set (rs_required spec_verifier_action)"
    note plain = required_action_plain [OF this]
    show "json_depth (obj_get (thaw_fields (fr_fields (le_payload e))) k) \<le> 63"
    proof (cases "dict_get (thaw_fields (fr_fields (le_payload e))) k")
      case (Some v)
      from plain have "dict_get payload k = Some v" by (intro parse_record_value [OF p Some]) blast+
      then have "(k, v) \<in> set payload" by (rule map_of_SomeD)
      with bounded have "json_depth v \<le> 63" by (auto simp: bounded_fields_def list_all_iff)
      with Some show ?thesis by (simp only: obj_get_def option.simps)
    next
      case None
      then show ?thesis by (simp only: obj_get_def option.simps) simp
    qed
  qed
qed

section \<open>What is recovered\<close>

definition action_of :: "ledger_entry \<Rightarrow> string" where
  "action_of e = rec_str (le_payload e) ''action_id''"

text \<open>The actions that are idle and have no result, each once.\<close>

fun stranded :: "(string \<Rightarrow> bool) \<Rightarrow> string list \<Rightarrow> ledger_entry list \<Rightarrow> ledger_entry list" where
  "stranded busy terminal [] = []"
| "stranded busy terminal (e # es) =
     (if action_of e \<in> set terminal \<or> busy (action_of e) then stranded busy terminal es
      else e # stranded busy (action_of e # terminal) es)"

lemma stranded_subset: "set (stranded busy terminal es) \<subseteq> set es"
  by (induction busy terminal es rule: stranded.induct) auto

lemma stranded_covers:
  "e \<in> set es \<Longrightarrow> action_of e \<in> set terminal \<or> busy (action_of e) \<or> action_of e \<in> action_of ` set (stranded busy terminal es)"
  by (induction busy terminal es rule: stranded.induct) auto

lemma stranded_fresh: "e \<in> set (stranded busy terminal es) \<Longrightarrow> action_of e \<notin> set terminal \<and> \<not> busy (action_of e)"
  by (induction busy terminal es rule: stranded.induct) (auto split: if_splits)

lemma stranded_distinct: "distinct (map action_of (stranded busy terminal es))"
proof (induction busy terminal es rule: stranded.induct)
  case (2 busy terminal e es)
  have "action_of e \<notin> action_of ` set (stranded busy (action_of e # terminal) es)"
    using stranded_fresh by fastforce
  with 2 show ?case by auto
qed simp

text \<open>The result that is committed for an action.\<close>

definition recovered_of :: "storage_env \<Rightarrow> (string \<Rightarrow> moment) \<Rightarrow> ledger_entry \<Rightarrow> forge_record res" where
  "recovered_of env at e =
     verifier_result_record (env_crypto env)
       (recovered_terminal_unknown_result (le_payload e) (mo_now (at (action_of e))))"

definition commit_recovered :: "storage_env \<Rightarrow> moment \<Rightarrow> forge_record \<Rightarrow> store \<Rightarrow> ledger_entry res \<times> store" where
  "commit_recovered env m r s = commit env (mo_timestamp m) (mo_txid m) ''verifier-results'' ''verifier_result'' r s"

text \<open>The store accepts the results one after the other: each is a fresh record on the store that the
  commits before it left, and the ledger's digest changes.\<close>

fun accepts :: "storage_env \<Rightarrow> (string \<Rightarrow> moment) \<Rightarrow> ledger_entry list \<Rightarrow> store \<Rightarrow> bool" where
  "accepts env at [] s \<longleftrightarrow> True"
| "accepts env at (e # es) s \<longleftrightarrow>
     (\<exists>r checked n h. recovered_of env at e = Inr r
        \<and> fresh_commit env (mo_timestamp (at (action_of e))) (mo_txid (at (action_of e)))
            ''verifier-results'' ''verifier_result'' r checked s n h
        \<and> env_sha env (file_bytes (st_ledger s))
            \<noteq> env_sha env (commit_ledger env (mo_timestamp (at (action_of e))) ''verifier_result'' r s n h)
        \<and> accepts env at es (snd (commit_recovered env (at (action_of e)) r s)))"

section \<open>One action\<close>

text \<open>A valid action of the history, as the recovery reads it.\<close>

definition recoverable :: "storage_env \<Rightarrow> ledger_entry \<Rightarrow> bool" where
  "recoverable env e \<longleftrightarrow>
     valid_record (env_crypto env) (le_payload e) \<and> fr_type (le_payload e) = VERIFIER_ACTION \<and> copyable (le_payload e)"

lemma history_recoverable:
  assumes "ledger_records env s None = Inr es" "e \<in> set es" "le_kind e = ''verifier_action''"
  shows "recoverable env e"
proof -
  have "dict_get LEDGER_KIND_TYPES ''verifier_action'' = Some VERIFIER_ACTION" by code_simp
  with history_entry [OF assms(1,2)] assms(3) history_copyable [OF assms(1,2)] show ?thesis
    by (simp add: recoverable_def)
qed

lemma recoverable_id:
  assumes "recoverable env e"
  shows "rec_value (le_payload e) ''action_id'' = FStr (action_of e)"
    "rec_item (le_payload e) ''action_id'' = Inr (FStr (action_of e))" "action_of e \<noteq> []"
proof -
  obtain s where s: "rec_value (le_payload e) ''action_id'' = FStr s" "rec_str (le_payload e) ''action_id'' = s" "s \<noteq> []"
    by (rule valid_record_text [of "env_crypto env" "le_payload e" "''action_id''"])
      (use assms in \<open>simp_all add: recoverable_def strings_verifier_action_def metadata_keys_def\<close>)
  then show "rec_value (le_payload e) ''action_id'' = FStr (action_of e)" "action_of e \<noteq> []"
    by (simp_all add: action_of_def)
  with s show "rec_item (le_payload e) ''action_id'' = Inr (FStr (action_of e))"
    by (auto simp: rec_item_def rec_value_def split: option.splits)
qed

text \<open>\<open>freeze_identity\<close> is a text or null in every action that the program writes, and the identity of a
  stored action has a safe form.\<close>

definition names_freeze :: "forge_record \<Rightarrow> bool" where
  "names_freeze action \<longleftrightarrow>
     is_ok (safe_record_identity (rec_str action ''action_id'')) \<and>
     (case rec_value action ''freeze_identity'' of FNull \<Rightarrow> True | FStr t \<Rightarrow> True | _ \<Rightarrow> False)"

lemma recovered_of_Inr:
  assumes "recoverable env e" "mo_now (at (action_of e)) \<noteq> []"
  obtains r where "recovered_of env at e = Inr r" "fr_type r = VERIFIER_RESULT"
    "rec_value r ''status'' = FStr ''UNKNOWN''" "rec_value r ''action_id'' = FStr (action_of e)"
proof -
  have e: "valid_record (env_crypto env) (le_payload e)" "fr_type (le_payload e) = VERIFIER_ACTION"
    "copyable (le_payload e)" using assms(1) by (simp_all add: recoverable_def)
  obtain r where r: "verifier_result_record (env_crypto env)
      (recovered_terminal_unknown_result (le_payload e) (mo_now (at (action_of e)))) = Inr r"
    "fr_type r = VERIFIER_RESULT" "rec_value r ''status'' = FStr ''UNKNOWN''"
    "rec_value r ''action_id'' = rec_value (le_payload e) ''action_id''"
    by (rule recovered_record [OF e assms(2)])
  show thesis
    by (rule that [of r]) (simp_all only: recovered_of_def r recoverable_id(1) [OF assms(1)])
qed

lemma recoverable_text:
  assumes "recoverable env e" "f \<in> set strings_verifier_action"
  shows "\<exists>t. rec_value (le_payload e) f = FStr t"
proof -
  have "f \<in> set (required_string_fields (fr_type (le_payload e)))" "valid_record (env_crypto env) (le_payload e)"
    using assms by (simp_all add: recoverable_def)
  moreover have "f \<notin> set metadata_keys"
    using assms(2) by (auto simp: strings_verifier_action_def metadata_keys_def)
  ultimately show ?thesis by (meson valid_record_text)
qed

lemma authorized_recovery:
  assumes "recoverable env e" "names_freeze (le_payload e)" "results_of_action results (action_of e) = []"
  shows "recovered_result cr results (le_payload e) (action_of e) now
    = verifier_result_record cr (recovered_terminal_unknown_result (le_payload e) now)"
proof -
  let ?a = "le_payload e"
  have valid: "valid_record (env_crypto env) ?a" "fr_type ?a = VERIFIER_ACTION" using assms(1) by (simp_all add: recoverable_def)
  obtain c m where c: "rec_value ?a ''candidate_identity'' = FStr c" and m: "rec_value ?a ''mode'' = FStr m"
    using recoverable_text [OF assms(1), of "''candidate_identity''"] recoverable_text [OF assms(1), of "''mode''"]
    by (simp add: strings_verifier_action_def) blast
  have item: "rec_item ?a k = Inr (rec_value ?a k)" if "k \<in> set (rs_required spec_verifier_action)" for k
  proof -
    have "validate_fields (env_crypto env) VERIFIER_ACTION (thaw_fields (fr_fields ?a)) = Inr ()"
      using valid by (simp add: valid_record_def)
    from validate_fields_keys [OF this] that have "k \<in> set (dict_keys (fr_fields ?a))" by auto
    then obtain v where "dict_get (fr_fields ?a) k = Some v" by (metis dict_get_None_iff option.exhaust)
    then show ?thesis using required_action_plain [OF that] by (simp add: rec_item_def rec_value_def rec_get_def)
  qed
  have "''candidate_identity'' \<in> set (rs_required spec_verifier_action)" "''mode'' \<in> set (rs_required spec_verifier_action)"
    "''freeze_identity'' \<in> set (rs_required spec_verifier_action)" by (simp_all add: spec_verifier_action_def)
  note items = this [THEN item]
  have freeze: "feq (rec_value ?a ''freeze_identity'')
      (opt_text (if rec_value ?a ''freeze_identity'' \<noteq> FNull then Some (py_str (rec_value ?a ''freeze_identity'')) else None))"
    using assms(2) by (cases "rec_value ?a ''freeze_identity''") (simp_all add: names_freeze_def opt_text_def)
  then have "action_mismatches ?a (py_str (rec_value ?a ''candidate_identity''))
      (if rec_value ?a ''freeze_identity'' \<noteq> FNull then Some (py_str (rec_value ?a ''freeze_identity'')) else None)
      (py_str (rec_value ?a ''mode'')) = []"
    using c m by (simp add: action_mismatches_def)
  then have "terminal_result_for_recorded_action ?a results (action_of e) (py_str (rec_value ?a ''candidate_identity''))
      (if rec_value ?a ''freeze_identity'' \<noteq> FNull then Some (py_str (rec_value ?a ''freeze_identity'')) else None)
      (py_str (rec_value ?a ''mode'')) = Inr ?a"
    using assms(3) recoverable_id(1) [OF assms(1)] by (simp add: terminal_result_for_recorded_action_def Let_def)
  then show ?thesis by (simp add: recovered_result_def items)
qed

lemma recover_action_commits:
  assumes "recoverable env e" "names_freeze (le_payload e)" "results_of_action results (action_of e) = []"
    "\<not> busy (action_of e)" "recovered_of env at e = Inr r" "fr_type r = VERIFIER_RESULT"
  shows "recover_action env busy (at (action_of e)) results (le_payload e) (action_of e) s
    = commit_recovered env (at (action_of e)) r s"
proof -
  have "\<exists>safe. safe_record_identity (action_of e) = Inr safe"
    using assms(2) by (auto simp: names_freeze_def action_of_def is_ok_iff)
  then have "enter_action busy (action_of e) = Inr ()" using assms(4) by (auto simp: enter_action_def)
  with authorized_recovery [OF assms(1-3)] assms(5,6) show ?thesis
    by (simp add: recover_action_def commit_recovered_def recovered_of_def)
qed

text \<open>A commit that the store accepts adds the stored form of the result to the history.\<close>

lemma accepted_commit:
  assumes "fresh_commit env (mo_timestamp m) (mo_txid m) ''verifier-results'' ''verifier_result'' r checked s n h"
    "env_sha env (file_bytes (st_ledger s)) \<noteq> env_sha env (commit_ledger env (mo_timestamp m) ''verifier_result'' r s n h)"
    "ledger_records env s None = Inr es"
  obtains t x y where "commit_recovered env m r s = (Inr x, t)" "le_payload x = r"
    "ledger_records env t None = Inr (es @ [y])" "le_payload y = stored_form r" "le_kind y = ''verifier_result''"
proof -
  obtain field identity destination where checked: "checked = (field, identity, destination)" by (cases checked)
  from commit_completes [OF assms(1,2)] obtain t where
    "commit env (mo_timestamp m) (mo_txid m) ''verifier-results'' ''verifier_result'' r s
      = (Inr (commit_entry env (mo_timestamp m) ''verifier_result'' r n h), t)"
    and t: "in_stage (commit_flight env (mo_timestamp m) (mo_txid m) ''verifier-results'' ''verifier_result'' r checked s n h) After t"
    by blast
  moreover from appended_history [OF assms(1) [unfolded checked] assms(3) after_flight_clean [OF t] after_flight(1) [OF t]]
  obtain y where "ledger_records env t None = Inr (es @ [y])" "le_payload y = stored_form r" "le_kind y = ''verifier_result''"
    by (simp add: entry_of_def)
  ultimately show thesis
    by (intro that [of "commit_entry env (mo_timestamp m) ''verifier_result'' r n h" t y])
      (simp_all add: commit_recovered_def commit_entry_def entry_of_def)
qed

section \<open>The whole recovery\<close>

definition terminates :: "ledger_entry \<Rightarrow> ledger_entry \<Rightarrow> bool" where
  "terminates action result \<longleftrightarrow>
     le_kind result = ''verifier_result'' \<and> fr_type (le_payload result) = VERIFIER_RESULT
     \<and> rec_value (le_payload result) ''action_id'' = FStr (action_of action)
     \<and> rec_value (le_payload result) ''status'' = FStr ''UNKNOWN''"

lemma recover_actions_run:
  assumes "\<forall>e \<in> set es. recoverable env e \<and> names_freeze (le_payload e) \<and> mo_now (at (action_of e)) \<noteq> []"
    "\<forall>e \<in> set es. action_of e \<notin> set terminal \<longrightarrow> results_of_action results (action_of e) = []"
    "accepts env at (stranded busy terminal es) s" "ledger_records env s None = Inr hist"
  shows "\<exists>t new. recover_actions env busy at results terminal es s = (Inr (), t)
    \<and> ledger_records env t None = Inr (hist @ new) \<and> list_all2 terminates (stranded busy terminal es) new"
  using assms
proof (induction busy terminal es arbitrary: results s hist rule: stranded.induct)
  case (1 busy terminal)
  then show ?case by simp
next
  case (2 busy terminal e es)
  have e: "recoverable env e" "names_freeze (le_payload e)" "mo_now (at (action_of e)) \<noteq> []" using 2(3) by simp_all
  have type: "fr_type (le_payload e) = VERIFIER_ACTION" using e(1) by (simp add: recoverable_def)
  note id = recoverable_id [OF e(1)]
  show ?case
  proof (cases "action_of e \<in> set terminal \<or> busy (action_of e)")
    case True
    then have skip: "recover_actions env busy at results terminal (e # es) s = recover_actions env busy at results terminal es s"
    proof (cases "action_of e \<in> set terminal")
      case False
      with True have "fst (recover_action env busy (at (action_of e)) results (le_payload e) (action_of e) s) = Inl action_busy
          \<and> snd (recover_action env busy (at (action_of e)) results (le_payload e) (action_of e) s) = s"
        using e(2) by (auto simp: recover_action_def enter_action_def names_freeze_def action_of_def is_ok_iff)
      then have "recover_action env busy (at (action_of e)) results (le_payload e) (action_of e) s = (Inl action_busy, s)"
        by (simp add: prod_eq_iff)
      with False type id(2) show ?thesis by (simp add: Let_def error_code_def action_busy_def)
    qed (simp add: Let_def type id(2))
    from True 2(3-6) have "\<exists>t new. recover_actions env busy at results terminal es s = (Inr (), t)
        \<and> ledger_records env t None = Inr (hist @ new) \<and> list_all2 terminates (stranded busy terminal es) new"
      by (intro 2(1)) simp_all
    with True skip show ?thesis by simp
  next
    case False
    obtain r where r: "recovered_of env at e = Inr r" "fr_type r = VERIFIER_RESULT"
      "rec_value r ''status'' = FStr ''UNKNOWN''" "rec_value r ''action_id'' = FStr (action_of e)"
      by (rule recovered_of_Inr [where at = at, OF e(1,3)])
    from False 2(5) r(1) obtain checked n h where
      fresh: "fresh_commit env (mo_timestamp (at (action_of e))) (mo_txid (at (action_of e)))
        ''verifier-results'' ''verifier_result'' r checked s n h"
      and sha: "env_sha env (file_bytes (st_ledger s))
        \<noteq> env_sha env (commit_ledger env (mo_timestamp (at (action_of e))) ''verifier_result'' r s n h)"
      and rest: "accepts env at (stranded busy (action_of e # terminal) es) (snd (commit_recovered env (at (action_of e)) r s))"
      by auto
    obtain t x y where t: "commit_recovered env (at (action_of e)) r s = (Inr x, t)" "le_payload x = r"
      "ledger_records env t None = Inr (hist @ [y])" "le_payload y = stored_form r" "le_kind y = ''verifier_result''"
      by (rule accepted_commit [OF fresh sha 2(6)])
    have none: "results_of_action results (action_of e) = []" using 2(4) False by simp
    have "recover_action env busy (at (action_of e)) results (le_payload e) (action_of e) s = (Inr x, t)"
      using recover_action_commits [OF e(1,2) none _ r(1,2), of busy s] False t(1) by simp
    with False type id(2) have step: "recover_actions env busy at results terminal (e # es) s
        = recover_actions env busy at (results @ [x]) (action_of e # terminal) es t"
      by (simp add: Let_def)
    have "\<forall>f \<in> set es. action_of f \<notin> set (action_of e # terminal) \<longrightarrow> results_of_action (results @ [x]) (action_of f) = []"
      using 2(4) r(4) t(2) by (auto simp: results_of_action_def)
    with False 2(3) rest t(1,3) have "\<exists>u new. recover_actions env busy at (results @ [x]) (action_of e # terminal) es t = (Inr (), u)
        \<and> ledger_records env u None = Inr ((hist @ [y]) @ new)
        \<and> list_all2 terminates (stranded busy (action_of e # terminal) es) new"
      by (intro 2(2)) simp_all
    then obtain u new where u: "recover_actions env busy at (results @ [x]) (action_of e # terminal) es t = (Inr (), u)"
      "ledger_records env u None = Inr (hist @ y # new)" "list_all2 terminates (stranded busy (action_of e # terminal) es) new"
      by auto
    have "current_record (env_crypto env) r" using fresh by (simp add: fresh_commit_def recordable_def)
    then have "terminates e y"
      using r t(4,5) by (auto simp: terminates_def metadata_keys_def intro!: stored_text)
    with False u step show ?thesis by auto
  qed
qed

section \<open>The history that is recovered\<close>

text \<open>The derived index, where there is one, lists every entry of the kinds; without an index every
  entry is read.\<close>

definition complete_view :: "storage_env \<Rightarrow> store \<Rightarrow> string list \<Rightarrow> ledger_entry list \<Rightarrow> bool" where
  "complete_view env s kinds es \<longleftrightarrow>
     ledger_records env s None = Inr es
     \<and> ledger_records_for env s kinds = Inr (filter (\<lambda>e. le_kind e \<in> set kinds) es)"

lemma traverse_filter:
  assumes "traverse f xs = Inr ys" "\<And>x y. x \<in> set xs \<Longrightarrow> f x = Inr y \<Longrightarrow> P x = Q y"
  shows "traverse f (filter P xs) = Inr (filter Q ys)"
  using assms by (induction xs arbitrary: ys) (auto simp: and_then_Inr_iff)

lemma selected_view:
  assumes "ledger_records env s None = Inr es" "snapshot env (st_ledger s) = Inr (raws, h)"
    "select_with_index env (env_sha env (file_bytes (st_ledger s))) raws kinds (st_index s) = Inr (filter (kind_among kinds) raws)"
  shows "complete_view env s kinds es"
proof -
  have recovered: "require_recovered s = Inr ()" and all: "traverse (normalize_raw env) raws = Inr es"
    using assms(1,2) by (auto simp: ledger_records_def select_entries_def and_then_Inr_iff)
  have "traverse (normalize_raw env) (filter (kind_among kinds) raws) = Inr (filter (\<lambda>e. le_kind e \<in> set kinds) es)"
    by (rule traverse_filter [OF all]) (auto simp: kind_among_def normalize_members(2))
  with recovered assms show ?thesis
    by (simp add: complete_view_def ledger_records_for_def select_entries_def)
qed

lemma unindexed_view:
  assumes "ledger_records env s None = Inr es" "st_index s = None"
  shows "complete_view env s kinds es"
proof -
  obtain raws h where raws: "snapshot env (st_ledger s) = Inr (raws, h)" "traverse (normalize_raw env) raws = Inr es"
    using assms(1) by (auto simp: ledger_records_def select_entries_def and_then_Inr_iff)
  from select_kinds_normalized [OF raws(2)] assms(2)
  show ?thesis by (intro selected_view [OF assms(1) raws(1)]) (simp add: select_with_index_def index_selection_def)
qed

lemma indexed_view:
  assumes "ledger_records env s None = Inr es" "snapshot env (st_ledger s) = Inr (raws, h)"
    "index_data env s raws = Inr expected" "st_index s = Some bytes"
    "json_loads (env_float env) keep_last bytes = Some v" "json_eq v (JObj expected)" "writable (env_float env) v"
  shows "complete_view env s kinds es"
  by (rule selected_view [OF assms(1,2)], rule index_selects_exactly [OF assms(2-7)])

section \<open>Recovery of a service\<close>

definition stranded_actions :: "(string \<Rightarrow> bool) \<Rightarrow> ledger_entry list \<Rightarrow> ledger_entry list" where
  "stranded_actions busy es =
     stranded busy (map action_of (of_kind ''verifier_result'' es)) (of_kind ''verifier_action'' es)"

definition well_named :: "(string \<Rightarrow> moment) \<Rightarrow> ledger_entry list \<Rightarrow> bool" where
  "well_named at es \<longleftrightarrow>
     (\<forall>e \<in> set (of_kind ''verifier_action'' es). names_freeze (le_payload e) \<and> mo_now (at (action_of e)) \<noteq> [])"

lemma history_result_id:
  assumes "ledger_records env s None = Inr es" "e \<in> set es" "le_kind e = ''verifier_result''"
  shows "rec_item (le_payload e) ''action_id'' = Inr (FStr (action_of e))"
proof -
  have "dict_get LEDGER_KIND_TYPES ''verifier_result'' = Some VERIFIER_RESULT" by code_simp
  with history_entry [OF assms(1,2)] assms(3)
  have e: "valid_record (env_crypto env) (le_payload e)" "fr_type (le_payload e) = VERIFIER_RESULT" by simp_all
  obtain t where t: "rec_value (le_payload e) ''action_id'' = FStr t" "rec_str (le_payload e) ''action_id'' = t" "t \<noteq> []"
    by (rule valid_record_text [of "env_crypto env" "le_payload e" "''action_id''"])
      (use e in \<open>simp_all add: strings_verifier_result_def metadata_keys_def\<close>)
  then show ?thesis
    by (auto simp: action_of_def rec_item_def rec_value_def split: option.splits)
qed

lemma of_kind_recovery:
  "k \<in> set RECOVERY_KINDS \<Longrightarrow> of_kind k (filter (\<lambda>e. le_kind e \<in> set RECOVERY_KINDS) es) = of_kind k es"
  by (auto simp: of_kind_def intro!: filter_cong)

lemma stranded_recovered:
  assumes view: "complete_view env s RECOVERY_KINDS es" and named: "well_named at es"
    and "accepts env at (stranded_actions busy es) s"
  shows "\<exists>t new. recover_stranded_verifier_actions env busy at s = (Inr (), t)
    \<and> ledger_records env t None = Inr (es @ new) \<and> list_all2 terminates (stranded_actions busy es) new"
proof -
  let ?results = "of_kind ''verifier_result'' es" and ?actions = "of_kind ''verifier_action'' es"
  let ?terminal = "map action_of ?results"
  have all: "ledger_records env s None = Inr es" using view by (simp add: complete_view_def)
  have ids: "\<forall>e \<in> set ?results. rec_item (le_payload e) ''action_id'' = Inr (FStr (action_of e))"
    using history_result_id [OF all] by (simp add: of_kind_def)
  have "traverse (\<lambda>e. rec_item (le_payload e) ''action_id'') es' = Inr (map (FStr \<circ> action_of) es')"
    if "\<forall>e \<in> set es'. rec_item (le_payload e) ''action_id'' = Inr (FStr (action_of e))" for es' :: "ledger_entry list"
    using that by (induction es') (simp_all add: and_then_Inr_iff)
  from this [OF ids] have "recover_stranded_verifier_actions env busy at s
      = recover_actions env busy at ?results ?terminal ?actions s"
    using view of_kind_recovery [of "''verifier_result''" es] of_kind_recovery [of "''verifier_action''" es]
    by (simp add: recover_stranded_verifier_actions_def complete_view_def Let_def RECOVERY_KINDS_def comp_def)
  moreover have "\<forall>e \<in> set ?actions. recoverable env e \<and> names_freeze (le_payload e) \<and> mo_now (at (action_of e)) \<noteq> []"
    using history_recoverable [OF all] named by (auto simp: of_kind_def well_named_def)
  moreover have "\<forall>e \<in> set ?actions. action_of e \<notin> set ?terminal \<longrightarrow> results_of_action ?results (action_of e) = []"
    using ids by (auto simp: results_of_action_def filter_empty_conv rec_item_def rec_value_def split: option.splits)
  ultimately show ?thesis
    using recover_actions_run [of ?actions env at ?terminal ?results busy s es] assms(3) all
    by (simp add: stranded_actions_def)
qed

text \<open>Every action that is idle has a result in the history that recovery leaves behind.\<close>

lemma terminated_covered:
  assumes "list_all2 terminates (stranded_actions busy es) new" "e \<in> set (of_kind ''verifier_action'' es)"
    "\<not> busy (action_of e)"
  shows "\<exists>y \<in> set (es @ new). le_kind y = ''verifier_result'' \<and> action_of y = action_of e"
proof (cases "action_of e \<in> action_of ` set (of_kind ''verifier_result'' es)")
  case True
  then show ?thesis by (auto simp: of_kind_def)
next
  case False
  with stranded_covers [OF assms(2), of "map action_of (of_kind ''verifier_result'' es)" busy] assms(3)
  obtain a where a: "a \<in> set (stranded_actions busy es)" "action_of a = action_of e"
    by (auto simp: stranded_actions_def)
  with assms(1) obtain y where "y \<in> set new" "terminates a y"
    by (metis in_set_conv_nth list_all2_conv_all_nth)
  with a(2) show ?thesis by (auto simp: terminates_def action_of_def rec_str_def rec_value_def)
qed

end
