(* ===== verification/ExampleRecovery.thy ===== *)
theory ExampleRecovery
  imports RecoveryRuns ExampleServices
begin

text \<open>
  A store that a lost process left with one verifier action and no result, and the commit with which
  its recovery ends.
\<close>

section \<open>A second commit\<close>

text \<open>A commit of a kind of record that the ledger does not hold yet is planned when its entry fits.\<close>

lemma new_identity_planned:
  assumes "snapshot env (st_ledger s) = Inr (raws, h)" "st_records s destination = None"
    "\<forall>raw \<in> set raws. \<not> same_identity kind field identity raw"
    "current_record (env_crypto env) r" "kind_type kind = Inr (fr_type r)"
    "list_all (\<lambda>p. json_depth (snd p) \<le> 62) (rec_to_json r)"
    "length (entry_line (raw_entry env timestamp kind r (Suc (length raws)) (JStr h))) \<le> LEDGER_LINE_BYTE_CAP"
  shows "is_ok (plan_commit env timestamp txid record_group kind r (field, identity, destination) s)"
proof -
  let ?raw = "raw_entry env timestamp kind r (Suc (length raws)) (JStr h)"
  have "filter (same_identity kind field identity) raws = []" using assms(3) by (simp add: filter_empty_conv)
  moreover have "json_depth (JObj (rec_to_json r)) \<le> 63"
    using json_depth_obj_le [of 0 63 "rec_to_json r"] assms(6) by (simp add: list_all_iff)
  then have "bounded_fields ?raw" by (simp add: bounded_fields_def raw_entry_def Let_def)
  from normalize_built_entry [OF assms(4,5) this] obtain e where "normalize_raw env ?raw = Inr e" by blast
  moreover have "last_hash raws = Inr (JStr h)"
    using assms(1) by (intro verified_last_hash [of env]) (simp add: snapshot_Inr)
  moreover have "fr_schema r = CURRENT_SCHEMA_VERSION" using assms(4) by (simp add: current_record_def Let_def)
  ultimately show ?thesis
    using assms(1,2,5,7)
    by (simp add: plan_commit_def build_entry_def writable_kind_def Let_def raise_if_def is_ok_iff)
qed

section \<open>The parameters\<close>

text \<open>A digest that only tells whether the text has an odd number of lines.\<close>

fun odd_lines :: "bool \<Rightarrow> string \<Rightarrow> bool" where
  "odd_lines b [] = b"
| "odd_lines b (c # cs) = odd_lines (if c = CHR 0x0A then \<not> b else b) cs"

definition ex_line_sha :: "string \<Rightarrow> string" where
  "ex_line_sha s = ''000000000000000000000000000000000000000000000000000000000000000'' @ [ex_bit (odd_lines False s)]"

definition ex_line_env :: storage_env where
  "ex_line_env = \<lparr>env_crypto = \<lparr>cr_sha = ex_line_sha, cr_jcs = (\<lambda>v. Inr (canonical_bytes v))\<rparr>,
     env_float = (\<lambda>t. ''0.0''), env_state_dir = ''/s''\<rparr>"

lemma ex_line_digests: "digests_documented ex_line_env"
proof -
  have "hex64 (ex_line_sha s)" for s by (simp add: ex_line_sha_def hex64_def ex_bit_def)
  then show ?thesis by (simp add: digests_documented_def ex_line_env_def jcs_sorts_def canonical_sorted)
qed

lemma odd_lines_printable: "printable t \<Longrightarrow> odd_lines b t = b"
  by (induction b t rule: odd_lines.induct) (auto simp: printable_def)

lemma odd_lines_append: "odd_lines b (s @ t) = odd_lines (odd_lines b s) t"
  by (induction b s rule: odd_lines.induct) auto

lemma entry_line_distinct:
  assumes "writable fr (JObj raw)"
  shows "env_sha ex_line_env s \<noteq> env_sha ex_line_env (s @ entry_line raw)"
  using odd_lines_printable [OF canonical_printable [OF assms]]
  by (simp add: ex_line_env_def ex_line_sha_def ex_bit_def odd_lines_append entry_line_def)

section \<open>The stranded action\<close>

definition ex_action_raw :: "(pykey \<times> pyobj) list" where
  "ex_action_raw = as_fields
     (map (\<lambda>k. (k, JStr ''v''))
        [''verifier_id'', ''verifier_version'', ''verifier_identity'', ''provider_id'',
         ''provider_configuration_identity'', ''method'', ''epoch_identity'', ''candidate_identity'', ''scope'',
         ''configuration_identity'', ''policy_identity'', ''environment_identity'', ''requested_at'',
         ''protocol_request_identity'']
      @ [(''mode'', JStr ''development''), (''candidate_parent_identity'', JNull), (''freeze_identity'', JNull),
         (''supersedes_output_identity'', JNull), (''changed_paths'', JArr []), (''source_region'', JNull),
         (''input_identities'', JObj [])])"

definition ex_action_built :: "forge_record res" where
  "ex_action_built = new_record (env_crypto ex_line_env) VERIFIER_ACTION ex_action_raw"

definition ex_action :: forge_record where
  "ex_action = ok_value ex_action_built"

lemma ex_action_built: "new_record (env_crypto ex_line_env) VERIFIER_ACTION ex_action_raw = Inr ex_action"
  unfolding ex_action_def ex_action_built_def [symmetric] by (rule ok_value_Inr) code_simp

text \<open>Its value, as a code equation.\<close>

lemma ex_action_value [code]:
  "ex_action = \<lparr>fr_type = VERIFIER_ACTION, fr_schema = ''1'',
    fr_fields =
      [(''verifier_id'', FStr ''v''), (''verifier_version'', FStr ''v''), (''verifier_identity'', FStr ''v''),
       (''provider_id'', FStr ''v''), (''provider_configuration_identity'', FStr ''v''), (''method'', FStr ''v''),
       (''epoch_identity'', FStr ''v''), (''candidate_identity'', FStr ''v''), (''scope'', FStr ''v''),
       (''configuration_identity'', FStr ''v''), (''policy_identity'', FStr ''v''),
       (''environment_identity'', FStr ''v''), (''requested_at'', FStr ''v''),
       (''protocol_request_identity'', FStr ''v''), (''mode'', FStr ''development''),
       (''candidate_parent_identity'', FNull), (''freeze_identity'', FNull),
       (''supersedes_output_identity'', FNull), (''changed_paths'', FTuple []), (''source_region'', FNull),
       (''input_identities'', FMap []),
       (''action_id'', FStr
         ''verifier-action:0000000000000000000000000000000000000000000000000000000000000000'')],
    fr_source = ''1''\<rparr>"
  by code_simp

lemma ex_action_recordable: "recordable ex_line_env ex_action"
proof -
  have "current_record (env_crypto ex_line_env) ex_action"
    using new_record_current [OF ex_action_built] by (simp add: ex_action_raw_def as_fields_def)
  moreover have "writable (env_float ex_line_env) (JObj (rec_to_json ex_action))" by code_simp
  moreover have "utf8_json (JObj (rec_to_json ex_action))" by code_simp
  ultimately show ?thesis by (simp add: recordable_def)
qed

abbreviation ex_action_checked :: "string \<times> string \<times> string" where
  "ex_action_checked \<equiv> (''action_id'',
     ''verifier-action:0000000000000000000000000000000000000000000000000000000000000000'',
     ''/s/records/verifier-actions/verifier-action_0000000000000000000000000000000000000000000000000000000000000000.json'')"

lemma ex_action_fresh:
  "fresh_commit ex_line_env ''now'' ''tx'' ''verifier-actions'' ''verifier_action'' ex_action ex_action_checked empty_store 0 GENESIS"
proof -
  have "commit_checks ex_line_env ''verifier-actions'' ''verifier_action'' ex_action = Inr ex_action_checked" by code_simp
  moreover have "is_ok (plan_commit ex_line_env ''now'' ''tx'' ''verifier-actions'' ''verifier_action'' ex_action ex_action_checked empty_store)"
  proof (rule new_identity_planned)
    show "snapshot ex_line_env (st_ledger empty_store) = Inr ([], GENESIS)"
      by (simp add: empty_store_def snapshot_def file_bytes_def verify_chain_of_def)
    show "current_record (env_crypto ex_line_env) ex_action" using ex_action_recordable by (simp add: recordable_def)
    show "kind_type ''verifier_action'' = Inr (fr_type ex_action)" by code_simp
    show "list_all (\<lambda>p. json_depth (snd p) \<le> 62) (rec_to_json ex_action)" by code_simp
    have "\<not> LEDGER_LINE_BYTE_CAP < length (entry_line (raw_entry ex_line_env ''now'' ''verifier_action'' ex_action 1 (JStr GENESIS)))"
      by code_simp
    then show "length (entry_line (raw_entry ex_line_env ''now'' ''verifier_action'' ex_action (Suc (length [])) (JStr GENESIS)))
        \<le> LEDGER_LINE_BYTE_CAP" by simp
  qed (simp_all add: empty_store_def)
  moreover have "utf8_valid ''now''" "utf8_valid ''tx''" by code_simp+
  ultimately show ?thesis
    using ex_line_digests ex_action_recordable empty_store_verifies by (simp add: fresh_commit_def empty_store_def)
qed

definition ex_action_ledger :: string where
  "ex_action_ledger = commit_ledger ex_line_env ''now'' ''verifier_action'' ex_action empty_store 0 GENESIS"

definition ex_action_head :: string where
  "ex_action_head = entry_hash ex_line_env (entry_body (commit_raw ex_line_env ''now'' ''verifier_action'' ex_action 0 GENESIS))"

definition ex_action_entry :: ledger_entry where
  "ex_action_entry = entry_of ''now'' ''verifier_action'' (stored_form ex_action) 1 GENESIS ex_action_head"

lemma ex_action_entry_value [code]:
  "ex_action_entry = \<lparr>le_sequence = 1, le_timestamp = ''now'', le_kind = ''verifier_action'',
    le_previous_hash = ''0000000000000000000000000000000000000000000000000000000000000000'',
    le_payload =
      \<lparr>fr_type = VERIFIER_ACTION, fr_schema = ''1'',
         fr_fields =
           [(''action_id'', FStr
               ''verifier-action:0000000000000000000000000000000000000000000000000000000000000000''),
            (''candidate_identity'', FStr ''v''), (''candidate_parent_identity'', FNull),
            (''changed_paths'', FTuple []), (''configuration_identity'', FStr ''v''),
            (''environment_identity'', FStr ''v''), (''epoch_identity'', FStr ''v''), (''freeze_identity'', FNull),
            (''input_identities'', FMap []), (''method'', FStr ''v''), (''mode'', FStr ''development''),
            (''policy_identity'', FStr ''v''), (''protocol_request_identity'', FStr ''v''),
            (''provider_configuration_identity'', FStr ''v''), (''provider_id'', FStr ''v''),
            (''requested_at'', FStr ''v''), (''scope'', FStr ''v''), (''source_region'', FNull),
            (''supersedes_output_identity'', FNull), (''verifier_id'', FStr ''v''),
            (''verifier_identity'', FStr ''v''), (''verifier_version'', FStr ''v'')],
         fr_source = ''1''\<rparr>,
    le_entry_hash = ''0000000000000000000000000000000000000000000000000000000000000000'',
    le_schema = ''1'', le_source = ''1''\<rparr>"
  by code_simp

lemma ex_action_head_value [code]:
  "ex_action_head = ''0000000000000000000000000000000000000000000000000000000000000000''"
proof -
  have "le_entry_hash ex_action_entry = ex_action_head" by (simp add: ex_action_entry_def entry_of_def)
  then show ?thesis by (simp add: ex_action_entry_value)
qed

definition ex_action_raw_entry :: obj where
  "ex_action_raw_entry = sorted_obj (commit_raw ex_line_env ''now'' ''verifier_action'' ex_action 0 GENESIS)"

text \<open>The state directory after the action was committed, its derived index removed.\<close>

definition ex_stranded_store :: store where
  "ex_stranded_store = empty_store\<lparr>st_ledger := Some ex_action_ledger,
     st_records := (st_records empty_store)(
       ''/s/records/verifier-actions/verifier-action_0000000000000000000000000000000000000000000000000000000000000000.json''
         := Some (record_bytes ex_action))\<rparr>"

lemma ex_stranded_stage:
  "in_stage (commit_flight ex_line_env ''now'' ''tx'' ''verifier-actions'' ''verifier_action'' ex_action ex_action_checked empty_store 0 GENESIS)
     After ex_stranded_store"
  by (simp add: in_stage.simps settled_def fl_records_def commit_flight_def Let_def ex_stranded_store_def
      ex_action_ledger_def empty_store_def)

lemma ex_stranded_history:
  "ledger_records ex_line_env ex_stranded_store None = Inr [ex_action_entry]"
  "verify_ledger ex_line_env ex_stranded_store = Inr (1, ex_action_head)"
  "snapshot ex_line_env (st_ledger ex_stranded_store) = Inr ([ex_action_raw_entry], ex_action_head)"
proof -
  note fresh = ex_action_fresh and stage = ex_stranded_stage
  have "ledger_records ex_line_env empty_store None = Inr []"
    by (simp add: ledger_records_all empty_store_def snapshot_def file_bytes_def verify_chain_of_def)
  from appended_history [OF fresh this after_flight_clean [OF stage] after_flight(1) [OF stage]]
  show "ledger_records ex_line_env ex_stranded_store None = Inr [ex_action_entry]"
    by (simp add: ex_action_entry_def ex_action_head_def)
  from flight_after_verifies [OF fresh stage]
  show "verify_ledger ex_line_env ex_stranded_store = Inr (1, ex_action_head)" by (simp add: ex_action_head_def)
  have "next_entry ex_line_env ''now'' ''verifier_action'' ex_action [] GENESIS
      = commit_raw ex_line_env ''now'' ''verifier_action'' ex_action 0 GENESIS"
    by (simp add: next_entry_def commit_raw_def)
  moreover have "snapshot ex_line_env (st_ledger empty_store) = Inr ([], GENESIS)"
    by (simp add: empty_store_def snapshot_def file_bytes_def verify_chain_of_def)
  ultimately show "snapshot ex_line_env (st_ledger ex_stranded_store) = Inr ([ex_action_raw_entry], ex_action_head)"
    using snapshot_append [of ex_line_env "st_ledger empty_store" "[]" GENESIS "''now''" "''verifier_action''" ex_action]
      commit_raw_storable [OF fresh]
    by (simp add: ex_stranded_store_def ex_action_ledger_def commit_ledger_def ex_action_raw_entry_def ex_action_head_def)
qed

section \<open>Its result\<close>

definition ex_moments :: "string \<Rightarrow> moment" where
  "ex_moments action_id = \<lparr>mo_now = ''noon'', mo_timestamp = ''noon'', mo_txid = ''rx''\<rparr>"

definition ex_result_built :: "forge_record res" where
  "ex_result_built = recovered_of ex_line_env ex_moments ex_action_entry"

definition ex_recovered :: forge_record where
  "ex_recovered = ok_value ex_result_built"

lemma ex_result_built: "recovered_of ex_line_env ex_moments ex_action_entry = Inr ex_recovered"
  unfolding ex_recovered_def ex_result_built_def [symmetric] by (rule ok_value_Inr) code_simp

lemma ex_recovered_value [code]:
  "ex_recovered = \<lparr>fr_type = VERIFIER_RESULT, fr_schema = ''1'',
    fr_fields =
      [(''action_id'', FStr
         ''verifier-action:0000000000000000000000000000000000000000000000000000000000000000''),
       (''verifier_id'', FStr ''v''), (''verifier_version'', FStr ''v''), (''verifier_identity'', FStr ''v''),
       (''claim'', FStr ''verifier execution completion''), (''category'', FStr ''operational_recovery''),
       (''provider_id'', FStr ''v''), (''provider_configuration_identity'', FStr ''v''),
       (''provider_executable_identity'', FNull), (''provider_identity'', FNull),
       (''provider_response_identity'', FNull), (''method'', FStr ''v''), (''mode'', FStr ''development''),
       (''evidence_class'', FStr ''development_evidence''), (''independent_evaluation'', FBool False),
       (''iterative_development_overlap'', FBool False), (''epoch_identity'', FStr ''v''),
       (''candidate_identity'', FStr ''v''), (''candidate_parent_identity'', FNull), (''freeze_identity'', FNull),
       (''supersedes_output_identity'', FNull), (''input_identities'', FMap []),
       (''configuration_identity'', FStr ''v''), (''policy_identity'', FStr ''v''),
       (''environment_identity'', FStr ''v''), (''status'', FStr ''UNKNOWN''),
       (''summary'', FStr ''verifier action was recovered without a trustworthy provider outcome''),
       (''witnesses'', FTuple []), (''assumptions'', FTuple []),
       (''limitations'', FTuple
         [FStr ''the process ended after the verifier action became durable'',
          FStr ''provider execution may have begun, but no trustworthy terminal output survived'']),
       (''unsupported_constructs'', FTuple [FStr ''interrupted-verifier-action'']),
       (''dependency_envelope'', FMap
         [(''paths'', FTuple []), (''path_identities'', FMap []), (''additional_identities'', FMap []),
          (''complete'', FBool False), (''identity'', FNull)]),
       (''duration_seconds'', FFloat ''0.0''), (''stderr_diagnostic'', FStr []), (''returncode'', FNull),
       (''operational_error'', FMap
         [(''code'', FStr ''VERIFIER_ACTION_STRANDED''),
          (''message'', FStr
            ''action recovered after process interruption; provider outcome is unknown'')]),
       (''disclosure'', FStr ''full''), (''recorded_at'', FStr ''noon''),
       (''output_identity'', FStr
         ''forge-json-sha256-v1:0000000000000000000000000000000000000000000000000000000000000000'')],
    fr_source = ''1''\<rparr>"
  by code_simp

definition ex_result_fields :: obj where
  "ex_result_fields = ok_value (recovered_terminal_unknown_result (le_payload ex_action_entry) ''noon'')"

lemma ex_result_new: "new_record (env_crypto ex_line_env) VERIFIER_RESULT (as_fields ex_result_fields) = Inr ex_recovered"
proof -
  have "is_ok (recovered_terminal_unknown_result (le_payload ex_action_entry) ''noon'')" by code_simp
  then have "recovered_terminal_unknown_result (le_payload ex_action_entry) ''noon'' = Inr ex_result_fields"
    unfolding ex_result_fields_def by (rule ok_value_Inr)
  then show ?thesis
    using ex_result_built by (simp add: recovered_of_def ex_moments_def verifier_result_record_def)
qed

lemma ex_result_recordable: "recordable ex_line_env ex_recovered"
proof -
  have "current_record (env_crypto ex_line_env) ex_recovered"
    by (rule new_record_current [OF ex_result_new, THEN conjunct1]) code_simp
  moreover have "writable (env_float ex_line_env) (JObj (rec_to_json ex_recovered))" by code_simp
  moreover have "utf8_json (JObj (rec_to_json ex_recovered))" by code_simp
  ultimately show ?thesis by (simp add: recordable_def)
qed

abbreviation ex_result_checked :: "string \<times> string \<times> string" where
  "ex_result_checked \<equiv> (''output_identity'',
     ''forge-json-sha256-v1:0000000000000000000000000000000000000000000000000000000000000000'',
     ''/s/records/verifier-results/forge-json-sha256-v1_0000000000000000000000000000000000000000000000000000000000000000.json'')"

lemma ex_result_fresh:
  "fresh_commit ex_line_env ''noon'' ''rx'' ''verifier-results'' ''verifier_result'' ex_recovered ex_result_checked
     ex_stranded_store 1 ex_action_head"
proof -
  have checks: "commit_checks ex_line_env ''verifier-results'' ''verifier_result'' ex_recovered = Inr ex_result_checked"
    by code_simp
  have new: "st_records ex_stranded_store (snd (snd ex_result_checked)) = None"
    by (simp add: ex_stranded_store_def empty_store_def)
  have "is_ok (plan_commit ex_line_env ''noon'' ''rx'' ''verifier-results'' ''verifier_result'' ex_recovered ex_result_checked ex_stranded_store)"
  proof (rule new_identity_planned [OF ex_stranded_history(3)])
    show "current_record (env_crypto ex_line_env) ex_recovered" using ex_result_recordable by (simp add: recordable_def)
    show "kind_type ''verifier_result'' = Inr (fr_type ex_recovered)" by code_simp
    show "list_all (\<lambda>p. json_depth (snd p) \<le> 62) (rec_to_json ex_recovered)" by code_simp
    have "obj_get ex_action_raw_entry ''kind'' = JStr ''verifier_action''" by code_simp
    then show "\<forall>raw \<in> set [ex_action_raw_entry]. \<not> same_identity ''verifier_result'' ''output_identity''
        ''forge-json-sha256-v1:0000000000000000000000000000000000000000000000000000000000000000'' raw"
      by (simp add: same_identity_def)
    have "\<not> LEDGER_LINE_BYTE_CAP
        < length (entry_line (raw_entry ex_line_env ''noon'' ''verifier_result'' ex_recovered 2 (JStr ex_action_head)))"
      by code_simp
    then show "length (entry_line (raw_entry ex_line_env ''noon'' ''verifier_result'' ex_recovered
          (Suc (length [ex_action_raw_entry])) (JStr ex_action_head))) \<le> LEDGER_LINE_BYTE_CAP"
      by (simp add: numeral_2_eq_2)
  qed (use new in simp)
  moreover have "utf8_valid ''noon''" "utf8_valid ''rx''" by code_simp+
  ultimately show ?thesis
    using ex_line_digests ex_result_recordable ex_stranded_history(2) checks new by (simp add: fresh_commit_def)
qed

lemma ex_recovery_accepted: "accepts ex_line_env ex_moments (stranded_actions (\<lambda>_. False) [ex_action_entry]) ex_stranded_store"
proof -
  have "stranded_actions (\<lambda>_. False) [ex_action_entry] = [ex_action_entry]"
    by (simp add: stranded_actions_def of_kind_def ex_action_entry_def entry_of_def)
  moreover have "writable (env_float ex_line_env) (JObj (commit_raw ex_line_env ''noon'' ''verifier_result'' ex_recovered 1 ex_action_head))"
    using commit_raw_storable [OF ex_result_fresh] by (simp add: storable_def)
  from entry_line_distinct [OF this] have "env_sha ex_line_env (file_bytes (st_ledger ex_stranded_store))
      \<noteq> env_sha ex_line_env (commit_ledger ex_line_env ''noon'' ''verifier_result'' ex_recovered ex_stranded_store 1 ex_action_head)"
    by (simp add: commit_ledger_def)
  ultimately show ?thesis
    using ex_result_built ex_result_fresh by (simp add: ex_moments_def) (metis prod.collapse)
qed

lemma ex_recovery_view: "complete_view ex_line_env ex_stranded_store RECOVERY_KINDS [ex_action_entry]"
  by (rule unindexed_view [OF ex_stranded_history(1)]) (simp add: ex_stranded_store_def empty_store_def)

lemma ex_recovery_named: "well_named ex_moments [ex_action_entry]"
proof -
  have "names_freeze (le_payload ex_action_entry)" by code_simp
  then show ?thesis by (auto simp: well_named_def of_kind_def ex_moments_def)
qed

end
