(* ===== verification/Paths.thy ===== *)
theory Paths
  imports RecordStore "HOL-Library.Sublist"
begin

text \<open>
  \<open>paths.py\<close>: containment of configured paths and the separation of writable from protected scopes. A
  path is the list of its components; what the file system answers (resolution of links, existence) is
  the parameter \<open>file_system\<close>.
\<close>

section \<open>Relative paths\<close>

text \<open>\<open>PurePosixPath(value).parts\<close> of a relative path is \<open>path_parts\<close>.\<close>

definition is_absolute :: "string \<Rightarrow> bool" where
  "is_absolute p = starts_with ''/'' p"

definition validate_relative_path :: "bool \<Rightarrow> string \<Rightarrow> string list res" where
  "validate_relative_path allow_dot p =
     and_then (raise_if (p = []) (ForgeError ''INVALID_PATH'' [])) (\<lambda>_.
     and_then (raise_if (is_absolute p) (ForgeError ''ABSOLUTE_PATH'' [])) (\<lambda>_.
     and_then (raise_if (''..'' \<in> set (path_parts p)) (ForgeError ''PATH_TRAVERSAL'' [])) (\<lambda>_.
     and_then (raise_if (CHR 0x00 \<in> set p) (ForgeError ''INVALID_PATH'' [])) (\<lambda>_.
     and_then (raise_if (path_parts p = [] \<and> \<not> allow_dot) (ForgeError ''INVALID_PATH'' [])) (\<lambda>_.
     Inr (path_parts p))))))"

section \<open>Resolution\<close>

text \<open>
  The project root with its links followed, what following the links of a path gives (\<open>None\<close> where the
  system refuses), and the entries below a directory: for each one whether it is a link, and where it leads.
\<close>

record file_system =
  fs_root :: "string list"
  fs_config_directory :: "string list"
  fs_resolve :: "bool \<Rightarrow> string list \<Rightarrow> string list option"
  fs_entries :: "string list \<Rightarrow> (bool \<times> string list) list option"
  fs_real_directory :: "string list \<Rightarrow> bool"
  fs_is_file :: "string list \<Rightarrow> bool"
  fs_exists :: "string list \<Rightarrow> bool"

definition resolve_project_root :: "file_system \<Rightarrow> string \<Rightarrow> string list res" where
  "resolve_project_root fs p =
     and_then (raise_if (p = []) (ForgeError ''INVALID_PATH'' [])) (\<lambda>_.
     and_then (raise_if (is_absolute p) (ForgeError ''ABSOLUTE_PATH'' [])) (\<lambda>_.
     and_then (raise_if (CHR 0x00 \<in> set p) (ForgeError ''INVALID_PATH'' [])) (\<lambda>_.
     case fs_resolve fs True (fs_config_directory fs @ path_parts p) of
       None \<Rightarrow> Inl PyOSError
     | Some root \<Rightarrow>
         and_then (raise_if (\<not> prefix root (fs_config_directory fs)) (ForgeError ''PROJECT_ROOT_ESCAPE'' [])) (\<lambda>_.
         Inr root))))"

definition resolve_family_module_root :: "file_system \<Rightarrow> string \<Rightarrow> string list res" where
  "resolve_family_module_root fs p =
     and_then (raise_if (p = [] \<or> CHR 0x00 \<in> set p) (ForgeError ''INVALID_PATH'' [])) (\<lambda>_.
     and_then (raise_if (is_absolute p) (ForgeError ''ABSOLUTE_PATH'' [])) (\<lambda>_.
     case fs_resolve fs False (fs_root fs @ path_parts p) of
       None \<Rightarrow> Inl PyOSError
     | Some candidate \<Rightarrow>
         and_then (raise_if (\<not> prefix (butlast (fs_root fs)) candidate)
           (ForgeError ''FAMILY_MODULE_ROOT_ESCAPE'' [])) (\<lambda>_.
         and_then (raise_if (\<not> fs_real_directory fs candidate) (ForgeError ''FAMILY_MODULE_ROOT_MISSING'' [])) (\<lambda>_.
         Inr candidate))))"

definition resolve_contained :: "file_system \<Rightarrow> bool \<Rightarrow> string \<Rightarrow> string list res" where
  "resolve_contained fs must_exist p =
     and_then (validate_relative_path True p) (\<lambda>parts.
     case fs_resolve fs must_exist (fs_root fs @ parts) of
       None \<Rightarrow> Inl (ForgeError ''PATH_RESOLUTION'' [])
     | Some resolved \<Rightarrow>
         and_then (raise_if (\<not> prefix (fs_root fs) resolved) (ForgeError ''SYMLINK_ESCAPE'' [])) (\<lambda>_.
         Inr resolved))"

definition validate_tree_containment :: "file_system \<Rightarrow> string list \<Rightarrow> unit res" where
  "validate_tree_containment fs path =
     (case fs_entries fs path of
        None \<Rightarrow> Inr ()
      | Some entries \<Rightarrow>
          raise_if (\<exists>entry \<in> set entries. fst entry \<and> \<not> prefix (fs_root fs) (snd entry))
            (ForgeError ''SYMLINK_ESCAPE'' []))"

section \<open>Scopes\<close>

definition is_within :: "string list \<Rightarrow> string list list \<Rightarrow> bool" where
  "is_within path scopes \<longleftrightarrow> (\<exists>scope \<in> set scopes. path = scope \<or> prefix scope path)"

definition scopes_overlap :: "string list \<Rightarrow> string list \<Rightarrow> bool" where
  "scopes_overlap w p \<longleftrightarrow> w = p \<or> prefix p w \<or> prefix w p"

definition validate_scopes_do_not_overlap :: "string list list \<Rightarrow> string list list \<Rightarrow> unit res" where
  "validate_scopes_do_not_overlap ws protected =
     run_checks (map (\<lambda>(w, p). raise_if (scopes_overlap w p) (ForgeError ''AUTHORITY_OVERLAP'' []))
       (List.product ws protected))"

section \<open>What the checks establish\<close>

lemma validate_relative_path_Inr [simp]:
  "validate_relative_path allow_dot p = Inr parts \<longleftrightarrow>
     p \<noteq> [] \<and> \<not> is_absolute p \<and> ''..'' \<notin> set (path_parts p) \<and> CHR 0x00 \<notin> set p
     \<and> (path_parts p = [] \<longrightarrow> allow_dot) \<and> parts = path_parts p"
  by (auto simp: validate_relative_path_def and_then_Inr_iff raise_if_Inr_iff)

lemma resolve_contained_within:
  "resolve_contained fs must_exist p = Inr resolved \<Longrightarrow> prefix (fs_root fs) resolved"
  by (auto simp: resolve_contained_def and_then_Inr_iff raise_if_Inr_iff simp del: validate_relative_path_Inr split: option.splits)

lemma is_within_prefix: "is_within path scopes \<longleftrightarrow> (\<exists>scope \<in> set scopes. prefix scope path)"
  by (auto simp: is_within_def)

lemma overlap_iff_common_path: "scopes_overlap w p \<longleftrightarrow> (\<exists>path. prefix w path \<and> prefix p path)"
  by (auto simp: scopes_overlap_def dest: prefix_same_cases intro: prefix_order.refl)

lemma scopes_disjoint_iff:
  "validate_scopes_do_not_overlap ws protected = Inr () \<longleftrightarrow>
     (\<forall>w \<in> set ws. \<forall>p \<in> set protected. \<not> scopes_overlap w p)"
  by (auto simp: validate_scopes_do_not_overlap_def run_checks_Inr raise_if_Inr_iff)

lemma no_common_path_iff:
  "validate_scopes_do_not_overlap ws protected = Inr () \<longleftrightarrow>
     (\<nexists>path. is_within path ws \<and> is_within path protected)"
  by (auto simp: scopes_disjoint_iff overlap_iff_common_path is_within_prefix)

end
