(* ===== verification/Configuration.thy ===== *)
theory Configuration
  imports Paths VerifierSupport
begin

text \<open>
  \<open>config.py\<close>: the checks that a configuration passes before the program runs. The packaged schema is
  checked by a library; a document that it admits is the record \<open>raw_config\<close>, whose optional members are
  options. A duration is the text of its \<open>float\<close>, and \<open>exceeds_duration\<close> compares the numbers of two texts.
\<close>

section \<open>Documents that the schema admits\<close>

record raw_workflow =
  rw_name :: string
  rw_category :: string
  rw_mode :: string
  rw_command :: "string list"
  rw_provider_protocol :: bool
  rw_provider_id :: "string option"
  rw_environment :: "string dict option"
  rw_disclosure :: "string option"
  rw_subject :: "string option"

record raw_provider =
  rp_id :: string
  rp_name :: "string option"
  rp_identity :: "string option"
  rp_version :: "string option"
  rp_command :: "string list"
  rp_transport :: "string option"
  rp_required :: "bool option"
  rp_capabilities :: "string list option"
  rp_supported :: "string list option"
  rp_unsupported :: "string list option"
  rp_limitations :: "string list option"
  rp_executable_identity :: "string option"
  rp_descriptor :: "string option"
  rp_environment :: "string dict option"
  rp_module_roots :: "string list option"
  rp_python_packages :: "string list option"

record raw_verifier =
  rv_id :: string
  rv_version :: string
  rv_workflow :: string
  rv_provider :: string
  rv_method :: string
  rv_claim :: string
  rv_category :: string
  rv_modes :: "string list"
  rv_languages :: "string list option"
  rv_artifact_types :: "string list option"
  rv_scopes :: "string list"
  rv_input_kinds :: "string list"
  rv_limitations :: "string list option"
  rv_assumptions :: "string list option"
  rv_timeout :: "string option"
  rv_cost :: string
  rv_uncertainty_classes :: "string list option"
  rv_tags :: "string list option"
  rv_parameter_keys :: "string list option"
  rv_disclosure :: "string option"

record raw_trigger =
  rt_id :: string
  rt_action :: string
  rt_verifier_ids :: "string list option"
  rt_contract_identities :: "string list option"
  rt_obligation_identities :: "string list option"
  rt_diagnostics :: "string list option"

record raw_continuous =
  rc_language_service_socket :: "string option"
  rc_test_manifest :: "string option"
  rc_test_working_directory :: "string option"
  rc_family_proof_directory :: "string option"
  rc_library_paths :: "string list option"
  rc_actions_evidence_files :: "string list option"
  rc_candidate_identity :: "string option"
  rc_triggers :: "raw_trigger list option"

record raw_runner =
  rr_kind :: "string option"
  rr_image :: "string option"
  rr_writable_paths :: "string list option"

record raw_config =
  ra_project_root :: string
  ra_paths :: "string list dict"
  ra_timeout :: string
  ra_runner :: "raw_runner option"
  ra_policies :: "string dict"
  ra_workflows :: "raw_workflow list"
  ra_providers :: "raw_provider list option"
  ra_verifiers :: "raw_verifier list option"
  ra_may_run_providers :: bool
  ra_continuous :: "raw_continuous option"

text \<open>\<open>item.get(key, other)\<close>.\<close>

definition given :: "'a \<Rightarrow> 'a option \<Rightarrow> 'a" where
  "given other v = (case v of None \<Rightarrow> other | Some x \<Rightarrow> x)"

definition config_invalid :: py_error where
  "config_invalid = ForgeError ''CONFIG_INVALID'' []"

section \<open>\<open>validate_config_data\<close>\<close>

definition MICRO_VERIFIER_ACTIONS :: "string list" where
  "MICRO_VERIFIER_ACTIONS = [''micro_verifier'', ''security_micro_verifier'']"

definition trigger_patterns :: "raw_trigger \<Rightarrow> string list" where
  "trigger_patterns t = given [] (rt_contract_identities t) @ given [] (rt_obligation_identities t)
     @ given [] (rt_diagnostics t)"

text \<open>An exact text, or one with a single star at its end.\<close>

definition pattern_malformed :: "string \<Rightarrow> bool" where
  "pattern_malformed p \<longleftrightarrow>
     (let stars = filter (\<lambda>i. p ! i = CHR ''*'') [0..<length p] in
      CHR ''?'' \<in> set p \<or> CHR ''['' \<in> set p \<or> CHR '']'' \<in> set p
      \<or> 1 < length stars \<or> (stars \<noteq> [] \<and> hd stars \<noteq> length p - 1))"

definition raw_triggers :: "raw_config \<Rightarrow> raw_trigger list" where
  "raw_triggers raw = (case ra_continuous raw of None \<Rightarrow> [] | Some c \<Rightarrow> given [] (rc_triggers c))"

definition micro_verifier_count :: "raw_config \<Rightarrow> nat" where
  "micro_verifier_count raw =
     sum_list (map (\<lambda>t. length (given [] (rt_verifier_ids t)))
       (filter (\<lambda>t. rt_action t \<in> set MICRO_VERIFIER_ACTIONS) (raw_triggers raw)))"

definition validate_config_data :: "raw_config \<Rightarrow> unit res" where
  "validate_config_data raw =
     and_then (raise_if (16 < micro_verifier_count raw) config_invalid) (\<lambda>_.
     run_checks (map (\<lambda>p. raise_if (pattern_malformed p) config_invalid)
       (concat (map trigger_patterns (raw_triggers raw)))))"

section \<open>\<open>load_config\<close>\<close>

text \<open>\<open>raw["paths"][key]\<close>; the schema requires every key that is read.\<close>

definition declared_paths :: "string list dict \<Rightarrow> string list \<Rightarrow> string list" where
  "declared_paths paths keys = concat (map (\<lambda>k. given [] (dict_get paths k)) keys)"

definition WRITABLE_KEYS :: "string list" where
  "WRITABLE_KEYS = [''candidates'', ''generated'', ''outputs'']"

definition PROTECTED_KEYS :: "string list" where
  "PROTECTED_KEYS = [''contracts'', ''references'', ''evaluators'', ''acceptance_policies'', ''protected'']"

definition scopes_of :: "string list \<Rightarrow> string list list res" where
  "scopes_of values' = traverse (validate_relative_path False) values'"

definition check_contained :: "file_system \<Rightarrow> string list \<Rightarrow> unit res" where
  "check_contained fs values' =
     run_checks (map (\<lambda>p. and_then (resolve_contained fs False p) (\<lambda>_. Inr ())) values')"

definition check_trees :: "file_system \<Rightarrow> string list \<Rightarrow> unit res" where
  "check_trees fs values' =
     run_checks (map (\<lambda>p. and_then (resolve_contained fs False p) (validate_tree_containment fs)) values')"

text \<open>\<open>str.strip\<close> leaves something: a character that is not white space.\<close>

definition blank_char :: "char \<Rightarrow> bool" where
  "blank_char c \<longleftrightarrow> c \<in> {CHR '' '', CHR 0x09, CHR 0x0A, CHR 0x0B, CHR 0x0C, CHR 0x0D, CHR 0x1C, CHR 0x1D, CHR 0x1E, CHR 0x1F}"

definition blank :: "string \<Rightarrow> bool" where
  "blank t \<longleftrightarrow> list_all blank_char t"

definition check_runner :: "raw_runner option \<Rightarrow> string list list \<Rightarrow> unit res" where
  "check_runner runner protected =
     (case runner of
        None \<Rightarrow> Inr ()
      | Some r \<Rightarrow>
          if given ''local-process'' (rr_kind r) \<noteq> ''podman-rootless'' then Inr ()
          else and_then (raise_if (blank (given '''' (rr_image r))) config_invalid) (\<lambda>_.
               and_then (scopes_of (given [] (rr_writable_paths r))) (\<lambda>ws.
               validate_scopes_do_not_overlap ws protected)))"

definition validate_argv :: "string list \<Rightarrow> string list res" where
  "validate_argv command =
     and_then (raise_if (command = []) (ForgeError ''INVALID_COMMAND'' [])) (\<lambda>_.
     and_then (raise_if (\<not> list_all (\<lambda>v. v \<noteq> [] \<and> CHR 0x00 \<notin> set v) command) (ForgeError ''INVALID_COMMAND'' [])) (\<lambda>_.
     Inr command))"

definition workflow_of :: "raw_workflow \<Rightarrow> string list \<Rightarrow> workflow" where
  "workflow_of item command =
     \<lparr>wf_name = rw_name item, wf_category = rw_category item, wf_mode = rw_mode item, wf_command = command,
      wf_provider_protocol = rw_provider_protocol item, wf_provider_id = rw_provider_id item,
      wf_environment = given [] (rw_environment item), wf_disclosure = given ''compact'' (rw_disclosure item),
      wf_subject = given ''candidate'' (rw_subject item)\<rparr>"

fun load_workflows :: "workflow dict \<Rightarrow> raw_workflow list \<Rightarrow> workflow dict res" where
  "load_workflows workflows [] = Inr workflows"
| "load_workflows workflows (item # items) =
     (if rw_name item \<in> set (dict_keys workflows) then Inl config_invalid
      else and_then (validate_argv (rw_command item)) (\<lambda>command.
           load_workflows (workflows @ [(rw_name item, workflow_of item command)]) items))"

definition provider_of :: "raw_provider \<Rightarrow> string list \<Rightarrow> provider" where
  "provider_of item command =
     \<lparr>pv_id = rp_id item, pv_name = given (rp_id item) (rp_name item), pv_identity = rp_identity item,
      pv_version = rp_version item, pv_command = command, pv_transport = given ''stdio-jsonl'' (rp_transport item),
      pv_required = given False (rp_required item), pv_capabilities = given [] (rp_capabilities item),
      pv_supported = given [] (rp_supported item), pv_unsupported = given [] (rp_unsupported item),
      pv_limitations = given [] (rp_limitations item), pv_executable_identity = rp_executable_identity item,
      pv_descriptor = rp_descriptor item, pv_environment = given [] (rp_environment item),
      pv_module_roots = given [] (rp_module_roots item), pv_python_packages = given [] (rp_python_packages item)\<rparr>"

fun load_providers :: "file_system \<Rightarrow> provider dict \<Rightarrow> raw_provider list \<Rightarrow> provider dict res" where
  "load_providers fs providers [] = Inr providers"
| "load_providers fs providers (item # items) =
     (if rp_id item \<in> set (dict_keys providers) then Inl config_invalid
      else and_then (validate_argv (rp_command item)) (\<lambda>command.
           and_then (case rp_descriptor item of None \<Rightarrow> Inr () | Some d \<Rightarrow> check_contained fs [d]) (\<lambda>_.
           and_then (run_checks (map (\<lambda>root. and_then (resolve_family_module_root fs root) (\<lambda>_. Inr ()))
             (given [] (rp_module_roots item)))) (\<lambda>_.
           load_providers fs (providers @ [(rp_id item, provider_of item command)]) items))))"

definition check_workflow :: "provider dict \<Rightarrow> workflow \<Rightarrow> unit res" where
  "check_workflow providers w =
     and_then (raise_if (wf_provider_protocol w \<and> wf_command w \<notin> pv_command ` snd ` set providers)
       (ForgeError ''UNDECLARED_COMMAND'' [])) (\<lambda>_.
     if \<not> wf_provider_protocol w then Inr ()
     else (case wf_provider_id w of
         None \<Rightarrow> Inr ()
       | Some provider_id \<Rightarrow>
           (case dict_get providers provider_id of
              None \<Rightarrow> Inl (ForgeError ''UNDECLARED_PROVIDER'' [])
            | Some p \<Rightarrow> raise_if (pv_command p \<noteq> wf_command w) (ForgeError ''UNDECLARED_COMMAND'' []))))"

text \<open>What a document grants to every verifier: the comparison of durations, the limit, the authority.\<close>

record verifier_authority =
  va_exceeds :: "string \<Rightarrow> string \<Rightarrow> bool"
  va_timeout :: string
  va_may_run_providers :: bool

definition workflow_modes :: "workflow \<Rightarrow> string list" where
  "workflow_modes w = (if wf_mode w = ''both'' then [''development'', ''evaluator''] else [wf_mode w])"

definition verifier_of :: "raw_verifier \<Rightarrow> string \<Rightarrow> string \<Rightarrow> verifier" where
  "verifier_of item timeout disclosure =
     \<lparr>vf_id = rv_id item, vf_version = rv_version item, vf_workflow = rv_workflow item,
      vf_provider = rv_provider item, vf_method = rv_method item, vf_claim = rv_claim item,
      vf_category = rv_category item, vf_modes = rv_modes item, vf_languages = given [] (rv_languages item),
      vf_artifact_types = given [] (rv_artifact_types item), vf_scopes = rv_scopes item,
      vf_input_kinds = rv_input_kinds item, vf_limitations = given [] (rv_limitations item),
      vf_assumptions = given [] (rv_assumptions item), vf_timeout = timeout, vf_cost = rv_cost item,
      vf_uncertainty_classes = given [] (rv_uncertainty_classes item), vf_tags = given [] (rv_tags item),
      vf_parameter_keys = given [] (rv_parameter_keys item), vf_disclosure = disclosure\<rparr>"

definition load_verifier ::
  "verifier_authority \<Rightarrow> provider dict \<Rightarrow> workflow dict \<Rightarrow> raw_verifier \<Rightarrow> verifier res"
where
  "load_verifier authority' providers workflows item =
     (case dict_get providers (rv_provider item) of
        None \<Rightarrow> Inl (ForgeError ''UNDECLARED_PROVIDER'' [])
      | Some p \<Rightarrow>
     (case dict_get workflows (rv_workflow item) of
        None \<Rightarrow> Inl (ForgeError ''UNDECLARED_COMMAND'' [])
      | Some w \<Rightarrow>
     and_then (raise_if (\<not> wf_provider_protocol w) (ForgeError ''VERIFIER_WORKFLOW'' [])) (\<lambda>_.
     and_then (raise_if (wf_provider_id w \<noteq> Some (rv_provider item) \<or> wf_command w \<noteq> pv_command p)
       (ForgeError ''VERIFIER_AUTHORITY'' [])) (\<lambda>_.
     and_then (raise_if (rv_method item \<notin> set (pv_capabilities p)) (ForgeError ''VERIFIER_METHOD'' [])) (\<lambda>_.
     and_then (raise_if (\<not> set (rv_modes item) \<subseteq> set (workflow_modes w)) (ForgeError ''VERIFIER_MODE'' [])) (\<lambda>_.
     and_then (raise_if (''development'' \<in> set (rv_modes item) \<and> \<not> va_may_run_providers authority')
       (ForgeError ''VERIFIER_AUTHORITY'' [])) (\<lambda>_.
     and_then (raise_if (rv_category item \<noteq> wf_category w) (ForgeError ''VERIFIER_CATEGORY'' [])) (\<lambda>_.
     let timeout = given (va_timeout authority') (rv_timeout item);
         disclosure = given (wf_disclosure w) (rv_disclosure item) in
     and_then (raise_if (va_exceeds authority' timeout (va_timeout authority')) (ForgeError ''VERIFIER_LIMIT'' [])) (\<lambda>_.
     and_then (raise_if (wf_disclosure w = ''status-only'' \<and> disclosure \<noteq> ''status-only'')
       (ForgeError ''VERIFIER_DISCLOSURE'' [])) (\<lambda>_.
     Inr (verifier_of item timeout disclosure)))))))))))"

fun load_verifiers ::
  "verifier_authority \<Rightarrow> provider dict \<Rightarrow> workflow dict \<Rightarrow> verifier dict \<Rightarrow> raw_verifier list \<Rightarrow> verifier dict res"
where
  "load_verifiers authority' providers workflows verifiers [] = Inr verifiers"
| "load_verifiers authority' providers workflows verifiers (item # items) =
     (if rv_id item \<in> set (dict_keys verifiers) then Inl config_invalid
      else and_then (load_verifier authority' providers workflows item) (\<lambda>v.
           load_verifiers authority' providers workflows (verifiers @ [(rv_id item, v)]) items))"

fun check_triggers :: "verifier dict \<Rightarrow> string list \<Rightarrow> raw_trigger list \<Rightarrow> unit res" where
  "check_triggers verifiers seen [] = Inr ()"
| "check_triggers verifiers seen (t # ts) =
     and_then (raise_if (rt_id t \<in> set seen) config_invalid) (\<lambda>_.
     and_then (raise_if (rt_action t \<in> set MICRO_VERIFIER_ACTIONS
         \<and> \<not> set (given [] (rt_verifier_ids t)) \<subseteq> set (dict_keys verifiers)) config_invalid) (\<lambda>_.
     check_triggers verifiers (rt_id t # seen) ts))"

definition continuous_paths :: "raw_continuous \<Rightarrow> string list" where
  "continuous_paths c =
     concat (map (\<lambda>p. given [] (map_option (\<lambda>v. [v]) p))
       [rc_language_service_socket c, rc_test_manifest c, rc_test_working_directory c, rc_family_proof_directory c])
     @ given [] (rc_library_paths c) @ given [] (rc_actions_evidence_files c)"

definition check_continuous :: "file_system \<Rightarrow> verifier dict \<Rightarrow> raw_continuous option \<Rightarrow> unit res" where
  "check_continuous fs verifiers continuous =
     (case continuous of
        None \<Rightarrow> Inr ()
      | Some c \<Rightarrow>
          and_then (check_contained fs (continuous_paths c)) (\<lambda>_.
          and_then (raise_if (case rc_candidate_identity c of None \<Rightarrow> False | Some t \<Rightarrow> blank t) config_invalid) (\<lambda>_.
          check_triggers verifiers [] (given [] (rc_triggers c)))))"

record project_config =
  pc_root :: "string list"
  pc_paths :: "string list dict"
  pc_providers :: "provider dict"
  pc_workflows :: "workflow dict"
  pc_verifiers :: "verifier dict"
  pc_raw :: raw_config

text \<open>\<open>at_root root\<close> is the file system seen from the project root that the document names.\<close>

definition load_config ::
  "(string list \<Rightarrow> file_system) \<Rightarrow> file_system \<Rightarrow> (string \<Rightarrow> string \<Rightarrow> bool) \<Rightarrow> raw_config \<Rightarrow> project_config res"
where
  "load_config at_root fs0 exceeds_duration raw =
     and_then (validate_config_data raw) (\<lambda>_.
     and_then (resolve_project_root fs0 (ra_project_root raw)) (\<lambda>root.
     let fs = at_root root in
     and_then (check_trees fs (concat (map snd (ra_paths raw)))) (\<lambda>_.
     and_then (scopes_of (declared_paths (ra_paths raw) WRITABLE_KEYS)) (\<lambda>ws.
     and_then (scopes_of (declared_paths (ra_paths raw) PROTECTED_KEYS)) (\<lambda>protected.
     and_then (validate_scopes_do_not_overlap ws protected) (\<lambda>_.
     and_then (check_runner (ra_runner raw) protected) (\<lambda>_.
     and_then (check_contained fs (map snd (ra_policies raw))) (\<lambda>_.
     and_then (load_workflows [] (ra_workflows raw)) (\<lambda>workflows.
     and_then (load_providers fs [] (given [] (ra_providers raw))) (\<lambda>providers.
     and_then (run_checks (map (check_workflow providers) (map snd workflows))) (\<lambda>_.
     and_then (load_verifiers
       \<lparr>va_exceeds = exceeds_duration, va_timeout = ra_timeout raw, va_may_run_providers = ra_may_run_providers raw\<rparr>
       providers workflows [] (given [] (ra_verifiers raw))) (\<lambda>verifiers.
     and_then (check_continuous fs verifiers (ra_continuous raw)) (\<lambda>_.
     Inr \<lparr>pc_root = root, pc_paths = ra_paths raw, pc_providers = providers, pc_workflows = workflows,
          pc_verifiers = verifiers, pc_raw = raw\<rparr>)))))))))))))"

text \<open>\<open>relative_scopes(*keys)\<close>.\<close>

definition relative_scopes :: "project_config \<Rightarrow> string list \<Rightarrow> string list list res" where
  "relative_scopes cfg keys = scopes_of (declared_paths (pc_paths cfg) keys)"

section \<open>What a loaded configuration guarantees\<close>

text \<open>Every declared verifier runs exactly a declared command of its provider, within its workflow's authority.\<close>

definition verifier_declared :: "verifier_authority \<Rightarrow> provider dict \<Rightarrow> workflow dict \<Rightarrow> verifier \<Rightarrow> bool" where
  "verifier_declared authority' providers workflows v \<longleftrightarrow>
     (\<exists>p w. dict_get providers (vf_provider v) = Some p \<and> dict_get workflows (vf_workflow v) = Some w
        \<and> wf_provider_protocol w \<and> wf_provider_id w = Some (vf_provider v) \<and> wf_command w = pv_command p
        \<and> pv_command p \<noteq> [] \<and> vf_method v \<in> set (pv_capabilities p) \<and> set (vf_modes v) \<subseteq> set (workflow_modes w)
        \<and> (''development'' \<in> set (vf_modes v) \<longrightarrow> va_may_run_providers authority')
        \<and> vf_category v = wf_category w \<and> \<not> va_exceeds authority' (vf_timeout v) (va_timeout authority')
        \<and> (wf_disclosure w = ''status-only'' \<longrightarrow> vf_disclosure v = ''status-only''))"

lemma validate_argv_Inr [simp]:
  "validate_argv command = Inr argv \<longleftrightarrow>
     argv = command \<and> command \<noteq> [] \<and> list_all (\<lambda>v. v \<noteq> [] \<and> CHR 0x00 \<notin> set v) command"
  by (auto simp: validate_argv_def and_then_Inr_iff raise_if_Inr_iff)

lemma load_workflows_wf:
  assumes "load_workflows workflows items = Inr loaded" "dict_wf workflows"
    "\<forall>(k, w) \<in> set workflows. wf_name w = k \<and> wf_command w \<noteq> []"
  shows "dict_wf loaded \<and> (\<forall>(k, w) \<in> set loaded. wf_name w = k \<and> wf_command w \<noteq> [])"
  using assms
proof (induction workflows items rule: load_workflows.induct)
  case (2 workflows item items)
  then have new: "rw_name item \<notin> set (dict_keys workflows)" and ok: "rw_command item \<noteq> []"
    and rest: "load_workflows (workflows @ [(rw_name item, workflow_of item (rw_command item))]) items = Inr loaded"
    by (auto simp: and_then_Inr_iff split: if_splits)
  with 2(3,4) show ?case by (intro 2(1) [OF new]) (auto simp: workflow_of_def)
qed simp

lemma load_verifier_declared:
  assumes "load_verifier authority' providers workflows item = Inr v"
    "\<forall>(k, w) \<in> set workflows. wf_command w \<noteq> []"
  shows "vf_id v = rv_id item \<and> verifier_declared authority' providers workflows v"
proof -
  from assms(1) obtain p w where p: "dict_get providers (rv_provider item) = Some p"
    and w: "dict_get workflows (rv_workflow item) = Some w"
    by (auto simp: load_verifier_def split: option.splits)
  from w assms(2) have "wf_command w \<noteq> []" by (auto dest: map_of_SomeD)
  with assms(1) p w show ?thesis
    by (auto simp: load_verifier_def Let_def and_then_Inr_iff raise_if_Inr_iff verifier_of_def verifier_declared_def)
qed

lemma load_verifiers_declared:
  assumes "load_verifiers authority' providers workflows verifiers items = Inr loaded"
    "\<forall>(k, w) \<in> set workflows. wf_command w \<noteq> []"
    "\<forall>(k, v) \<in> set verifiers. vf_id v = k \<and> verifier_declared authority' providers workflows v"
  shows "\<forall>(k, v) \<in> set loaded. vf_id v = k \<and> verifier_declared authority' providers workflows v"
  using assms
proof (induction authority' providers workflows verifiers items rule: load_verifiers.induct)
  case (2 authority' providers workflows verifiers item items)
  then obtain v where new: "rv_id item \<notin> set (dict_keys verifiers)"
    and v: "load_verifier authority' providers workflows item = Inr v"
    and rest: "load_verifiers authority' providers workflows (verifiers @ [(rv_id item, v)]) items = Inr loaded"
    by (auto simp: and_then_Inr_iff split: if_splits)
  with load_verifier_declared [OF v 2(3)] 2(3,4) show ?case by (intro 2(1) [OF new _ 2(3)]) auto
qed simp

definition granted :: "(string \<Rightarrow> string \<Rightarrow> bool) \<Rightarrow> raw_config \<Rightarrow> verifier_authority" where
  "granted exceeds_duration raw =
     \<lparr>va_exceeds = exceeds_duration, va_timeout = ra_timeout raw, va_may_run_providers = ra_may_run_providers raw\<rparr>"

lemma load_config_Inr:
  assumes "load_config at_root fs0 exceeds_duration raw = Inr cfg"
  shows "\<exists>ws ps. relative_scopes cfg WRITABLE_KEYS = Inr ws \<and> relative_scopes cfg PROTECTED_KEYS = Inr ps
      \<and> validate_scopes_do_not_overlap ws ps = Inr ()"
    "load_workflows [] (ra_workflows raw) = Inr (pc_workflows cfg)"
    "load_verifiers (granted exceeds_duration raw) (pc_providers cfg) (pc_workflows cfg) [] (given [] (ra_verifiers raw))
       = Inr (pc_verifiers cfg)"
    "pc_raw cfg = raw" "check_trees (at_root (pc_root cfg)) (concat (map snd (pc_paths cfg))) = Inr ()"
  using assms by (auto simp: load_config_def Let_def and_then_Inr_iff relative_scopes_def granted_def)

lemma loaded_verifiers_declared:
  assumes "load_config at_root fs0 exceeds_duration raw = Inr cfg" "dict_get (pc_verifiers cfg) k = Some v"
  shows "vf_id v = k \<and> verifier_declared (granted exceeds_duration raw) (pc_providers cfg) (pc_workflows cfg) v"
proof -
  note ws = load_config_Inr(2) [OF assms(1)] and vs = load_config_Inr(3) [OF assms(1)]
  from load_workflows_wf [OF ws] have "\<forall>(k, w) \<in> set (pc_workflows cfg). wf_command w \<noteq> []" by auto
  then have "\<forall>(k, v) \<in> set (pc_verifiers cfg). vf_id v = k
      \<and> verifier_declared (granted exceeds_duration raw) (pc_providers cfg) (pc_workflows cfg) v"
    by (intro load_verifiers_declared [OF vs]) simp_all
  with map_of_SomeD [OF assms(2)] show ?thesis by blast
qed

lemma loaded_scopes_disjoint:
  assumes "load_config at_root fs0 exceeds_duration raw = Inr cfg"
    "relative_scopes cfg WRITABLE_KEYS = Inr ws" "relative_scopes cfg PROTECTED_KEYS = Inr protected"
  shows "\<not> (is_within path ws \<and> is_within path protected)"
proof -
  from load_config_Inr(1) [OF assms(1)] assms(2,3) no_common_path_iff show ?thesis by auto
qed

lemma check_trees_contained:
  assumes "check_trees fs ps = Inr ()" "p \<in> set ps"
  shows "\<exists>resolved. resolve_contained fs False p = Inr resolved \<and> prefix (fs_root fs) resolved"
proof -
  from assms obtain resolved where "resolve_contained fs False p = Inr resolved"
    by (auto simp: check_trees_def run_checks_Inr and_then_Inr_iff)
  with resolve_contained_within [OF this] show ?thesis by blast
qed

end
