(* ===== verification/ProviderResponses.thy ===== *)
theory ProviderResponses
  imports StatusAggregation JsonText FrozenValues
begin

text \<open>
  What the program accepts from a provider: \<open>parse_provider_response\<close> and \<open>parse_provider_capabilities\<close>
  of \<open>execution.py\<close>, and \<open>redact\<close> of \<open>application/support.py\<close>. The output of a provider is a sequence of
  bytes that is one line of JSON.
\<close>

section \<open>Text\<close>

text \<open>The length in bytes of a line break of \<open>str.splitlines\<close> at the beginning of a UTF-8 text.\<close>

definition line_break :: "string \<Rightarrow> nat" where
  "line_break s =
     (case s of
        [] \<Rightarrow> 0
      | c # cs \<Rightarrow>
          if c = CHR 0x0D then (if take 1 cs = [CHR 0x0A] then 2 else 1)
          else if c \<in> {CHR 0x0A, CHR 0x0B, CHR 0x0C, CHR 0x1C, CHR 0x1D, CHR 0x1E} then 1
          else if c = CHR 0xC2 \<and> take 1 cs = [CHR 0x85] then 2
          else if c = CHR 0xE2 \<and> take 2 cs \<in> {[CHR 0x80, CHR 0xA8], [CHR 0x80, CHR 0xA9]} then 3
          else 0)"

function split_text :: "string \<Rightarrow> string \<Rightarrow> string list" where
  "split_text line [] = (if line = [] then [] else [rev line])"
| "split_text line (c # cs) =
     (case line_break (c # cs) of
        0 \<Rightarrow> split_text (c # line) cs
      | Suc n \<Rightarrow> rev line # split_text [] (drop n cs))"
  by pat_completeness auto
termination by (relation "measure (length \<circ> snd)") auto

definition text_lines :: "string \<Rightarrow> string list" where
  "text_lines s = split_text [] s"

text \<open>\<open>text[:n]\<close> of a UTF-8 text counts code points.\<close>

fun take_text :: "nat \<Rightarrow> string \<Rightarrow> string" where
  "take_text 0 s = []"
| "take_text (Suc n) s =
     (case utf8_step s of
        None \<Rightarrow> []
      | Some r \<Rightarrow> take (length s - length r) s @ take_text n r)"

text \<open>\<open>str\<close> of a JSON value: lists and dictionaries print as such.\<close>

fun json_repr :: "json \<Rightarrow> string" where
  "json_repr JNull = ''None''"
| "json_repr (JBool b) = (if b then ''True'' else ''False'')"
| "json_repr (JInt i) = int_str i"
| "json_repr (JFloat f) = f"
| "json_repr (JStr s) = repr_text s"
| "json_repr (JArr xs) = ''['' @ join '', '' (map json_repr xs) @ '']''"
| "json_repr (JObj d) = ''{'' @ join '', '' (map (\<lambda>(k, v). repr_text k @ '': '' @ json_repr v) d) @ ''}''"

definition json_str :: "json \<Rightarrow> string" where
  "json_str v = (case v of JStr s \<Rightarrow> s | _ \<Rightarrow> json_repr v)"

definition json_truthy :: "json \<Rightarrow> bool" where
  "json_truthy v = truthy (freeze_json v)"

section \<open>Responses\<close>

definition framing :: py_error where
  "framing = ForgeError ''PROVIDER_FRAMING'' []"

definition malformed_response :: py_error where
  "malformed_response = ForgeError ''PROVIDER_MALFORMED'' []"

definition RESPONSE_TYPES :: "string list" where
  "RESPONSE_TYPES = [''analysis_response'', ''capabilities'', ''health_response'', ''error'', ''cancelled'']"

definition check_response :: "obj \<Rightarrow> unit res" where
  "check_response v =
     and_then (raise_if (obj_get v ''protocol_version'' \<noteq> JStr ''0.1'') (ForgeError ''PROVIDER_UNSUPPORTED'' [])) (\<lambda>_.
     and_then (require_in (obj_get v ''type'') RESPONSE_TYPES malformed_response) (\<lambda>_.
     and_then (raise_if (\<not> is_obj (obj_get v ''provider'')) malformed_response) (\<lambda>_.
     and_then (raise_if (\<not> is_obj (obj_get v ''extensions'')) malformed_response) (\<lambda>_.
     raise_if (obj_get v ''type'' = JStr ''analysis_response''
         \<and> (case obj_get v ''status'' of JStr s \<Rightarrow> s \<notin> set STATUSES | _ \<Rightarrow> True)) malformed_response))))"

definition parse_provider_response :: "(string \<Rightarrow> string) \<Rightarrow> string \<Rightarrow> obj res" where
  "parse_provider_response fr stdout =
     (if \<not> utf8_valid stdout then Inl framing
      else
        (case text_lines stdout of
           [line] \<Rightarrow>
             if line = [] then Inl framing
             else
               (case json_loads fr keep_last line of
                  None \<Rightarrow> Inl malformed_response
                | Some (JObj v) \<Rightarrow> and_then (check_response v) (\<lambda>_. Inr v)
                | Some _ \<Rightarrow> Inl malformed_response)
         | _ \<Rightarrow> Inl framing))"

text \<open>A list whose items are non-empty texts.\<close>

definition text_array :: "json \<Rightarrow> bool" where
  "text_array v = (case v of JArr xs \<Rightarrow> list_all is_text xs | _ \<Rightarrow> False)"

definition unique_texts :: "json \<Rightarrow> bool" where
  "unique_texts v = (case v of JArr xs \<Rightarrow> list_all is_text xs \<and> distinct xs | _ \<Rightarrow> False)"

definition known_statuses :: "json \<Rightarrow> bool" where
  "known_statuses v =
     (case v of
        JArr xs \<Rightarrow> xs \<noteq> [] \<and> list_all (\<lambda>x. case x of JStr s \<Rightarrow> s \<in> set STATUSES | _ \<Rightarrow> False) xs
      | _ \<Rightarrow> False)"

definition is_bool :: "json \<Rightarrow> bool" where
  "is_bool v = (case v of JBool b \<Rightarrow> True | _ \<Rightarrow> False)"

definition extension_texts :: "obj \<Rightarrow> string \<Rightarrow> unit res" where
  "extension_texts extensions k =
     (case dict_get extensions k of
        None \<Rightarrow> Inr ()
      | Some v \<Rightarrow> raise_if (\<not> text_array v) malformed_response)"

definition parse_provider_capabilities :: "(string \<Rightarrow> string) \<Rightarrow> string \<Rightarrow> obj res" where
  "parse_provider_capabilities fr stdout =
     and_then (parse_provider_response fr stdout) (\<lambda>v.
     and_then (raise_if (obj_get v ''type'' \<noteq> JStr ''capabilities'') malformed_response) (\<lambda>_.
     and_then (raise_if (\<not> unique_texts (obj_get v ''analyses'')) malformed_response) (\<lambda>_.
     and_then (raise_if (\<not> known_statuses (obj_get v ''statuses'')) malformed_response) (\<lambda>_.
     and_then (raise_if (\<not> is_bool (obj_get v ''cancellation'')) malformed_response) (\<lambda>_.
     and_then (raise_if (\<not> is_bool (obj_get v ''health_checks'')) malformed_response) (\<lambda>_.
     and_then (case obj_get v ''extensions'' of
         JObj extensions \<Rightarrow>
           run_checks (map (extension_texts extensions) [''supported_constructs'', ''unsupported_constructs'', ''limitations''])
       | _ \<Rightarrow> Inr ()) (\<lambda>_.
     Inr v)))))))"

section \<open>Redaction of diagnostics\<close>

text \<open>
  \<open>SECRET_PATTERN\<close>: a word, separators, and a value that is replaced. Letters are compared without case
  in ASCII, and white space is that of ASCII.
\<close>

definition SECRET_WORDS :: "string list" where
  "SECRET_WORDS = [''token'', ''secret'', ''password'', ''authorization'', ''api_key'', ''api-key'', ''apikey'']"

definition white :: "char \<Rightarrow> bool" where
  "white c \<longleftrightarrow> c \<in> {CHR '' '', CHR 0x09, CHR 0x0A, CHR 0x0B, CHR 0x0C, CHR 0x0D, CHR 0x1C, CHR 0x1D, CHR 0x1E, CHR 0x1F}"

definition separator :: "char \<Rightarrow> bool" where
  "separator c \<longleftrightarrow> c \<in> {CHR 0x22, CHR 0x27, CHR ''='', CHR '':''} \<or> white c"

definition value_char :: "char \<Rightarrow> bool" where
  "value_char c \<longleftrightarrow> \<not> white c \<and> c \<notin> {CHR '','', CHR 0x22, CHR 0x27}"

definition secret_word :: "string \<Rightarrow> string option" where
  "secret_word s = List.find (\<lambda>w. map lower_char (take (length w) s) = w) SECRET_WORDS"

text \<open>The longest run of separators that a value follows; the run gives back what the value needs.\<close>

fun separator_length :: "nat \<Rightarrow> string \<Rightarrow> nat option" where
  "separator_length 0 s = None"
| "separator_length (Suc n) s =
     (if n + 1 < length s \<and> value_char (s ! (n + 1)) then Some (Suc n) else separator_length n s)"

definition secret_match :: "string \<Rightarrow> (nat \<times> nat) option" where
  "secret_match s =
     (case secret_word s of
        None \<Rightarrow> None
      | Some w \<Rightarrow>
          let rest = drop (length w) s in
          (case separator_length (length (takeWhile separator rest)) rest of
             None \<Rightarrow> None
           | Some n \<Rightarrow> Some (length w + n, length (takeWhile value_char (drop n rest)))))"

lemma separator_length_pos: "separator_length n s = Some k \<Longrightarrow> 0 < k \<and> k \<le> n \<and> k < length s \<and> value_char (s ! k)"
  by (induction n s rule: separator_length.induct) (auto split: if_splits)

lemma secret_match_pos: "secret_match s = Some (k, n) \<Longrightarrow> 0 < k"
  by (auto simp: secret_match_def Let_def split: option.splits dest: separator_length_pos)

function redact_secrets :: "string \<Rightarrow> string" where
  "redact_secrets s =
     (case s of
        [] \<Rightarrow> []
      | c # cs \<Rightarrow>
          (case secret_match s of
             None \<Rightarrow> c # redact_secrets cs
           | Some (k, n) \<Rightarrow> take k s @ ''<redacted>'' @ redact_secrets (drop (k + n) s)))"
  by pat_completeness auto
termination
  by (relation "measure length") (auto dest!: secret_match_pos)

declare redact_secrets.simps [simp del]

definition redact_text :: "nat \<Rightarrow> string \<Rightarrow> string" where
  "redact_text limit t = redact_secrets (take_text limit t)"

section \<open>Facts\<close>

lemma check_response_Inr:
  "check_response v = Inr () \<longleftrightarrow>
     obj_get v ''protocol_version'' = JStr ''0.1'' \<and> (\<exists>t \<in> set RESPONSE_TYPES. obj_get v ''type'' = JStr t)
     \<and> is_obj (obj_get v ''provider'') \<and> is_obj (obj_get v ''extensions'')
     \<and> (obj_get v ''type'' = JStr ''analysis_response'' \<longrightarrow> (\<exists>s \<in> set STATUSES. obj_get v ''status'' = JStr s))"
  by (auto simp: check_response_def and_then_Inr_iff raise_if_Inr_iff require_in_Inr split: json.splits)

lemma parse_provider_response_checked:
  assumes "parse_provider_response fr stdout = Inr v"
  shows "check_response v = Inr ()"
  using assms by (auto simp: parse_provider_response_def and_then_Inr_iff split: if_splits list.splits option.splits json.splits)

end
