(* ===== verification/VerifierInputs.thy ===== *)
theory VerifierInputs
  imports Configuration ProviderResponses
begin

text \<open>
  The inputs of a micro-verifier (\<open>micro_verifiers.py\<close>): what a request may select and carry before an
  action is recorded, the identities that an action binds, and the request itself.
\<close>

section \<open>The service\<close>

text \<open>\<open>verifier_limits\<close> of the configuration, in bytes and counts.\<close>

record verifier_limits =
  vl_max_batch :: nat
  vl_request_bytes :: nat
  vl_witness_bytes :: nat
  vl_stderr_bytes :: nat
  vl_result_bytes :: nat
  vl_max_changed_paths :: nat
  vl_max_dependency_identities :: nat
  vl_max_question_parameters :: nat

text \<open>
  The files of the project, the environment of its workflows and the identity of the configuration
  document are parameters: \<open>ms_content\<close> is \<open>observer.content_identity\<close> of resolved paths.
\<close>

record verifier_service =
  ms_context :: lifecycle_context
  ms_config :: project_config
  ms_limits :: verifier_limits
  ms_files :: file_system
  ms_content :: "string list list \<Rightarrow> string res"
  ms_environment :: "workflow \<Rightarrow> string dict res"
  ms_configuration_identity :: string

definition ms_mode :: "verifier_service \<Rightarrow> string" where
  "ms_mode ms = lc_mode (ms_context ms)"

definition ms_identity :: "verifier_service \<Rightarrow> json \<Rightarrow> string" where
  "ms_identity ms v = local_json_identity (env_sha (lc_env (ms_context ms))) v"

definition declared_verifier :: "verifier_service \<Rightarrow> string \<Rightarrow> verifier res" where
  "declared_verifier ms verifier_id =
     (case dict_get (pc_verifiers (ms_config ms)) verifier_id of
        None \<Rightarrow> Inl (ForgeError ''VERIFIER_NOT_DECLARED'' [verifier_id])
      | Some v \<Rightarrow> Inr v)"

definition dict_item :: "'a dict \<Rightarrow> string \<Rightarrow> 'a res" where
  "dict_item d k = (case dict_get d k of None \<Rightarrow> Inl (PyKeyError k) | Some v \<Rightarrow> Inr v)"

section \<open>Paths\<close>

definition VERIFIER_WRITABLE :: "string list" where
  "VERIFIER_WRITABLE = [''candidates'', ''generated'']"

definition validate_changed_path ::
  "verifier_service \<Rightarrow> bool \<Rightarrow> string list list \<Rightarrow> string list list \<Rightarrow> string \<Rightarrow> string res"
where
  "validate_changed_path ms require_files ws protected p =
     and_then (validate_relative_path False p) (\<lambda>relative.
     and_then (raise_if (is_within relative protected) (ForgeError ''PROTECTED_PATH'' [p])) (\<lambda>_.
     and_then (raise_if (\<not> is_within relative ws) (ForgeError ''VERIFIER_PATH'' [p])) (\<lambda>_.
     and_then (resolve_contained (ms_files ms) require_files p) (\<lambda>resolved.
     and_then (raise_if (fs_exists (ms_files ms) resolved \<and> \<not> fs_is_file (ms_files ms) resolved)
       (ForgeError ''VERIFIER_PATH'' [p])) (\<lambda>_. Inr p)))))"

definition validate_changed_paths :: "verifier_service \<Rightarrow> bool \<Rightarrow> string list \<Rightarrow> string list res" where
  "validate_changed_paths ms require_files ps =
     and_then (raise_if (vl_max_changed_paths (ms_limits ms) < length ps) (ForgeError ''VERIFIER_PATH_LIMIT'' [])) (\<lambda>_.
     and_then (relative_scopes (ms_config ms) VERIFIER_WRITABLE) (\<lambda>ws.
     and_then (relative_scopes (ms_config ms) PROTECTED_KEYS) (\<lambda>protected.
     traverse (validate_changed_path ms require_files ws protected) (sort (remdups ps)))))"

definition REGION_KEYS :: "string list" where
  "REGION_KEYS = [''path'', ''start_line'', ''end_line'']"

definition region_lines :: "obj \<Rightarrow> (string \<times> int \<times> int) option" where
  "region_lines region =
     (case (obj_get region ''path'', obj_get region ''start_line'', obj_get region ''end_line'') of
        (JStr path, JInt start, JInt end') \<Rightarrow>
          if start < 1 \<or> end' < start \<or> 2000 < end' - start then None else Some (path, start, end')
      | _ \<Rightarrow> None)"

definition validate_source_region :: "verifier_service \<Rightarrow> verifier \<Rightarrow> obj option \<Rightarrow> obj option res" where
  "validate_source_region ms v region_or_none =
     (case region_or_none of
        None \<Rightarrow> Inr None
      | Some region \<Rightarrow>
          and_then (raise_if (''source_region'' \<notin> set (vf_input_kinds v)) (ForgeError ''VERIFIER_INPUT'' [])) (\<lambda>_.
          and_then (raise_if (set (dict_keys region) \<noteq> set REGION_KEYS) (ForgeError ''VERIFIER_REGION'' [])) (\<lambda>_.
          case region_lines region of
            None \<Rightarrow> Inl (ForgeError ''VERIFIER_REGION'' [])
          | Some (path, start, end') \<Rightarrow>
              and_then (validate_changed_paths ms True [path]) (\<lambda>validated.
              Inr (Some [(''path'', JStr (hd validated)), (''start_line'', JInt start), (''end_line'', JInt end')])))))"

section \<open>Identities and parameters\<close>

text \<open>The length of a UTF-8 text in code points.\<close>

definition text_length :: "string \<Rightarrow> nat" where
  "text_length s = length (filter (\<lambda>c. \<not> byte_in 0x80 0xBF c) s)"

definition validate_dependency_identity :: "string \<times> string \<Rightarrow> (string \<times> string) res" where
  "validate_dependency_identity kv =
     and_then (raise_if (fst kv = [] \<or> 256 < text_length (fst kv) \<or> snd kv = [] \<or> 512 < text_length (snd kv))
       (ForgeError ''VERIFIER_DEPENDENCY'' [])) (\<lambda>_. Inr kv)"

definition sorted_items :: "'a dict \<Rightarrow> 'a dict" where
  "sorted_items d = sort_key fst d"

definition validate_dependency_identities :: "verifier_service \<Rightarrow> string dict \<Rightarrow> string dict res" where
  "validate_dependency_identities ms d =
     and_then (raise_if (vl_max_dependency_identities (ms_limits ms) < length d)
       (ForgeError ''VERIFIER_DEPENDENCY_LIMIT'' [])) (\<lambda>_.
     traverse validate_dependency_identity (sorted_items d))"

definition RESERVED_PARAMETER_KEYS :: "string list" where
  "RESERVED_PARAMETER_KEYS = [''argv'', ''command'', ''env'', ''environment'', ''executable'', ''shell'', ''working_directory'']"

fun validate_json_value :: "nat \<Rightarrow> json \<Rightarrow> unit res" where
  "validate_json_value depth (JArr xs) =
     (if 5 < depth \<or> 128 < length xs then Inl (ForgeError ''VERIFIER_PARAMETER_LIMIT'' [])
      else run_checks (map (validate_json_value (Suc depth)) xs))"
| "validate_json_value depth (JObj d) =
     (if 5 < depth \<or> 128 < length d \<or> \<not> list_all (\<lambda>k. 0 < text_length k \<and> text_length k \<le> 128) (map fst d)
      then Inl (ForgeError ''VERIFIER_PARAMETER_LIMIT'' [])
      else run_checks (map (\<lambda>(k, v). validate_json_value (Suc depth) v) d))"
| "validate_json_value depth (JStr s) =
     raise_if (5 < depth \<or> 4096 < text_length s) (ForgeError ''VERIFIER_PARAMETER_LIMIT'' [])"
| "validate_json_value depth _ = raise_if (5 < depth) (ForgeError ''VERIFIER_PARAMETER_LIMIT'' [])"

definition validate_parameters :: "verifier_service \<Rightarrow> verifier \<Rightarrow> obj \<Rightarrow> obj res" where
  "validate_parameters ms v d =
     and_then (raise_if (vl_max_question_parameters (ms_limits ms) < length d)
       (ForgeError ''VERIFIER_PARAMETER_LIMIT'' [])) (\<lambda>_.
     and_then (raise_if (\<not> set (dict_keys d) \<subseteq> set (vf_parameter_keys v)) (ForgeError ''VERIFIER_PARAMETER'' [])) (\<lambda>_.
     and_then (raise_if (set (dict_keys d) \<inter> set RESERVED_PARAMETER_KEYS \<noteq> {}) (ForgeError ''VERIFIER_PARAMETER'' [])) (\<lambda>_.
     and_then (validate_json_value 0 (JObj d)) (\<lambda>_.
     Inr (sorted_items d)))))"

section \<open>A request\<close>

record verifier_request =
  vq_candidate :: "string option"
  vq_changed_paths :: "string list"
  vq_scope :: "string option"
  vq_source_region :: "obj option"
  vq_contract :: "string option"
  vq_dependencies :: "string dict"
  vq_prior_artifact :: "string option"
  vq_parameters :: obj

definition provided_inputs :: "verifier_request \<Rightarrow> string list" where
  "provided_inputs q =
     (if vq_changed_paths q \<noteq> [] then [''changed_paths''] else [])
     @ (if vq_source_region q \<noteq> None then [''source_region''] else [])
     @ (if vq_contract q \<noteq> None then [''contract_identity''] else [])
     @ (if vq_dependencies q \<noteq> [] then [''dependency_slice_identities''] else [])
     @ (if vq_prior_artifact q \<noteq> None then [''prior_artifact_identity''] else [])
     @ (if vq_parameters q \<noteq> [] then [''question_parameters''] else [])"

definition validate_input_kinds :: "verifier \<Rightarrow> verifier_request \<Rightarrow> unit res" where
  "validate_input_kinds v q =
     raise_if (\<not> set (provided_inputs q) \<subseteq> set (vf_input_kinds v)) (ForgeError ''VERIFIER_INPUT'' [])"

definition verifier_scope :: "verifier \<Rightarrow> string option \<Rightarrow> string res" where
  "verifier_scope v scope =
     (case scope of
        None \<Rightarrow>
          (case vf_scopes v of
             [s] \<Rightarrow> Inr s
           | _ \<Rightarrow> Inl (ForgeError ''VERIFIER_SCOPE'' []))
      | Some s \<Rightarrow> and_then (raise_if (s \<notin> set (vf_scopes v)) (ForgeError ''VERIFIER_SCOPE'' [])) (\<lambda>_. Inr s))"

text \<open>The validations of \<open>run\<close>, in their order: the request with the values that are used from here on.\<close>

definition validate_request ::
  "verifier_service \<Rightarrow> verifier \<Rightarrow> verifier_request \<Rightarrow> (string \<times> verifier_request) res"
where
  "validate_request ms v q =
     and_then (verifier_scope v (vq_scope q)) (\<lambda>scope.
     and_then (validate_changed_paths ms False (vq_changed_paths q)) (\<lambda>paths.
     and_then (validate_source_region ms v (vq_source_region q)) (\<lambda>region.
     and_then (validate_dependency_identities ms (vq_dependencies q)) (\<lambda>dependencies.
     and_then (validate_parameters ms v (vq_parameters q)) (\<lambda>parameters.
     let validated = q\<lparr>vq_changed_paths := paths, vq_source_region := region, vq_dependencies := dependencies,
           vq_parameters := parameters\<rparr> in
     and_then (validate_input_kinds v validated) (\<lambda>_. Inr (scope, validated)))))))"

definition configured_paths :: "verifier_service \<Rightarrow> string list \<Rightarrow> string list list res" where
  "configured_paths ms keys =
     traverse (resolve_contained (ms_files ms) False) (declared_paths (pc_paths (ms_config ms)) keys)"

definition check_contract :: "verifier_service \<Rightarrow> string option \<Rightarrow> unit res" where
  "check_contract ms contract =
     and_then (configured_paths ms [''contracts'']) (\<lambda>paths.
     and_then (ms_content ms paths) (\<lambda>current.
     raise_if (contract \<notin> {None, Some current}) (ForgeError ''CONTRACT_IDENTITY'' [])))"

section \<open>Material identities\<close>

definition jtext_or_null :: "string option \<Rightarrow> json" where
  "jtext_or_null t = (case t of None \<Rightarrow> JNull | Some s \<Rightarrow> JStr s)"

definition jmap :: "string dict \<Rightarrow> json" where
  "jmap d = JObj (map (\<lambda>(k, v). (k, JStr v)) d)"

definition public_verifier :: "project_config \<Rightarrow> verifier \<Rightarrow> obj res" where
  "public_verifier cfg v =
     and_then (dict_item (pc_providers cfg) (vf_provider v)) (\<lambda>p.
     Inr [(''verifier_id'', JStr (vf_id v)),
          (''version'', JStr (vf_version v)),
          (''claim'', JStr (vf_claim v)),
          (''category'', JStr (vf_category v)),
          (''modes'', jtexts (vf_modes v)),
          (''languages'', jtexts (vf_languages v)),
          (''artifact_types'', jtexts (vf_artifact_types v)),
          (''scopes'', jtexts (vf_scopes v)),
          (''input_kinds'', jtexts (vf_input_kinds v)),
          (''uncertainty_classes'', jtexts (vf_uncertainty_classes v)),
          (''cost'', JStr (vf_cost v)),
          (''limitations'', jtexts (vf_limitations v)),
          (''provider_id'', JStr (vf_provider v)),
          (''provider_identity'', jtext_or_null (pv_identity p)),
          (''provider_version'', jtext_or_null (pv_version p)),
          (''method'', JStr (vf_method v))])"

definition provider_configuration :: "provider \<Rightarrow> json" where
  "provider_configuration p = JObj
     [(''provider_id'', JStr (pv_id p)),
      (''name'', JStr (pv_name p)),
      (''identity'', jtext_or_null (pv_identity p)),
      (''version'', jtext_or_null (pv_version p)),
      (''command'', jtexts (pv_command p)),
      (''capabilities'', jtexts (pv_capabilities p)),
      (''executable_identity'', jtext_or_null (pv_executable_identity p)),
      (''descriptor'', jtext_or_null (pv_descriptor p))]"

definition workflow_configuration :: "workflow \<Rightarrow> json" where
  "workflow_configuration w = JObj
     [(''name'', JStr (wf_name w)),
      (''category'', JStr (wf_category w)),
      (''subject'', JStr (wf_subject w)),
      (''mode'', JStr (wf_mode w)),
      (''command'', jtexts (wf_command w)),
      (''provider_protocol'', JBool (wf_provider_protocol w)),
      (''provider_id'', jtext_or_null (wf_provider_id w)),
      (''environment'', jmap (wf_environment w)),
      (''disclosure'', JStr (wf_disclosure w))]"

definition verifier_configuration :: "verifier_service \<Rightarrow> verifier \<Rightarrow> provider \<Rightarrow> workflow \<Rightarrow> json res" where
  "verifier_configuration ms v p w =
     and_then (public_verifier (ms_config ms) v) (\<lambda>public.
     Inr (JObj (public @
       [(''workflow'', JStr (vf_workflow v)),
        (''assumptions'', jtexts (vf_assumptions v)),
        (''parameter_keys'', jtexts (vf_parameter_keys v)),
        (''timeout_seconds'', JFloat (vf_timeout v)),
        (''disclosure'', JStr (vf_disclosure v)),
        (''provider_configuration_identity'', JStr (ms_identity ms (provider_configuration p))),
        (''workflow_configuration_identity'', JStr (ms_identity ms (workflow_configuration w)))])))"

definition policy_paths :: "verifier_service \<Rightarrow> string list list res" where
  "policy_paths ms =
     and_then (configured_paths ms [''acceptance_policies'']) (\<lambda>acceptance.
     and_then (dict_item (ra_policies (pc_raw (ms_config ms))) ''selection'') (\<lambda>selection.
     and_then (resolve_contained (ms_files ms) False selection) (\<lambda>selection_path.
     and_then (dict_item (ra_policies (pc_raw (ms_config ms))) ''useful_benefit_objective'') (\<lambda>objective.
     and_then (resolve_contained (ms_files ms) False objective) (\<lambda>objective_path.
     Inr (acceptance @ [selection_path, objective_path]))))))"

definition material_identities ::
  "verifier_service \<Rightarrow> verifier \<Rightarrow> provider \<Rightarrow> workflow \<Rightarrow> string dict \<Rightarrow> string dict res"
where
  "material_identities ms v p w environment =
     and_then (verifier_configuration ms v p w) (\<lambda>configuration.
     and_then (policy_paths ms) (\<lambda>paths.
     and_then (ms_content ms paths) (\<lambda>policy.
     Inr [(''configuration_identity'', ms_configuration_identity ms),
          (''provider_configuration_identity'', ms_identity ms (provider_configuration p)),
          (''verifier_identity'', ms_identity ms configuration),
          (''policy_identity'', policy),
          (''environment_identity'', ms_identity ms (jmap environment))])))"

section \<open>Facts\<close>

lemma validate_changed_paths_writable:
  assumes "validate_changed_paths ms require_files ps = Inr validated"
    "relative_scopes (ms_config ms) VERIFIER_WRITABLE = Inr ws"
    "relative_scopes (ms_config ms) PROTECTED_KEYS = Inr protected"
  shows "validated = sort (remdups ps)"
    "\<forall>p \<in> set ps. is_within (path_parts p) ws \<and> \<not> is_within (path_parts p) protected"
proof -
  from assms have run: "traverse (validate_changed_path ms require_files ws protected) (sort (remdups ps)) = Inr validated"
    by (auto simp: validate_changed_paths_def and_then_Inr_iff)
  have path: "q = p \<and> is_within (path_parts p) ws \<and> \<not> is_within (path_parts p) protected"
    if "validate_changed_path ms require_files ws protected p = Inr q" for p q
    using that by (auto simp: validate_changed_path_def and_then_Inr_iff raise_if_Inr_iff)
  have all: "ys = xs \<and> (\<forall>p \<in> set xs. is_within (path_parts p) ws \<and> \<not> is_within (path_parts p) protected)"
    if "traverse (validate_changed_path ms require_files ws protected) xs = Inr ys" for xs ys
    using that by (induction xs arbitrary: ys) (auto simp: and_then_Inr_iff dest: path)
  from all [OF run] show "validated = sort (remdups ps)"
    "\<forall>p \<in> set ps. is_within (path_parts p) ws \<and> \<not> is_within (path_parts p) protected" by simp_all
qed

lemma sorted_items_keys: "set (dict_keys (sorted_items d)) = set (dict_keys d)"
  by (simp add: sorted_items_def)

lemma validated_parameters_declared:
  "validate_parameters ms v d = Inr d' \<Longrightarrow>
     set (dict_keys d') \<subseteq> set (vf_parameter_keys v) \<and> set (dict_keys d') \<inter> set RESERVED_PARAMETER_KEYS = {}
     \<and> validate_json_value 0 (JObj d) = Inr () \<and> d' = sorted_items d"
  by (auto simp: validate_parameters_def and_then_Inr_iff raise_if_Inr_iff sorted_items_keys
      simp del: set_map validate_json_value.simps)

lemma validated_input_kinds:
  "validate_request ms v q = Inr (scope, q') \<Longrightarrow>
     set (provided_inputs q') \<subseteq> set (vf_input_kinds v) \<and> scope \<in> set (vf_scopes v)"
  by (auto simp: validate_request_def Let_def and_then_Inr_iff raise_if_Inr_iff validate_input_kinds_def
      verifier_scope_def split: option.splits list.splits)

end
