(* ===== verification/ExecutionReceipts.thy ===== *)
theory ExecutionReceipts
  imports VerifierInputs
begin

text \<open>
  \<open>application/execution_receipts.py\<close>: the record that binds an execution to its receipt. The receipt
  itself is built by \<open>mncs_execution_receipt.py\<close> from the observation and the action, and is a parameter.
\<close>

section \<open>Observations of a runner\<close>

record stream_observation =
  so_total_bytes :: "int option"
  so_truncated :: "bool option"

text \<open>The facts of an \<open>ExecutionObservation\<close> and its \<open>RunnerCapabilities\<close> that a binding reads.\<close>

record runner_observation =
  ro_termination :: string
  ro_started_at :: "string option"
  ro_ended_at :: "string option"
  ro_duration :: "string option"
  ro_stdout :: stream_observation
  ro_stderr :: stream_observation
  ro_aggregate_bytes :: "int option"
  ro_runner_identity :: string
  ro_runner_version :: string
  ro_runner_kind :: string
  ro_os_family :: string
  ro_architecture :: string
  ro_execution_scope :: string
  ro_timeout_enforcement :: string
  ro_stdout_limit :: string
  ro_stderr_limit :: string
  ro_filesystem_isolation :: string
  ro_network_isolation :: string
  ro_worker_identity :: "string option"
  ro_host_identity :: "string option"
  ro_executable_identity :: "string option"
  ro_image_identity :: "string option"
  ro_environment_identity :: string
  ro_same_operator :: "bool option"
  ro_envelope :: obj
  ro_observations :: obj

section \<open>What an execution establishes\<close>

definition INCOMPLETE_TERMINATIONS :: "string list" where
  "INCOMPLETE_TERMINATIONS =
     [''timeout'', ''output-limit'', ''crash'', ''cancelled'', ''internal-runner-error'', ''policy-rejected'', ''resource-limit'']"

definition property_state :: "bool \<Rightarrow> bool \<Rightarrow> string" where
  "property_state established unknown =
     (if unknown then ''unknown'' else if established then ''established'' else ''not-established'')"

definition established_properties :: "runner_observation \<Rightarrow> string dict" where
  "established_properties ob =
     (let completed = ro_termination ob \<in> {''completed'', ''nonzero-exit'', ''signal''} in
      [(''execution_completed'', property_state completed (\<not> completed)),
       (''local_result_validity'', ''unknown''),
       (''runner_capability'', property_state (ro_timeout_enforcement ob = ''enforced''
          \<and> ro_stdout_limit ob = ''enforced'' \<and> ro_stderr_limit ob = ''enforced'') False),
       (''filesystem_isolation'', property_state (ro_filesystem_isolation ob = ''enforced'') (ro_filesystem_isolation ob = ''unknown'')),
       (''network_isolation'', property_state (ro_network_isolation ob = ''enforced'') (ro_network_isolation ob = ''unknown'')),
       (''containerization'', property_state (ro_image_identity ob \<noteq> None) False),
       (''same_operator_execution'', property_state (ro_same_operator ob = Some True) (ro_same_operator ob = None)),
       (''external_anchoring'', ''not-established''),
       (''witnessing'', ''not-established''),
       (''protected_custody'', ''not-established''),
       (''evaluator_independence'', ''not-established''),
       (''governance_certification'', ''not-established'')])"

definition receipt_completeness :: "runner_observation \<Rightarrow> string" where
  "receipt_completeness ob =
     (if ro_termination ob \<in> set INCOMPLETE_TERMINATIONS then ''incomplete''
      else if ro_started_at ob = None \<or> ro_ended_at ob = None then ''incomplete''
      else if ro_duration ob = None then ''incomplete''
      else if so_total_bytes (ro_stdout ob) = None \<or> so_total_bytes (ro_stderr ob) = None then ''incomplete''
      else if ro_aggregate_bytes ob = None then ''incomplete''
      else if so_truncated (ro_stdout ob) = None \<or> so_truncated (ro_stderr ob) = None then ''incomplete''
      else ''complete'')"

text \<open>\<open>sha256_digest\<close>: the digest that an identity ends in.\<close>

definition sha256_digest :: "string option \<Rightarrow> string option" where
  "sha256_digest v =
     (case v of
        None \<Rightarrow> None
      | Some s \<Rightarrow>
          if hex64 s then Some s
          else if starts_with ''sha256:'' s \<and> hex64 (drop 7 s) then Some (drop 7 s)
          else if CHR '':'' \<in> set s \<and> hex64 (after_last_colon s) then Some (after_last_colon s)
          else None)"

section \<open>Bindings\<close>

record receipt_envelope =
  re_receipt :: "obj option"
  re_identity :: "string option"
  re_schema :: "string option"
  re_completeness :: string

definition no_receipt :: "string \<Rightarrow> receipt_envelope" where
  "no_receipt completeness = \<lparr>re_receipt = None, re_identity = None, re_schema = None, re_completeness = completeness\<rparr>"

text \<open>\<open>_envelope\<close>, over the outcome of building the receipt.\<close>

definition receipt_envelope_of :: "string \<Rightarrow> obj res \<Rightarrow> receipt_envelope res" where
  "receipt_envelope_of completeness built =
     (if completeness \<noteq> ''complete'' then Inr (no_receipt completeness)
      else
        (case built of
           Inl (ForgeError code ds) \<Rightarrow>
             if code = ''RECEIPT_CONTEXT'' then Inr (no_receipt ''malformed'')
             else if code = ''RECEIPT_OBSERVATION'' then Inr (no_receipt ''incomplete'')
             else Inl (ForgeError code ds)
         | Inl e \<Rightarrow> Inl e
         | Inr receipt \<Rightarrow>
             (case obj_get receipt ''receipt_identity'' of
                JStr identity \<Rightarrow>
                  if hex64 identity
                  then Inr \<lparr>re_receipt = Some receipt, re_identity = Some identity,
                    re_schema = (case obj_get receipt ''schema_version'' of JStr v \<Rightarrow> Some v | _ \<Rightarrow> None),
                    re_completeness = completeness\<rparr>
                  else Inr (no_receipt ''malformed'')
              | _ \<Rightarrow> Inr (no_receipt ''malformed''))))"

record binding_subject =
  bs_project :: string
  bs_epoch :: "string option"
  bs_candidate :: json
  bs_action_kind :: string
  bs_action :: string
  bs_request :: json
  bs_declared :: string
  bs_result :: "string option"

definition text_or_null :: "json \<Rightarrow> json" where
  "text_or_null v = (case v of JStr s \<Rightarrow> JStr s | _ \<Rightarrow> JNull)"

definition binding_fields :: "binding_subject \<Rightarrow> runner_observation \<Rightarrow> receipt_envelope \<Rightarrow> string \<Rightarrow> obj" where
  "binding_fields b ob re now =
     [(''project_identity'', JStr (bs_project b)),
      (''epoch_identity'', jtext_or_null (bs_epoch b)),
      (''candidate_identity'', bs_candidate b),
      (''action_kind'', JStr (bs_action_kind b)),
      (''action_identity'', JStr (bs_action b)),
      (''result_identity'', jtext_or_null (bs_result b)),
      (''request_identity'', text_or_null (bs_request b)),
      (''workflow_or_verifier'', JStr (bs_declared b)),
      (''runner_identity'', JStr (ro_runner_identity ob)),
      (''runner_kind'', JStr (ro_runner_kind ob)),
      (''runner_version'', JStr (ro_runner_version ob)),
      (''worker_identity'', jtext_or_null (ro_worker_identity ob)),
      (''host_identity'', jtext_or_null (ro_host_identity ob)),
      (''os_family'', JStr (ro_os_family ob)),
      (''architecture'', JStr (ro_architecture ob)),
      (''executable_identity'', jtext_or_null (ro_executable_identity ob)),
      (''image_identity'', jtext_or_null (ro_image_identity ob)),
      (''environment_identity'', JStr (ro_environment_identity ob)),
      (''execution_scope'', JStr (ro_execution_scope ob)),
      (''termination_category'', JStr (ro_termination ob)),
      (''receipt_schema_version'', jtext_or_null (re_schema re)),
      (''receipt_identity'', jtext_or_null (re_identity re)),
      (''receipt_completeness'', JStr (re_completeness re)),
      (''status'', JStr ''UNKNOWN''),
      (''established_properties'', jmap (established_properties ob)),
      (''mncs_receipt'', (case re_receipt re of None \<Rightarrow> JNull | Some d \<Rightarrow> JObj d)),
      (''recorded_at'', JStr now)]"

definition binding_record ::
  "crypto \<Rightarrow> binding_subject \<Rightarrow> runner_observation \<Rightarrow> obj res \<Rightarrow> string \<Rightarrow> forge_record res"
where
  "binding_record cr b ob built now =
     and_then (receipt_envelope_of (receipt_completeness ob) built) (\<lambda>re.
     new_record cr EXECUTION_RECEIPT_BINDING (as_fields (binding_fields b ob re now)))"

definition bind_verifier_execution ::
  "crypto \<Rightarrow> string \<Rightarrow> forge_record \<Rightarrow> string option \<Rightarrow> string \<Rightarrow> runner_observation \<Rightarrow> obj res \<Rightarrow> string
     \<Rightarrow> forge_record res"
where
  "bind_verifier_execution cr project_id action result_identity verifier_id ob built now =
     and_then (rec_item action ''action_id'') (\<lambda>action_id.
     and_then (rec_item action ''candidate_identity'') (\<lambda>candidate.
     and_then (rec_item action ''requested_at'') (\<lambda>_.
     binding_record cr
       \<lparr>bs_project = project_id,
        bs_epoch = (if truthy (rec_value action ''epoch_identity'') then Some (rec_str action ''epoch_identity'') else None),
        bs_candidate = thaw_json candidate, bs_action_kind = ''verifier_action'', bs_action = py_str action_id,
        bs_request = thaw_json (rec_value action ''protocol_request_identity''), bs_declared = verifier_id,
        bs_result = result_identity\<rparr> ob built now)))"

text \<open>A declared workflow that was executed, with the records it can persist.\<close>

record workflow_execution =
  wx_action :: forge_record
  wx_result :: "forge_record option"
  wx_observation :: runner_observation
  wx_workflow :: string
  wx_epoch :: "string option"

definition bind_workflow_execution ::
  "crypto \<Rightarrow> string \<Rightarrow> workflow_execution \<Rightarrow> obj res \<Rightarrow> string \<Rightarrow> forge_record res"
where
  "bind_workflow_execution cr project_id wx built now =
     and_then (rec_item (wx_action wx) ''candidate_identity'') (\<lambda>candidate.
     and_then (rec_item (wx_action wx) ''action_id'') (\<lambda>action_id.
     binding_record cr
       \<lparr>bs_project = project_id, bs_epoch = wx_epoch wx, bs_candidate = thaw_json candidate,
        bs_action_kind = ''workflow_action'', bs_action = py_str action_id,
        bs_request = thaw_json (rec_value (wx_action wx) ''protocol_request_identity''), bs_declared = wx_workflow wx,
        bs_result = (case wx_result wx of
            None \<Rightarrow> None
          | Some r \<Rightarrow> (case rec_value r ''output_identity'' of FStr t \<Rightarrow> Some t | _ \<Rightarrow> None))\<rparr>
       (wx_observation wx) built now))"

section \<open>Bindings in the store\<close>

definition binding_for_action :: "storage_env \<Rightarrow> store \<Rightarrow> string \<Rightarrow> forge_record option res" where
  "binding_for_action env s action_id =
     and_then (ledger_records env s (Some ''execution_receipt_binding'')) (\<lambda>entries.
     Inr (List.find (\<lambda>r. feq (rec_value r ''action_identity'') (FStr action_id)) (map le_payload entries)))"

definition get_binding :: "storage_env \<Rightarrow> store \<Rightarrow> string \<Rightarrow> obj res" where
  "get_binding env s binding_id =
     and_then (ledger_records env s (Some ''execution_receipt_binding'')) (\<lambda>entries.
     case List.find (\<lambda>r. feq (rec_value r ''binding_id'') (FStr binding_id)) (rev (map le_payload entries)) of
       None \<Rightarrow> Inl (ForgeError ''RECORD_NOT_FOUND'' [binding_id])
     | Some r \<Rightarrow> Inr (rec_to_json r))"

definition SUMMARY_KEYS :: "string list" where
  "SUMMARY_KEYS = [''binding_id'', ''action_identity'', ''result_identity'', ''receipt_identity'', ''receipt_completeness'',
     ''status'', ''termination_category'', ''runner_kind'', ''execution_scope'', ''established_properties'']"

definition summarize_binding :: "forge_record \<Rightarrow> obj" where
  "summarize_binding r = map (\<lambda>k. (k, thaw_json (rec_value r k))) SUMMARY_KEYS"

definition list_bindings :: "storage_env \<Rightarrow> store \<Rightarrow> string option \<Rightarrow> string option \<Rightarrow> obj res" where
  "list_bindings env s candidate action_id =
     and_then (ledger_records env s (Some ''execution_receipt_binding'')) (\<lambda>entries.
     let bindings = map summarize_binding (filter (\<lambda>r.
           (\<forall>c \<in> set_option candidate. feq (rec_value r ''candidate_identity'') (FStr c))
           \<and> (\<forall>a \<in> set_option action_id. feq (rec_value r ''action_identity'') (FStr a))) (map le_payload entries)) in
     Inr [(''execution_receipts'', JArr (map JObj bindings)),
          (''count'', JInt (int (length bindings))),
          (''dominance'', JStr ''FAIL > UNKNOWN > PASS''),
          (''note'', JStr (''A complete receipt binding is provenance, not evidence PASS, sandbox isolation, ''
             @ ''independence, or protected custody.''))])"

definition RESULT_COMMIT_CONTEXTS :: "(record_type \<times> string \<times> string) list" where
  "RESULT_COMMIT_CONTEXTS =
     [(WORKFLOW_RESULT, ''results'', ''result''), (FINAL_EVALUATION, ''evaluations'', ''evaluation''),
      (BUNDLE, ''bundles'', ''bundle'')]"

text \<open>A commit followed by the rest of a call.\<close>

definition commit_then ::
  "storage_env \<Rightarrow> moment \<Rightarrow> string \<Rightarrow> string \<Rightarrow> forge_record \<Rightarrow> store \<Rightarrow> (store \<Rightarrow> 'a res \<times> store) \<Rightarrow> 'a res \<times> store"
where
  "commit_then env at record_group kind r s f =
     (case commit env (mo_timestamp at) (mo_txid at) record_group kind r s of
        (Inl e, t) \<Rightarrow> (Inl e, t)
      | (Inr entry, t) \<Rightarrow> f t)"

definition persist_workflow_execution ::
  "storage_env \<Rightarrow> string \<Rightarrow> workflow_execution \<Rightarrow> obj res \<Rightarrow> moment \<Rightarrow> moment \<Rightarrow> moment \<Rightarrow> store
     \<Rightarrow> forge_record res \<times> store"
where
  "persist_workflow_execution env project_id wx built at_action at_binding at_result s =
     (case and_then (rec_item (wx_action wx) ''action_id'') (\<lambda>action_id.
           and_then (binding_for_action env s (py_str action_id)) (\<lambda>bound.
           raise_if (bound \<noteq> None) (ForgeError ''RECEIPT_DUPLICATE'' []))) of
        Inl e \<Rightarrow> (Inl e, s)
      | Inr _ \<Rightarrow>
          commit_then env at_action ''workflow-actions'' ''workflow_action'' (wx_action wx) s (\<lambda>s.
          case bind_workflow_execution (env_crypto env) project_id wx built (mo_now at_binding) of
            Inl e \<Rightarrow> (Inl e, s)
          | Inr binding \<Rightarrow>
              commit_then env at_binding ''execution-receipt-bindings'' ''execution_receipt_binding'' binding s (\<lambda>s.
              case wx_result wx of
                None \<Rightarrow> (Inr binding, s)
              | Some r \<Rightarrow>
                  (case map_of RESULT_COMMIT_CONTEXTS (fr_type r) of
                     None \<Rightarrow> (Inl (ForgeError ''INTERNAL_RECORD'' []), s)
                   | Some (record_group, kind) \<Rightarrow>
                       commit_then env at_result record_group kind r s (\<lambda>s. (Inr binding, s))))))"

section \<open>What a binding claims\<close>

lemma new_record_member_of:
  assumes "new_record cr t (as_fields d) = Inr r" "dict_get d k = Some v" "k \<notin> set metadata_keys"
    "record_specs t = Some spec" "rs_identity_field spec \<noteq> Some k"
  shows "rec_value r k = freeze_json v"
proof -
  from assms(1) obtain d' fs where d': "json_object (PMap (as_fields d)) record_label = Inr d'"
    and fs: "with_identity cr t d' = Inr fs" and r: "r = model t fs CURRENT_SCHEMA_VERSION"
    by (auto simp: new_record_def and_then_Inr_iff)
  have "PMap (as_fields d) = py_of_json (JObj d)" by (simp add: as_fields_def)
  with d' have "d' = d" by (metis json_object_identity(1))
  with fs assms(2,4,5) have "dict_get fs k = Some v"
    by (auto simp: with_identity_def spec_of_def and_then_Inr_iff split: if_splits option.splits)
  with r assms(3) show ?thesis by (simp add: rec_value_def rec_get_def model_def metadata_keys_def)
qed

lemma receipt_envelope_complete:
  assumes "receipt_envelope_of completeness built = Inr re" "re_completeness re = ''complete''"
  shows "completeness = ''complete'' \<and> (\<exists>receipt identity. built = Inr receipt \<and> re_receipt re = Some receipt
    \<and> re_identity re = Some identity \<and> hex64 identity \<and> obj_get receipt ''receipt_identity'' = JStr identity)"
  using assms
  by (auto simp: receipt_envelope_of_def no_receipt_def split: if_splits sum.splits py_error.splits json.splits)

text \<open>The properties that only another party could establish are never claimed.\<close>

definition EXTERNAL_PROPERTIES :: "string list" where
  "EXTERNAL_PROPERTIES =
     [''external_anchoring'', ''witnessing'', ''protected_custody'', ''evaluator_independence'', ''governance_certification'']"

lemma external_properties_unclaimed:
  "k \<in> set EXTERNAL_PROPERTIES \<Longrightarrow> dict_get (established_properties ob) k = Some ''not-established''"
  by (auto simp: EXTERNAL_PROPERTIES_def established_properties_def Let_def)

lemma binding_claims:
  assumes "binding_record cr b ob built now = Inr r"
  shows "rec_value r ''status'' = FStr ''UNKNOWN''"
    "rec_value r ''established_properties'' = freeze_json (jmap (established_properties ob))"
    "rec_value r ''receipt_completeness'' = FStr ''complete'' \<Longrightarrow>
       receipt_completeness ob = ''complete'' \<and> (\<exists>receipt. built = Inr receipt
         \<and> rec_value r ''mncs_receipt'' = freeze_json (JObj receipt))"
proof -
  from assms obtain re where re: "receipt_envelope_of (receipt_completeness ob) built = Inr re"
    and r: "new_record cr EXECUTION_RECEIPT_BINDING (as_fields (binding_fields b ob re now)) = Inr r"
    by (auto simp: binding_record_def and_then_Inr_iff)
  have spec: "record_specs EXECUTION_RECEIPT_BINDING = Some spec_execution_receipt_binding"
    "rs_identity_field spec_execution_receipt_binding = Some ''binding_id''"
    by (simp_all add: spec_execution_receipt_binding_def)
  have member: "rec_value r k = freeze_json v"
    if "dict_get (binding_fields b ob re now) k = Some v" "k \<notin> {''record_type'', ''schema_version'', ''binding_id''}" for k v
    by (rule new_record_member_of [OF r that(1) _ spec(1)]) (use that(2) spec(2) in \<open>auto simp: metadata_keys_def\<close>)
  show "rec_value r ''status'' = FStr ''UNKNOWN''"
    by (subst member [of _ "JStr ''UNKNOWN''"]) (simp_all add: binding_fields_def)
  show "rec_value r ''established_properties'' = freeze_json (jmap (established_properties ob))"
    by (rule member) (simp_all add: binding_fields_def)
  have completeness: "rec_value r ''receipt_completeness'' = FStr (re_completeness re)"
    by (subst member [of _ "JStr (re_completeness re)"]) (simp_all add: binding_fields_def)
  have receipt: "rec_value r ''mncs_receipt'' = freeze_json (case re_receipt re of None \<Rightarrow> JNull | Some d \<Rightarrow> JObj d)"
    by (rule member) (simp_all add: binding_fields_def)
  assume "rec_value r ''receipt_completeness'' = FStr ''complete''"
  with completeness have "re_completeness re = ''complete''" by simp
  from receipt_envelope_complete [OF re this] receipt
  show "receipt_completeness ob = ''complete'' \<and> (\<exists>receipt. built = Inr receipt
      \<and> rec_value r ''mncs_receipt'' = freeze_json (JObj receipt))" by auto
qed

lemma bound_property:
  assumes "rec_value r ''established_properties'' = freeze_json (jmap d)" "dict_get d k = Some v"
  shows "map_get (rec_value r ''established_properties'') k = FStr v"
proof -
  have "dict_get (map (\<lambda>x. (fst x, FStr (snd x))) d) k = map_option FStr (dict_get d k)"
    by (induction d) auto
  with assms show ?thesis by (simp add: map_get_def jmap_def freeze_fields_def comp_def case_prod_unfold)
qed

lemma bind_verifier_execution_Inr:
  "bind_verifier_execution cr project_id action result_identity verifier_id ob built now = Inr r \<Longrightarrow>
     \<exists>b. binding_record cr b ob built now = Inr r"
  by (auto simp: bind_verifier_execution_def and_then_Inr_iff)

end
