(* ===== verification/VerifierExecution.thy ===== *)
theory VerifierExecution
  imports ExecutionReceipts ServiceFacts
begin

text \<open>
  \<open>_execute\<close> of \<open>micro_verifiers.py\<close>: one run of a provider, the response that is accepted, and the result
  that is recorded. The body of the \<open>try\<close> statement changes the variables of the function step by step, and
  what was assigned before a step failed stays assigned. The runner, the clock and the files that the
  observer reads before and after are parameters.
\<close>

section \<open>What a run sees\<close>

record execution =
  xe_returncode :: int
  xe_stdout :: string
  xe_stderr :: string
  xe_duration :: string

text \<open>An \<open>ExecutionSession\<close>; \<open>xe_stderr\<close> is the decoded standard error.\<close>

record session =
  se_observation :: runner_observation
  se_result :: "execution option"
  se_error_code :: "string option"

text \<open>
  \<open>xv_expired\<close> tells whether the remaining time is used up, \<open>xv_message\<close> is the prose of an error, and
  \<open>xv_evidence\<close> the resource evidence that an error of the runner itself carries.
\<close>

record execution_view =
  xv_authority_before :: "string dict res"
  xv_authority_after :: "string dict res"
  xv_candidate_before :: "string res"
  xv_candidate_after :: "string res"
  xv_freeze_check :: "unit res"
  xv_executable :: "(string \<times> string) res"
  xv_expired :: bool
  xv_session :: "session res"
  xv_message :: "py_error \<Rightarrow> string"
  xv_evidence :: "py_error \<Rightarrow> obj option"
  xv_elapsed :: string
  xv_now :: string

section \<open>The variables of the \<open>try\<close> statement\<close>

record verdict =
  vd_session :: "session option"
  vd_execution :: "execution option"
  vd_status :: string
  vd_summary :: string
  vd_witnesses :: "json list"
  vd_assumptions :: "string list"
  vd_limitations :: "string list"
  vd_unsupported :: "string list"
  vd_envelope :: json
  vd_error :: "(string \<times> string) option"
  vd_evidence :: "obj option"
  vd_provider :: "obj option"
  vd_response_identity :: "string option"
  vd_executable_identity :: "string option"

definition initial_verdict :: "verifier \<Rightarrow> verdict" where
  "initial_verdict v =
     \<lparr>vd_session = None, vd_execution = None, vd_status = ''UNKNOWN'',
      vd_summary = ''verifier did not establish PASS or FAIL'', vd_witnesses = [],
      vd_assumptions = vf_assumptions v, vd_limitations = vf_limitations v, vd_unsupported = [],
      vd_envelope = empty_envelope JNull, vd_error = None, vd_evidence = None, vd_provider = None,
      vd_response_identity = None, vd_executable_identity = None\<rparr>"

text \<open>A step: its outcome and the variables it leaves behind.\<close>

type_synonym 'a step = "'a res \<times> verdict"

definition step_then :: "'a step \<Rightarrow> ('a \<Rightarrow> verdict \<Rightarrow> 'b step) \<Rightarrow> 'b step" where
  "step_then s f = (case s of (Inl e, d) \<Rightarrow> (Inl e, d) | (Inr x, d) \<Rightarrow> f x d)"

definition lift_step :: "'a res \<Rightarrow> verdict \<Rightarrow> 'a step" where
  "lift_step r d = (r, d)"

section \<open>Running the provider\<close>

definition session_evidence :: "session \<Rightarrow> obj" where
  "session_evidence se =
     dict_update [(''resource_envelope_identity'', obj_get (ro_envelope (se_observation se)) ''identity'')] (ro_observations (se_observation se))"

definition text_or :: "string \<Rightarrow> string option \<Rightarrow> string" where
  "text_or other t = (case t of None \<Rightarrow> other | Some s \<Rightarrow> if s = [] then other else s)"

definition run_provider :: "execution_view \<Rightarrow> verdict \<Rightarrow> (string \<times> execution) step" where
  "run_provider xv d =
     step_then (lift_step (xv_executable xv) d) (\<lambda>(executable, identity) d.
     step_then (lift_step (raise_if (xv_expired xv) (ForgeError ''VERIFIER_BATCH_LIMIT'' [])) d) (\<lambda>_ d.
     step_then (lift_step (xv_session xv) d) (\<lambda>se d.
     case se_result se of
       None \<Rightarrow>
         (Inl (ForgeError (text_or ''COMMAND_START'' (se_error_code se)) []),
          d\<lparr>vd_session := Some se, vd_evidence := Some (session_evidence se)\<rparr>)
     | Some x \<Rightarrow> (Inr (identity, x), d\<lparr>vd_session := Some se, vd_execution := Some x\<rparr>))))"

section \<open>Reading the response\<close>

definition operational_text :: "obj \<Rightarrow> string" where
  "operational_text response =
     (let first = (if json_truthy (obj_get response ''summary'') then obj_get response ''summary''
                   else if json_truthy (obj_get response ''message'') then obj_get response ''message''
                   else obj_get response ''type'') in json_str first)"

definition check_analysis :: "obj \<Rightarrow> string \<Rightarrow> unit res" where
  "check_analysis response request_id =
     and_then (if obj_get response ''type'' = JStr ''analysis_response'' then Inr ()
       else if obj_get response ''type'' \<in> {JStr ''error'', JStr ''cancelled''}
         then Inl (ForgeError ''PROVIDER_OPERATIONAL'' [operational_text response])
       else Inl (ForgeError ''PROVIDER_MALFORMED'' [])) (\<lambda>_.
     raise_if (obj_get response ''request_id'' \<noteq> JStr request_id) (ForgeError ''PROVIDER_MALFORMED'' []))"

definition object_of :: "json \<Rightarrow> obj" where
  "object_of v = (case v of JObj d \<Rightarrow> d | _ \<Rightarrow> [])"

definition provider_drifted :: "provider \<Rightarrow> obj \<Rightarrow> bool" where
  "provider_drifted p reported \<longleftrightarrow>
     (\<exists>i. pv_identity p = Some i \<and> obj_get reported ''identity'' \<noteq> JStr i)
     \<or> (\<exists>i. pv_version p = Some i \<and> obj_get reported ''version'' \<noteq> JStr i)"

definition read_response :: "(string \<Rightarrow> string) \<Rightarrow> provider \<Rightarrow> string \<Rightarrow> execution \<Rightarrow> verdict \<Rightarrow> obj step" where
  "read_response fr p request_id x d =
     step_then (lift_step (raise_if (xe_returncode x \<noteq> 0) (ForgeError ''PROVIDER_EXIT'' [int_str (xe_returncode x)])) d) (\<lambda>_ d.
     step_then (lift_step (parse_provider_response fr (xe_stdout x)) d) (\<lambda>response d.
     step_then (lift_step (check_analysis response request_id) d) (\<lambda>_ d.
     let reported = object_of (obj_get response ''provider'') in
     step_then (lift_step (raise_if (provider_drifted p reported) (ForgeError ''PROVIDER_IDENTITY_DRIFT'' []))
       (d\<lparr>vd_provider := Some reported\<rparr>)) (\<lambda>_ d. (Inr response, d)))))"

section \<open>Adopting the response\<close>

text \<open>\<open>_string_list\<close>.\<close>

definition string_list :: "json \<Rightarrow> string list" where
  "string_list v =
     (case v of
        JArr xs \<Rightarrow> take 20 (concat (map (\<lambda>x. case x of JStr s \<Rightarrow> if s = [] then [] else [take_text 1024 s] | _ \<Rightarrow> []) xs))
      | _ \<Rightarrow> [])"

text \<open>\<open>_bounded_witnesses\<close>: the witnesses that fit, until one does not.\<close>

fun take_witnesses :: "nat \<Rightarrow> nat \<Rightarrow> json list \<Rightarrow> json list \<Rightarrow> json list res" where
  "take_witnesses cap n taken [] = Inr taken"
| "take_witnesses cap n taken (x # xs) =
     and_then (validate_json_value 0 x) (\<lambda>_.
     if cap < n + length (canonical_bytes x) + 1 \<or> 20 \<le> length taken then Inr taken
     else take_witnesses cap (n + length (canonical_bytes x) + 1) (taken @ [x]) xs)"

definition bounded_witnesses :: "verifier_service \<Rightarrow> json \<Rightarrow> json list res" where
  "bounded_witnesses ms v =
     (case v of
        JArr xs \<Rightarrow> take_witnesses (vl_witness_bytes (ms_limits ms)) 2 [] (take 100 xs)
      | _ \<Rightarrow> Inr [])"

definition VISIBLE_KEYS :: "string list" where
  "VISIBLE_KEYS = [''candidates'', ''generated'', ''contracts'', ''references'', ''development_evidence'',
     ''evaluators'', ''acceptance_policies'']"

definition envelope_member :: "obj \<Rightarrow> string \<Rightarrow> json \<Rightarrow> json" where
  "envelope_member d k other = (case dict_get d k of None \<Rightarrow> other | Some v \<Rightarrow> v)"

definition json_texts :: "json \<Rightarrow> string list option" where
  "json_texts v = (case v of JArr xs \<Rightarrow> those (map (\<lambda>x. case x of JStr s \<Rightarrow> Some s | _ \<Rightarrow> None) xs) | _ \<Rightarrow> None)"

definition json_text_map :: "json \<Rightarrow> string dict option" where
  "json_text_map v =
     (case v of
        JObj d \<Rightarrow> those (map (\<lambda>(k, x). case x of JStr s \<Rightarrow> Some (k, s) | _ \<Rightarrow> None) d)
      | _ \<Rightarrow> None)"

definition envelope_path ::
  "verifier_service \<Rightarrow> string list list \<Rightarrow> string list list \<Rightarrow> string \<Rightarrow> (string \<times> string) res"
where
  "envelope_path ms visible protected p =
     and_then (validate_relative_path False p) (\<lambda>relative.
     and_then (raise_if (\<not> is_within relative visible) (ForgeError ''PROVIDER_MALFORMED'' [p])) (\<lambda>_.
     and_then (raise_if (ms_mode ms = ''development'' \<and> is_within relative protected) (ForgeError ''PROTECTED_PATH'' [])) (\<lambda>_.
     and_then (resolve_contained (ms_files ms) False p) (\<lambda>resolved.
     and_then (ms_content ms [resolved]) (\<lambda>identity. Inr (p, identity))))))"

definition with_identity_of :: "verifier_service \<Rightarrow> obj \<Rightarrow> json" where
  "with_identity_of ms d = JObj (d @ [(''identity'', JStr (ms_identity ms (JObj d)))])"

definition bound_envelope :: "verifier_service \<Rightarrow> string list \<Rightarrow> string dict \<Rightarrow> bool \<Rightarrow> json res" where
  "bound_envelope ms paths identities complete =
     and_then (raise_if (vl_max_changed_paths (ms_limits ms) < length paths) (ForgeError ''PROVIDER_MALFORMED'' [])) (\<lambda>_.
     and_then (relative_scopes (ms_config ms)
       (VISIBLE_KEYS @ (if ms_mode ms = ''evaluator'' then [''protected''] else []))) (\<lambda>visible.
     and_then (relative_scopes (ms_config ms) [''protected'']) (\<lambda>protected.
     and_then (traverse (envelope_path ms visible protected) (sort (remdups paths))) (\<lambda>path_identities.
     Inr (with_identity_of ms
       [(''paths'', jtexts (map fst path_identities)),
        (''path_identities'', jmap path_identities),
        (''additional_identities'', jmap (sorted_items identities)),
        (''complete'', JBool complete)])))))"

text \<open>\<open>_dependency_envelope\<close>.\<close>

definition dependency_envelope :: "verifier_service \<Rightarrow> json \<Rightarrow> json res" where
  "dependency_envelope ms v =
     (case v of
        JNull \<Rightarrow> Inr (empty_envelope JNull)
      | JObj d \<Rightarrow>
          if \<not> set (dict_keys d) \<subseteq> {''paths'', ''identities'', ''complete''}
          then Inl (ForgeError ''PROVIDER_MALFORMED'' [])
          else
            (case (json_texts (envelope_member d ''paths'' (JArr [])),
                   json_text_map (envelope_member d ''identities'' (JObj [])),
                   envelope_member d ''complete'' (JBool False)) of
               (Some paths, Some identities, JBool complete) \<Rightarrow> bound_envelope ms paths identities complete
             | _ \<Rightarrow> Inl (ForgeError ''PROVIDER_MALFORMED'' []))
      | _ \<Rightarrow> Inl (ForgeError ''PROVIDER_MALFORMED'' []))"

definition json_text_of :: "json \<Rightarrow> string" where
  "json_text_of v = (case v of JStr s \<Rightarrow> s | _ \<Rightarrow> '''')"

definition adopt_response :: "verifier_service \<Rightarrow> string \<Rightarrow> obj \<Rightarrow> verdict \<Rightarrow> unit step" where
  "adopt_response ms executable_identity response d0 =
     (let d = d0\<lparr>vd_status := json_text_of (obj_get response ''status''),
           vd_summary := take_text 2048 (json_str (envelope_member response ''summary'' (JStr '''')))\<rparr> in
      step_then (lift_step (bounded_witnesses ms (envelope_member response ''witnesses'' (JArr []))) d) (\<lambda>witnesses d.
      let d = d\<lparr>vd_witnesses := witnesses, vd_limitations := vd_limitations d @ string_list (obj_get response ''limitations'')\<rparr>;
          extensions = object_of (obj_get response ''extensions'');
          forge = envelope_member extensions ''mncs_forge'' (JObj []) in
      step_then (lift_step (raise_if (\<not> is_obj forge) (ForgeError ''PROVIDER_MALFORMED'' [])) d) (\<lambda>_ d.
      let d = d\<lparr>vd_assumptions := vd_assumptions d @ string_list (obj_get (object_of forge) ''assumptions''),
            vd_unsupported := string_list (envelope_member extensions ''unsupported_constructs''
              (envelope_member extensions ''unsupported'' (JArr [])))\<rparr> in
      step_then (lift_step (dependency_envelope ms (obj_get (object_of forge) ''dependency_envelope'')) d) (\<lambda>envelope d.
      (Inr (), d\<lparr>vd_envelope := envelope, vd_response_identity := Some (ms_identity ms (JObj response)),
                 vd_executable_identity := Some executable_identity\<rparr>)))))"

text \<open>The whole \<open>try\<close> statement; an error that is not a \<open>ForgeError\<close> leaves the function.\<close>

definition provider_steps :: "verifier_service \<Rightarrow> provider \<Rightarrow> string \<Rightarrow> execution_view \<Rightarrow> verdict \<Rightarrow> unit step" where
  "provider_steps ms p request_id xv d =
     step_then (run_provider xv d) (\<lambda>(executable_identity, x) d.
     step_then (read_response (env_float (lc_env (ms_context ms))) p request_id x d) (\<lambda>response d.
     adopt_response ms executable_identity response d))"

definition provider_verdict ::
  "verifier_service \<Rightarrow> verifier \<Rightarrow> provider \<Rightarrow> string \<Rightarrow> execution_view \<Rightarrow> verdict res"
where
  "provider_verdict ms v p request_id xv =
     (case provider_steps ms p request_id xv (initial_verdict v) of
        (Inr _, d) \<Rightarrow> Inr d
      | (Inl e, d) \<Rightarrow>
          (case e of
             ForgeError code ds \<Rightarrow>
               Inr (d\<lparr>vd_status := ''UNKNOWN'', vd_error := Some (code, xv_message xv e),
                  vd_evidence := (case xv_evidence xv e of None \<Rightarrow> vd_evidence d | Some evidence \<Rightarrow> Some evidence),
                  vd_limitations := vd_limitations d
                    @ [''operational verifier failure '' @ code @ '': '' @ xv_message xv e]\<rparr>)
           | _ \<Rightarrow> Inl e))"

section \<open>What must not have changed\<close>

definition drift_error :: "verifier_service \<Rightarrow> py_error" where
  "drift_error ms = ForgeError (if ms_mode ms = ''evaluator'' then ''EVALUATION_DRIFT'' else ''PROVIDER_MUTATION'') []"

definition same_text_map :: "string dict \<Rightarrow> string dict \<Rightarrow> bool" where
  "same_text_map d e \<longleftrightarrow> length d = length e \<and> list_all (\<lambda>(k, v). dict_get e k = Some v) d"

definition check_undisturbed ::
  "verifier_service \<Rightarrow> string dict \<Rightarrow> string \<Rightarrow> forge_record option \<Rightarrow> execution_view \<Rightarrow> unit res"
where
  "check_undisturbed ms authorities candidate freeze_or_none xv =
     and_then (xv_authority_after xv) (\<lambda>after.
     and_then (raise_if (\<not> same_text_map authorities after) (drift_error ms)) (\<lambda>_.
     and_then (xv_candidate_after xv) (\<lambda>candidate_after.
     and_then (raise_if (candidate \<noteq> candidate_after) (drift_error ms)) (\<lambda>_.
     if freeze_or_none \<noteq> None then xv_freeze_check xv else Inr ()))))"

section \<open>The recorded result\<close>

definition first_twenty :: "string list \<Rightarrow> string list" where
  "first_twenty ts = take 20 (rev (remdups (rev ts)))"

definition jobj_or_null :: "obj option \<Rightarrow> json" where
  "jobj_or_null d = (case d of None \<Rightarrow> JNull | Some o' \<Rightarrow> JObj o')"

definition opt_item :: "forge_record option \<Rightarrow> string \<Rightarrow> json res" where
  "opt_item r k = (case r of None \<Rightarrow> Inr JNull | Some q \<Rightarrow> and_then (rec_item q k) (\<lambda>v. Inr (thaw_json v)))"

definition iterative_overlap :: "verifier \<Rightarrow> forge_record \<Rightarrow> ledger_entry list \<Rightarrow> bool" where
  "iterative_overlap v candidate prior \<longleftrightarrow>
     (\<exists>e \<in> set prior. feq (rec_value (le_payload e) ''mode'') (FStr ''development'')
        \<and> feq (rec_value (le_payload e) ''candidate_identity'') (rec_value candidate ''candidate_id'')
        \<and> feq (rec_value (le_payload e) ''verifier_id'') (FStr (vf_id v)))"

definition evidence_extensions :: "verdict \<Rightarrow> obj" where
  "evidence_extensions d =
     (let evidence =
        (case vd_session d of
           Some se \<Rightarrow>
             if ro_envelope (se_observation se) \<noteq> [] \<or> ro_observations (se_observation se) \<noteq> []
             then Some (dict_update [(''resource_envelope'', JObj (ro_envelope (se_observation se)))] (ro_observations (se_observation se)))
             else vd_evidence d
         | None \<Rightarrow> vd_evidence d) in
      case evidence of
        None \<Rightarrow> []
      | Some e \<Rightarrow>
          if e = [] then []
          else [(''extensions'', JObj [(''mncs_forge'', JObj [(''resource_evidence'', JObj e)])])])"

text \<open>
  The members of the result, in their order; a member without a value is the action's. \<open>identity\<close> looks an
  identity up in those that were computed before the action was recorded.
\<close>

definition executed_members ::
  "verifier_service \<Rightarrow> verifier \<Rightarrow> provider \<Rightarrow> (string \<Rightarrow> json) \<Rightarrow> json \<Rightarrow> json \<Rightarrow> json \<Rightarrow> bool
     \<Rightarrow> execution_view \<Rightarrow> verdict \<Rightarrow> (string \<times> json option) list"
where
  "executed_members ms v p identity source_epoch candidate_id freeze_id overlap xv d =
       [(''action_id'', None),
        (''verifier_id'', Some (JStr (vf_id v))),
        (''verifier_version'', Some (JStr (vf_version v))),
        (''verifier_identity'', Some (identity ''verifier_identity'')),
        (''claim'', Some (JStr (vf_claim v))),
        (''category'', Some (JStr (vf_category v))),
        (''provider_id'', Some (JStr (pv_id p))),
        (''provider_configuration_identity'', Some (identity ''provider_configuration_identity'')),
        (''provider_executable_identity'', Some (jtext_or_null (vd_executable_identity d))),
        (''provider_identity'', Some (jobj_or_null (vd_provider d))),
        (''provider_response_identity'', Some (jtext_or_null (vd_response_identity d))),
        (''method'', Some (JStr (vf_method v))),
        (''mode'', Some (JStr (ms_mode ms))),
        (''evidence_class'', Some (evidence_class (ms_mode ms = ''development''))),
        (''independent_evaluation'', Some (JBool False)),
        (''iterative_development_overlap'', Some (JBool overlap)),
        (''epoch_identity'', Some source_epoch),
        (''candidate_identity'', Some candidate_id),
        (''candidate_parent_identity'', None),
        (''freeze_identity'', Some freeze_id),
        (''supersedes_output_identity'', None),
        (''input_identities'', None),
        (''configuration_identity'', Some (identity ''configuration_identity'')),
        (''policy_identity'', Some (identity ''policy_identity'')),
        (''environment_identity'', Some (identity ''environment_identity'')),
        (''status'', Some (JStr (vd_status d))),
        (''summary'', Some (JStr (vd_summary d))),
        (''witnesses'', Some (JArr (vd_witnesses d))),
        (''assumptions'', Some (jtexts (first_twenty (vd_assumptions d)))),
        (''limitations'', Some (jtexts (first_twenty (vd_limitations d)))),
        (''unsupported_constructs'', Some (jtexts (take 20 (vd_unsupported d)))),
        (''dependency_envelope'', Some (vd_envelope d)),
        (''duration_seconds'', Some (JFloat (case vd_execution d of None \<Rightarrow> xv_elapsed xv | Some x \<Rightarrow> xe_duration x))),
        (''stderr_diagnostic'', Some (JStr (case vd_execution d of None \<Rightarrow> ''''
            | Some x \<Rightarrow> redact_text (vl_stderr_bytes (ms_limits ms)) (xe_stderr x)))),
        (''returncode'', Some (case vd_execution d of None \<Rightarrow> JNull | Some x \<Rightarrow> JInt (xe_returncode x))),
        (''operational_error'', Some (case vd_error d of None \<Rightarrow> JNull | Some (code, message) \<Rightarrow> operational_error code message)),
        (''disclosure'', Some (JStr (vf_disclosure v))),
        (''recorded_at'', Some (JStr (xv_now xv)))]"

definition found_identity :: "string dict \<Rightarrow> string \<Rightarrow> json" where
  "found_identity identities k = jtext_or_null (dict_get identities k)"

definition result_fields ::
  "verifier_service \<Rightarrow> verifier \<Rightarrow> provider \<Rightarrow> forge_record \<Rightarrow> forge_record \<Rightarrow> forge_record option
     \<Rightarrow> string dict \<Rightarrow> ledger_entry list \<Rightarrow> execution_view \<Rightarrow> verdict \<Rightarrow> obj res"
where
  "result_fields ms v p candidate action freeze_or_none identities prior xv d =
     and_then (traverse (identity_item identities)
       [''verifier_identity'', ''provider_configuration_identity'', ''configuration_identity'', ''policy_identity'',
        ''environment_identity'']) (\<lambda>_.
     and_then (opt_item (Some candidate) ''source_epoch'') (\<lambda>source_epoch.
     and_then (opt_item (Some candidate) ''candidate_id'') (\<lambda>candidate_id.
     and_then (opt_item freeze_or_none ''freeze_id'') (\<lambda>freeze_id.
     and_then (traverse (result_member action)
       (executed_members ms v p (found_identity identities) source_epoch candidate_id freeze_id
          (iterative_overlap v candidate prior) xv d)) (\<lambda>fs.
     let all = fs @ evidence_extensions d in
     Inr (if ms_mode ms = ''evaluator'' \<and> vf_disclosure v = ''status-only''
          then redact_status_only_result all else all))))))"

definition record_size :: "forge_record \<Rightarrow> nat" where
  "record_size r = length (canonical_bytes (JObj (rec_to_json r)))"

definition shortened :: "obj \<Rightarrow> obj" where
  "shortened d =
     dict_update d
       [(''witnesses'', JArr []), (''stderr_diagnostic'', JStr ''''),
        (''limitations'', JArr ((case obj_get d ''limitations'' of JArr xs \<Rightarrow> take 19 xs | _ \<Rightarrow> [])
           @ [JStr ''result details were reduced to fit the configured result limit'']))]"

definition bounded_result :: "verifier_service \<Rightarrow> obj \<Rightarrow> forge_record res" where
  "bounded_result ms d =
     (let cap = vl_result_bytes (ms_limits ms); cr = env_crypto (lc_env (ms_context ms)) in
      and_then (new_record cr VERIFIER_RESULT (as_fields d)) (\<lambda>r.
      and_then (if cap < record_size r then new_record cr VERIFIER_RESULT (as_fields (shortened d)) else Inr r) (\<lambda>r.
      and_then (raise_if (cap < record_size r) (ForgeError ''VERIFIER_RESULT_LIMIT'' [])) (\<lambda>_. Inr r))))"

definition execute_verifier ::
  "verifier_service \<Rightarrow> verifier \<Rightarrow> provider \<Rightarrow> forge_record \<Rightarrow> forge_record \<Rightarrow> string \<Rightarrow> string dict
     \<Rightarrow> forge_record option \<Rightarrow> ledger_entry list \<Rightarrow> execution_view \<Rightarrow> (session option \<times> forge_record) res"
where
  "execute_verifier ms v p candidate action request_id identities freeze_or_none prior xv =
     and_then (xv_authority_before xv) (\<lambda>authorities.
     and_then (xv_candidate_before xv) (\<lambda>candidate_before.
     and_then (provider_verdict ms v p request_id xv) (\<lambda>d.
     and_then (check_undisturbed ms authorities candidate_before freeze_or_none xv) (\<lambda>_.
     and_then (result_fields ms v p candidate action freeze_or_none identities prior xv d) (\<lambda>fs.
     and_then (bounded_result ms fs) (\<lambda>r. Inr (vd_session d, r)))))))"

end
