(* ===== verification/VerifierRuns.thy ===== *)
theory VerifierRuns
  imports VerifierExecution VerifierRecovery
begin

text \<open>
  \<open>run\<close> and \<open>batch\<close> of \<open>micro_verifiers.py\<close>: the authorization of a request, the action that is committed
  before the provider runs, the one result that ends it, and what of it is disclosed. The clock, the locks of
  the actions, the build of a receipt and the identity of a file's bytes are parameters.
\<close>

section \<open>What a run sees\<close>

record run_view =
  rn_observation :: observation
  rn_after :: observation
  rn_busy :: "string \<Rightarrow> bool"
  rn_file_identity :: "string list \<Rightarrow> string res"
  rn_execution :: execution_view
  rn_receipt :: "obj res"
  rn_project :: string
  rn_requested_at :: string
  rn_failed_at :: string
  rn_elapsed :: string
  rn_bound_at :: string
  rn_action_commit :: moment
  rn_binding_commit :: moment
  rn_result_commit :: moment

section \<open>Authorization\<close>

definition RUN_KINDS :: "string list" where
  "RUN_KINDS = [''epoch'', ''candidate'', ''disposition'', ''freeze'']"

definition run_machine_view :: "verifier_service \<Rightarrow> machine_view" where
  "run_machine_view ms =
     \<lparr>mv_authority = False, mv_freeze_bindings = (ms_mode ms = ''evaluator''), mv_policy = False, mv_kinds = Some RUN_KINDS\<rparr>"

text \<open>The freeze of an evaluator's run, and the candidate.\<close>

definition run_subject ::
  "verifier_service \<Rightarrow> observation \<Rightarrow> string option \<Rightarrow> store \<Rightarrow> (forge_record option \<times> forge_record) res"
where
  "run_subject ms obs candidate_id s =
     and_then (lifecycle_machine (ms_context ms) obs (run_machine_view ms) s) (\<lambda>m.
     if ms_mode ms = ''development''
     then
       and_then (raise_if (\<not> ra_may_run_providers (pc_raw (ms_config ms))) (ForgeError ''VERIFIER_AUTHORITY'' [])) (\<lambda>_.
       and_then (authorize_development_work m candidate_id False) (\<lambda>found.
       case found of
         None \<Rightarrow> Inl (ForgeError ''NO_CANDIDATE'' [])
       | Some candidate \<Rightarrow> Inr (None, candidate)))
     else
       and_then (authorize_evaluator_entry m candidate_id) (\<lambda>(frozen, candidate). Inr (Some frozen, candidate)))"

section \<open>The action\<close>

definition changed_path_identity ::
  "verifier_service \<Rightarrow> (string list \<Rightarrow> string res) \<Rightarrow> string \<Rightarrow> (string \<times> string) res"
where
  "changed_path_identity ms file_identity p =
     and_then (resolve_contained (ms_files ms) False p) (\<lambda>resolved.
     and_then (if fs_is_file (ms_files ms) resolved then file_identity resolved
       else if fs_exists (ms_files ms) resolved then ms_content ms [resolved]
       else Inr (ms_identity ms (JObj [(''path'', JStr p), (''state'', JStr ''absent'')]))) (\<lambda>identity.
     Inr (p, identity)))"

definition superseded_result ::
  "string \<Rightarrow> string \<Rightarrow> string \<Rightarrow> fjson \<Rightarrow> ledger_entry list \<Rightarrow> string option res"
where
  "superseded_result mode verifier_id candidate_id parent results =
     (let lineage = candidate_id # (if parent = FNull then [] else [py_str parent]) in
      case List.find (\<lambda>r. feq (rec_value r ''verifier_id'') (FStr verifier_id) \<and> feq (rec_value r ''mode'') (FStr mode)
             \<and> (\<exists>c \<in> set lineage. feq (rec_value r ''candidate_identity'') (FStr c))) (rev (map le_payload results)) of
        None \<Rightarrow> Inr None
      | Some r \<Rightarrow> and_then (rec_item r ''output_identity'') (\<lambda>v. Inr (Some (py_str v))))"

definition input_identities ::
  "verifier_service \<Rightarrow> json \<Rightarrow> string dict \<Rightarrow> verifier_request \<Rightarrow> json"
where
  "input_identities ms candidate_id path_identities q = JObj
     [(''candidate_identity'', candidate_id),
      (''changed_path_identities'', jmap path_identities),
      (''contract_identity'', jtext_or_null (vq_contract q)),
      (''dependency_slice_identities'', jmap (vq_dependencies q)),
      (''prior_artifact_identity'', jtext_or_null (vq_prior_artifact q)),
      (''question_parameters_identity'', JStr (ms_identity ms (JObj (vq_parameters q))))]"

definition action_fields ::
  "verifier_service \<Rightarrow> run_view \<Rightarrow> verifier \<Rightarrow> provider \<Rightarrow> string dict \<Rightarrow> forge_record option \<Rightarrow> forge_record
     \<Rightarrow> string \<Rightarrow> string dict \<Rightarrow> string option \<Rightarrow> verifier_request \<Rightarrow> obj res"
where
  "action_fields ms rn v p identities freeze_or_none candidate scope path_identities superseded q =
     and_then (identity_item identities ''verifier_identity'') (\<lambda>verifier_identity.
     and_then (identity_item identities ''provider_configuration_identity'') (\<lambda>provider_identity.
     and_then (opt_item (Some candidate) ''source_epoch'') (\<lambda>source_epoch.
     and_then (opt_item (Some candidate) ''candidate_id'') (\<lambda>candidate_id.
     and_then (opt_item freeze_or_none ''freeze_id'') (\<lambda>freeze_id.
     and_then (identity_item identities ''configuration_identity'') (\<lambda>configuration_identity.
     and_then (identity_item identities ''policy_identity'') (\<lambda>policy_identity.
     and_then (identity_item identities ''environment_identity'') (\<lambda>environment_identity.
     Inr
       [(''verifier_id'', JStr (vf_id v)),
        (''verifier_version'', JStr (vf_version v)),
        (''verifier_identity'', verifier_identity),
        (''provider_id'', JStr (pv_id p)),
        (''provider_configuration_identity'', provider_identity),
        (''method'', JStr (vf_method v)),
        (''mode'', JStr (ms_mode ms)),
        (''epoch_identity'', source_epoch),
        (''candidate_identity'', candidate_id),
        (''candidate_parent_identity'', thaw_json (rec_value candidate ''parent_candidate'')),
        (''freeze_identity'', freeze_id),
        (''supersedes_output_identity'', jtext_or_null superseded),
        (''scope'', JStr scope),
        (''changed_paths'', jtexts (vq_changed_paths q)),
        (''source_region'', jobj_or_null (vq_source_region q)),
        (''input_identities'', input_identities ms candidate_id path_identities q),
        (''configuration_identity'', configuration_identity),
        (''policy_identity'', policy_identity),
        (''environment_identity'', environment_identity),
        (''requested_at'', JStr (rn_requested_at rn))]))))))))"

definition request_identifier :: "verifier_service \<Rightarrow> string \<Rightarrow> string" where
  "request_identifier ms action_id =
     ''forge-verifier-'' @ take 24 (after_first_colon (ms_identity ms (JObj [(''action_id'', JStr action_id)])))"

definition analysis_request :: "verifier_service \<Rightarrow> verifier \<Rightarrow> obj \<Rightarrow> string \<Rightarrow> verifier_request \<Rightarrow> obj" where
  "analysis_request ms v action action_id q =
     [(''protocol_version'', JStr ''0.1''),
      (''type'', JStr ''analysis_request''),
      (''request_id'', JStr (request_identifier ms action_id)),
      (''analysis'', JStr (vf_method v)),
      (''component'', JObj
         [(''candidate_identity'', obj_get action ''candidate_identity''),
          (''source_epoch'', obj_get action ''epoch_identity''),
          (''scope'', obj_get action ''scope''),
          (''changed_paths'', jtexts (vq_changed_paths q)),
          (''source_region'', jobj_or_null (vq_source_region q)),
          (''contract_identity'', jtext_or_null (vq_contract q)),
          (''dependency_slice_identities'', jmap (vq_dependencies q)),
          (''prior_artifact_identity'', jtext_or_null (vq_prior_artifact q))]),
      (''limits'', JObj
         [(''timeout_seconds'', JFloat (vf_timeout v)),
          (''request_scope'', obj_get action ''scope'')]),
      (''extensions'', JObj
         [(''mncs_forge'', JObj
            [(''verifier_id'', JStr (vf_id v)),
             (''verifier_version'', JStr (vf_version v)),
             (''mode'', obj_get action ''mode''),
             (''question_parameters'', JObj (vq_parameters q)),
             (''input_identities'', obj_get action ''input_identities'')])])]"

text \<open>Everything \<open>run\<close> establishes before it takes the lock of its action.\<close>

record prepared_run =
  pn_verifier :: verifier
  pn_provider :: provider
  pn_candidate :: forge_record
  pn_freeze :: "forge_record option"
  pn_identities :: "string dict"
  pn_prior :: "ledger_entry list"
  pn_action :: forge_record
  pn_request_id :: string

definition build_action ::
  "verifier_service \<Rightarrow> verifier \<Rightarrow> verifier_request \<Rightarrow> obj \<Rightarrow> (forge_record \<times> string) res"
where
  "build_action ms v q fs =
     (let cr = env_crypto (lc_env (ms_context ms)) in
      and_then (derive_record_identity cr VERIFIER_ACTION (py_fields fs)) (\<lambda>action_id.
      let seed = fs @ [(''action_id'', JStr action_id)]; request = analysis_request ms v seed action_id q in
      and_then (raise_if (vl_request_bytes (ms_limits ms) < length (canonical_bytes (JObj request)) + 1)
        (ForgeError ''VERIFIER_REQUEST_LIMIT'' [])) (\<lambda>_.
      and_then (new_record cr VERIFIER_ACTION
        (as_fields (seed @ [(''protocol_request_identity'', JStr (ms_identity ms (JObj request)))]))) (\<lambda>action.
      Inr (action, request_identifier ms action_id)))))"

definition prepare_run ::
  "verifier_service \<Rightarrow> run_view \<Rightarrow> string \<Rightarrow> verifier_request \<Rightarrow> store \<Rightarrow> prepared_run res"
where
  "prepare_run ms rn verifier_id q s =
     and_then (declared_verifier ms verifier_id) (\<lambda>v.
     and_then (raise_if (ms_mode ms \<notin> set (vf_modes v)) (ForgeError ''VERIFIER_MODE'' [])) (\<lambda>_.
     and_then (dict_item (pc_workflows (ms_config ms)) (vf_workflow v)) (\<lambda>w.
     and_then (dict_item (pc_providers (ms_config ms)) (vf_provider v)) (\<lambda>p.
     and_then (run_subject ms (rn_observation rn) (vq_candidate q) s) (\<lambda>(freeze_or_none, candidate).
     and_then (validate_request ms v q) (\<lambda>(scope, validated).
     and_then (check_contract ms (vq_contract validated)) (\<lambda>_.
     and_then (traverse (changed_path_identity ms (rn_file_identity rn)) (vq_changed_paths validated)) (\<lambda>path_identities.
     and_then (rec_item candidate ''candidate_id'') (\<lambda>candidate_id.
     and_then (ms_environment ms w) (\<lambda>environment.
     and_then (material_identities ms v p w environment) (\<lambda>identities.
     and_then (ledger_records (lc_env (ms_context ms)) s (Some ''verifier_result'')) (\<lambda>prior.
     and_then (superseded_result (ms_mode ms) (vf_id v) (py_str candidate_id) (rec_value candidate ''parent_candidate'') prior)
       (\<lambda>superseded.
     and_then (action_fields ms rn v p identities freeze_or_none candidate scope path_identities superseded validated) (\<lambda>fs.
     and_then (build_action ms v validated fs) (\<lambda>(action, request_id).
     Inr \<lparr>pn_verifier = v, pn_provider = p, pn_candidate = candidate, pn_freeze = freeze_or_none,
       pn_identities = identities, pn_prior = prior, pn_action = action, pn_request_id = request_id\<rparr>)))))))))))))))"

section \<open>The result\<close>

text \<open>\<open>exc.code\<close> and \<open>exc.message\<close> of whatever ended an execution.\<close>

definition failure_code :: "py_error \<Rightarrow> string" where
  "failure_code e = (case e of ForgeError code ds \<Rightarrow> code | _ \<Rightarrow> ''VERIFIER_INTERNAL'')"

definition failure_message :: "execution_view \<Rightarrow> py_error \<Rightarrow> string" where
  "failure_message xv e = (case e of ForgeError code ds \<Rightarrow> xv_message xv e | _ \<Rightarrow> ''unexpected verifier execution failure'')"

text \<open>
  The freeze is verified again after the provider ran, over the history that now holds the action. An
  execution that raises ends in a terminal UNKNOWN result, and its session is lost.
\<close>

definition run_execution ::
  "verifier_service \<Rightarrow> run_view \<Rightarrow> prepared_run \<Rightarrow> store \<Rightarrow> execution_view"
where
  "run_execution ms rn pn s =
     (rn_execution rn)\<lparr>xv_freeze_check :=
        (case pn_freeze pn of None \<Rightarrow> Inr () | Some f \<Rightarrow> verify_freeze (ms_context ms) (rn_after rn) f s)\<rparr>"

definition completed_run ::
  "verifier_service \<Rightarrow> run_view \<Rightarrow> prepared_run \<Rightarrow> store \<Rightarrow> (session option \<times> forge_record) res"
where
  "completed_run ms rn pn s =
     (let xv = run_execution ms rn pn s in
      case execute_verifier ms (pn_verifier pn) (pn_provider pn) (pn_candidate pn) (pn_action pn) (pn_request_id pn)
             (pn_identities pn) (pn_freeze pn) (pn_prior pn) xv of
        Inr ended \<Rightarrow> Inr ended
      | Inl e \<Rightarrow>
          and_then (verifier_result_record (env_crypto (lc_env (ms_context ms)))
            (terminal_unknown_result (pn_action pn) (pn_verifier pn) (pn_provider pn) (pn_identities pn)
               (failure_code e) (failure_message xv e) (rn_failed_at rn) (rn_elapsed rn))) (\<lambda>r. Inr (None, r)))"

definition session_binding ::
  "verifier_service \<Rightarrow> run_view \<Rightarrow> prepared_run \<Rightarrow> string \<Rightarrow> session option \<Rightarrow> forge_record \<Rightarrow> store
     \<Rightarrow> forge_record option res"
where
  "session_binding ms rn pn action_id se_or_none r s =
     (case se_or_none of
        None \<Rightarrow> Inr None
      | Some se \<Rightarrow>
          and_then (binding_for_action (lc_env (ms_context ms)) s action_id) (\<lambda>bound.
          and_then (raise_if (bound \<noteq> None) (ForgeError ''RECEIPT_DUPLICATE'' [])) (\<lambda>_.
          and_then (rec_item r ''output_identity'') (\<lambda>output.
          and_then (bind_verifier_execution (env_crypto (lc_env (ms_context ms))) (rn_project rn) (pn_action pn)
            (Some (py_str output)) (vf_id (pn_verifier pn)) (se_observation se) (rn_receipt rn) (rn_bound_at rn)) (\<lambda>b.
          Inr (Some b))))))"

definition finished_run ::
  "verifier_service \<Rightarrow> run_view \<Rightarrow> prepared_run \<Rightarrow> string \<Rightarrow> store \<Rightarrow> (forge_record option \<times> forge_record) res"
where
  "finished_run ms rn pn action_id s =
     and_then (completed_run ms rn pn s) (\<lambda>(se_or_none, r).
     and_then (session_binding ms rn pn action_id se_or_none r s) (\<lambda>binding_or_none.
     and_then (rec_item r ''candidate_identity'') (\<lambda>candidate_id.
     and_then (rec_item r ''freeze_identity'') (\<lambda>freeze_id.
     and_then (rec_item r ''mode'') (\<lambda>mode.
     and_then (terminal_result_for_recorded_action (pn_action pn) (pn_prior pn) action_id (py_str candidate_id)
       (if truthy freeze_id then Some (py_str freeze_id) else None) (py_str mode)) (\<lambda>_.
     Inr (binding_or_none, r)))))))"

section \<open>Disclosure\<close>

definition DISCLOSED_KEYS :: "string list" where
  "DISCLOSED_KEYS =
     [''record_type'', ''schema_version'', ''output_identity'', ''verifier_id'', ''status'', ''mode'', ''limitations'']"

definition disclose_result :: "forge_record \<Rightarrow> obj" where
  "disclose_result r =
     (let exposed = rec_to_json r in
      if feq (rec_value r ''mode'') (FStr ''evaluator'') \<and> feq (rec_value r ''disclosure'') (FStr ''status-only'')
      then map (\<lambda>k. (k, obj_get exposed k)) DISCLOSED_KEYS
        @ [(''repair_feedback_withheld'', JBool True), (''independent_evaluation'', JBool False)]
      else exposed)"

definition disclosed_run :: "forge_record option \<Rightarrow> forge_record \<Rightarrow> obj" where
  "disclosed_run binding_or_none r =
     (case binding_or_none of
        None \<Rightarrow> disclose_result r
      | Some b \<Rightarrow> dict_set ''execution_receipt'' (JObj (summarize_binding b)) (disclose_result r))"

section \<open>A run\<close>

definition commit_binding ::
  "storage_env \<Rightarrow> moment \<Rightarrow> forge_record option \<Rightarrow> store \<Rightarrow> (store \<Rightarrow> 'a res \<times> store) \<Rightarrow> 'a res \<times> store"
where
  "commit_binding env at binding_or_none s f =
     (case binding_or_none of
        None \<Rightarrow> f s
      | Some b \<Rightarrow> commit_then env at ''execution-receipt-bindings'' ''execution_receipt_binding'' b s f)"

definition run_verifier ::
  "verifier_service \<Rightarrow> run_view \<Rightarrow> string \<Rightarrow> verifier_request \<Rightarrow> store \<Rightarrow> obj res \<times> store"
where
  "run_verifier ms rn verifier_id q s =
     (let env = lc_env (ms_context ms) in
      case and_then (prepare_run ms rn verifier_id q s) (\<lambda>pn.
           and_then (rec_item (pn_action pn) ''action_id'') (\<lambda>action_id.
           and_then (enter_action (rn_busy rn) (py_str action_id)) (\<lambda>_. Inr (pn, py_str action_id)))) of
        Inl e \<Rightarrow> (Inl e, s)
      | Inr (pn, action_id) \<Rightarrow>
          commit_then env (rn_action_commit rn) ''verifier-actions'' ''verifier_action'' (pn_action pn) s (\<lambda>s.
          case finished_run ms rn pn action_id s of
            Inl e \<Rightarrow> (Inl e, s)
          | Inr (binding_or_none, r) \<Rightarrow>
              commit_binding env (rn_binding_commit rn) binding_or_none s (\<lambda>s.
              commit_then env (rn_result_commit rn) ''verifier-results'' ''verifier_result'' r s (\<lambda>s.
              (Inr (disclosed_run binding_or_none r), s)))))"

section \<open>A batch\<close>

definition unrecorded_batch_unknown :: "string \<Rightarrow> string \<Rightarrow> string \<Rightarrow> obj" where
  "unrecorded_batch_unknown verifier_id code message =
     [(''verifier_id'', JStr verifier_id),
      (''status'', JStr ''UNKNOWN''),
      (''recorded'', JBool False),
      (''summary'', JStr ''verifier was rejected before action recording''),
      (''operational_error'', operational_error code message),
      (''limitations'', jtexts [''no verifier_action or verifier_result was created because authority or input validation failed before execution''])]"

text \<open>The time that is left before each run (\<open>None\<close> when it is used up) decides what the run sees.\<close>

record batch_view =
  bv_too_long :: "string list \<Rightarrow> bool"
  bv_run :: "string \<Rightarrow> run_view option"
  bv_aggregate :: "string list \<Rightarrow> string res"
  bv_elapsed :: string

definition batch_request :: "string list \<Rightarrow> verifier_request \<Rightarrow> json" where
  "batch_request ids q = JObj
     [(''verifier_ids'', jtexts ids),
      (''candidate_identity'', jtext_or_null (vq_candidate q)),
      (''changed_paths'', jtexts (vq_changed_paths q)),
      (''scope'', jtext_or_null (vq_scope q)),
      (''source_region'', jobj_or_null (vq_source_region q)),
      (''contract_identity'', jtext_or_null (vq_contract q)),
      (''dependency_slice_identities'', jmap (vq_dependencies q)),
      (''prior_artifact_identity'', jtext_or_null (vq_prior_artifact q)),
      (''question_parameters'', JObj (vq_parameters q))]"

definition check_batch ::
  "verifier_service \<Rightarrow> batch_view \<Rightarrow> string list \<Rightarrow> verifier_request \<Rightarrow> (verifier list \<times> obj \<times> obj dict) res"
where
  "check_batch ms bv ids q =
     and_then (raise_if (ids = []) (ForgeError ''VERIFIER_BATCH'' [])) (\<lambda>_.
     and_then (raise_if (vl_max_batch (ms_limits ms) < length ids) (ForgeError ''VERIFIER_BATCH_LIMIT'' [])) (\<lambda>_.
     and_then (raise_if (\<not> distinct ids) (ForgeError ''VERIFIER_BATCH'' [])) (\<lambda>_.
     and_then (traverse (declared_verifier ms) ids) (\<lambda>vs.
     and_then (raise_if (bv_too_long bv (map vf_timeout vs)) (ForgeError ''VERIFIER_BATCH_LIMIT'' [])) (\<lambda>_.
     and_then (case resolve_batch_parameters ids (Some (vq_parameters q)) of
         Inl e \<Rightarrow> Inl (if e = PyValueError then ForgeError ''VERIFIER_BATCH_PARAMETERS'' [] else e)
       | Inr x \<Rightarrow> Inr x) (\<lambda>(shared, per_verifier).
     and_then (raise_if (vl_request_bytes (ms_limits ms) < length (canonical_bytes (batch_request ids q)))
       (ForgeError ''VERIFIER_REQUEST_LIMIT'' [])) (\<lambda>_.
     Inr (vs, shared, per_verifier))))))))"

text \<open>One verifier of a batch: a rejected run is an unrecorded result, any other error ends the batch.\<close>

definition batch_step ::
  "verifier_service \<Rightarrow> batch_view \<Rightarrow> verifier_request \<Rightarrow> obj \<Rightarrow> obj dict \<Rightarrow> verifier \<Rightarrow> store \<Rightarrow> obj res \<times> store"
where
  "batch_step ms bv q shared per_verifier v s =
     (case bv_run bv (vf_id v) of
        None \<Rightarrow> (Inr (unrecorded_batch_unknown (vf_id v) ''VERIFIER_BATCH_LIMIT''
            ''batch duration exhausted before action recording''), s)
      | Some rn \<Rightarrow>
          (case run_verifier ms rn (vf_id v)
                  (q\<lparr>vq_parameters := parameters_for_verifier (vf_id v) shared per_verifier\<rparr>) s of
             (Inr r, t) \<Rightarrow> (Inr r, t)
           | (Inl e, t) \<Rightarrow>
               (case e of
                  ForgeError code ds \<Rightarrow>
                    (Inr (unrecorded_batch_unknown (vf_id v) code (xv_message (rn_execution rn) e)), t)
                | _ \<Rightarrow> (Inl e, t))))"

fun batch_steps ::
  "verifier_service \<Rightarrow> batch_view \<Rightarrow> verifier_request \<Rightarrow> obj \<Rightarrow> obj dict \<Rightarrow> verifier list \<Rightarrow> store
     \<Rightarrow> obj list res \<times> store"
where
  "batch_steps ms bv q shared per_verifier [] s = (Inr [], s)"
| "batch_steps ms bv q shared per_verifier (v # vs) s =
     (case batch_step ms bv q shared per_verifier v s of
        (Inl e, t) \<Rightarrow> (Inl e, t)
      | (Inr r, t) \<Rightarrow>
          (case batch_steps ms bv q shared per_verifier vs t of
             (Inl e, u) \<Rightarrow> (Inl e, u)
           | (Inr rs, u) \<Rightarrow> (Inr (r # rs), u)))"

definition batch_status :: "obj \<Rightarrow> string" where
  "batch_status r = json_str (envelope_member r ''status'' (JStr ''UNKNOWN''))"

definition recorded_count :: "obj list \<Rightarrow> nat" where
  "recorded_count rs = length (filter (\<lambda>r. json_truthy (obj_get r ''output_identity'')) rs)"

definition batch_report :: "batch_view \<Rightarrow> obj list \<Rightarrow> obj res" where
  "batch_report bv rs =
     and_then (bv_aggregate bv (map batch_status rs)) (\<lambda>aggregate.
     Inr [(''results'', JArr (map JObj rs)),
          (''aggregate_status'', JStr aggregate),
          (''individual_results_retained'', JBool True),
          (''recorded_result_count'', JInt (int (recorded_count rs))),
          (''unrecorded_result_count'', JInt (int (length rs) - int (recorded_count rs))),
          (''partial_execution_explicit'', JBool True),
          (''dominance'', JStr ''FAIL > UNKNOWN > PASS''),
          (''duration_seconds'', JFloat (bv_elapsed bv))])"

definition run_batch ::
  "verifier_service \<Rightarrow> batch_view \<Rightarrow> string list \<Rightarrow> verifier_request \<Rightarrow> store \<Rightarrow> obj res \<times> store"
where
  "run_batch ms bv ids q s =
     (case check_batch ms bv ids q of
        Inl e \<Rightarrow> (Inl e, s)
      | Inr (vs, shared, per_verifier) \<Rightarrow>
          (case batch_steps ms bv q shared per_verifier vs s of
             (Inl e, t) \<Rightarrow> (Inl e, t)
           | (Inr rs, t) \<Rightarrow> (batch_report bv rs, t)))"

section \<open>Explaining a result\<close>

definition MATERIAL_KEYS :: "string list" where
  "MATERIAL_KEYS = [''configuration_identity'', ''provider_configuration_identity'', ''verifier_identity'',
     ''policy_identity'', ''environment_identity'']"

definition freshness_state :: "string \<Rightarrow> string \<Rightarrow> obj" where
  "freshness_state state reason = [(''state'', JStr state), (''reason'', JStr reason)]"

definition changed_material :: "verifier_service \<Rightarrow> string dict \<Rightarrow> forge_record \<Rightarrow> string list" where
  "changed_material ms identities r =
     filter (\<lambda>k. \<not> (\<exists>i. dict_get identities k = Some i \<and> feq (rec_value r k) (FStr i))) MATERIAL_KEYS
     @ (if feq (rec_value r ''mode'') (FStr (ms_mode ms)) then [] else [''mode''])"

text \<open>The paths of an envelope whose identity changed; \<open>None\<close> when one of them was not recorded.\<close>

fun stale_paths :: "verifier_service \<Rightarrow> fjson dict \<Rightarrow> fjson list \<Rightarrow> string list option res" where
  "stale_paths ms recorded [] = Inr (Some [])"
| "stale_paths ms recorded (FStr p # ps) =
     (case dict_get recorded p of
        None \<Rightarrow> Inr None
      | Some identity \<Rightarrow>
          and_then (resolve_contained (ms_files ms) False p) (\<lambda>resolved.
          and_then (ms_content ms [resolved]) (\<lambda>current.
          and_then (stale_paths ms recorded ps) (\<lambda>rest.
          Inr (map_option (\<lambda>stale. (if feq identity (FStr current) then [] else [p]) @ stale) rest)))))"
| "stale_paths ms recorded (_ # ps) = Inr None"

definition changed_candidate :: "bool \<Rightarrow> obj" where
  "changed_candidate complete =
     (if complete
      then freshness_state ''CURRENT''
          ''candidate changed outside an unchanged provider-declared complete dependency envelope''
        @ [(''limitation'', JStr (''path separation alone is not semantic independence; this conclusion ''
             @ ''depends on the provider's declared complete envelope''))]
      else freshness_state ''UNKNOWN''
        ''candidate changed and the provider did not declare a complete dependency envelope'')"

definition envelope_freshness ::
  "verifier_service \<Rightarrow> string res \<Rightarrow> bool \<Rightarrow> forge_record \<Rightarrow> fjson dict \<Rightarrow> obj res"
where
  "envelope_freshness ms current_candidate allow_protected r envelope =
     (let member = (\<lambda>k other. case dict_get envelope k of None \<Rightarrow> other | Some v \<Rightarrow> v) in
      case (allow_protected, member ''paths'' (FTuple []), member ''path_identities'' (FMap [])) of
        (True, FTuple paths, FMap recorded) \<Rightarrow>
          and_then (stale_paths ms recorded paths) (\<lambda>stale.
          case stale of
            None \<Rightarrow> Inr (freshness_state ''UNKNOWN'' ''dependency impact cannot be established'')
          | Some (p # ps) \<Rightarrow>
              Inr (freshness_state ''STALE'' ''a declared dependency-envelope identity changed''
                @ [(''changed_paths'', jtexts (p # ps))])
          | Some [] \<Rightarrow>
              and_then current_candidate (\<lambda>current.
              Inr (if feq (rec_value r ''candidate_identity'') (FStr current)
                   then freshness_state ''CURRENT'' ''all material and candidate identities still match''
                   else changed_candidate (member ''complete'' FNull = FBool True))))
      | _ \<Rightarrow> Inr (freshness_state ''UNKNOWN'' ''dependency freshness details are not disclosable''))"

definition result_freshness :: "verifier_service \<Rightarrow> string res \<Rightarrow> bool \<Rightarrow> forge_record \<Rightarrow> obj res" where
  "result_freshness ms current_candidate allow_protected r =
     and_then (rec_item r ''verifier_id'') (\<lambda>verifier_id.
     case dict_get (pc_verifiers (ms_config ms)) (py_str verifier_id) of
       None \<Rightarrow> Inr (freshness_state ''STALE'' ''verifier declaration is no longer present'')
     | Some v \<Rightarrow>
         (case (dict_get (pc_providers (ms_config ms)) (vf_provider v), dict_get (pc_workflows (ms_config ms)) (vf_workflow v)) of
            (Some p, Some w) \<Rightarrow>
              and_then (ms_environment ms w) (\<lambda>environment.
              and_then (material_identities ms v p w environment) (\<lambda>identities.
              let changed = changed_material ms identities r in
              if changed \<noteq> []
              then Inr (freshness_state ''STALE'' ''material verifier identities changed''
                @ [(''changed_identities'', jtexts (sort changed))])
              else
                (case rec_value r ''dependency_envelope'' of
                   FMap envelope \<Rightarrow> envelope_freshness ms current_candidate allow_protected r envelope
                 | _ \<Rightarrow> Inr (freshness_state ''UNKNOWN'' ''result has no valid dependency envelope''))))
          | _ \<Rightarrow> Inr (freshness_state ''STALE'' ''referenced provider or workflow declaration is missing'')))"

definition explained_details :: "bool \<Rightarrow> obj \<Rightarrow> obj" where
  "explained_details status_only exposed =
     (if status_only
      then [(''witnesses'', JArr []),
        (''limitations'', jtexts [''status-only disclosure withholds repair-enabling verifier details'']),
        (''unsupported_constructs'', JArr []), (''repair_feedback_withheld'', JBool True)]
      else map (\<lambda>k. (k, obj_get exposed k))
          [''summary'', ''witnesses'', ''assumptions'', ''limitations'', ''unsupported_constructs'',
           ''dependency_envelope'', ''operational_error'']
        @ [(''repair_feedback_withheld'', JBool False)])"

definition explain_result :: "verifier_service \<Rightarrow> string res \<Rightarrow> string \<Rightarrow> store \<Rightarrow> obj res" where
  "explain_result ms current_candidate output_identity s =
     and_then (record_by_id (lc_env (ms_context ms)) s ''verifier_result'' output_identity ''output_identity'') (\<lambda>r.
     let status_only = feq (rec_value r ''disclosure'') (FStr ''status-only''); exposed = rec_to_json r in
     and_then (result_freshness ms current_candidate (\<not> status_only) r) (\<lambda>freshness.
     Inr ([(''output_identity'', JStr output_identity),
           (''verifier_id'', obj_get exposed ''verifier_id''),
           (''claim'', obj_get exposed ''claim''),
           (''status'', obj_get exposed ''status''),
           (''mode'', obj_get exposed ''mode''),
           (''repair_allowed'', JBool (feq (rec_value r ''mode'') (FStr ''development'') \<and> ms_mode ms = ''development'')),
           (''independent_evaluation'', JBool False),
           (''freshness'', JObj freshness)] @ explained_details status_only exposed)))"

end
