(* ===== verification/VerifierGuarantees.thy ===== *)
theory VerifierGuarantees
  imports VerifierExecution RecoveryFacts
begin

text \<open>
  What a verifier's result stands for: a result that is not UNKNOWN repeats the status of a conforming
  response of the declared provider, over files that nothing changed, and a status-only result of an
  evaluator carries no text of the provider.
\<close>

section \<open>Steps\<close>

lemma step_then_Inr:
  "step_then s f = (Inr y, d) \<longleftrightarrow> (\<exists>x d'. s = (Inr x, d') \<and> f x d' = (Inr y, d))"
  by (auto simp: step_then_def split: prod.splits sum.splits)

lemma lift_step_Inr: "lift_step r d = (Inr x, d') \<longleftrightarrow> r = Inr x \<and> d' = d"
  by (auto simp: lift_step_def)

lemmas step_simps = step_then_Inr lift_step_Inr raise_if_Inr_iff

text \<open>A run of the declared provider that ended with exit code 0 and a response with that status.\<close>

definition conforming_run :: "(string \<Rightarrow> string) \<Rightarrow> provider \<Rightarrow> string \<Rightarrow> execution_view \<Rightarrow> string \<Rightarrow> bool" where
  "conforming_run fr p request_id xv status \<longleftrightarrow>
     (\<exists>path identity se x response.
        xv_executable xv = Inr (path, identity) \<and> \<not> xv_expired xv
        \<and> xv_session xv = Inr se \<and> se_result se = Some x \<and> xe_returncode x = 0
        \<and> parse_provider_response fr (xe_stdout x) = Inr response
        \<and> obj_get response ''type'' = JStr ''analysis_response''
        \<and> obj_get response ''request_id'' = JStr request_id
        \<and> \<not> provider_drifted p (object_of (obj_get response ''provider''))
        \<and> obj_get response ''status'' = JStr status)"

lemma run_provider_Inr:
  assumes "run_provider xv d = (Inr (identity, x), d')"
  shows "\<exists>path se. xv_executable xv = Inr (path, identity) \<and> \<not> xv_expired xv \<and> xv_session xv = Inr se
    \<and> se_result se = Some x"
  using assms by (auto simp: run_provider_def step_simps split: option.splits prod.splits)

lemma check_analysis_Inr:
  "check_analysis response request_id = Inr () \<longleftrightarrow>
     obj_get response ''type'' = JStr ''analysis_response'' \<and> obj_get response ''request_id'' = JStr request_id"
  by (auto simp: check_analysis_def and_then_Inr_iff raise_if_Inr_iff split: if_splits)

lemma read_response_Inr:
  assumes "read_response fr p request_id x d = (Inr response, d')"
  shows "xe_returncode x = 0 \<and> parse_provider_response fr (xe_stdout x) = Inr response
    \<and> check_analysis response request_id = Inr ()
    \<and> \<not> provider_drifted p (object_of (obj_get response ''provider''))"
  using assms by (auto simp: read_response_def step_simps Let_def)

lemma adopt_response_Inr:
  "adopt_response ms identity response d = (Inr u, d') \<Longrightarrow> vd_status d' = json_text_of (obj_get response ''status'')"
  by (auto simp: adopt_response_def step_simps Let_def)

lemma provider_steps_conform:
  assumes "provider_steps ms p request_id xv d = (Inr u, d')"
  shows "conforming_run (env_float (lc_env (ms_context ms))) p request_id xv (vd_status d')"
proof -
  let ?fr = "env_float (lc_env (ms_context ms))"
  from assms obtain identity x d1 response d2 where
    run: "run_provider xv d = (Inr (identity, x), d1)"
    and read: "read_response ?fr p request_id x d1 = (Inr response, d2)"
    and adopt: "adopt_response ms identity response d2 = (Inr u, d')"
    by (auto simp: provider_steps_def step_simps split: prod.splits)
  note parts = read_response_Inr [OF read, unfolded check_analysis_Inr]
  then have "check_response response = Inr ()" by (blast dest: parse_provider_response_checked)
  with parts obtain s where "obj_get response ''status'' = JStr s" by (auto simp: check_response_Inr)
  with adopt_response_Inr [OF adopt] have "obj_get response ''status'' = JStr (vd_status d')"
    by (simp add: json_text_of_def)
  with parts run_provider_Inr [OF run] show ?thesis unfolding conforming_run_def by blast
qed

lemma provider_verdict_conforms:
  assumes "provider_verdict ms v p request_id xv = Inr d" "vd_status d \<noteq> ''UNKNOWN''"
  shows "conforming_run (env_float (lc_env (ms_context ms))) p request_id xv (vd_status d)"
proof (cases "provider_steps ms p request_id xv (initial_verdict v)")
  case (Pair outcome d')
  with assms have "outcome = Inr () \<and> d' = d"
    by (auto simp: provider_verdict_def split: sum.splits py_error.splits)
  with Pair show ?thesis using provider_steps_conform by blast
qed

section \<open>Undisturbed files\<close>

definition undisturbed :: "execution_view \<Rightarrow> forge_record option \<Rightarrow> bool" where
  "undisturbed xv freeze_or_none \<longleftrightarrow>
     (\<exists>before after. xv_authority_before xv = Inr before \<and> xv_authority_after xv = Inr after \<and> same_text_map before after)
     \<and> (\<exists>candidate. xv_candidate_before xv = Inr candidate \<and> xv_candidate_after xv = Inr candidate)
     \<and> (freeze_or_none \<noteq> None \<longrightarrow> xv_freeze_check xv = Inr ())"

lemma check_undisturbed_Inr:
  "check_undisturbed ms authorities candidate freeze_or_none xv = Inr () \<longleftrightarrow>
     (\<exists>after. xv_authority_after xv = Inr after \<and> same_text_map authorities after)
     \<and> xv_candidate_after xv = Inr candidate \<and> (freeze_or_none \<noteq> None \<longrightarrow> xv_freeze_check xv = Inr ())"
  by (auto simp: check_undisturbed_def and_then_Inr_iff raise_if_Inr_iff split: if_splits)

section \<open>The members of a result\<close>

lemma result_members_get:
  assumes "traverse (result_member action) kvs = Inr fs" "map_of kvs k = Some (Some v)"
  shows "dict_get (fs @ rest) k = Some v"
  using assms
proof (induction kvs arbitrary: fs)
  case (Cons kv kvs)
  from Cons.prems(1) obtain w gs where w: "result_member action kv = Inr w" "traverse (result_member action) kvs = Inr gs"
    "fs = w # gs"
    by (auto simp: and_then_Inr_iff)
  from w(1) have key: "fst w = fst kv" and value': "snd kv = Some x \<Longrightarrow> snd w = x" for x
    by (cases kv; auto simp: result_member_def and_then_Inr_iff split: option.splits)+
  show ?case
  proof (cases "fst kv = k")
    case True
    with Cons.prems(2) have "snd kv = Some v" by (cases kv) simp
    with True key value' w(3) show ?thesis by (cases w) simp
  next
    case False
    with Cons.prems(2) have "map_of kvs k = Some (Some v)" by (cases kv) simp
    from Cons.IH [OF w(2) this] False key w(3) show ?thesis by (cases w) simp
  qed
qed simp

lemma result_member_keys: "traverse (result_member action) kvs = Inr fs \<Longrightarrow> dict_keys fs = map fst kvs"
proof (induction kvs arbitrary: fs)
  case (Cons kv kvs)
  then obtain w gs where "result_member action kv = Inr w" "traverse (result_member action) kvs = Inr gs" "fs = w # gs"
    by (auto simp: and_then_Inr_iff)
  moreover from this(1) have "fst w = fst kv" by (cases kv) (auto simp: result_member_def and_then_Inr_iff split: option.splits)
  ultimately show ?case using Cons.IH by simp
qed simp

text \<open>Every result of a verifier has the same members, in the same order.\<close>

definition RESULT_KEYS :: "string list" where
  "RESULT_KEYS = map fst (recovered_members True [])"

lemma result_keys_distinct: "distinct RESULT_KEYS" "''extensions'' \<notin> set RESULT_KEYS"
  unfolding RESULT_KEYS_def by code_simp+

lemma executed_members_keys:
  "map fst (executed_members ms v p identity source_epoch candidate_id freeze_id overlap xv d) = RESULT_KEYS"
  by (simp add: executed_members_def RESULT_KEYS_def recovered_members_def)

lemma new_record_member:
  assumes "new_record cr VERIFIER_RESULT (as_fields d) = Inr r" "dict_get d k = Some v"
    "k \<notin> set metadata_keys" "k \<noteq> ''output_identity''"
  shows "rec_value r k = freeze_json v"
proof -
  from assms(1) obtain d' fs where d': "json_object (PMap (as_fields d)) record_label = Inr d'"
    and fs: "with_identity cr VERIFIER_RESULT d' = Inr fs" and r: "r = model VERIFIER_RESULT fs CURRENT_SCHEMA_VERSION"
    by (auto simp: new_record_def and_then_Inr_iff)
  have "PMap (as_fields d) = py_of_json (JObj d)" by (simp add: as_fields_def)
  with d' have "d' = d" by (metis json_object_identity(1))
  moreover have "rs_identity_field spec_verifier_result = Some ''output_identity''" by (simp add: spec_verifier_result_def)
  ultimately have "dict_get fs k = Some v"
    using fs assms(2,4) by (auto simp: with_identity_def spec_of_def and_then_Inr_iff split: if_splits)
  with model_get [OF assms(3)] r show ?thesis by simp
qed

lemma shortened_get:
  "k \<notin> {''witnesses'', ''stderr_diagnostic'', ''limitations''} \<Longrightarrow> dict_get (shortened d) k = dict_get d k"
  by (simp add: shortened_def dict_get_update)

lemma bounded_result_source:
  assumes "bounded_result ms d = Inr r"
  shows "\<exists>e \<in> {d, shortened d}. new_record (env_crypto (lc_env (ms_context ms))) VERIFIER_RESULT (as_fields e) = Inr r"
  using assms by (auto simp: bounded_result_def Let_def and_then_Inr_iff split: if_splits)

section \<open>The recorded result\<close>

lemma result_fields_members:
  assumes "result_fields ms v p candidate action freeze_or_none identities prior xv d = Inr fs"
  obtains all where
    "fs = (if ms_mode ms = ''evaluator'' \<and> vf_disclosure v = ''status-only'' then redact_status_only_result all else all)"
    "dict_get all ''status'' = Some (JStr (vd_status d))" "dict_get all ''verifier_id'' = Some (JStr (vf_id v))"
    "dict_get all ''mode'' = Some (JStr (ms_mode ms))" "dict_get all ''disclosure'' = Some (JStr (vf_disclosure v))"
    "dict_get all ''provider_identity'' = Some (jobj_or_null (vd_provider d))" "dict_wf all"
proof -
  from assms obtain source_epoch candidate_id freeze_id gs where
    gs: "traverse (result_member action) (executed_members ms v p (found_identity identities) source_epoch candidate_id
      freeze_id (iterative_overlap v candidate prior) xv d) = Inr gs"
    and fs: "fs = (if ms_mode ms = ''evaluator'' \<and> vf_disclosure v = ''status-only''
        then redact_status_only_result (gs @ evidence_extensions d) else gs @ evidence_extensions d)"
    unfolding result_fields_def and_then_Inr_iff Let_def by blast
  note get = result_members_get [OF gs]
  have "dict_keys gs = RESULT_KEYS" using result_member_keys [OF gs] executed_members_keys by simp
  with result_keys_distinct have "dict_wf (gs @ evidence_extensions d)"
    by (auto simp: evidence_extensions_def Let_def simp del: set_map split: option.splits)
  then show thesis by (intro that [OF fs]) (rule get, simp add: executed_members_def | assumption)+
qed

lemma redacted_keeps:
  "k \<notin> set (dict_keys (status_only_members JNull)) \<Longrightarrow> dict_get (redact_status_only_result d) k = dict_get d k"
  using dict_get_update [of "status_only_members (envelope_identity d)" d k]
  by (simp add: redact_status_only_result_def status_only_keys)

text \<open>What is kept by the redaction and by the shortening is the member of the recorded result.\<close>

lemma recorded_member:
  assumes "bounded_result ms (if hidden then redact_status_only_result all else all) = Inr r"
    "dict_get all k = Some v" "k \<in> {''status'', ''verifier_id'', ''mode'', ''disclosure'', ''provider_identity''}"
  shows "rec_value r k = freeze_json v"
proof -
  let ?d = "if hidden then redact_status_only_result all else all"
  obtain e where e: "e \<in> {?d, shortened ?d}"
    "new_record (env_crypto (lc_env (ms_context ms))) VERIFIER_RESULT (as_fields e) = Inr r"
    using bounded_result_source [OF assms(1)] by blast
  from assms(3) have k: "k \<notin> set metadata_keys" "k \<noteq> ''output_identity''"
    "k \<notin> {''witnesses'', ''stderr_diagnostic'', ''limitations''}" "k \<notin> set (dict_keys (status_only_members JNull))"
    by (auto simp: metadata_keys_def status_only_keys)
  from assms(2) have "dict_get ?d k = Some v" using redacted_keeps [OF k(4)] by (simp del: set_map)
  with e(1) shortened_get [OF k(3)] have "dict_get e k = Some v" by auto
  from new_record_member [OF e(2) this k(1,2)] show ?thesis .
qed

lemma execute_verifier_Inr:
  assumes "execute_verifier ms v p candidate action request_id identities freeze_or_none prior xv = Inr (se, r)"
  obtains d all where "provider_verdict ms v p request_id xv = Inr d" "undisturbed xv freeze_or_none" "se = vd_session d"
    "bounded_result ms (if ms_mode ms = ''evaluator'' \<and> vf_disclosure v = ''status-only''
        then redact_status_only_result all else all) = Inr r"
    "dict_get all ''status'' = Some (JStr (vd_status d))" "dict_get all ''verifier_id'' = Some (JStr (vf_id v))"
    "dict_get all ''mode'' = Some (JStr (ms_mode ms))" "dict_get all ''disclosure'' = Some (JStr (vf_disclosure v))"
    "dict_get all ''provider_identity'' = Some (jobj_or_null (vd_provider d))" "dict_wf all"
proof -
  from assms obtain authorities c d fs where parts: "xv_authority_before xv = Inr authorities" "xv_candidate_before xv = Inr c"
    "provider_verdict ms v p request_id xv = Inr d"
    "check_undisturbed ms authorities c freeze_or_none xv = Inr ()"
    "result_fields ms v p candidate action freeze_or_none identities prior xv d = Inr fs"
    "bounded_result ms fs = Inr r" "se = vd_session d"
    by (auto simp: execute_verifier_def and_then_Inr_iff)
  from parts(1,2,4) have still: "undisturbed xv freeze_or_none" by (auto simp: undisturbed_def check_undisturbed_Inr)
  obtain all where all:
    "fs = (if ms_mode ms = ''evaluator'' \<and> vf_disclosure v = ''status-only'' then redact_status_only_result all else all)"
    "dict_get all ''status'' = Some (JStr (vd_status d))" "dict_get all ''verifier_id'' = Some (JStr (vf_id v))"
    "dict_get all ''mode'' = Some (JStr (ms_mode ms))" "dict_get all ''disclosure'' = Some (JStr (vf_disclosure v))"
    "dict_get all ''provider_identity'' = Some (jobj_or_null (vd_provider d))" "dict_wf all"
    by (rule result_fields_members [OF parts(5)])
  show thesis by (rule that [OF parts(3) still parts(7) parts(6) [unfolded all(1)] all(2-7)])
qed

lemma executed_result:
  assumes "execute_verifier ms v p candidate action request_id identities freeze_or_none prior xv = Inr (se, r)"
  shows "\<exists>status. rec_value r ''status'' = FStr status
      \<and> (status \<noteq> ''UNKNOWN'' \<longrightarrow> conforming_run (env_float (lc_env (ms_context ms))) p request_id xv status)"
    "undisturbed xv freeze_or_none" "rec_value r ''mode'' = FStr (ms_mode ms)"
    "rec_value r ''disclosure'' = FStr (vf_disclosure v)" "rec_value r ''verifier_id'' = FStr (vf_id v)"
proof -
  obtain d all where d: "provider_verdict ms v p request_id xv = Inr d" "undisturbed xv freeze_or_none"
    and r: "bounded_result ms (if ms_mode ms = ''evaluator'' \<and> vf_disclosure v = ''status-only''
        then redact_status_only_result all else all) = Inr r"
    and all: "dict_get all ''status'' = Some (JStr (vd_status d))" "dict_get all ''verifier_id'' = Some (JStr (vf_id v))"
    "dict_get all ''mode'' = Some (JStr (ms_mode ms))" "dict_get all ''disclosure'' = Some (JStr (vf_disclosure v))"
    by (rule execute_verifier_Inr [OF assms])
  note member = recorded_member [OF r]
  from member [OF all(1)] provider_verdict_conforms [OF d(1)]
  show "\<exists>status. rec_value r ''status'' = FStr status
      \<and> (status \<noteq> ''UNKNOWN'' \<longrightarrow> conforming_run (env_float (lc_env (ms_context ms))) p request_id xv status)" by simp
  show "undisturbed xv freeze_or_none" by (rule d(2))
  show "rec_value r ''mode'' = FStr (ms_mode ms)" "rec_value r ''disclosure'' = FStr (vf_disclosure v)"
    "rec_value r ''verifier_id'' = FStr (vf_id v)"
    using member [OF all(3)] member [OF all(4)] member [OF all(2)] by simp_all
qed

section \<open>Status-only results\<close>

definition withheld_text :: string where
  "withheld_text = ''status-only evaluator disclosure withholds repair-enabling details''"

definition reduced_text :: string where
  "reduced_text = ''result details were reduced to fit the configured result limit''"

definition withheld :: "forge_record \<Rightarrow> bool" where
  "withheld r \<longleftrightarrow>
     rec_value r ''summary'' = FStr ''status-only evaluator verifier result''
     \<and> rec_value r ''witnesses'' = FTuple [] \<and> rec_value r ''assumptions'' = FTuple []
     \<and> rec_value r ''unsupported_constructs'' = FTuple [] \<and> rec_value r ''stderr_diagnostic'' = FStr ''''
     \<and> rec_value r ''returncode'' = FNull \<and> rec_value r ''operational_error'' = FNull
     \<and> rec_value r ''limitations'' \<in> {FTuple [FStr withheld_text], FTuple [FStr withheld_text, FStr reduced_text]}
     \<and> (\<exists>i. rec_value r ''dependency_envelope'' = freeze_json (empty_envelope i))"

lemma redacted_member:
  "k \<in> set (dict_keys (status_only_members JNull)) \<Longrightarrow>
     dict_get (redact_status_only_result d) k = dict_get (status_only_members (envelope_identity d)) k"
  using dict_get_update [of "status_only_members (envelope_identity d)" d k]
  by (simp add: redact_status_only_result_def status_only_keys)

lemma redacted_values:
  "dict_get (redact_status_only_result d) ''summary'' = Some (JStr ''status-only evaluator verifier result'')"
  "dict_get (redact_status_only_result d) ''witnesses'' = Some (JArr [])"
  "dict_get (redact_status_only_result d) ''assumptions'' = Some (JArr [])"
  "dict_get (redact_status_only_result d) ''limitations'' = Some (JArr [JStr withheld_text])"
  "dict_get (redact_status_only_result d) ''unsupported_constructs'' = Some (JArr [])"
  "dict_get (redact_status_only_result d) ''dependency_envelope'' = Some (empty_envelope (envelope_identity d))"
  "dict_get (redact_status_only_result d) ''stderr_diagnostic'' = Some (JStr '''')"
  "dict_get (redact_status_only_result d) ''returncode'' = Some JNull"
  "dict_get (redact_status_only_result d) ''operational_error'' = Some JNull"
  by (subst redacted_member; simp add: status_only_keys status_only_members_def withheld_text_def)+

lemma shortened_values:
  "dict_get (shortened d) ''witnesses'' = Some (JArr [])"
  "dict_get (shortened d) ''stderr_diagnostic'' = Some (JStr '''')"
  "dict_get d ''limitations'' = Some (JArr xs) \<Longrightarrow>
     dict_get (shortened d) ''limitations'' = Some (JArr (take 19 xs @ [JStr reduced_text]))"
  by (simp_all add: shortened_def dict_get_update reduced_text_def obj_get_def)

lemma redacted_record_withheld:
  assumes "bounded_result ms (redact_status_only_result d) = Inr r"
  shows "withheld r"
proof -
  let ?d = "redact_status_only_result d"
  obtain e where e: "e \<in> {?d, shortened ?d}"
    "new_record (env_crypto (lc_env (ms_context ms))) VERIFIER_RESULT (as_fields e) = Inr r"
    using bounded_result_source [OF assms] by blast
  note member = new_record_member [OF e(2)]
  have kept: "dict_get e k = dict_get ?d k" if "k \<notin> {''witnesses'', ''stderr_diagnostic'', ''limitations''}" for k
    using e(1) shortened_get [OF that, of ?d] by auto
  have values': "dict_get e ''witnesses'' = Some (JArr [])" "dict_get e ''stderr_diagnostic'' = Some (JStr '''')"
    "dict_get e ''limitations'' \<in> {Some (JArr [JStr withheld_text]), Some (JArr [JStr withheld_text, JStr reduced_text])}"
    using e(1) shortened_values(1,2) [of ?d] shortened_values(3) [OF redacted_values(4), of d] redacted_values
    by auto
  have others: "dict_get e ''summary'' = Some (JStr ''status-only evaluator verifier result'')"
    "dict_get e ''assumptions'' = Some (JArr [])" "dict_get e ''unsupported_constructs'' = Some (JArr [])"
    "dict_get e ''dependency_envelope'' = Some (empty_envelope (envelope_identity d))"
    "dict_get e ''returncode'' = Some JNull" "dict_get e ''operational_error'' = Some JNull"
    by (simp_all add: kept redacted_values)
  have limitations: "rec_value r ''limitations'' \<in> {FTuple [FStr withheld_text], FTuple [FStr withheld_text, FStr reduced_text]}"
    using values'(3) member [of "''limitations''"] by (auto simp: metadata_keys_def)
  show ?thesis
    unfolding withheld_def
    using member [OF values'(1)] member [OF values'(2)] member [OF others(1)] member [OF others(2)]
      member [OF others(3)] member [OF others(4)] member [OF others(5)] member [OF others(6)] limitations
    by (auto simp: metadata_keys_def)
qed

lemma status_only_withheld:
  assumes "execute_verifier ms v p candidate action request_id identities freeze_or_none prior xv = Inr (se, r)"
    "ms_mode ms = ''evaluator''" "vf_disclosure v = ''status-only''"
  shows "withheld r"
proof -
  obtain d all where "bounded_result ms (if ms_mode ms = ''evaluator'' \<and> vf_disclosure v = ''status-only''
        then redact_status_only_result all else all) = Inr r"
    by (rule execute_verifier_Inr [OF assms(1)])
  with assms(2,3) show ?thesis by (intro redacted_record_withheld) simp
qed

text \<open>The object in which the provider names itself is not redacted.\<close>

lemma reported_provider_recorded:
  assumes "execute_verifier ms v p candidate action request_id identities freeze_or_none prior xv = Inr (se, r)"
    "provider_verdict ms v p request_id xv = Inr d"
  shows "rec_value r ''provider_identity'' = freeze_json (jobj_or_null (vd_provider d))"
proof -
  obtain d' all where d': "provider_verdict ms v p request_id xv = Inr d'"
    and r: "bounded_result ms (if ms_mode ms = ''evaluator'' \<and> vf_disclosure v = ''status-only''
        then redact_status_only_result all else all) = Inr r"
    and all: "dict_get all ''provider_identity'' = Some (jobj_or_null (vd_provider d'))"
    by (rule execute_verifier_Inr [OF assms(1)])
  from d' assms(2) have "d' = d" by simp
  with recorded_member [OF r all] show ?thesis by simp
qed

end
