(* ===== verification/VerifierRunFacts.thy ===== *)
theory VerifierRunFacts
  imports VerifierRuns VerifierGuarantees
begin

text \<open>
  Whole runs of a verifier: what a completed run records, whichever way it ended, what of it is disclosed,
  and what a batch of runs reports.
\<close>

section \<open>Recorded members\<close>

lemma rec_to_json_get:
  assumes "dict_wf (fr_fields r)" "k \<notin> set metadata_keys"
  shows "obj_get (rec_to_json r) k = thaw_json (rec_value r k)"
proof -
  have "dict_get (rec_to_json r) k = (if k \<in> set (dict_keys (fr_fields r)) then dict_get (thaw_fields (fr_fields r)) k else None)"
    using assms dict_get_update [of "thaw_fields (fr_fields r)" _ k]
    by (simp add: rec_to_json_def metadata_keys_def del: set_map)
  then have "dict_get (rec_to_json r) k = map_option thaw_json (dict_get (fr_fields r) k)"
    by (auto simp: thaw_fields_def map_of_map dict_get_None_iff simp del: set_map)
  with assms(2) show ?thesis
    by (simp add: obj_get_def rec_value_def rec_get_def metadata_keys_def split: option.splits)
qed

lemma new_record_wf:
  assumes "new_record cr t (as_fields d) = Inr r" "dict_wf d"
  shows "dict_wf (fr_fields r)"
proof -
  have "distinct (map fst (as_fields d))"
    using assms(2) by (simp add: as_fields_def comp_def case_prod_unfold distinct_map inj_on_def)
  with new_record_current [OF assms(1)] have "current_record cr r" by blast
  then have "dict_wf (thaw_fields (fr_fields r))" by (simp add: current_record_def Let_def)
  then show ?thesis by simp
qed

text \<open>A member of the result that is the action's.\<close>

lemma copied_member_get:
  assumes "traverse (result_member action) kvs = Inr fs" "map_of kvs k = Some None" "rec_item action k = Inr v"
  shows "dict_get fs k = Some (thaw_json v)"
  using assms(1,2)
proof (induction kvs arbitrary: fs)
  case (Cons kv kvs)
  then obtain w gs where w: "result_member action kv = Inr w" "traverse (result_member action) kvs = Inr gs" "fs = w # gs"
    by (auto simp: and_then_Inr_iff)
  show ?case
  proof (cases "fst kv = k")
    case True
    with Cons.prems(2) w(1) assms(3) have "w = (k, thaw_json v)" by (cases kv) (simp add: result_member_def)
    with w(3) show ?thesis by simp
  next
    case False
    moreover have "fst w = fst kv" using w(1) by (cases kv) (auto simp: result_member_def and_then_Inr_iff split: option.splits)
    ultimately show ?thesis using Cons.IH [OF w(2)] Cons.prems(2) w(3) by (cases kv; cases w) simp
  qed
qed simp

section \<open>Terminal results\<close>

lemma terminal_result_members:
  assumes "terminal_unknown_result action v p identities code message recorded_at duration = Inr fs"
  obtains all where
    "fs = (if rec_value action ''mode'' = FStr ''evaluator'' \<and> vf_disclosure v = ''status-only''
        then redact_status_only_result all else all)"
    "dict_get all ''status'' = Some (JStr ''UNKNOWN'')" "dict_get all ''mode'' = Some (thaw_json (rec_value action ''mode''))"
    "dict_get all ''disclosure'' = Some (JStr (vf_disclosure v))" "dict_wf all"
proof -
  from assms obtain mode kvs gs where mode: "rec_item action ''mode'' = Inr mode"
    and gs: "traverse (result_member action) kvs = Inr gs"
    and fs: "Inr (if mode = FStr ''evaluator'' \<and> vf_disclosure v = ''status-only'' then redact_status_only_result gs else gs)
        = (Inr fs :: obj res)"
    and kvs: "map_of kvs ''status'' = Some (Some (JStr ''UNKNOWN''))"
      "map_of kvs ''disclosure'' = Some (Some (JStr (vf_disclosure v)))" "map_of kvs ''mode'' = Some None"
      "map fst kvs = RESULT_KEYS"
    unfolding terminal_unknown_result_def and_then_Inr_iff Let_def
    by (elim exE conjE) (rule that, assumption, assumption, assumption, simp_all (no_asm_simp) add: RESULT_KEYS_def recovered_members_def)
  have action: "rec_value action ''mode'' = mode" using mode by (auto simp: rec_item_def rec_value_def split: option.splits)
  have "dict_get gs k = Some x" if "map_of kvs k = Some (Some x)" for k x
    using result_members_get [OF gs that, of "[]"] by simp
  moreover have "dict_get gs ''mode'' = Some (thaw_json mode)"
    using copied_member_get [OF gs kvs(3)] mode by simp
  moreover have "dict_wf gs" using result_member_keys [OF gs] kvs(4) result_keys_distinct by simp
  ultimately show thesis using that [of gs] fs kvs(1,2) action by simp
qed

section \<open>Completed runs\<close>

text \<open>What is recorded for a run, whichever way it ended.\<close>

definition sound_result :: "verifier_service \<Rightarrow> prepared_run \<Rightarrow> execution_view \<Rightarrow> forge_record \<Rightarrow> bool" where
  "sound_result ms pn xv r \<longleftrightarrow>
     (\<exists>status. rec_value r ''status'' = FStr status \<and> (status \<noteq> ''UNKNOWN'' \<longrightarrow>
        conforming_run (env_float (lc_env (ms_context ms))) (pn_provider pn) (pn_request_id pn) xv status
        \<and> undisturbed xv (pn_freeze pn)))"

lemma redacted_wf: "dict_wf d \<Longrightarrow> dict_wf (redact_status_only_result d)"
  by (simp add: redact_status_only_result_def dict_update_wf)

lemma bounded_result_wf:
  assumes "bounded_result ms d = Inr r" "dict_wf d"
  shows "dict_wf (fr_fields r)"
proof -
  obtain e where e: "e \<in> {d, shortened d}"
    "new_record (env_crypto (lc_env (ms_context ms))) VERIFIER_RESULT (as_fields e) = Inr r"
    using bounded_result_source [OF assms(1)] by blast
  have "dict_wf (shortened d)" unfolding shortened_def by (rule dict_update_wf [OF assms(2)])
  with e(1) assms(2) have "dict_wf e" by auto
  from new_record_wf [OF e(2) this] show ?thesis .
qed

lemma new_result_withheld:
  assumes "new_record cr VERIFIER_RESULT (as_fields (redact_status_only_result d)) = Inr r"
  shows "withheld r"
proof -
  note member = new_record_member [OF assms]
  note get = redacted_values [THEN member]
  show ?thesis unfolding withheld_def using get by (auto simp: metadata_keys_def)
qed

lemma terminal_record:
  assumes "verifier_result_record cr (terminal_unknown_result action v p identities code message recorded_at duration) = Inr r"
  shows "rec_value r ''status'' = FStr ''UNKNOWN''" "rec_value r ''mode'' = rec_value action ''mode''"
    "rec_value r ''disclosure'' = FStr (vf_disclosure v)" "dict_wf (fr_fields r)" "fr_type r = VERIFIER_RESULT"
    "rec_value action ''mode'' = FStr ''evaluator'' \<Longrightarrow> vf_disclosure v = ''status-only'' \<Longrightarrow> withheld r"
proof -
  from assms obtain fs where fs: "terminal_unknown_result action v p identities code message recorded_at duration = Inr fs"
    and r: "new_record cr VERIFIER_RESULT (as_fields fs) = Inr r"
    by (auto simp: verifier_result_record_def and_then_Inr_iff)
  obtain all where all: "fs = (if rec_value action ''mode'' = FStr ''evaluator'' \<and> vf_disclosure v = ''status-only''
        then redact_status_only_result all else all)"
    "dict_get all ''status'' = Some (JStr ''UNKNOWN'')" "dict_get all ''mode'' = Some (thaw_json (rec_value action ''mode''))"
    "dict_get all ''disclosure'' = Some (JStr (vf_disclosure v))" "dict_wf all"
    by (rule terminal_result_members [OF fs])
  have kept: "dict_get fs k = dict_get all k" if "k \<in> {''status'', ''mode'', ''disclosure''}" for k
  proof -
    from that have "k \<notin> set (dict_keys (status_only_members JNull))" by (auto simp: status_only_keys)
    from redacted_keeps [OF this, of all] show ?thesis by (simp add: all(1))
  qed
  note member = new_record_member [OF r]
  show "rec_value r ''status'' = FStr ''UNKNOWN''" "rec_value r ''mode'' = rec_value action ''mode''"
    "rec_value r ''disclosure'' = FStr (vf_disclosure v)"
    using member [of "''status''"] member [of "''mode''"] member [of "''disclosure''"] kept all(2-4)
    by (simp_all add: metadata_keys_def)
  have wf: "dict_wf fs" using all(1,5) redacted_wf [of all] by simp
  from new_record_wf [OF r wf] show "dict_wf (fr_fields r)" .
  have "distinct (map fst (as_fields fs))"
    using wf by (simp add: as_fields_def comp_def case_prod_unfold distinct_map inj_on_def)
  with new_record_current [OF r] show "fr_type r = VERIFIER_RESULT" by blast
  assume "rec_value action ''mode'' = FStr ''evaluator''" "vf_disclosure v = ''status-only''"
  with all(1) r show "withheld r" by (intro new_result_withheld) simp
qed

lemma completed_run_recorded:
  assumes "completed_run ms rn pn s = Inr (se_or_none, r)" "rec_value (pn_action pn) ''mode'' = FStr (ms_mode ms)"
  shows "sound_result ms pn (run_execution ms rn pn s) r" "dict_wf (fr_fields r)"
    "rec_value r ''mode'' = FStr (ms_mode ms)" "rec_value r ''disclosure'' = FStr (vf_disclosure (pn_verifier pn))"
    "ms_mode ms = ''evaluator'' \<Longrightarrow> vf_disclosure (pn_verifier pn) = ''status-only'' \<Longrightarrow> withheld r"
proof -
  let ?xv = "run_execution ms rn pn s"
  let ?run = "execute_verifier ms (pn_verifier pn) (pn_provider pn) (pn_candidate pn) (pn_action pn) (pn_request_id pn)
    (pn_identities pn) (pn_freeze pn) (pn_prior pn) ?xv"
  have "sound_result ms pn ?xv r \<and> dict_wf (fr_fields r) \<and> rec_value r ''mode'' = FStr (ms_mode ms)
    \<and> rec_value r ''disclosure'' = FStr (vf_disclosure (pn_verifier pn))
    \<and> (ms_mode ms = ''evaluator'' \<longrightarrow> vf_disclosure (pn_verifier pn) = ''status-only'' \<longrightarrow> withheld r)"
  proof (cases ?run)
    case (Inl e)
    with assms(1) have "verifier_result_record (env_crypto (lc_env (ms_context ms)))
        (terminal_unknown_result (pn_action pn) (pn_verifier pn) (pn_provider pn) (pn_identities pn)
           (failure_code e) (failure_message ?xv e) (rn_failed_at rn) (rn_elapsed rn)) = Inr r"
      by (simp add: completed_run_def Let_def and_then_Inr_iff)
    note facts = terminal_record [OF this]
    with assms(2) show ?thesis by (simp add: sound_result_def)
  next
    case (Inr ended)
    with assms(1) have run: "?run = Inr (se_or_none, r)" by (simp add: completed_run_def Let_def)
    obtain d all where "bounded_result ms (if ms_mode ms = ''evaluator'' \<and> vf_disclosure (pn_verifier pn) = ''status-only''
        then redact_status_only_result all else all) = Inr r" "dict_wf all"
      by (rule execute_verifier_Inr [OF run])
    then have "dict_wf (fr_fields r)" using redacted_wf [of all] by (auto intro: bounded_result_wf split: if_splits)
    with executed_result [OF run] status_only_withheld [OF run] show ?thesis unfolding sound_result_def by blast
  qed
  then show "sound_result ms pn ?xv r" "dict_wf (fr_fields r)" "rec_value r ''mode'' = FStr (ms_mode ms)"
    "rec_value r ''disclosure'' = FStr (vf_disclosure (pn_verifier pn))"
    "ms_mode ms = ''evaluator'' \<Longrightarrow> vf_disclosure (pn_verifier pn) = ''status-only'' \<Longrightarrow> withheld r"
    by blast+
qed

section \<open>Prepared runs\<close>

lemma action_fields_mode:
  "action_fields ms rn v p identities freeze_or_none candidate scope path_identities superseded q = Inr fs \<Longrightarrow>
     dict_get fs ''mode'' = Some (JStr (ms_mode ms))"
  unfolding action_fields_def and_then_Inr_iff by (elim exE conjE) (drule sum.inject(2) [THEN iffD1], hypsubst, simp)

lemma built_action_mode:
  assumes "build_action ms v q fs = Inr (action, request_id)" "dict_get fs ''mode'' = Some (JStr (ms_mode ms))"
  shows "rec_value action ''mode'' = FStr (ms_mode ms)"
proof -
  from assms(1) obtain d where new: "new_record (env_crypto (lc_env (ms_context ms))) VERIFIER_ACTION (as_fields d) = Inr action"
    and d: "\<exists>rest. d = fs @ rest"
    by (auto simp: build_action_def Let_def and_then_Inr_iff)
  have "rec_value action ''mode'' = freeze_json (JStr (ms_mode ms))"
    by (rule new_record_member_of [OF new, where spec = spec_verifier_action])
      (use assms(2) d in \<open>auto simp: metadata_keys_def spec_verifier_action_def\<close>)
  then show ?thesis by simp
qed

lemma prepare_run_Inr:
  assumes "prepare_run ms rn verifier_id q s = Inr pn"
  shows "dict_get (pc_verifiers (ms_config ms)) verifier_id = Some (pn_verifier pn)"
    "ms_mode ms \<in> set (vf_modes (pn_verifier pn))"
    "dict_get (pc_providers (ms_config ms)) (vf_provider (pn_verifier pn)) = Some (pn_provider pn)"
    "run_subject ms (rn_observation rn) (vq_candidate q) s = Inr (pn_freeze pn, pn_candidate pn)"
    "\<exists>scope validated. validate_request ms (pn_verifier pn) q = Inr (scope, validated)"
    "rec_value (pn_action pn) ''mode'' = FStr (ms_mode ms)"
proof -
  from assms have "dict_get (pc_verifiers (ms_config ms)) verifier_id = Some (pn_verifier pn)
    \<and> ms_mode ms \<in> set (vf_modes (pn_verifier pn))
    \<and> dict_get (pc_providers (ms_config ms)) (vf_provider (pn_verifier pn)) = Some (pn_provider pn)
    \<and> run_subject ms (rn_observation rn) (vq_candidate q) s = Inr (pn_freeze pn, pn_candidate pn)
    \<and> (\<exists>scope validated. validate_request ms (pn_verifier pn) q = Inr (scope, validated))
    \<and> rec_value (pn_action pn) ''mode'' = FStr (ms_mode ms)"
    unfolding prepare_run_def
    by (auto simp: and_then_Inr_iff raise_if_Inr_iff declared_verifier_def dict_item_def
        split: option.splits dest!: action_fields_mode dest: built_action_mode)
  then
  show "dict_get (pc_verifiers (ms_config ms)) verifier_id = Some (pn_verifier pn)"
    "ms_mode ms \<in> set (vf_modes (pn_verifier pn))"
    "dict_get (pc_providers (ms_config ms)) (vf_provider (pn_verifier pn)) = Some (pn_provider pn)"
    "run_subject ms (rn_observation rn) (vq_candidate q) s = Inr (pn_freeze pn, pn_candidate pn)"
    "\<exists>scope validated. validate_request ms (pn_verifier pn) q = Inr (scope, validated)"
    "rec_value (pn_action pn) ''mode'' = FStr (ms_mode ms)"
    by blast+
qed

section \<open>What is disclosed\<close>

lemma disclosed_status:
  assumes "dict_wf (fr_fields r)"
  shows "obj_get (disclosed_run binding_or_none r) ''status'' = thaw_json (rec_value r ''status'')"
proof -
  have "obj_get (disclose_result r) ''status'' = thaw_json (rec_value r ''status'')"
    using rec_to_json_get [OF assms, of "''status''"]
    by (simp add: disclose_result_def Let_def DISCLOSED_KEYS_def metadata_keys_def) (simp add: obj_get_def)
  then show ?thesis by (simp add: disclosed_run_def obj_get_def split: option.splits)
qed

text \<open>A status-only result of an evaluator is disclosed by these members alone.\<close>

lemma disclosed_withheld:
  assumes "rec_value r ''mode'' = FStr ''evaluator''" "rec_value r ''disclosure'' = FStr ''status-only''"
  shows "dict_keys (disclose_result r) = DISCLOSED_KEYS @ [''repair_feedback_withheld'', ''independent_evaluation'']"
  using assms by (simp add: disclose_result_def Let_def comp_def)

section \<open>A run\<close>

lemma commit_then_Inr:
  "commit_then env at record_group kind r s f = (Inr x, t) \<longleftrightarrow>
     (\<exists>entry u. commit env (mo_timestamp at) (mo_txid at) record_group kind r s = (Inr entry, u) \<and> f u = (Inr x, t))"
  by (auto simp: commit_then_def split: prod.splits sum.splits)

lemma run_verifier_Inr:
  assumes "run_verifier ms rn verifier_id q s = (Inr out, t)"
  obtains pn action_id s1 se_or_none binding_or_none r s2 entry where
    "prepare_run ms rn verifier_id q s = Inr pn" "completed_run ms rn pn s1 = Inr (se_or_none, r)"
    "session_binding ms rn pn action_id se_or_none r s1 = Inr binding_or_none"
    "out = disclosed_run binding_or_none r"
    "commit (lc_env (ms_context ms)) (mo_timestamp (rn_result_commit rn)) (mo_txid (rn_result_commit rn))
       ''verifier-results'' ''verifier_result'' r s2 = (Inr entry, t)"
proof -
  let ?env = "lc_env (ms_context ms)"
  from assms obtain pn action_id where pn: "prepare_run ms rn verifier_id q s = Inr pn"
    and run: "commit_then ?env (rn_action_commit rn) ''verifier-actions'' ''verifier_action'' (pn_action pn) s (\<lambda>s.
          case finished_run ms rn pn action_id s of
            Inl e \<Rightarrow> (Inl e, s)
          | Inr (binding_or_none, r) \<Rightarrow>
              commit_binding ?env (rn_binding_commit rn) binding_or_none s (\<lambda>s.
              commit_then ?env (rn_result_commit rn) ''verifier-results'' ''verifier_result'' r s (\<lambda>s.
              (Inr (disclosed_run binding_or_none r), s)))) = (Inr out, t)"
    by (auto simp: run_verifier_def Let_def and_then_Inr_iff split: sum.splits)
  from run obtain s1 binding_or_none r where f: "finished_run ms rn pn action_id s1 = Inr (binding_or_none, r)"
    and rest: "commit_binding ?env (rn_binding_commit rn) binding_or_none s1 (\<lambda>s.
              commit_then ?env (rn_result_commit rn) ''verifier-results'' ''verifier_result'' r s (\<lambda>s.
              (Inr (disclosed_run binding_or_none r), s))) = (Inr out, t)"
  proof -
    from run obtain u where u: "(case finished_run ms rn pn action_id u of
            Inl e \<Rightarrow> (Inl e, u)
          | Inr (binding_or_none, r) \<Rightarrow>
              commit_binding ?env (rn_binding_commit rn) binding_or_none u (\<lambda>s.
              commit_then ?env (rn_result_commit rn) ''verifier-results'' ''verifier_result'' r s (\<lambda>s.
              (Inr (disclosed_run binding_or_none r), s)))) = (Inr out, t)"
      unfolding commit_then_Inr [of ?env "rn_action_commit rn"] by blast
    then obtain binding_or_none r where "finished_run ms rn pn action_id u = Inr (binding_or_none, r)"
      by (cases "finished_run ms rn pn action_id u") auto
    with u show thesis by (intro that) simp_all
  qed
  from f obtain se_or_none where c: "completed_run ms rn pn s1 = Inr (se_or_none, r)"
    "session_binding ms rn pn action_id se_or_none r s1 = Inr binding_or_none"
    by (auto simp: finished_run_def and_then_Inr_iff)
  from rest obtain s2 entry where "commit ?env (mo_timestamp (rn_result_commit rn)) (mo_txid (rn_result_commit rn))
       ''verifier-results'' ''verifier_result'' r s2 = (Inr entry, t)" "out = disclosed_run binding_or_none r"
    by (auto simp: commit_binding_def commit_then_Inr split: option.splits)
  with pn c show thesis using that by blast
qed

text \<open>The status that a successful run discloses is that of the result it committed.\<close>

lemma run_verifier_status:
  assumes "run_verifier ms rn verifier_id q s = (Inr out, t)"
  shows "\<exists>pn s1 s2 r entry status.
    prepare_run ms rn verifier_id q s = Inr pn
    \<and> commit (lc_env (ms_context ms)) (mo_timestamp (rn_result_commit rn)) (mo_txid (rn_result_commit rn))
         ''verifier-results'' ''verifier_result'' r s2 = (Inr entry, t)
    \<and> rec_value r ''status'' = FStr status \<and> obj_get out ''status'' = JStr status
    \<and> (status = ''UNKNOWN''
       \<or> conforming_run (env_float (lc_env (ms_context ms))) (pn_provider pn) (pn_request_id pn) (run_execution ms rn pn s1) status
         \<and> undisturbed (run_execution ms rn pn s1) (pn_freeze pn))"
proof -
  obtain pn action_id s1 se_or_none binding_or_none r s2 entry where
    pn: "prepare_run ms rn verifier_id q s = Inr pn" and c: "completed_run ms rn pn s1 = Inr (se_or_none, r)"
    and out: "out = disclosed_run binding_or_none r"
    and entry: "commit (lc_env (ms_context ms)) (mo_timestamp (rn_result_commit rn)) (mo_txid (rn_result_commit rn))
       ''verifier-results'' ''verifier_result'' r s2 = (Inr entry, t)"
    by (rule run_verifier_Inr [OF assms])
  note facts = completed_run_recorded [OF c prepare_run_Inr(6) [OF pn]]
  from facts(1) obtain status where status: "rec_value r ''status'' = FStr status" "status = ''UNKNOWN''
       \<or> conforming_run (env_float (lc_env (ms_context ms))) (pn_provider pn) (pn_request_id pn) (run_execution ms rn pn s1) status
         \<and> undisturbed (run_execution ms rn pn s1) (pn_freeze pn)"
    by (auto simp: sound_result_def)
  have "obj_get out ''status'' = JStr status"
    using disclosed_status [OF facts(2), of binding_or_none] status(1) out by simp
  with pn entry status show ?thesis by blast
qed

lemma rejected_run_unrecorded:
  assumes "prepare_run ms rn verifier_id q s = Inl e"
  shows "run_verifier ms rn verifier_id q s = (Inl e, s)"
  using assms by (simp add: run_verifier_def Let_def)

section \<open>A batch\<close>

lemma conforming_run_status:
  assumes "conforming_run fr p request_id xv status"
  shows "status \<in> set STATUSES"
proof -
  from assms obtain stdout response where "parse_provider_response fr stdout = Inr response"
    "obj_get response ''type'' = JStr ''analysis_response''" "obj_get response ''status'' = JStr status"
    by (auto simp: conforming_run_def)
  with parse_provider_response_checked show ?thesis by (fastforce simp: check_response_Inr)
qed

text \<open>What one item of a batch's report stands for.\<close>

definition batched :: "verifier_service \<Rightarrow> batch_view \<Rightarrow> verifier_request \<Rightarrow> verifier \<Rightarrow> obj \<Rightarrow> bool" where
  "batched ms bv q v r \<longleftrightarrow>
     (\<exists>code message. r = unrecorded_batch_unknown (vf_id v) code message)
     \<or> (\<exists>rn parameters s t. bv_run bv (vf_id v) = Some rn
          \<and> run_verifier ms rn (vf_id v) (q\<lparr>vq_parameters := parameters\<rparr>) s = (Inr r, t))"

lemma batch_step_batched:
  "batch_step ms bv q shared per_verifier v s = (Inr r, t) \<Longrightarrow> batched ms bv q v r"
  by (auto simp: batch_step_def batched_def split: option.splits prod.splits sum.splits py_error.splits)

lemma batch_steps_batched:
  "batch_steps ms bv q shared per_verifier vs s = (Inr rs, t) \<Longrightarrow> list_all2 (batched ms bv q) vs rs"
proof (induction ms bv q shared per_verifier vs s arbitrary: rs t rule: batch_steps.induct)
  case (2 ms bv q shared per_verifier v vs s)
  from 2(2) obtain r u rest where "batch_step ms bv q shared per_verifier v s = (Inr r, u)"
    "batch_steps ms bv q shared per_verifier vs u = (Inr rest, t)" "rs = r # rest"
    by (auto split: prod.splits sum.splits)
  with 2(1) batch_step_batched show ?case by simp
qed simp

text \<open>An item that reports a verdict is a run of a conforming provider.\<close>

definition verdict_reached :: "verifier_service \<Rightarrow> verifier \<Rightarrow> string \<Rightarrow> bool" where
  "verdict_reached ms v status \<longleftrightarrow>
     (\<exists>rn q s pn xv. prepare_run ms rn (vf_id v) q s = Inr pn
        \<and> conforming_run (env_float (lc_env (ms_context ms))) (pn_provider pn) (pn_request_id pn) xv status
        \<and> undisturbed xv (pn_freeze pn))"

lemma obj_get_status: "obj_get r ''status'' = JStr status \<Longrightarrow> batch_status r = status"
  by (auto simp: batch_status_def envelope_member_def obj_get_def json_str_def split: option.splits)

lemma batched_status:
  assumes "batched ms bv q v r"
  shows "batch_status r \<in> set STATUSES" "batch_status r = ''UNKNOWN'' \<or> verdict_reached ms v (batch_status r)"
proof -
  have "batch_status r \<in> set STATUSES \<and> (batch_status r = ''UNKNOWN'' \<or> verdict_reached ms v (batch_status r))"
  proof (cases "\<exists>code message. r = unrecorded_batch_unknown (vf_id v) code message")
    case True
    then have "batch_status r = ''UNKNOWN''"
      by (auto simp: obj_get_status unrecorded_batch_unknown_def obj_get_def)
    then show ?thesis by (simp add: STATUSES_def)
  next
    case False
    with assms obtain rn parameters s t where
      "run_verifier ms rn (vf_id v) (q\<lparr>vq_parameters := parameters\<rparr>) s = (Inr r, t)" by (auto simp: batched_def)
    from run_verifier_status [OF this] obtain pn s1 status where
      pn: "prepare_run ms rn (vf_id v) (q\<lparr>vq_parameters := parameters\<rparr>) s = Inr pn"
      and status: "obj_get r ''status'' = JStr status"
      "status = ''UNKNOWN''
         \<or> conforming_run (env_float (lc_env (ms_context ms))) (pn_provider pn) (pn_request_id pn) (run_execution ms rn pn s1) status
           \<and> undisturbed (run_execution ms rn pn s1) (pn_freeze pn)" by blast
    have "batch_status r = status" by (rule obj_get_status [OF status(1)])
    moreover have "status \<in> set STATUSES" using status(2)
      by (cases "status = ''UNKNOWN''") (simp add: STATUSES_def, blast intro: conforming_run_status)
    moreover have "status = ''UNKNOWN'' \<or> verdict_reached ms v status"
      unfolding verdict_reached_def using pn status(2) by blast
    ultimately show ?thesis by simp
  qed
  then show "batch_status r \<in> set STATUSES" "batch_status r = ''UNKNOWN'' \<or> verdict_reached ms v (batch_status r)" by blast+
qed

lemma traverse_nonempty: "traverse f xs = Inr ys \<Longrightarrow> length ys = length xs"
  by (induction xs arbitrary: ys) (auto simp: and_then_Inr_iff)

lemma run_batch_report:
  assumes "run_batch ms bv ids q s = (Inr rep, t)" "\<forall>ss. bv_aggregate bv ss = Inr (fold_status ss)"
  shows "\<exists>vs rs. traverse (declared_verifier ms) ids = Inr vs \<and> distinct ids
    \<and> obj_get rep ''results'' = JArr (map JObj rs) \<and> list_all2 (batched ms bv q) vs rs
    \<and> (obj_get rep ''aggregate_status'' = JStr ''PASS'' \<longleftrightarrow> (\<forall>r \<in> set rs. batch_status r = ''PASS''))
    \<and> (obj_get rep ''aggregate_status'' = JStr ''FAIL'' \<longleftrightarrow> (\<exists>r \<in> set rs. batch_status r = ''FAIL''))"
proof -
  from assms(1) obtain vs shared per_verifier rs where check: "check_batch ms bv ids q = Inr (vs, shared, per_verifier)"
    and steps: "batch_steps ms bv q shared per_verifier vs s = (Inr rs, t)" and rep: "batch_report bv rs = Inr rep"
    by (auto simp: run_batch_def split: sum.splits prod.splits)
  from check have vs: "traverse (declared_verifier ms) ids = Inr vs" "distinct ids" "ids \<noteq> []"
    by (auto simp: check_batch_def and_then_Inr_iff raise_if_Inr_iff)
  have all: "list_all2 (batched ms bv q) vs rs" by (rule batch_steps_batched [OF steps])
  have "rs \<noteq> []" using list_all2_lengthD [OF all] traverse_nonempty [OF vs(1)] vs(3) by auto
  have "batch_status r \<in> set STATUSES" if "r \<in> set rs" for r
  proof -
    from that obtain i where "i < length rs" "r = rs ! i" by (auto simp: in_set_conv_nth)
    with all have "batched ms bv q (vs ! i) r" by (simp add: list_all2_conv_all_nth)
    then show ?thesis by (rule batched_status)
  qed
  then have "set (map batch_status rs) \<subseteq> set STATUSES" by auto
  note fold = fold_status_iff [OF this]
  from rep assms(2) have "obj_get rep ''results'' = JArr (map JObj rs)"
    "obj_get rep ''aggregate_status'' = JStr (fold_status (map batch_status rs))"
    by (auto simp: batch_report_def obj_get_def)
  with vs(1,2) all fold \<open>rs \<noteq> []\<close> show ?thesis by (intro exI [of _ vs] exI [of _ rs]) (auto simp: image_member)
qed

section \<open>Selected paths\<close>

text \<open>A validated request selects nothing protected, and nothing outside the project.\<close>

lemma validated_request_paths:
  assumes "validate_request ms v q = Inr (scope, validated)"
    "relative_scopes (ms_config ms) PROTECTED_KEYS = Inr protected" "p \<in> set (vq_changed_paths validated)"
  shows "\<not> is_within (path_parts p) protected" "\<exists>resolved. resolve_contained (ms_files ms) False p = Inr resolved
    \<and> prefix (fs_root (ms_files ms)) resolved"
proof -
  from assms(1) have run: "validate_changed_paths ms False (vq_changed_paths q) = Inr (vq_changed_paths validated)"
    by (auto simp: validate_request_def Let_def and_then_Inr_iff)
  then obtain ws where ws: "relative_scopes (ms_config ms) VERIFIER_WRITABLE = Inr ws"
    by (auto simp: validate_changed_paths_def and_then_Inr_iff)
  from validate_changed_paths_writable [OF run ws assms(2)] assms(3)
  show "\<not> is_within (path_parts p) protected" by auto
  from run have "traverse (validate_changed_path ms False ws protected) (sort (remdups (vq_changed_paths q)))
      = Inr (vq_changed_paths validated)"
    using ws assms(2) by (simp add: validate_changed_paths_def and_then_Inr_iff)
  from traverse_Inr_in [OF this assms(3)] obtain x where "validate_changed_path ms False ws protected x = Inr p" by blast
  then obtain resolved where "resolve_contained (ms_files ms) False p = Inr resolved"
    by (auto simp: validate_changed_path_def and_then_Inr_iff)
  with resolve_contained_within [OF this] show "\<exists>resolved. resolve_contained (ms_files ms) False p = Inr resolved
    \<and> prefix (fs_root (ms_files ms)) resolved" by blast
qed

end
