(* ===== verification/VerifierMatching.thy ===== *)
theory VerifierMatching
  imports VerifierInputs "HOL-Library.Multiset"
begin

text \<open>
  \<open>list_declared\<close>, \<open>describe\<close> and \<open>match\<close> of \<open>micro_verifiers.py\<close>: which declared verifiers can answer a
  question, decided without running any of them. The decision for one verifier is the native core's
  (\<open>verifier_match_decide\<close>) and a parameter; the prose of reasons and exclusions is modelled because the
  decision is checked against it.
\<close>

section \<open>Declared verifiers\<close>

definition declared_verifiers :: "verifier_service \<Rightarrow> verifier list" where
  "declared_verifiers ms = sort_key vf_id (map snd (pc_verifiers (ms_config ms)))"

definition list_declared :: "verifier_service \<Rightarrow> obj res" where
  "list_declared ms =
     and_then (traverse (public_verifier (ms_config ms)) (declared_verifiers ms)) (\<lambda>verifiers.
     Inr [(''verifiers'', JArr (map JObj verifiers)),
          (''configured_count'', JInt (int (length verifiers))),
          (''mode'', JStr (ms_mode ms)),
          (''inspection_executed_providers'', JBool False),
          (''limitations'', jtexts
             [''declared capability is not evidence that a verifier will PASS'',
              ''micro-verifier PASS covers only its bounded declared claim''])])"

definition describe_verifier :: "verifier_service \<Rightarrow> string \<Rightarrow> obj res" where
  "describe_verifier ms verifier_id =
     and_then (declared_verifier ms verifier_id) (\<lambda>v.
     and_then (public_verifier (ms_config ms) v) (\<lambda>public.
     Inr (public @
       [(''workflow'', JStr (vf_workflow v)),
        (''assumptions'', jtexts (vf_assumptions v)),
        (''tags'', jtexts (vf_tags v)),
        (''parameter_keys'', jtexts (vf_parameter_keys v)),
        (''timeout_seconds'', JFloat (vf_timeout v)),
        (''disclosure'', JStr (vf_disclosure v)),
        (''inspection_executed_provider'', JBool False),
        (''authority_note'', JStr (''execution derives the command, method, mode, environment, and disclosure ''
           @ ''from this declaration and its referenced workflow/provider''))])))"

section \<open>Matching\<close>

definition COST_ORDER :: "nat dict" where
  "COST_ORDER = [(''low'', 0), (''medium'', 1), (''high'', 2)]"

definition cost_order :: "string \<Rightarrow> nat res" where
  "cost_order cost = dict_item COST_ORDER cost"

record match_request =
  mq_uncertainties :: "string list"
  mq_language :: "string option"
  mq_artifact_type :: "string option"
  mq_changed_paths :: "string list"
  mq_scope :: "string option"
  mq_maximum_cost :: string
  mq_category :: "string option"
  mq_mode :: "string option"

record match_decision =
  md_compatible :: bool
  md_mode :: bool
  md_uncertainty :: bool
  md_language :: bool
  md_artifact_type :: bool
  md_scope :: bool
  md_category :: bool
  md_cost :: bool
  md_overlap :: "string list"
  md_overlap_count :: int

text \<open>A reason (\<open>Inl\<close>) or an exclusion (\<open>Inr\<close>) of each criterion that the request states.\<close>

definition criterion :: "bool \<Rightarrow> string \<Rightarrow> string \<Rightarrow> (string + string) list" where
  "criterion supported reason exclusion = [if supported then Inl reason else Inr exclusion]"

definition asked :: "string option \<Rightarrow> bool \<Rightarrow> (string \<Rightarrow> string) \<Rightarrow> (string \<Rightarrow> string) \<Rightarrow> (string + string) list" where
  "asked wanted supported reason exclusion =
     (case wanted of None \<Rightarrow> [] | Some w \<Rightarrow> criterion supported (reason w) (exclusion w))"

definition match_criteria :: "string \<Rightarrow> match_request \<Rightarrow> verifier \<Rightarrow> match_decision \<Rightarrow> (string + string) list" where
  "match_criteria mode q v d =
     criterion (md_mode d) (''supports mode '' @ mode) (''mode '' @ mode @ '' is not supported'')
     @ (if \<not> md_uncertainty d then [Inr ''no requested uncertainty class is declared'']
        else if md_overlap d \<noteq> [] then [Inl (''uncertainty classes: '' @ join '', '' (md_overlap d))] else [])
     @ asked (mq_language q) (md_language d) (\<lambda>l. ''supports language '' @ l) (\<lambda>l. ''language '' @ l @ '' is not supported'')
     @ asked (mq_artifact_type q) (md_artifact_type d) (\<lambda>a. ''supports artifact type '' @ a)
         (\<lambda>a. ''artifact type '' @ a @ '' is not supported'')
     @ asked (mq_scope q) (md_scope d) (\<lambda>s. ''supports scope '' @ s) (\<lambda>s. ''scope '' @ s @ '' is not supported'')
     @ asked (mq_category q) (md_category d) (\<lambda>c. ''category is '' @ c)
         (\<lambda>c. ''category '' @ vf_category v @ '' differs from '' @ c)
     @ criterion (md_cost d) (''cost '' @ vf_cost v @ '' is within maximum'')
         (''cost '' @ vf_cost v @ '' exceeds maximum '' @ mq_maximum_cost q)"

definition reasons_of :: "(string + string) list \<Rightarrow> string list" where
  "reasons_of cs = concat (map (\<lambda>c. case c of Inl r \<Rightarrow> [r] | Inr _ \<Rightarrow> []) cs)"

definition exclusions_of :: "(string + string) list \<Rightarrow> string list" where
  "exclusions_of cs = concat (map (\<lambda>c. case c of Inl _ \<Rightarrow> [] | Inr e \<Rightarrow> [e]) cs)"

text \<open>A verifier with its decision, and the entry of the report.\<close>

record matched =
  mt_verifier :: verifier
  mt_entry :: obj
  mt_compatible :: bool
  mt_overlap_count :: int

definition match_one ::
  "verifier_service \<Rightarrow> (match_request \<Rightarrow> verifier \<Rightarrow> match_decision res) \<Rightarrow> string \<Rightarrow> match_request \<Rightarrow> verifier
     \<Rightarrow> matched res"
where
  "match_one ms decide mode q v =
     and_then (decide q v) (\<lambda>d.
     let criteria = match_criteria mode q v d in
     and_then (raise_if (md_compatible d \<noteq> (exclusions_of criteria = [])) (ForgeError ''NATIVE_ABI_MISMATCH'' [])) (\<lambda>_.
     and_then (public_verifier (ms_config ms) v) (\<lambda>public.
     Inr \<lparr>mt_verifier = v,
       mt_entry = public @
         [(''matched_uncertainty_classes'', jtexts (md_overlap d)),
          (''reasons'', jtexts (reasons_of criteria)),
          (''exclusions'', jtexts (exclusions_of criteria))],
       mt_compatible = md_compatible d, mt_overlap_count = md_overlap_count d\<rparr>)))"

text \<open>\<open>compatible.sort(key=match_key)\<close>: cost, then the larger overlap, then the identifier; the sort is stable.\<close>

definition better_match :: "(nat \<times> matched) \<Rightarrow> (nat \<times> matched) \<Rightarrow> bool" where
  "better_match x y \<longleftrightarrow>
     fst x < fst y \<or> fst x = fst y \<and>
       (mt_overlap_count (snd y) < mt_overlap_count (snd x)
        \<or> mt_overlap_count (snd x) = mt_overlap_count (snd y) \<and> vf_id (mt_verifier (snd x)) < vf_id (mt_verifier (snd y)))"

fun place_match :: "nat \<times> matched \<Rightarrow> (nat \<times> matched) list \<Rightarrow> (nat \<times> matched) list" where
  "place_match x [] = [x]"
| "place_match x (y # ys) = (if better_match y x then y # place_match x ys else x # y # ys)"

definition rank_matches :: "(nat \<times> matched) list \<Rightarrow> (nat \<times> matched) list" where
  "rank_matches xs = foldr place_match xs []"

definition ranked_entry :: "nat \<times> matched \<Rightarrow> obj" where
  "ranked_entry nm = mt_entry (snd nm) @ [(''rank'', JInt (int (fst nm)))]"

definition with_cost :: "matched \<Rightarrow> (nat \<times> matched) res" where
  "with_cost x = and_then (cost_order (vf_cost (mt_verifier x))) (\<lambda>n. Inr (n, x))"

definition match_report :: "string \<Rightarrow> match_request \<Rightarrow> string list \<Rightarrow> string list \<Rightarrow> matched list \<Rightarrow> obj list \<Rightarrow> obj" where
  "match_report mode q uncertainties paths best incompatible =
     [(''match_outcome'', JStr (if best = [] then ''NO_MATCH'' else ''MATCHED'')),
      (''unresolved_status'', if best = [] then JStr ''UNKNOWN'' else JNull),
      (''matches'', JArr (map (JObj \<circ> ranked_entry) (enumerate 1 best))),
      (''incompatible'', JArr (map JObj incompatible)),
      (''request'', JObj
         [(''uncertainty_classes'', jtexts uncertainties),
          (''language'', jtext_or_null (mq_language q)),
          (''artifact_type'', jtext_or_null (mq_artifact_type q)),
          (''changed_paths'', jtexts paths),
          (''scope'', jtext_or_null (mq_scope q)),
          (''active_mode'', JStr mode),
          (''maximum_cost'', JStr (mq_maximum_cost q)),
          (''required_category'', jtext_or_null (mq_category q))]),
      (''execution_performed'', JBool False),
      (''limitations'', jtexts (if best = []
         then [''no declared verifier can answer the structured uncertainty request''] else []))]"

definition match_mode :: "verifier_service \<Rightarrow> match_request \<Rightarrow> string" where
  "match_mode ms q = (case mq_mode q of None \<Rightarrow> ms_mode ms | Some m \<Rightarrow> if m = [] then ms_mode ms else m)"

definition match_verifiers ::
  "verifier_service \<Rightarrow> (match_request \<Rightarrow> verifier \<Rightarrow> match_decision res) \<Rightarrow> match_request \<Rightarrow> obj res"
where
  "match_verifiers ms decide q =
     and_then (raise_if (mq_maximum_cost q \<notin> set (dict_keys COST_ORDER)) (ForgeError ''VERIFIER_MATCH'' [])) (\<lambda>_.
     let mode = match_mode ms q; uncertainties = sort (remdups (mq_uncertainties q)) in
     and_then (raise_if (mode \<noteq> ms_mode ms) (ForgeError ''MODE_FORBIDDEN'' [])) (\<lambda>_.
     and_then (validate_changed_paths ms False (mq_changed_paths q)) (\<lambda>paths.
     and_then (traverse (match_one ms decide mode (q\<lparr>mq_uncertainties := uncertainties\<rparr>)) (declared_verifiers ms)) (\<lambda>all.
     and_then (traverse with_cost (filter mt_compatible all)) (\<lambda>costed.
     Inr (match_report mode q uncertainties paths (map snd (rank_matches costed))
       (map mt_entry (filter (\<lambda>x. \<not> mt_compatible x) all))))))))"

section \<open>What a match promises\<close>

text \<open>A verifier is offered exactly when it is excluded by none of the criteria of the request.\<close>

lemma matched_iff_unexcluded:
  assumes "match_one ms decide mode q v = Inr x"
  shows "\<exists>d. decide q v = Inr d \<and> mt_compatible x = (exclusions_of (match_criteria mode q v d) = []) \<and> mt_verifier x = v"
  using assms by (auto simp: match_one_def Let_def and_then_Inr_iff raise_if_Inr_iff)

lemma place_match_mset: "mset (place_match x ys) = add_mset x (mset ys)"
  by (induction ys) auto

lemma rank_matches_mset: "mset (rank_matches xs) = mset xs"
  unfolding rank_matches_def by (induction xs) (simp_all add: place_match_mset)

lemma place_match_ordered:
  "sorted_wrt (\<lambda>x y. \<not> better_match y x) ys \<Longrightarrow> sorted_wrt (\<lambda>x y. \<not> better_match y x) (place_match x ys)"
proof (induction ys)
  case (Cons y ys)
  have "set (place_match x ys) = insert x (set ys)" using place_match_mset [of x ys] by (metis set_mset_mset set_mset_add_mset_insert)
  moreover have "\<not> better_match z x" if "\<not> better_match y x" "\<not> better_match z y" for z
    using that by (auto simp: better_match_def)
  moreover have "\<not> better_match x y" if "better_match y x" using that by (auto simp: better_match_def)
  ultimately show ?case using Cons by auto
qed simp

lemma rank_matches_ordered: "sorted_wrt (\<lambda>x y. \<not> better_match y x) (rank_matches xs)"
  unfolding rank_matches_def by (induction xs) (simp_all add: place_match_ordered)

end
