(* ===== verification/ExampleVerifiers.thy ===== *)
theory ExampleVerifiers
  imports VerifierRunFacts VerifierMatching ExampleStore
begin

text \<open>
  A project with one verifier, loaded from its configuration, and one run of it: an evaluator's run whose
  provider reports PASS and whose result is disclosed by its status only.
\<close>

section \<open>The project\<close>

text \<open>A file system without links, in which nothing exists.\<close>

definition ex_files :: file_system where
  "ex_files = \<lparr>fs_root = [''home'', ''project''], fs_config_directory = [''home'', ''project''],
     fs_resolve = (\<lambda>must_exist p. Some p), fs_entries = (\<lambda>p. None), fs_real_directory = (\<lambda>p. True),
     fs_is_file = (\<lambda>p. False), fs_exists = (\<lambda>p. False)\<rparr>"

definition ex_raw_verifier :: raw_verifier where
  "ex_raw_verifier = \<lparr>rv_id = ''v'', rv_version = ''1'', rv_workflow = ''review'', rv_provider = ''p'',
     rv_method = ''scan'', rv_claim = ''no secrets'', rv_category = ''security'',
     rv_modes = [''development'', ''evaluator''], rv_languages = None, rv_artifact_types = None,
     rv_scopes = [''unit''], rv_input_kinds = [''changed_paths''], rv_limitations = None, rv_assumptions = None,
     rv_timeout = None, rv_cost = ''low'', rv_uncertainty_classes = None, rv_tags = None,
     rv_parameter_keys = None, rv_disclosure = None\<rparr>"

definition ex_raw_project :: raw_config where
  "ex_raw_project =
     \<lparr>ra_project_root = ''.'',
      ra_paths = [(''candidates'', [''src'']), (''generated'', [''gen'']), (''outputs'', [''out'']),
        (''contracts'', [''contracts'']), (''references'', []), (''evaluators'', []),
        (''acceptance_policies'', []), (''protected'', [''secret'']), (''development_evidence'', [])],
      ra_timeout = ''60.0'', ra_runner = None,
      ra_policies = [(''selection'', ''select.json''), (''useful_benefit_objective'', ''benefit.md'')],
      ra_workflows = [\<lparr>rw_name = ''review'', rw_category = ''security'', rw_mode = ''both'', rw_command = [''check''],
        rw_provider_protocol = True, rw_provider_id = Some ''p'', rw_environment = None,
        rw_disclosure = Some ''status-only'', rw_subject = None\<rparr>],
      ra_providers = Some [\<lparr>rp_id = ''p'', rp_name = None, rp_identity = None, rp_version = None,
        rp_command = [''check''], rp_transport = None, rp_required = None, rp_capabilities = Some [''scan''],
        rp_supported = None, rp_unsupported = None, rp_limitations = None, rp_executable_identity = None,
        rp_descriptor = None, rp_environment = None, rp_module_roots = None, rp_python_packages = None\<rparr>],
      ra_verifiers = Some [ex_raw_verifier],
      ra_may_run_providers = True, ra_continuous = None\<rparr>"

definition ex_provider :: provider where
  "ex_provider = provider_of (hd (given [] (ra_providers ex_raw_project))) [''check'']"

definition ex_workflow :: workflow where
  "ex_workflow = workflow_of (hd (ra_workflows ex_raw_project)) [''check'']"

definition ex_verifier :: verifier where
  "ex_verifier = verifier_of ex_raw_verifier ''60.0'' ''status-only''"

definition ex_project :: project_config where
  "ex_project = \<lparr>pc_root = [''home'', ''project''], pc_paths = ra_paths ex_raw_project,
     pc_providers = [(''p'', ex_provider)], pc_workflows = [(''review'', ex_workflow)],
     pc_verifiers = [(''v'', ex_verifier)], pc_raw = ex_raw_project\<rparr>"

lemma ex_checks:
  "validate_config_data ex_raw_project = Inr ()" "resolve_project_root ex_files ''.'' = Inr [''home'', ''project'']"
  "check_trees ex_files (concat (map snd (ra_paths ex_raw_project))) = Inr ()"
  "scopes_of (declared_paths (ra_paths ex_raw_project) WRITABLE_KEYS) = Inr [[''src''], [''gen''], [''out'']]"
  "scopes_of (declared_paths (ra_paths ex_raw_project) PROTECTED_KEYS) = Inr [[''contracts''], [''secret'']]"
  "validate_scopes_do_not_overlap [[''src''], [''gen''], [''out'']] [[''contracts''], [''secret'']] = Inr ()"
  "check_contained ex_files (map snd (ra_policies ex_raw_project)) = Inr ()"
  by code_simp+

lemma ex_loaded: "load_config (\<lambda>root. ex_files) ex_files (\<lambda>a b. False) ex_raw_project = Inr ex_project"
proof -
  have "load_workflows [] (ra_workflows ex_raw_project) = Inr [(''review'', ex_workflow)]"
    "load_providers ex_files [] (given [] (ra_providers ex_raw_project)) = Inr [(''p'', ex_provider)]"
    by (simp_all add: ex_raw_project_def ex_workflow_def ex_provider_def given_def run_checks_def
        validate_argv_def raise_if_def)
  moreover have "check_workflow [(''p'', ex_provider)] ex_workflow = Inr ()"
    by (simp add: check_workflow_def ex_provider_def ex_workflow_def provider_of_def workflow_of_def
        ex_raw_project_def given_def raise_if_def)
  moreover have "load_verifier \<lparr>va_exceeds = (\<lambda>a b. False), va_timeout = ''60.0'', va_may_run_providers = True\<rparr>
      [(''p'', ex_provider)] [(''review'', ex_workflow)] ex_raw_verifier = Inr ex_verifier"
    by (simp add: load_verifier_def ex_provider_def ex_workflow_def ex_verifier_def provider_of_def workflow_of_def
        ex_raw_project_def ex_raw_verifier_def given_def raise_if_def workflow_modes_def)
  moreover have "ra_project_root ex_raw_project = ''.''" "ra_timeout ex_raw_project = ''60.0''"
    "ra_may_run_providers ex_raw_project" "ra_runner ex_raw_project = None" "ra_continuous ex_raw_project = None"
    "given [] (ra_verifiers ex_raw_project) = [ex_raw_verifier]" "rv_id ex_raw_verifier = ''v''"
    by (simp_all add: ex_raw_project_def ex_raw_verifier_def given_def)
  ultimately show ?thesis
    using ex_checks by (simp add: load_config_def Let_def check_runner_def check_continuous_def run_checks_def ex_project_def)
qed

definition ex_flat_env :: storage_env where
  "ex_flat_env = \<lparr>env_crypto = \<lparr>cr_sha = (\<lambda>s. replicate 64 (CHR ''0'')), cr_jcs = (\<lambda>v. Inr (canonical_bytes v))\<rparr>,
     env_float = (\<lambda>t. t), env_state_dir = ''/s''\<rparr>"

definition ex_verifier_service :: verifier_service where
  "ex_verifier_service =
     \<lparr>ms_context = \<lparr>lc_env = ex_flat_env, lc_mode = ''evaluator'', lc_native = None, lc_status_aggregate = None\<rparr>,
      ms_config = ex_project,
      ms_limits = \<lparr>vl_max_batch = 4, vl_request_bytes = 65536, vl_witness_bytes = 4096, vl_stderr_bytes = 32,
        vl_result_bytes = 262144, vl_max_changed_paths = 16, vl_max_dependency_identities = 16,
        vl_max_question_parameters = 16\<rparr>,
      ms_files = ex_files, ms_content = (\<lambda>ps. Inr ''content:1''), ms_environment = (\<lambda>w. Inr []),
      ms_configuration_identity = ''configuration:1''\<rparr>"

definition ex_verifier_request :: verifier_request where
  "ex_verifier_request =
     \<lparr>vq_candidate = None, vq_changed_paths = [''src/b.py'', ''src/a.py''], vq_scope = None, vq_source_region = None,
      vq_contract = None, vq_dependencies = [], vq_prior_artifact = None, vq_parameters = []\<rparr>"

lemma ex_declared: "declared_verifier ex_verifier_service ''v'' = Inr ex_verifier"
  by (simp add: declared_verifier_def ex_verifier_service_def ex_project_def)

lemma ex_request_scopes:
  "relative_scopes ex_project VERIFIER_WRITABLE = Inr [[''src''], [''gen'']]"
  "relative_scopes ex_project PROTECTED_KEYS = Inr [[''contracts''], [''secret'']]"
  using ex_checks(5) by (simp_all add: relative_scopes_def ex_project_def) code_simp

lemma ex_validated:
  "validate_request ex_verifier_service ex_verifier ex_verifier_request
     = Inr (''unit'', ex_verifier_request\<lparr>vq_changed_paths := [''src/a.py'', ''src/b.py'']\<rparr>)"
proof -
  have paths: "traverse (validate_changed_path ex_verifier_service False [[''src''], [''gen'']] [[''contracts''], [''secret'']])
      (sort (remdups [''src/b.py'', ''src/a.py''])) = Inr [''src/a.py'', ''src/b.py'']"
  proof -
    have "sort (remdups [''src/b.py'', ''src/a.py'']) = [''src/a.py'', ''src/b.py'']"
      "path_parts ''src/a.py'' = [''src'', ''a.py'']" "path_parts ''src/b.py'' = [''src'', ''b.py'']"
      "\<not> is_absolute ''src/a.py''" "\<not> is_absolute ''src/b.py''" by code_simp+
    then show ?thesis
      by (simp add: validate_changed_path_def validate_relative_path_def resolve_contained_def is_within_def
          raise_if_def ex_verifier_service_def ex_files_def del: sort_key_simps remdups.simps)
  qed
  then have "validate_changed_paths ex_verifier_service False (vq_changed_paths ex_verifier_request) = Inr [''src/a.py'', ''src/b.py'']"
    using ex_request_scopes
    by (simp add: validate_changed_paths_def ex_verifier_service_def ex_verifier_request_def raise_if_def
        del: sort_key_simps remdups.simps)
  moreover have "verifier_scope ex_verifier None = Inr ''unit''" "vf_input_kinds ex_verifier = [''changed_paths'']"
    "vf_parameter_keys ex_verifier = []" by code_simp+
  ultimately show ?thesis
    by (simp add: validate_request_def Let_def validate_source_region_def validate_dependency_identities_def
        validate_parameters_def validate_input_kinds_def provided_inputs_def sorted_items_def raise_if_def run_checks_def
        ex_verifier_service_def ex_verifier_request_def)
qed

section \<open>The run\<close>

definition ex_response :: obj where
  "ex_response =
     [(''protocol_version'', JStr ''0.1''), (''type'', JStr ''analysis_response''), (''request_id'', JStr ''r''),
      (''provider'', JObj []), (''extensions'', JObj []), (''status'', JStr ''PASS''), (''summary'', JStr ''clean'')]"

definition ex_observed :: runner_observation where
  "ex_observed =
     \<lparr>ro_termination = ''completed'', ro_started_at = Some ''t1'', ro_ended_at = Some ''t2'', ro_duration = Some ''0.5'',
      ro_stdout = \<lparr>so_total_bytes = Some 10, so_truncated = Some False\<rparr>,
      ro_stderr = \<lparr>so_total_bytes = Some 0, so_truncated = Some False\<rparr>, ro_aggregate_bytes = Some 10,
      ro_runner_identity = ''runner:1'', ro_runner_version = ''1'', ro_runner_kind = ''local-process'',
      ro_os_family = ''linux'', ro_architecture = ''x86_64'', ro_execution_scope = ''local'',
      ro_timeout_enforcement = ''enforced'', ro_stdout_limit = ''enforced'', ro_stderr_limit = ''enforced'',
      ro_filesystem_isolation = ''not-provided'', ro_network_isolation = ''unknown'', ro_worker_identity = None,
      ro_host_identity = None, ro_executable_identity = Some ''e'', ro_image_identity = None,
      ro_environment_identity = ''env:1'', ro_same_operator = Some True, ro_envelope = [], ro_observations = []\<rparr>"

definition ex_execution :: execution where
  "ex_execution = \<lparr>xe_returncode = 0, xe_stdout = canonical_bytes (JObj ex_response) @ [CHR 0x0A],
     xe_stderr = ''token=abc'', xe_duration = ''0.5''\<rparr>"

definition ex_session :: session where
  "ex_session = \<lparr>se_observation = ex_observed, se_result = Some ex_execution, se_error_code = None\<rparr>"

definition ex_execution_view :: execution_view where
  "ex_execution_view =
     \<lparr>xv_authority_before = Inr [(''contracts'', ''c1'')], xv_authority_after = Inr [(''contracts'', ''c1'')],
      xv_candidate_before = Inr ''candidate:1'', xv_candidate_after = Inr ''candidate:1'',
      xv_freeze_check = Inr (), xv_executable = Inr (''/bin/check'', ''content:9''), xv_expired = False,
      xv_session = Inr ex_session, xv_message = (\<lambda>e. ''m''), xv_evidence = (\<lambda>e. None), xv_elapsed = ''0.7'',
      xv_now = ''noon''\<rparr>"

lemma ex_response_read: "parse_provider_response (\<lambda>t. t) (xe_stdout ex_execution) = Inr (sorted_obj ex_response)"
proof -
  have "writable (\<lambda>t. t) (JObj ex_response)" "utf8_json (JObj ex_response)" by code_simp+
  then have "json_loads (\<lambda>t. t) keep_last (canonical_bytes (JObj ex_response)) = Some (JObj (sorted_obj ex_response))"
    using ledger_reader.loads_canonical [of "\<lambda>t. t" "JObj ex_response" "[]", OF _ utf8_canonical]
    by (simp add: sorted_json_obj ascii_def del: sorted_json.simps canonical_bytes.simps)
  moreover have "text_lines (xe_stdout ex_execution) = [canonical_bytes (JObj ex_response)]"
    "utf8_valid (xe_stdout ex_execution)" "canonical_bytes (JObj ex_response) \<noteq> []"
    "check_response (sorted_obj ex_response) = Inr ()" by code_simp+
  ultimately show ?thesis by (simp add: parse_provider_response_def del: canonical_bytes.simps)
qed

definition ex_run_view :: run_view where
  "ex_run_view =
     \<lparr>rn_observation = undefined, rn_after = undefined, rn_busy = (\<lambda>a. False), rn_file_identity = (\<lambda>p. Inr ''content:2''),
      rn_execution = ex_execution_view, rn_receipt = Inr [], rn_project = ''project:1'', rn_requested_at = ''noon'',
      rn_failed_at = ''noon'', rn_elapsed = ''0.9'', rn_bound_at = ''noon'',
      rn_action_commit = undefined, rn_binding_commit = undefined, rn_result_commit = undefined\<rparr>"

text \<open>The action that was recorded for it.\<close>

definition ex_verifier_action :: forge_record where
  "ex_verifier_action = ex_record VERIFIER_ACTION
     [(''action_id'', FStr ''verifier-action:1''), (''mode'', FStr ''evaluator''),
      (''candidate_identity'', FStr ''candidate:1''), (''candidate_parent_identity'', FNull),
      (''supersedes_output_identity'', FNull), (''input_identities'', FMap []),
      (''epoch_identity'', FStr ''epoch:1''), (''protocol_request_identity'', FStr ''request:1''),
      (''requested_at'', FStr ''noon'')]"

definition ex_prepared :: prepared_run where
  "ex_prepared =
     \<lparr>pn_verifier = ex_verifier, pn_provider = ex_provider, pn_candidate = ex_candidate ''candidate:1'' None,
      pn_freeze = None,
      pn_identities = [(''configuration_identity'', ''configuration:1''), (''provider_configuration_identity'', ''pc:1''),
        (''verifier_identity'', ''verifier:1''), (''policy_identity'', ''policy:1''), (''environment_identity'', ''env:1'')],
      pn_prior = [], pn_action = ex_verifier_action, pn_request_id = ''r''\<rparr>"

text \<open>What the provider's output makes of the variables of the run.\<close>

definition ex_verdict :: verdict where
  "ex_verdict = (initial_verdict ex_verifier)\<lparr>
     vd_session := Some ex_session, vd_execution := Some ex_execution, vd_provider := Some [], vd_status := ''PASS'',
     vd_summary := ''clean'', vd_response_identity := Some (ms_identity ex_verifier_service (JObj (sorted_obj ex_response))),
     vd_executable_identity := Some ''content:9''\<rparr>"

lemma ex_provider_verdict:
  "provider_verdict ex_verifier_service ex_verifier ex_provider ''r'' ex_execution_view = Inr ex_verdict"
proof -
  have run: "run_provider ex_execution_view d = (Inr (''content:9'', ex_execution),
      d\<lparr>vd_session := Some ex_session, vd_execution := Some ex_execution\<rparr>)" for d
    by (simp add: run_provider_def step_then_def lift_step_def ex_execution_view_def raise_if_def ex_session_def)
  have members: "obj_get (sorted_obj ex_response) ''type'' = JStr ''analysis_response''"
    "obj_get (sorted_obj ex_response) ''request_id'' = JStr ''r''" "obj_get (sorted_obj ex_response) ''provider'' = JObj []"
    "obj_get (sorted_obj ex_response) ''status'' = JStr ''PASS''" "obj_get (sorted_obj ex_response) ''limitations'' = JNull"
    "obj_get (sorted_obj ex_response) ''extensions'' = JObj []"
    "envelope_member (sorted_obj ex_response) ''summary'' (JStr '''') = JStr ''clean''"
    "envelope_member (sorted_obj ex_response) ''witnesses'' (JArr []) = JArr []" by code_simp+
  have declared: "pv_identity ex_provider = None" "pv_version ex_provider = None" by code_simp+
  have fr: "env_float (lc_env (ms_context ex_verifier_service)) = (\<lambda>t. t)"
    by (simp add: ex_verifier_service_def ex_flat_env_def)
  have read: "read_response (\<lambda>t. t) ex_provider ''r'' ex_execution d = (Inr (sorted_obj ex_response), d\<lparr>vd_provider := Some []\<rparr>)" for d
    using ex_response_read members declared
    by (simp add: read_response_def step_then_def lift_step_def raise_if_def check_analysis_def Let_def provider_drifted_def
        object_of_def ex_execution_def)
  have texts: "json_str (JStr ''clean'') = ''clean''" "take_text 2048 ''clean'' = ''clean''" by code_simp+
  show ?thesis
    using members run read fr texts
    by (simp add: provider_verdict_def provider_steps_def step_then_def lift_step_def adopt_response_def Let_def
        bounded_witnesses_def object_of_def envelope_member_def string_list_def raise_if_def json_text_of_def
        dependency_envelope_def obj_get_def ex_verdict_def initial_verdict_def)
qed

definition ex_response_identity :: string where
  "ex_response_identity = ''forge-json-sha256-v1:'' @ replicate 64 (CHR ''0'')"

lemma ex_response_identity: "ms_identity ex_verifier_service (JObj (sorted_obj ex_response)) = ex_response_identity"
  by (simp add: ms_identity_def ex_verifier_service_def ex_flat_env_def local_json_identity_def ex_response_identity_def)

text \<open>The members of its result, after the redaction.\<close>

definition ex_result_members :: obj where
  "ex_result_members =
     [(''action_id'', JStr ''verifier-action:1''), (''verifier_id'', JStr ''v''), (''verifier_version'', JStr ''1''),
      (''verifier_identity'', JStr ''verifier:1''), (''claim'', JStr ''no secrets''), (''category'', JStr ''security''),
      (''provider_id'', JStr ''p''), (''provider_configuration_identity'', JStr ''pc:1''),
      (''provider_executable_identity'', JStr ''content:9''), (''provider_identity'', JObj []),
      (''provider_response_identity'', JStr ex_response_identity),
      (''method'', JStr ''scan''), (''mode'', JStr ''evaluator''), (''evidence_class'', JStr ''local_evaluator_evidence''),
      (''independent_evaluation'', JBool False), (''iterative_development_overlap'', JBool False),
      (''epoch_identity'', JStr ''epoch:1''), (''candidate_identity'', JStr ''candidate:1''),
      (''candidate_parent_identity'', JNull), (''freeze_identity'', JNull), (''supersedes_output_identity'', JNull),
      (''input_identities'', JObj []), (''configuration_identity'', JStr ''configuration:1''),
      (''policy_identity'', JStr ''policy:1''), (''environment_identity'', JStr ''env:1''), (''status'', JStr ''PASS''),
      (''summary'', JStr ''status-only evaluator verifier result''), (''witnesses'', JArr []), (''assumptions'', JArr []),
      (''limitations'', JArr [JStr withheld_text]), (''unsupported_constructs'', JArr []),
      (''dependency_envelope'', empty_envelope JNull), (''duration_seconds'', JFloat ''0.5''),
      (''stderr_diagnostic'', JStr ''''), (''returncode'', JNull), (''operational_error'', JNull),
      (''disclosure'', JStr ''status-only''), (''recorded_at'', JStr ''noon'')]"

lemma ex_verifier_facts:
  "vf_id ex_verifier = ''v''" "vf_version ex_verifier = ''1''" "vf_claim ex_verifier = ''no secrets''"
  "vf_category ex_verifier = ''security''" "vf_method ex_verifier = ''scan''" "vf_disclosure ex_verifier = ''status-only''"
  "vf_limitations ex_verifier = []" "vf_assumptions ex_verifier = []" "pv_id ex_provider = ''p''"
  by (simp_all add: ex_verifier_def ex_provider_def verifier_of_def provider_of_def ex_raw_project_def ex_raw_verifier_def given_def)

lemma ex_result_members:
  "result_fields ex_verifier_service ex_verifier ex_provider (ex_candidate ''candidate:1'' None) ex_verifier_action None
     (pn_identities ex_prepared) [] ex_execution_view ex_verdict = Inr ex_result_members"
proof -
  have mode: "ms_mode ex_verifier_service = ''evaluator''" by (simp add: ms_mode_def ex_verifier_service_def)
  have no_evidence: "evidence_extensions ex_verdict = []"
    by (simp add: evidence_extensions_def ex_verdict_def ex_session_def ex_observed_def initial_verdict_def)
  have candidate: "opt_item (Some (ex_candidate ''candidate:1'' None)) ''source_epoch'' = Inr (JStr ''epoch:1'')"
    "opt_item (Some (ex_candidate ''candidate:1'' None)) ''candidate_id'' = Inr (JStr ''candidate:1'')"
    by (simp_all add: opt_item_def rec_item_def rec_get_def ex_candidate_def ex_record_def)
  have action: "rec_item ex_verifier_action ''action_id'' = Inr (FStr ''verifier-action:1'')"
    "rec_item ex_verifier_action ''candidate_parent_identity'' = Inr FNull"
    "rec_item ex_verifier_action ''supersedes_output_identity'' = Inr FNull"
    "rec_item ex_verifier_action ''input_identities'' = Inr (FMap [])"
    by (simp_all add: rec_item_def rec_get_def ex_verifier_action_def ex_record_def)
  have identities: "traverse (identity_item (pn_identities ex_prepared))
       [''verifier_identity'', ''provider_configuration_identity'', ''configuration_identity'', ''policy_identity'',
        ''environment_identity''] = Inr (map JStr [''verifier:1'', ''pc:1'', ''configuration:1'', ''policy:1'', ''env:1''])"
    "found_identity (pn_identities ex_prepared) ''verifier_identity'' = JStr ''verifier:1''"
    "found_identity (pn_identities ex_prepared) ''provider_configuration_identity'' = JStr ''pc:1''"
    "found_identity (pn_identities ex_prepared) ''configuration_identity'' = JStr ''configuration:1''"
    "found_identity (pn_identities ex_prepared) ''policy_identity'' = JStr ''policy:1''"
    "found_identity (pn_identities ex_prepared) ''environment_identity'' = JStr ''env:1''"
    by (simp_all add: ex_prepared_def identity_item_def found_identity_def jtext_or_null_def)
  have verdict': "vd_status ex_verdict = ''PASS''" "vd_executable_identity ex_verdict = Some ''content:9''"
    "vd_provider ex_verdict = Some []" "vd_response_identity ex_verdict
       = Some ex_response_identity"
    "vd_envelope ex_verdict = empty_envelope JNull" "vd_execution ex_verdict = Some ex_execution"
    "xe_duration ex_execution = ''0.5''" "xv_now ex_execution_view = ''noon''"
    by (simp_all add: ex_verdict_def initial_verdict_def ex_execution_def ex_execution_view_def ex_response_identity)
  show ?thesis
    unfolding result_fields_def identities(1) candidate
    by (simp add: executed_members_def result_member_def mode no_evidence action identities verdict' ex_verifier_facts
        jtext_or_null_def jobj_or_null_def opt_item_def evidence_class_def iterative_overlap_def
        redact_status_only_result_def status_only_members_def dict_update_def envelope_identity_def obj_get_def
        empty_envelope_def ex_result_members_def withheld_text_def)
qed

lemma ex_bounded_result: "\<exists>r. bounded_result ex_verifier_service ex_result_members = Inr r"
proof -
  have "case new_record (env_crypto ex_flat_env) VERIFIER_RESULT (as_fields ex_result_members) of
      Inl e \<Rightarrow> False | Inr r \<Rightarrow> \<not> exceeds (canonical_bytes (JObj (rec_to_json r))) 262144" by code_simp
  then obtain r where "new_record (env_crypto ex_flat_env) VERIFIER_RESULT (as_fields ex_result_members) = Inr r"
    "\<not> 262144 < record_size r"
    by (auto simp: exceeds_iff record_size_def simp del: canonical_bytes.simps split: sum.splits)
  then show ?thesis by (simp add: bounded_result_def ex_verifier_service_def)
qed

lemma ex_completed_run:
  "\<exists>r. completed_run ex_verifier_service ex_run_view ex_prepared empty_store = Inr (Some ex_session, r)"
proof -
  have view: "run_execution ex_verifier_service ex_run_view ex_prepared empty_store = ex_execution_view"
    by (simp add: run_execution_def ex_run_view_def ex_prepared_def ex_execution_view_def)
  have parts: "pn_verifier ex_prepared = ex_verifier" "pn_provider ex_prepared = ex_provider"
    "pn_candidate ex_prepared = ex_candidate ''candidate:1'' None" "pn_action ex_prepared = ex_verifier_action"
    "pn_request_id ex_prepared = ''r''" "pn_freeze ex_prepared = None" "pn_prior ex_prepared = []"
    by (simp_all add: ex_prepared_def)
  have still: "check_undisturbed ex_verifier_service [(''contracts'', ''c1'')] ''candidate:1'' None ex_execution_view = Inr ()"
    by (simp add: check_undisturbed_def ex_execution_view_def raise_if_def same_text_map_def)
  have before: "xv_authority_before ex_execution_view = Inr [(''contracts'', ''c1'')]"
    "xv_candidate_before ex_execution_view = Inr ''candidate:1''" by (simp_all add: ex_execution_view_def)
  have session: "vd_session ex_verdict = Some ex_session" by (simp add: ex_verdict_def)
  obtain r where r: "bounded_result ex_verifier_service ex_result_members = Inr r" using ex_bounded_result by blast
  show ?thesis
    by (simp add: completed_run_def Let_def view execute_verifier_def before parts ex_provider_verdict still
        ex_result_members r session)
qed

lemma ex_status_only:
  "ms_mode ex_verifier_service = ''evaluator''" "vf_disclosure (pn_verifier ex_prepared) = ''status-only''"
  "rec_value (pn_action ex_prepared) ''mode'' = FStr ''evaluator''"
  by (simp_all add: ms_mode_def ex_verifier_service_def ex_prepared_def ex_verifier_facts ex_verifier_action_def
      ex_record_def rec_value_def rec_get_def)

section \<open>Its receipt\<close>

definition ex_receipt :: obj where
  "ex_receipt = [(''receipt_identity'', JStr (replicate 64 (CHR ''0''))), (''schema_version'', JStr ''1''),
     (''record_type'', JStr ''mncs-execution-receipt'')]"

definition ex_binding :: "forge_record res" where
  "ex_binding = bind_verifier_execution (env_crypto ex_flat_env) ''project:1'' ex_verifier_action (Some ''output:1'') ''v''
     ex_observed (Inr ex_receipt) ''noon''"

lemma ex_binding: "\<exists>r. ex_binding = Inr r"
proof -
  have "is_ok ex_binding" by code_simp
  then show ?thesis using ok_value_Inr by blast
qed

section \<open>A batch without time\<close>

definition ex_batch_view :: batch_view where
  "ex_batch_view = \<lparr>bv_too_long = (\<lambda>ts. False), bv_run = (\<lambda>v. None), bv_aggregate = aggregate_status None, bv_elapsed = ''1.0''\<rparr>"

lemma ex_batch: "\<exists>rep. run_batch ex_verifier_service ex_batch_view [''v''] ex_verifier_request empty_store = (Inr rep, empty_store)"
proof -
  have "\<not> exceeds (canonical_bytes (batch_request [''v''] ex_verifier_request)) 65536" by code_simp
  then have "\<not> 65536 < length (canonical_bytes (batch_request [''v''] ex_verifier_request))" by (simp add: exceeds_iff)
  moreover have "resolve_batch_parameters [''v''] (Some (vq_parameters ex_verifier_request)) = Inr ([], [])"
    by (simp add: resolve_batch_parameters_def ex_verifier_request_def)
  moreover have "vl_max_batch (ms_limits ex_verifier_service) = 4" "vl_request_bytes (ms_limits ex_verifier_service) = 65536"
    by (simp_all add: ex_verifier_service_def)
  ultimately show ?thesis
    using ex_declared by (simp add: run_batch_def check_batch_def raise_if_def ex_batch_view_def batch_step_def
        batch_report_def aggregate_status_compat)
qed

end
