(* ===== verification/StorageFacts.thy ===== *)
theory StorageFacts
  imports ExampleStore
begin

text \<open>
  Facts about what is stored: beginnings of a verified history, the files of records and of transactions, and
  objects that repeat a member.
\<close>

text \<open>What the chain alone does not detect: every beginning of a verified history verifies, so that removing
  entries from the end is visible only to one who knows the head or the count.\<close>

theorem truncation_goes_unnoticed:
  assumes "verify_chain_of env (es @ fs) = Inr h"
  shows "\<exists>h'. verify_chain_of env es = Inr h'"
  using assms unfolding verify_chain_of_def by (rule ledger_chain.beginning_runs)

lemma truncation_goes_unnoticed_example:
  "\<exists>h'. verify_chain_of ex_env [] = Inr h'"
  by (rule truncation_goes_unnoticed [of _ "[]" ex_raws "ok_value (verify_chain_of ex_env ex_raws)"])
    (simp add: ok_value_Inr [OF ex_hidden_verified, symmetric])

text \<open>The file written for a record is loaded, in its trusted group, as that record with its members sorted; its
  bytes are those of the record, so that loading and writing again reproduces the file.\<close>

theorem record_file_reads_back:
  assumes "recordable env r" "jcs_sorts (env_crypto env)" "group_type record_group = Inr (fr_type r)"
    "length (record_bytes r) \<le> 4000000"
  shows "load_record_file env record_group (record_bytes r) = Inr (stored_form r)
    \<and> record_bytes (stored_form r) = record_bytes r \<and> json_same (stored_form r) r"
  using load_stored_record [OF assms] stored_record_bytes [OF assms(1,2)] by simp

lemma record_file_reads_back_example:
  "load_record_file ex_env ''dispositions'' (record_bytes ex_new_record) = Inr (stored_form ex_new_record)"
proof -
  have "jcs_sorts (env_crypto ex_env)" using ex_digests by (simp add: digests_documented_def)
  moreover have "group_type ''dispositions'' = Inr (fr_type ex_new_record)" by code_simp
  moreover have "\<not> IMMUTABLE_RECORD_BYTE_CAP < length (record_bytes ex_new_record)" by code_simp
  ultimately show ?thesis
    using record_file_reads_back [OF ex_recordable] by (simp add: IMMUTABLE_RECORD_BYTE_CAP_def)
qed

text \<open>The reader of record files raises on an object that repeats a member and passes every other object on as it
  is, while the ledger's plain \<open>json.loads\<close> keeps the last of the repeated members.\<close>

theorem duplicate_members:
  "reject_duplicate_keys ps = (if dict_wf ps then Inr ps else Inl PyValueError)
    \<and> no_duplicates ps = (if dict_wf ps then Some ps else None)
    \<and> (\<exists>d. keep_last ps = Some d \<and> (\<forall>k. dict_get d k = map_of (rev ps) k))"
  using reject_duplicates_outcome [of ps] keep_last_members [of ps] by (simp add: no_duplicates_def)

text \<open>A journal with the shape and values a transaction writes is read back by recovery, in its prepared and in its
  committed state, as what was written with its members sorted.\<close>

theorem journal_reads_back:
  assumes "valid_journal txid j"
  shows "load_journal env txid (journal_bytes j) = Inr (sorted_obj j)
    \<and> load_journal env txid (journal_bytes (committed j)) = Inr (sorted_obj (committed j))"
  using load_journal_written [OF assms] load_journal_written [OF valid_journal_committed [OF assms]] by simp

lemma journal_reads_back_example:
  "load_journal ex_env ''tx'' (journal_bytes ex_journal) = Inr (sorted_obj ex_journal)"
  using journal_reads_back [OF ex_journal_valid] by blast

end
