(* ===== verification/Spec2Isabelle.thy ===== *)
theory Spec2Isabelle
  imports Inspection ExampleServices ExampleRecovery ExampleVerifiers StorageFacts
begin

text \<open>
  A model of MNCS Forge (\<open>src/src/mncs_forge\<close>), the controller of a development workflow for agents: it keeps an
  append-only history of typed, self-identifying records, decides from that history which lifecycle
  transition is authorized, runs declared verifiers as bounded providers, and records what they report
  without turning it into more than it is. The functions below follow the Python code branch by branch; an
  exception is a value of the sum type \<open>'a res\<close>.

  \<^bold>\<open>How the parts interact.\<close> A service call reads the verified ledger (\<open>ledger.py\<close>), observes the project, builds one
  machine (\<open>state_machine.py\<close>) over both, asks it to authorize a transition, builds the record of that
  transition (\<open>records.py\<close>) and commits it (\<open>record_store.py\<close>): journal, record file, ledger line, derived
  index. A verifier run (\<open>micro_verifiers.py\<close>) commits its action, runs the provider, and commits one result
  and the binding of the execution to its receipt; a start-up (\<open>application/recovery.py\<close>) finishes interrupted
  commits and ends the actions that a lost process left without a result.

  \<^bold>\<open>Vocabulary.\<close> \<open>Prelude\<close>: errors, sequencing of fallible steps, insertion-ordered dictionaries, Python's list
  idioms. \<open>Json\<close>, \<open>FrozenValues\<close>: JSON values and the frozen values of a record, with Python's truth, equality,
  \<open>str\<close> and \<open>repr\<close>. \<open>JsonText\<close>, \<open>Serialization\<close>, \<open>TextEncoding\<close>: \<open>json.loads\<close> over UTF-8 bytes and the canonical
  encoding of \<open>serialization.py\<close>; the properties under
  Stored text say that canonical text reads back and how deep it nests.

  \<^bold>\<open>Records\<close> (\<open>records.py\<close>). \<open>RecordTables\<close>: the record types, their specifications and required members.
  \<open>Records\<close>: \<open>ForgeRecord\<close>, its mapping interface and codecs. \<open>RecordValidation\<close>: \<open>_validate_fields\<close>, one check per
  source branch. \<open>RecordIdentity\<close>: \<open>new_record\<close>, \<open>parse_record\<close>, migration and canonical records. \<open>LedgerEntries\<close>: the
  typed entry of the ledger. \<open>StoredRecords\<close> (an order of members does not matter, a record survives storage)
  and \<open>RecordGuarantees\<close> (typed, without authority, named by content) carry the
  properties under Records.

  \<^bold>\<open>Ledger and record store.\<close> \<open>Ledger\<close> models \<open>ledger.py\<close>: the bytes of the file, the digest cache, the hash
  chain, companions and selection through the index. \<open>RecordStore\<close> models a commit as seven phases of disk
  steps over \<open>store\<close>, and an interruption as a prefix of these steps, the last write possibly torn; recovery is
  the same kind of sequence and may be interrupted itself. \<open>LedgerFacts\<close>, \<open>StoreFacts\<close>, \<open>CommitFacts\<close>,
  \<open>CrashSafety\<close>, \<open>StoreGrowth\<close>, \<open>StoreGuarantees\<close> and \<open>StorageFacts\<close> prove what one operation does; \<open>StoreHistories\<close>
  closes them under sequences of commits, crashes and recoveries (the properties under The record store and
  The ledger).

  \<^bold>\<open>Lifecycle.\<close> \<open>LifecycleTypes\<close>, \<open>Projection\<close>, \<open>EvidenceReadiness\<close>, \<open>NativeLifecycle\<close>, \<open>Authorization\<close> and
  \<open>Inspection\<close> are \<open>state_machine.py\<close> from its data to \<open>inspect\<close>. \<open>ProjectionFacts\<close> and \<open>TransitionFacts\<close> hold the
  interface that every authorizer implements (a locale, interpreted for each of them) and the facts of each;
  \<open>Reachability\<close> is the step relation of authorized transitions with its invariant. \<open>LifecycleContext\<close>
  (\<open>application/lifecycle.py\<close>), \<open>Services\<close> (\<open>application/candidates.py\<close>, the freeze of \<open>application/evaluation.py\<close>),
  \<open>RightsProvenance\<close>, \<open>StatusAggregation\<close> (\<open>application/support.py\<close>, \<open>application/evidence.py\<close>) model the calls
  around the machine; \<open>ServiceFacts\<close> and \<open>ServiceHistories\<close> show that any sequence of calls keeps the history
  reachable (the properties under The lifecycle).

  \<^bold>\<open>Configuration and verifiers.\<close> \<open>Paths\<close> (\<open>paths.py\<close>) and \<open>Configuration\<close> (\<open>config.py\<close>): containment, and every check
  of \<open>load_config\<close> after the schema. \<open>ProviderResponses\<close> (\<open>execution.py\<close>): what is accepted from a provider.
  \<open>VerifierSupport\<close>, \<open>VerifierInputs\<close>, \<open>VerifierExecution\<close>, \<open>VerifierRuns\<close>, \<open>VerifierMatching\<close>: \<open>micro_verifiers.py\<close> with
  \<open>verifier_support.py\<close> and \<open>verifier_disclosure.py\<close>, from the validation of a request to batches, explanations
  and freshness. \<open>ExecutionReceipts\<close>: the bindings of \<open>application/execution_receipts.py\<close>. \<open>VerifierRecovery\<close>:
  \<open>application/recovery.py\<close>. \<open>VerifierGuarantees\<close>, \<open>VerifierRunFacts\<close>, \<open>RecoveryFacts\<close> and \<open>RecoveryRuns\<close> prove what a
  result, a batch and a recovery stand for (the properties under Verifiers).

  \<open>Examples\<close>, \<open>ExampleStore\<close>, \<open>ExampleServices\<close>, \<open>ExampleRecovery\<close> and \<open>ExampleVerifiers\<close> are the concrete inputs on
  which properties with hypotheses are instantiated.

  \<^bold>\<open>Bounds and fuel.\<close> The JSON reader takes the length of its text as fuel, which is enough because every call of
  it consumes a character (\<open>JsonText\<close>); the walk along a lineage is a \<open>function\<close> that terminates because the set of
  candidates not yet visited shrinks; everything else is structural. Nesting is limited to 64, a JSON file to
  16,000,000 and a ledger line to 4,000,000 bytes, as in the source. Python's integers are \<open>int\<close>.

  \<^bold>\<open>Parameters.\<close> What is not code of this repository, or is the answer of the outside world, is an argument: the
  hash function and the canonicalization library (\<open>crypto\<close>), the reading and writing of floats (\<open>env_float\<close>), the
  time and transaction identities of a call (\<open>moment\<close>), the observer of the project, the answers of the file
  system to a path (\<open>files\<close>), the runner of processes (\<open>execution_view\<close>), the JSON Schema validator, the builder
  of a companion receipt, and the native adapter (\<open>mncs_native.py\<close> talks to an external runtime). Hypotheses
  about them are documented behaviour: a digest is 64 hexadecimal digits, a float text reads back.

  \<^bold>\<open>Not modelled.\<close> Errors of the operating system, the recursion limit and the digit limit of Python's integers;
  NaN and infinities, and the comparison of integers with floats of 16 digits or more; lone surrogates, and the
  lower case and white space of characters outside ASCII; directories and their syncing, temporary files, and
  the file lock (calls are sequential; what two interleaved calls may do is
  \<open>stale_authority_corrupts_history\<close>); the locks of running actions
  (the parameter \<open>busy\<close>); the machine that is cached between calls; stores that commit batches; the prose of
  messages. Whole components that are left out: process, container and remote runners and their measurement,
  the observation of projects (hashing and copying of trees), the command line, servers and resident
  transport, the continuous supervisor with its timers and threads, the adapters to the external MNCS runtime
  and object store, and the studies built on top of the services. They are operating-system effects, transport,
  or callers of what is modelled.
\<close>

section \<open>The lifecycle\<close>

text \<open>
  C1: whatever epochs, registrations, dispositions and freezes the services are asked for, in any order and
  interleaved with commits of other records, each call completed, refused, or cut off at any point and
  recovered: the store verifies, and the machine of the next call exists whenever its observations can be
  made, is never in the ambiguous stage, and shows a lineage without repetition. (The calls are sequential;
  that an identity is new, which the authorizers do not check, is what the store's immutable names give.)
\<close>

theorem service_histories_stay_coherent:
  assumes "service_history (lc_env ctx) s" "lc_native ctx = None" "lc_mode ctx \<in> {''development'', ''evaluator''}"
    "machine_inputs ctx obs full_view s = Inr inp"
  shows "is_ok (verify_ledger (lc_env ctx) s)
    \<and> (\<exists>m. lifecycle_machine ctx obs full_view s = Inr m \<and> pr_stage (ma_projection m) \<noteq> AMBIGUOUS_HISTORY
        \<and> distinct (pr_lineage (ma_projection m)))"
  using service_history_reachable [OF assms(1)]
    service_history_machine [OF assms(1,4) _ refl assms(2,3)] by (auto simp: full_view_def is_ok_iff)

theorem service_histories_stay_coherent_witness:
  "is_ok (verify_ledger ex_env ex_epoch_store)"
proof -
  obtain inp where "machine_inputs ex_context ex_service_observation full_view ex_epoch_store = Inr inp"
    using ex_service_inputs by blast
  then have "is_ok (verify_ledger (lc_env ex_context) ex_epoch_store)"
    by (intro service_histories_stay_coherent [THEN conjunct1])
      (simp_all add: ex_context_def ex_service_history)
  then show ?thesis by (simp add: ex_context_def)
qed

text \<open>
  C2: a history grown only by records the authorizers accepted (with epoch and candidate identities not
  used before) is never projected as ambiguous, whatever the observations the machine is given, and
  the lineage it shows is exactly the candidates of the active epoch in registration order, each once.
\<close>

theorem reachable_never_ambiguous:
  assumes "reachable (mi_history inp)" "mi_native inp = None" "make_machine inp = Inr m"
  shows "pr_stage (ma_projection m) \<noteq> AMBIGUOUS_HISTORY
    \<and> distinct (pr_lineage (ma_projection m))
    \<and> (\<forall>e. pr_active_epoch (ma_projection m) = Some e \<longrightarrow>
         pr_lineage (ma_projection m) = candidate_names
           (filter (\<lambda>r. rec_value r ''source_epoch'' = rec_value e ''epoch_id'') (records_of (ma_input m) CANDIDATE)))"
  by (rule reachable_projection [OF assms])

theorem reachable_never_ambiguous_witness:
  "pr_stage (ma_projection (ex_machine ''evaluator'' ex_lineage_history ''A'')) \<noteq> AMBIGUOUS_HISTORY
    \<and> distinct (pr_lineage (ma_projection (ex_machine ''evaluator'' ex_lineage_history ''A'')))"
  using reachable_never_ambiguous [OF ex_lineage_reachable ex_no_native ex_lineage_machine] by blast

text \<open>
  C3: a selection is authorized only for the current candidate, when its identity is that of the present
  content, it has no disposition yet, the selection policy is readable, and every required piece of
  evidence is present, passing, fresh, comparable and bound to the configured environment, policy and
  authority.
\<close>

theorem selection_rests_on_complete_evidence:
  assumes "make_machine inp = Inr m" "mi_native inp = None"
    "authorize_candidate_disposition m cid ''selected'' = Inr (candidate, evidence)"
  shows "pr_candidate (ma_projection m) = Some candidate
    \<and> rec_value candidate ''candidate_id'' = FStr cid
    \<and> cid = mi_current_candidate (ma_input m)
    \<and> pr_disposition_status (ma_projection m) = ''undisposed''
    \<and> mi_policy_error (ma_input m) = None
    \<and> er_ready evidence
    \<and> (\<forall>req \<in> set (mi_required (ma_input m)). requirement_satisfied (ma_input m) (Some candidate) req)"
proof -
  have m: "compat_machine m" using assms(1,2) by (rule make_machine_compat)
  note facts = candidate_disposition_Inr [OF assms(3)]
  from evidence_of_machine [OF m] facts(1,4,6) fresh_candidate(1) [OF m facts(1,3)] facts(2) facts(5)
  show ?thesis
    by (simp add: facts(1) compat_blocker_None_iff compat_ready_iff requirements_of_def
        policy_error_of_def text_truthy_def names_candidate_def)
qed

theorem selection_rests_on_complete_evidence_witness:
  "requirement_satisfied (ma_input (ex_machine ''development'' ex_ready_history ''A''))
     (Some (ex_candidate ''A'' None)) ''tests''"
  using selection_rests_on_complete_evidence [OF ex_ready_machine ex_no_native ex_ready_selected]
  by (simp add: ex_ready_required)



text \<open>
  C5: the readiness of a candidate's evidence: it is PASS exactly when the policy carries no error and every
  requirement is satisfied by all of its evidence, FAIL exactly when some requirement has failing
  evidence (failure dominates), ready exactly when PASS, and nothing blocks exactly when no policy error
  is recorded and every requirement is satisfied.
\<close>

theorem readiness_characterised:
  assumes "mi_native inp = None" "evidence_readiness inp (Some c) required = Inr r"
  shows "(er_status r = ''PASS'' \<longleftrightarrow> \<not> text_truthy (policy_error_of inp required)
      \<and> (\<forall>req \<in> set (requirements_of inp required). requirement_satisfied inp (Some c) req))
    \<and> (er_status r = ''FAIL'' \<longleftrightarrow> (\<exists>req \<in> set (requirements_of inp required).
          \<exists>e \<in> set (evidence_matches inp (candidate_id_of (Some c)) req). status_text e = ''FAIL''))
    \<and> er_status r \<in> {''PASS'', ''FAIL'', ''UNKNOWN''}
    \<and> (er_ready r \<longleftrightarrow> er_status r = ''PASS'')
    \<and> (readiness_blocker r = None \<longleftrightarrow> policy_error_of inp required = None
      \<and> (\<forall>req \<in> set (requirements_of inp required). requirement_satisfied inp (Some c) req))"
proof -
  have r: "r = compat_evidence_readiness inp (Some c) required"
    using assms by (simp add: evidence_readiness_def)
  show ?thesis
    unfolding r using compat_ready_iff [of inp c required] compat_blocker_None_iff [of inp c required]
      compat_status [of inp "Some c" required] compat_ready_not_failed [of inp c required]
      compat_failed_iff [of inp c required]
    by auto
qed

theorem readiness_characterised_witness:
  "er_ready (compat_evidence_readiness (ex_input ''development'' ex_ready_history ''A'') (Some (ex_candidate ''A'' None)) None)
   \<longleftrightarrow> er_status (compat_evidence_readiness (ex_input ''development'' ex_ready_history ''A'')
      (Some (ex_candidate ''A'' None)) None) = ''PASS''"
  using readiness_characterised [OF ex_no_native, of "''development''" ex_ready_history "''A''" "ex_candidate ''A'' None" None]
  by (simp add: evidence_readiness_def ex_no_native)

text \<open>
  C6: a freeze is authorized only for the current candidate when its identity is that of the present
  content, its single disposition selects it under the present policy and on PASS evidence, the
  authority of the active epoch has not drifted, it has no freeze record, and every requirement of the
  selection policy and of the frozen evidence plan is satisfied now.
\<close>

theorem freeze_rests_on_selection:
  assumes "make_machine inp = Inr m" "mi_native inp = None"
    "authorize_candidate_freeze m cid plan = Inr (candidate, disposition)"
  shows "rec_value candidate ''candidate_id'' = FStr (mi_current_candidate (ma_input m))
    \<and> cid = mi_current_candidate (ma_input m)
    \<and> for_candidate (ma_input m) CANDIDATE_DISPOSITION (Some cid) = [disposition]
    \<and> rec_str disposition ''disposition'' = ''selected''
    \<and> rec_value disposition ''selection_policy_identity'' = FStr (mi_policy_identity (ma_input m))
    \<and> rec_value disposition ''evidence_status'' = FStr ''PASS''
    \<and> (\<exists>epoch. pr_active_epoch (ma_projection m) = Some epoch
         \<and> text_map_eq (rec_value epoch ''authority_identities'') (mi_current_authority (ma_input m)))
    \<and> for_candidate (ma_input m) FREEZE (Some cid) = []
    \<and> (\<exists>reqs. plan = Some reqs \<and> reqs \<noteq> []
         \<and> (\<forall>req \<in> set (mi_required (ma_input m)) \<union> set reqs.
              requirement_satisfied (ma_input m) (Some candidate) req))"
proof -
  have m: "compat_machine m" using assms(1,2) by (rule make_machine_compat)
  note facts = candidate_freeze_Inr [OF assms(3)]
  note id = freeze_candidate_identity [OF m facts(1-3)]
  obtain reqs where "plan = Some reqs" "reqs \<noteq> []"
    "\<forall>req \<in> set reqs. requirement_satisfied (ma_input m) (Some candidate) req"
    by (rule evidence_plan_sound [OF compat_machine_native [OF m] facts(9)])
  moreover have "\<forall>req \<in> set (mi_required (ma_input m)). requirement_satisfied (ma_input m) (Some candidate) req"
    using facts(1,7) evidence_of_machine [OF m]
    by (simp add: compat_blocker_None_iff requirements_of_def)
  ultimately show ?thesis
    using id facts(8,10) selected_terminal [OF m id(3) facts(4,5)]
      unfrozen_terminal [OF m id(3) facts(6)] freeze_op.ok_guards [of m "(cid, plan)"] assms(3)
    by (auto simp: check_selection_binding_def freeze_request_def res_simps)
qed

theorem freeze_rests_on_selection_witness:
  "for_candidate (ma_input (ex_machine ''development'' ex_selected_history ''A'')) FREEZE (Some ''A'') = []"
  using freeze_rests_on_selection [OF ex_selected_machine ex_no_native ex_selected_freeze] by blast

text \<open>
  C7: the evaluator is admitted only in evaluator mode, to the frozen current candidate: its identity is
  that of the present content and of the freeze record, every identity the freeze binds is unchanged,
  and the freeze names the selection of that candidate.
\<close>

theorem evaluation_only_of_the_frozen_content:
  assumes "make_machine inp = Inr m" "mi_native inp = None"
    "authorize_evaluator_entry m cid = Inr (frozen, candidate)"
  shows "mi_mode (ma_input m) = ''evaluator''
    \<and> rec_value candidate ''candidate_id'' = FStr (mi_current_candidate (ma_input m))
    \<and> rec_str frozen ''candidate_identity'' = mi_current_candidate (ma_input m)
    \<and> for_candidate (ma_input m) FREEZE (Some (mi_current_candidate (ma_input m))) = [frozen]
    \<and> (\<forall>(name, current) \<in> set (mi_freeze_bindings (ma_input m)). rec_value frozen name = FStr current)
    \<and> (\<exists>d. pr_disposition (ma_projection m) = Some d \<and> rec_str d ''disposition'' = ''selected''
         \<and> feq (rec_value frozen ''selection_record'') (rec_value d ''disposition_id''))"
proof -
  have m: "compat_machine m" using assms(1,2) by (rule make_machine_compat)
  obtain d where d: "pr_freeze (ma_projection m) = Some frozen" "freeze_drift (ma_input m) frozen = []"
    "pr_candidate (ma_projection m) = Some candidate"
    "names_candidate candidate (Some (rec_str frozen ''candidate_identity''))"
    "pr_freshness (ma_projection m) = ''CURRENT''" "pr_disposition (ma_projection m) = Some d"
    "pr_disposition_status (ma_projection m) = ''selected''"
    "feq (rec_value frozen ''selection_record'') (rec_value d ''disposition_id'')"
    by (rule evaluator_entry_Inr [OF assms(3)])
  note id = freeze_candidate_identity [OF m d(3-5)]
  from evaluator_op.mode_exact [of m cid] assms(3) have "mi_mode (ma_input m) = ''evaluator''" by simp
  then show ?thesis
    using d(2,6,8) id selected_terminal [OF m id(3) d(6,7)] frozen_terminal [OF m id(3) d(1)]
    by (simp add: freeze_drift_Nil)
qed

theorem evaluation_only_of_the_frozen_content_witness:
  "for_candidate (ma_input (ex_machine ''evaluator'' ex_frozen_history ''A'')) FREEZE
     (Some (mi_current_candidate (ma_input (ex_machine ''evaluator'' ex_frozen_history ''A'')))) = [ex_freeze ''A'']"
  using evaluation_only_of_the_frozen_content [OF ex_frozen_machine ex_no_native ex_frozen_entry] by blast

text \<open>
  C8: no machine admits both an evaluator entry and any development transition (beginning an epoch,
  registering, checking, comparing, disposing of or freezing a candidate), with or without a native adapter.
\<close>

theorem modes_are_separate:
  "\<not> (is_ok (authorize_evaluator_entry m e)
     \<and> (is_ok (authorize_epoch_begin m parent)
        \<or> is_ok (authorize_candidate_register m parent proposed eid)
        \<or> is_ok (authorize_development_work m wid False)
        \<or> is_ok (authorize_candidate_comparison m ids)
        \<or> is_ok (authorize_candidate_disposition m cid d)
        \<or> is_ok (authorize_candidate_freeze m cid plan)))"
  using evaluator_op.mode_exact [of m e] begin_op.mode_exact [of m parent]
    register_op.mode_exact [of m "(parent, proposed, eid)"] work_op.mode_exact [of m wid]
    compare_op.mode_exact [of m ids] disposition_op.mode_exact [of m "(cid, d)"]
    freeze_op.mode_exact [of m "(cid, plan)"]
  by (auto simp: begin_request_def register_request_def candidate_work_request_def disposition_request_def
      freeze_request_def)





text \<open>
  C11: the authority to dispose of a candidate is granted over the history that was read, and the commit that
  uses it does not ask again: when two dispositions of one candidate have been authorized over the same
  history and both are appended, every machine over the result is in the ambiguous stage, which blocks the
  epoch for good.
\<close>

theorem stale_authority_corrupts_history:
  assumes "reachable (mi_history inp)" "mi_native inp = None" "make_machine inp = Inr m"
    "authorize_candidate_disposition m cid d = Inr x" "authorize_candidate_disposition m cid d' = Inr x'"
    "fr_type (le_payload e) = CANDIDATE_DISPOSITION" "rec_value (le_payload e) ''candidate_identity'' = FStr cid"
    "rec_value (le_payload e) ''disposition'' = FStr d"
    "fr_type (le_payload e') = CANDIDATE_DISPOSITION" "rec_value (le_payload e') ''candidate_identity'' = FStr cid"
    "rec_value (le_payload e') ''disposition'' = FStr d'"
    "make_machine inp' = Inr m'" "mi_native inp' = None" "mi_history inp' = mi_history inp @ [e, e']"
  shows "pr_stage (ma_projection m') = AMBIGUOUS_HISTORY"
  using assms(14) machine_over_make [OF assms(12,13)]
  by (intro repeated_disposition_ambiguous [OF machine_over_make [OF assms(3,2)] reachable_coherent [OF assms(1)]
        assms(4,6,7,9,10)]) simp

theorem stale_authority_corrupts_history_witness:
  "pr_stage (ma_projection (ex_machine ''development'' ex_contested_history ''A'')) = AMBIGUOUS_HISTORY"
  by (rule stale_authority_corrupts_history [OF ex_ready_reachable ex_no_native ex_ready_machine ex_ready_selected
        ex_ready_rejected ex_contested_entries(2,3,4) ex_contested_entries(2,3,4) ex_contested_machine ex_no_native
        ex_contested_entries(1)])

text \<open>
  C12: inspection of a machine without a native adapter always returns a report; every operation is either
  allowed or blocked, never both, and selecting, freezing and evaluating are reported as allowed exactly
  when their authorizers accept the current candidate.
\<close>

theorem inspection_is_total_and_exact:
  assumes "make_machine inp = Inr m" "mi_native inp = None"
  shows "\<exists>rep. inspect m = Inr rep
    \<and> set (in_allowed rep) \<union> set (dict_keys (in_blocked rep)) = set OPERATIONS
    \<and> set (in_allowed rep) \<inter> set (dict_keys (in_blocked rep)) = {}
    \<and> (''select_candidate'' \<in> set (in_allowed rep) \<longleftrightarrow>
         is_ok (authorize_candidate_disposition m (candidate_text m) ''selected''))
    \<and> (''freeze_candidate'' \<in> set (in_allowed rep) \<longleftrightarrow>
         is_ok (authorize_candidate_freeze m (candidate_text m) (Some (mi_required (ma_input m)))))
    \<and> (''run_evaluation'' \<in> set (in_allowed rep) \<longleftrightarrow>
         is_ok (authorize_evaluator_entry m (candidate_id_of (pr_candidate (ma_projection m)))))"
  using inspect_report [OF make_machine_compat [OF assms]] by (metis (no_types, lifting))

theorem inspection_is_total_and_exact_witness:
  "\<exists>rep. inspect (ex_machine ''development'' ex_ready_history ''A'') = Inr rep"
  using inspection_is_total_and_exact [OF ex_ready_machine ex_no_native] by blast

text \<open>
  C13: on any history, cyclic parentage included, the walk from the current candidate to its ancestors ends,
  visits no identity twice, and visits only identities of candidate records.
\<close>

theorem lineage_walk_terminates_without_repetition:
  "distinct (fst (lineage_walk candidates [] cursor))
    \<and> set (fst (lineage_walk candidates [] cursor))
        \<subseteq> insert (rec_str cursor ''candidate_id'') (set (candidate_names candidates))"
  using lineage_walk_distinct [of "[]" candidates cursor] lineage_walk_identities [of candidates "[]" cursor]
  by simp

text \<open>
  C14: a terminal verifier result is authorized only for a recorded action with the same candidate, freeze and
  mode and without a result, and once its result is recorded no further one is authorized, with any bindings.
\<close>

theorem terminal_result_at_most_once:
  assumes "authorize_terminal_result history aid cid fid mode = Inr action"
    "fr_type (le_payload e) = VERIFIER_RESULT" "rec_value (le_payload e) ''action_id'' = FStr aid"
  shows "action \<in> set (map le_payload history) \<and> fr_type action = VERIFIER_ACTION
    \<and> binds_action action aid cid fid mode
    \<and> results_of_action history aid = []
    \<and> \<not> is_ok (authorize_terminal_result (history @ e # later) aid cid' fid' mode')"
  using terminal_result_Inr [OF assms(1)] assms(2,3)
  by (auto intro!: terminal_result_repeated simp: results_of_action_def)

theorem terminal_result_at_most_once_witness:
  "\<not> is_ok (authorize_terminal_result (ex_action_history @ [ex_entry ex_action_result]) ''act'' ''A'' None ''development'')"
  using terminal_result_at_most_once [OF ex_action_authorized ex_action_result_facts, of "[]"] by simp

section \<open>Verifiers\<close>




text \<open>
  C17: the result of an evaluator's run of a status-only verifier, whether the provider answered, failed or changed
  files, carries no summary, witness, assumption, unsupported construct, diagnostic, exit code, error or path
  of the provider, also after it was shortened to the size limit; of this result only seven members and two
  constants are disclosed.
\<close>

theorem status_only_results_withhold_the_provider:
  assumes "completed_run ms rn pn s = Inr (se, r)" "ms_mode ms = ''evaluator''"
    "vf_disclosure (pn_verifier pn) = ''status-only''" "rec_value (pn_action pn) ''mode'' = FStr ''evaluator''"
  shows "withheld r
    \<and> dict_keys (disclose_result r) = DISCLOSED_KEYS @ [''repair_feedback_withheld'', ''independent_evaluation'']"
proof -
  have "rec_value (pn_action pn) ''mode'' = FStr (ms_mode ms)" using assms(2,4) by simp
  note recorded = completed_run_recorded [OF assms(1) this]
  show ?thesis
    using recorded(5) [OF assms(2,3)] disclosed_withheld [of r] recorded(3,4) assms(2,3) by (simp del: set_map)
qed

theorem status_only_results_withhold_the_provider_witness:
  "\<exists>r. completed_run ex_verifier_service ex_run_view ex_prepared empty_store = Inr (Some ex_session, r) \<and> withheld r"
proof -
  obtain r where run: "completed_run ex_verifier_service ex_run_view ex_prepared empty_store = Inr (Some ex_session, r)"
    using ex_completed_run by blast
  with status_only_results_withhold_the_provider [OF run ex_status_only] show ?thesis by blast
qed



text \<open>
  C19: over a configuration that loads, no path is both writable and protected, and every verifier that can be asked
  for runs exactly the declared command of its provider, by a method of it, in modes that its workflow and the
  development authority grant, within the time limit, and no more openly than its workflow; a request that
  validates selects only paths that resolve inside the project and lie in no protected scope, carries only
  parameters and inputs that the verifier declares, and none with an executable meaning.
\<close>

theorem loaded_configurations_bound_their_verifiers:
  assumes "load_config at_root fs0 exceeds_duration raw = Inr (ms_config ms)" "declared_verifier ms verifier_id = Inr v"
    "validate_request ms v q = Inr (scope, validated)"
  shows "verifier_declared (granted exceeds_duration raw) (pc_providers (ms_config ms)) (pc_workflows (ms_config ms)) v
    \<and> (\<exists>ws protected. relative_scopes (ms_config ms) WRITABLE_KEYS = Inr ws
         \<and> relative_scopes (ms_config ms) PROTECTED_KEYS = Inr protected
         \<and> (\<nexists>path. is_within path ws \<and> is_within path protected)
         \<and> (\<forall>p \<in> set (vq_changed_paths validated). \<not> is_within (path_parts p) protected
              \<and> (\<exists>resolved. resolve_contained (ms_files ms) False p = Inr resolved \<and> prefix (fs_root (ms_files ms)) resolved)))
    \<and> set (dict_keys (vq_parameters validated)) \<subseteq> set (vf_parameter_keys v) - set RESERVED_PARAMETER_KEYS
    \<and> set (provided_inputs validated) \<subseteq> set (vf_input_kinds v)"
proof -
  have "dict_get (pc_verifiers (ms_config ms)) verifier_id = Some v"
    using assms(2) by (simp add: declared_verifier_def split: option.splits)
  note declared = loaded_verifiers_declared [OF assms(1) this]
  obtain ws protected where scopes: "relative_scopes (ms_config ms) WRITABLE_KEYS = Inr ws"
    "relative_scopes (ms_config ms) PROTECTED_KEYS = Inr protected" using load_config_Inr(1) [OF assms(1)] by blast
  note disjoint = loaded_scopes_disjoint [OF assms(1) scopes]
  from assms(3) obtain d where "validate_parameters ms v d = Inr (vq_parameters validated)"
    by (auto simp: validate_request_def Let_def and_then_Inr_iff)
  with validated_parameters_declared have "set (dict_keys (vq_parameters validated)) \<subseteq> set (vf_parameter_keys v)
      - set RESERVED_PARAMETER_KEYS" by blast
  with declared disjoint scopes validated_request_paths [OF assms(3) scopes(2)] validated_input_kinds [OF assms(3)]
  show ?thesis by blast
qed

theorem loaded_configurations_bound_their_verifiers_witness:
  "verifier_declared (granted (\<lambda>a b. False) ex_raw_project) (pc_providers ex_project) (pc_workflows ex_project) ex_verifier"
proof -
  have "load_config (\<lambda>root. ex_files) ex_files (\<lambda>a b. False) ex_raw_project = Inr (ms_config ex_verifier_service)"
    using ex_loaded by (simp add: ex_verifier_service_def)
  from loaded_configurations_bound_their_verifiers [OF this ex_declared ex_validated]
  show ?thesis by (simp add: ex_verifier_service_def)
qed

text \<open>
  C20: a verified store that a lost process left behind always gets past its stranded verifier actions: when the
  store accepts the commits, recovery returns without an error, appends one result of status UNKNOWN per
  idle action that had none, in the order of the history and to an unchanged history, and afterwards no idle
  action is without a result.
\<close>

theorem recovery_ends_every_stranded_action:
  assumes "complete_view env s RECOVERY_KINDS es" "well_named at es" "accepts env at (stranded_actions busy es) s"
  shows "\<exists>t new. recover_stranded_verifier_actions env busy at s = (Inr (), t)
    \<and> ledger_records env t None = Inr (es @ new)
    \<and> list_all2 terminates (stranded_actions busy es) new
    \<and> (\<forall>e \<in> set (of_kind ''verifier_action'' es). busy (action_of e)
          \<or> (\<exists>y \<in> set (es @ new). le_kind y = ''verifier_result'' \<and> action_of y = action_of e))"
  using stranded_recovered [OF assms] terminated_covered by metis

theorem recovery_ends_every_stranded_action_witness:
  "\<exists>t new. recover_stranded_verifier_actions ex_line_env (\<lambda>_. False) ex_moments ex_stranded_store = (Inr (), t)
     \<and> ledger_records ex_line_env t None = Inr ([ex_action_entry] @ new)"
  using recovery_ends_every_stranded_action [OF ex_recovery_view ex_recovery_named ex_recovery_accepted] by blast

section \<open>Records\<close>

text \<open>
  C21: a record built by the record model, written to JSON and parsed back in its trusted context, is the same
  record: metadata, identity and every field reproduce. (A Python mapping has each key once.)
\<close>

theorem record_roundtrip:
  assumes "new_record cr t raw = Inr r" "distinct (map fst raw)"
  shows "parse_record cr (py_of_json (JObj (rec_to_json r))) t = Inr r"
  by (rule new_record_parses [OF assms])

theorem record_roundtrip_witness:
  "parse_record ex_crypto (py_of_json (JObj (rec_to_json ex_disposition_record))) CANDIDATE_DISPOSITION
   = Inr ex_disposition_record"
  by (rule record_roundtrip [OF ex_disposition_new]) (simp add: ex_disposition_raw_def)

text \<open>
  C22: a record read from untrusted JSON has the type its trusted context asks for and the members of that type:
  all required members and no unknown ones, non-empty texts and objects where they are required, and a
  status among the three statuses; whatever JSON it was read from, legacy forms included.
\<close>

theorem parsed_records_are_typed:
  assumes "parse_record cr raw t = Inr r"
  shows "fr_type r = t \<and> typed_fields t (thaw_fields (fr_fields r))"
  using parse_record_valid [OF assms] by (simp add: valid_record_def validated_typed)

theorem parsed_records_are_typed_witness:
  "typed_fields EXECUTION_ASSURANCE (thaw_fields (fr_fields ex_assessment))"
  using parsed_records_are_typed [OF ex_assessment_parses] by simp

text \<open>
  C23: no record read from untrusted JSON claims an authority it may not claim: a receipt binding never carries
  PASS, a verifier result is never an independent evaluation, compiler and concept observations assess
  nothing, and an assurance passes only with no unmet property and no reason.
\<close>

theorem records_claim_no_authority:
  assumes "parse_record cr raw t = Inr r" "fs = thaw_fields (fr_fields r)"
  shows "(t = EXECUTION_RECEIPT_BINDING \<longrightarrow> obj_get fs ''status'' \<noteq> JStr ''PASS'')
    \<and> (t = VERIFIER_RESULT \<longrightarrow> obj_get fs ''independent_evaluation'' = JBool False)
    \<and> (t \<in> {COMPILER_EXPERIMENT, COMPILER_CANDIDATE, CONCEPT_EVALUATION} \<longrightarrow> no_assurance fs)
    \<and> (t = EXECUTION_ASSURANCE \<and> obj_get fs ''assurance_status'' = JStr ''PASS'' \<longrightarrow>
         obj_get fs ''unmet_properties'' = JArr [] \<and> obj_get fs ''reasons'' = JArr [])"
proof -
  have "validate_fields cr t fs = Inr ()"
    using parse_record_valid [OF assms(1)] assms(2) by (simp add: valid_record_def)
  then show ?thesis
    by (auto dest: receipt_never_passes verifier_result_not_independent observations_claim_nothing
        assurance_pass_unreserved)
qed

theorem records_claim_no_authority_witness:
  "obj_get (thaw_fields (fr_fields ex_assessment)) ''reasons'' = JArr []"
  using records_claim_no_authority [OF ex_assessment_parses refl] ex_assessment_passes by simp

text \<open>
  C24: a record that declares another type than its trusted context, an unknown version, or only one of the two
  metadata members is refused; what is accepted declares neither, or both as the context has them.
\<close>

theorem declared_type_must_match_context:
  assumes "\<not> (obj_get raw ''record_type'' = JNull \<and> obj_get raw ''schema_version'' = JNull)"
    "obj_get raw ''record_type'' \<noteq> JStr (rt_value t)
     \<or> obj_get raw ''schema_version'' \<notin> {JStr LEGACY_SCHEMA_VERSION, JStr CURRENT_SCHEMA_VERSION}"
  shows "\<not> is_ok (parse_record cr (py_of_json (JObj raw)) t)"
  using assms parse_record_context(2) [of cr raw t] unfolding is_ok_iff by blast

theorem declared_type_must_match_context_witness:
  "\<not> is_ok (parse_record ex_crypto (py_of_json (JObj [(''record_type'', JStr ''freeze''), (''schema_version'', JStr CURRENT_SCHEMA_VERSION)])) EPOCH)"
  by (rule declared_type_must_match_context) (simp_all add: obj_get_def)

text \<open>
  C25: where the digest does not collide on the two texts, two records of one type have the same derived identity
  exactly when the content it covers (every field but the identity itself and the declared exclusions)
  is the same up to the order of members.
\<close>

theorem identity_names_content:
  assumes "bounded_fields fs" "bounded_fields gs"
    "writable fr (JObj (named_content t fs))" "writable fr (JObj (named_content t gs))"
    "inj_on (cr_sha cr) {canonical_bytes (JObj (named_content t fs)), canonical_bytes (JObj (named_content t gs))}"
    "is_ok (derive_record_identity cr t (py_fields fs))" "is_ok (derive_record_identity cr t (py_fields gs))"
  shows "derive_record_identity cr t (py_fields fs) = derive_record_identity cr t (py_fields gs)
    \<longleftrightarrow> sorted_obj (named_content t fs) = sorted_obj (named_content t gs)"
proof
  assume "derive_record_identity cr t (py_fields fs) = derive_record_identity cr t (py_fields gs)"
  then show "sorted_obj (named_content t fs) = sorted_obj (named_content t gs)"
    using assms(6) same_identity_same_content [OF _ _ assms(1-5)] unfolding is_ok_iff by metis
next
  assume "sorted_obj (named_content t fs) = sorted_obj (named_content t gs)"
  then have same: "canonical_bytes (JObj (named_content t fs)) = canonical_bytes (JObj (named_content t gs))"
    by (metis canonical_sorted_obj)
  from assms(6) obtain e where e: "derive_record_identity cr t (py_fields fs) = Inr e" by (auto simp: is_ok_iff)
  from assms(7) obtain e' where e': "derive_record_identity cr t (py_fields gs) = Inr e'" by (auto simp: is_ok_iff)
  from derived_identity [OF e assms(1)] e' assms(2) same have "e = e'" by metis
  with e e' show "derive_record_identity cr t (py_fields fs) = derive_record_identity cr t (py_fields gs)" by simp
qed

theorem identity_names_content_witness:
  "derive_record_identity ex_crypto FREEZE (py_fields [(''freeze_id'', JStr ''a''), (''mode'', JStr ''m'')])
    = derive_record_identity ex_crypto FREEZE (py_fields [(''mode'', JStr ''m''), (''freeze_id'', JStr ''b'')])"
proof -
  have "writable (\<lambda>t. t) (JObj (named_content FREEZE [(''freeze_id'', JStr ''a''), (''mode'', JStr ''m'')]))"
    "writable (\<lambda>t. t) (JObj (named_content FREEZE [(''mode'', JStr ''m''), (''freeze_id'', JStr ''b'')]))"
    "named_content FREEZE [(''freeze_id'', JStr ''a''), (''mode'', JStr ''m'')]
      = named_content FREEZE [(''mode'', JStr ''m''), (''freeze_id'', JStr ''b'')]"
    "is_ok (derive_record_identity ex_crypto FREEZE (py_fields [(''freeze_id'', JStr ''a''), (''mode'', JStr ''m'')]))"
    "is_ok (derive_record_identity ex_crypto FREEZE (py_fields [(''mode'', JStr ''m''), (''freeze_id'', JStr ''b'')]))"
    by code_simp+
  then show ?thesis
    by (subst identity_names_content [where fr = "\<lambda>t. t"]) (simp_all add: bounded_fields_def)
qed

section \<open>The record store\<close>

text \<open>
  C26: after any history of commits (refused ones included), of commits cut off after any disk step or inside a
  staged write or a removal, and of recoveries of them that were themselves cut off any number of times,
  a store that verified still verifies; every record published before is still there with its bytes, and
  the ledger is the old one with lines appended.
\<close>

theorem store_histories_verify:
  assumes "store_history env s t" "verify_ledger env s = Inr (n, h)"
  shows "(\<exists>n' h'. verify_ledger env t = Inr (n', h') \<and> n \<le> n')
    \<and> st_records s \<subseteq>\<^sub>m st_records t
    \<and> (\<exists>lines. file_bytes (st_ledger t) = file_bytes (st_ledger s) @ lines)"
  using history_verifies [OF assms] by (auto simp: extends_def)

theorem store_histories_verify_witness:
  "\<exists>n' h'. verify_ledger ex_env (snd (recover_unlocked ex_env ex_cut)) = Inr (n', h')"
  using store_histories_verify [OF ex_history empty_store_verifies] by blast

text \<open>
  C27: a commit cut off at any point, and then any number of recoveries cut off at any point, leave a store from
  which recovery succeeds, and the store it returns is that before the commit or that after it: ledger,
  records and verified head together, with no transaction left. (The digest must tell the two ledgers apart.)
\<close>

theorem interrupted_commit_is_all_or_nothing:
  assumes "fresh_commit env timestamp txid record_group kind r (field, identity, destination) s n h"
    "env_sha env (file_bytes (st_ledger s)) \<noteq> env_sha env (commit_ledger env timestamp kind r s n h)"
    "plan_commit env timestamp txid record_group kind r (field, identity, destination) s = Inr (phases, e)"
    "interrupted phases s t" "(crashed_recovery env)\<^sup>*\<^sup>* t u"
  shows "\<exists>counts v. recover_unlocked env u = (Inr counts, v) \<and> st_txs v = []
    \<and> (st_ledger v = st_ledger s \<and> st_records v = st_records s \<and> verify_ledger env v = Inr (n, h)
     \<or> st_ledger v = Some (commit_ledger env timestamp kind r s n h)
       \<and> st_records v = (st_records s)(destination := Some (record_bytes r))
       \<and> verify_ledger env v = Inr (Suc n, entry_hash env (entry_body (commit_raw env timestamp kind r n h))))"
  using interrupted_commit_recovers [OF assms] by (metis snd_conv)

theorem interrupted_commit_is_all_or_nothing_witness:
  "\<exists>counts v. recover_unlocked ex_env ex_cut = (Inr counts, v) \<and> st_txs v = []"
proof -
  obtain field identity destination where c: "ex_checked = (field, identity, destination)"
    using prod_cases3 by blast
  show ?thesis
    using interrupted_commit_is_all_or_nothing [OF ex_fresh [unfolded c] ex_distinct_ledgers ex_planned [unfolded c]
      ex_interrupted rtranclp.rtrancl_refl] by blast
qed

text \<open>
  C28: a commit of a new record to a store that verifies succeeds: it returns the entry of the record, the ledger
  has gained exactly its line, the record's file holds its canonical bytes, no transaction is left, and
  the store verifies with one entry more and the new entry's digest as its head.
\<close>

theorem commit_is_durable:
  assumes "fresh_commit env timestamp txid record_group kind r (field, identity, destination) s n h"
    "env_sha env (file_bytes (st_ledger s)) \<noteq> env_sha env (commit_ledger env timestamp kind r s n h)"
  shows "\<exists>t. commit env timestamp txid record_group kind r s = (Inr (commit_entry env timestamp kind r n h), t)
    \<and> st_txs t = []
    \<and> st_ledger t = Some (file_bytes (st_ledger s) @ entry_line (commit_raw env timestamp kind r n h))
    \<and> st_records t = (st_records s)(destination := Some (record_bytes r))
    \<and> verify_ledger env t = Inr (Suc n, entry_hash env (entry_body (commit_raw env timestamp kind r n h)))"
proof -
  from commit_completes [OF assms] obtain t
    where run: "commit env timestamp txid record_group kind r s = (Inr (commit_entry env timestamp kind r n h), t)"
      "in_stage (commit_flight env timestamp txid record_group kind r (field, identity, destination) s n h) After t"
      "verify_ledger env t = Inr (Suc n, entry_hash env (entry_body (commit_raw env timestamp kind r n h)))"
    by blast
  from after_flight [OF run(2)] verified_no_transactions [OF run(3)] run show ?thesis
    by (auto simp: commit_ledger_def)
qed

theorem commit_is_durable_witness:
  "\<exists>t. commit ex_env ''now'' ''tx'' ''dispositions'' ''disposition'' ex_new_record empty_store
    = (Inr (commit_entry ex_env ''now'' ''disposition'' ex_new_record 0 GENESIS), t) \<and> st_txs t = []"
proof -
  obtain field identity destination where c: "ex_checked = (field, identity, destination)"
    using prod_cases3 by blast
  show ?thesis using commit_is_durable [OF ex_fresh [unfolded c] ex_distinct_ledgers] by blast
qed

text \<open>
  C29: repeating a completed commit, at another time and under another transaction, changes nothing and returns
  the entry that is already in the ledger.
\<close>

theorem commit_is_idempotent:
  assumes "fresh_commit env timestamp txid record_group kind r checked s n h"
    "env_sha env (file_bytes (st_ledger s)) \<noteq> env_sha env (commit_ledger env timestamp kind r s n h)"
    "commit env timestamp txid record_group kind r s = (Inr e, t)"
  shows "\<exists>e'. commit env timestamp' txid' record_group kind r t = (Inr e', t)
    \<and> le_sequence e' = le_sequence e \<and> le_entry_hash e' = le_entry_hash e \<and> le_timestamp e' = timestamp
    \<and> le_payload e' = stored_form (le_payload e)"
proof -
  from commit_completes [OF assms(1,2)] assms(3) have e: "e = commit_entry env timestamp kind r n h"
    and t: "in_stage (commit_flight env timestamp txid record_group kind r checked s n h) After t"
    by (metis Inr_inject Pair_inject)+
  from commit_again [OF assms(1) t] show ?thesis by (auto simp: e commit_entry_def entry_of_def)
qed

theorem commit_is_idempotent_witness:
  "\<exists>t e'. commit ex_env ''later'' ''ty'' ''dispositions'' ''disposition'' ex_new_record t = (Inr e', t)"
proof -
  from commit_completes [OF ex_fresh ex_distinct_ledgers] obtain t where
    "commit ex_env ''now'' ''tx'' ''dispositions'' ''disposition'' ex_new_record empty_store
      = (Inr (commit_entry ex_env ''now'' ''disposition'' ex_new_record 0 GENESIS), t)" by blast
  from commit_is_idempotent [OF ex_fresh ex_distinct_ledgers this, of "''later''" "''ty''"] show ?thesis by blast
qed



section \<open>The ledger\<close>



text \<open>
  C32: the head of a verified ledger pins its whole history: two sequences of entries that verify to the same head
  have the same contents in the same order and number, where the digest does not collide on their
  contents and hits the genesis value on none of them. An entry changed, removed, inserted or moved
  before the head is so detected.
\<close>

theorem head_pins_history:
  assumes "verify_chain_of env es = Inr h" "verify_chain_of env fs = Inr h"
    "\<forall>e \<in> set es \<union> set fs. writable (env_float env) (JObj e)"
    "inj_on (env_sha env) ((\<lambda>e. canonical_bytes (JObj (entry_body e))) ` (set es \<union> set fs))"
    "GENESIS \<notin> env_sha env ` (\<lambda>e. canonical_bytes (JObj (entry_body e))) ` (set es \<union> set fs)"
  shows "map (\<lambda>e. sorted_obj (entry_body e)) es = map (\<lambda>e. sorted_obj (entry_body e)) fs"
proof -
  have same: "map (\<lambda>e. canonical_bytes (JObj (entry_body e))) es = map (\<lambda>e. canonical_bytes (JObj (entry_body e))) fs"
    using ledger_chain.head_determines [OF assms(1,2) [unfolded verify_chain_of_def] assms(3-5)] .
  then show ?thesis by (rule histories_agree [OF _ assms(3)])
qed

theorem head_pins_history_witness:
  "map (\<lambda>e. sorted_obj (entry_body e)) ex_raws = map (\<lambda>e. sorted_obj (entry_body e)) ex_raws_built"
proof (rule head_pins_history [OF _ _ ex_raws_read])
  show "verify_chain_of ex_env ex_raws = Inr (ok_value (verify_chain_of ex_env ex_raws))"
    by (rule ok_value_Inr [OF ex_hidden_verified])
  then show "verify_chain_of ex_env ex_raws_built = Inr (ok_value (verify_chain_of ex_env ex_raws))"
    unfolding ex_same_head .
  show "inj_on (env_sha ex_env) ((\<lambda>e. canonical_bytes (JObj (entry_body e))) ` (set ex_raws \<union> set ex_raws_built))"
    unfolding ex_same_content by simp
  show "GENESIS \<notin> env_sha ex_env ` (\<lambda>e. canonical_bytes (JObj (entry_body e))) ` (set ex_raws \<union> set ex_raws_built)"
    unfolding ex_same_content image_insert image_empty using ex_head_not_genesis by blast
qed

text \<open>
  C33: the two caches of a \<open>Ledger\<close> object are invisible: in any sequence of reads of a file that changes
  between them in any way, each read through the caches returns (or raises) what reading and verifying
  the file anew would, where the digest tells the file's contents apart.
\<close>

theorem ledger_cache_is_transparent:
  assumes "inj_on (env_sha env) (file_bytes ` set files)"
  shows "cached_reads env empty_cache files = map (snapshot env) files"
  by (rule cached_reads_faithful [OF cache_faithful_empty assms]) simp

theorem ledger_cache_is_transparent_witness:
  "cached_reads ex_env empty_cache [None, Some ''{'', None] = map (snapshot ex_env) [None, Some ''{'', None]"
proof (rule ledger_cache_is_transparent)
  have "ex_sha [] \<noteq> ex_sha ''{''" by code_simp
  then show "inj_on (env_sha ex_env) (file_bytes ` set [None, Some ''{'', None])"
    by (auto simp: inj_on_def file_bytes_def ex_env_def)
qed

text \<open>
  C34: whatever the index file holds, a selection by kinds returns entries of the history, of those kinds, in
  their order and each at most once per occurrence: a forged or stale index can hide but never add,
  duplicate or reorder.
\<close>

theorem index_never_adds_entries:
  assumes "select_with_index env digest raws kinds index = Inr es"
  shows "subseq es (filter (kind_among kinds) raws)"
  by (rule select_with_index_subseq [OF assms])

theorem index_never_adds_entries_witness:
  "subseq [] (filter (kind_among [''disposition'']) ex_raws)"
proof (rule index_never_adds_entries)
  show "select_with_index ex_env ''d'' ex_raws [''disposition''] (Some (canonical_bytes (JObj ex_hiding_index))) = Inr []"
    by (rule incomplete_index_hides [OF ex_hiding_index_loads ex_hiding_index_binds]) simp
qed

text \<open>
  C35: once the index is rebuilt for a verified ledger (or found equal to what would be written), selecting through
  it is the same as filtering the history: every entry of the kinds asked for, and no other.
\<close>

theorem rebuilt_index_selects_exactly:
  assumes "snapshot env (st_ledger s) = Inr (raws, h)" "index_data env s raws = Inr expected"
    "rebuild_index env s = Inr steps" "float_faithful (env_float env)"
    "writable (env_float env) (JObj expected)" "utf8_json (JObj expected)"
  shows "select_with_index env (env_sha env (file_bytes (st_ledger s))) raws kinds (st_index (do_steps steps s))
    = Inr (filter (kind_among kinds) raws)"
  by (rule rebuilt_selects [OF assms])

theorem rebuilt_index_selects_exactly_witness:
  "select_with_index ex_env (env_sha ex_env (file_bytes (st_ledger ex_filled))) ex_raws [''disposition'']
     (st_index (do_steps [WriteIndex (canonical_bytes (JObj ex_index) @ [CHR 0x0A])] ex_filled)) = Inr ex_raws"
  using rebuilt_index_selects_exactly [OF ex_filled_snapshot ex_index_data ex_rebuild ex_floats
      ex_index_written, of "[''disposition'']"]
  by (simp only: ex_hidden_kind)

text \<open>
  C36: an index that names the digest, head and length of the current ledger but does not list a kind hides every
  entry of it, although reading without the index would return them: the lists are checked for what they
  name, not for completeness.
\<close>

theorem bound_index_can_hide_entries:
  assumes "json_loads (env_float env) keep_last bytes = Some (JObj d)" "last_hash raws = Inr head"
    "index_binds digest head (length raws) d" "obj_get d ''sequences_by_kind'' = JObj by_kind"
    "\<forall>k \<in> set kinds. dict_get by_kind k = None"
  shows "select_with_index env digest raws kinds (Some bytes) = Inr []"
  by (rule incomplete_index_hides [OF assms])

theorem bound_index_can_hide_entries_witness:
  "select_with_index ex_env ''d'' ex_raws [''disposition''] (Some (canonical_bytes (JObj ex_hiding_index))) = Inr []
   \<and> filter (kind_among [''disposition'']) ex_raws \<noteq> []"
proof
  show "select_with_index ex_env ''d'' ex_raws [''disposition''] (Some (canonical_bytes (JObj ex_hiding_index))) = Inr []"
    by (rule bound_index_can_hide_entries [OF ex_hiding_index_loads ex_hiding_index_binds]) simp
qed (simp only: ex_hidden_kind, simp add: ex_raws_def)

section \<open>Stored text\<close>

text \<open>
  C37: the canonical encoding of a JSON value, with or without trailing white space, is read back by both readers
  of the program (the ledger's and the record files') as the value with its members sorted; and the value
  so read has the same canonical encoding, hence the same local identity.
\<close>

theorem canonical_json_reads_back:
  assumes "writable fr v" "utf8_json v" "list_all is_ws rest" "ascii rest"
  shows "json_loads fr keep_last (canonical_bytes v @ rest) = Some (sorted_json v)
    \<and> json_loads fr no_duplicates (canonical_bytes v @ rest) = Some (sorted_json v)
    \<and> local_json_identity sha (sorted_json v) = local_json_identity sha v"
  using ledger_reader.loads_canonical [OF assms(1) utf8_canonical [OF assms(2)] assms(3,4)]
    record_reader.loads_canonical [OF assms(1) utf8_canonical [OF assms(2)] assms(3,4)]
  by (simp add: local_json_identity_def canonical_sorted)

theorem canonical_json_reads_back_witness:
  "json_loads (\<lambda>t. t) no_duplicates (canonical_bytes (JObj [(''b'', JInt 1), (''a'', JArr [JNull])]) @ [CHR 0x0A])
    = Some (JObj [(''a'', JArr [JNull]), (''b'', JInt 1)])"
proof -
  have "writable (\<lambda>t. t) (JObj [(''b'', JInt 1), (''a'', JArr [JNull])])"
    "utf8_json (JObj [(''b'', JInt 1), (''a'', JArr [JNull])])" by code_simp+
  moreover have "sorted_json (JObj [(''b'', JInt 1), (''a'', JArr [JNull])]) = JObj [(''a'', JArr [JNull]), (''b'', JInt 1)]"
    by code_simp
  ultimately show ?thesis using canonical_json_reads_back [of "\<lambda>t. t" _ "[CHR 0x0A]"] line_end by metis
qed

text \<open>
  C38: nothing nested deeper than 64 levels enters the model: a mapping is accepted only if every member is at most
  63 levels deep, and so is every ledger entry that is normalised.
\<close>

theorem nesting_is_bounded:
  "(json_object raw label = Inr d \<longrightarrow> list_all (\<lambda>p. json_depth (snd p) \<le> 63) d)
    \<and> (normalize_raw env entry = Inr e \<longrightarrow> list_all (\<lambda>p. json_depth (snd p) \<le> 63) entry)"
  using json_object_bounded [of raw label d] normalize_raw_bounded [of env entry e]
  unfolding bounded_fields_def by blast

theorem nesting_is_bounded_witness:
  "list_all (\<lambda>p. json_depth (snd p) \<le> 63) [(''a'', JArr [JNull])]"
proof -
  have "json_object (PMap [(KStr ''a'', PSeq [PNone])]) ''x'' = Inr [(''a'', JArr [JNull])]" by code_simp
  then show ?thesis using nesting_is_bounded by blast
qed

text \<open>
  C39: without a native adapter, reconciliation of results with recognised statuses aggregates to PASS exactly
  when there is a result and every result passed, to FAIL exactly when one failed, and reports as
  conflicting exactly the categories that hold results of different statuses: grouping by category first
  and folding the categories afterwards neither hides nor adds anything.
\<close>

theorem reconciliation_is_the_worst_status:
  assumes "\<forall>item \<in> set items. ri_status item \<in> set STATUSES"
  shows "\<exists>rc. reconcile_results None items = Inr rc
    \<and> (rc_aggregation rc = ''PASS'' \<longleftrightarrow> items \<noteq> [] \<and> (\<forall>item \<in> set items. ri_status item = ''PASS''))
    \<and> (rc_aggregation rc = ''FAIL'' \<longleftrightarrow> (\<exists>item \<in> set items. ri_status item = ''FAIL''))
    \<and> set (rc_conflicts rc) = {c. \<exists>i \<in> set items. \<exists>j \<in> set items.
        ri_category i = c \<and> ri_category j = c \<and> ri_status i \<noteq> ri_status j}"
proof -
  obtain categories conflicts aggregate where
    c: "compat_reconciliation (group_by_category items) = (categories, conflicts, aggregate)" by (metis prod_cases3)
  from compat_reconciliation_passes [OF assms c] c show ?thesis by (simp add: reconcile_results_def)
qed

theorem reconciliation_is_the_worst_status_witness:
  "\<exists>rc. reconcile_results None [\<lparr>ri_category = ''unit'', ri_status = ''PASS'', ri_output = ''o'', ri_unsupported = []\<rparr>] = Inr rc
     \<and> rc_aggregation rc = ''PASS''"
  using reconciliation_is_the_worst_status
    [of "[\<lparr>ri_category = ''unit'', ri_status = ''PASS'', ri_output = ''o'', ri_unsupported = []\<rparr>]"]
  by (auto simp: STATUSES_def)



end
